(* ===== verification/Go_Prelude.thy ===== *)
theory Go_Prelude
  imports Main "HOL-Library.Word" "HOL-Library.Sublist"
begin

text \<open>
  The prelude of the development: the Go values, effects and standard-library string
  functions that the components of \<^verbatim>\<open>fleet-telemetry\<close> share.

  A Go \<^verbatim>\<open>string\<close> and a Go \<^verbatim>\<open>[]byte\<close> are both sequences of bytes; a HOL \<^typ>\<open>char\<close> is one byte, so both
  are the type \<^typ>\<open>string\<close> and the conversions \<^verbatim>\<open>[]byte(s)\<close>, \<^verbatim>\<open>string(b)\<close> are the identity. Effects
  (log lines, metric updates, calls through an interface) are collected as a list, in the order in
  which the code performs them.
\<close>

section \<open>Collections of facts\<close>

named_theorems go_string_simps \<open>rewrite rules for the Go string functions\<close>
named_theorems effect_simps \<open>rewrite rules for projections of effect lists\<close>

section \<open>Values, log entries, metric updates\<close>

type_synonym bytes = string
type_synonym labels = "(string \<times> string) list"

text \<open>
  The dynamic values (\<^verbatim>\<open>interface{}\<close>) that reach the loggers and the JSON encoders. A floating
  point number is its IEEE bit pattern.
\<close>

datatype goval =
    GNil
  | GBool bool
  | GInt int
  | GStr string
  | GBytes bytes
  | GFloat32 "32 word"
  | GFloat64 "64 word"
  | GList "goval list"
  | GMap "(string \<times> goval) list"

datatype log_type = DEBUG | INFO | WARN | ERROR | FATAL

type_synonym log_info = "(string \<times> goval) list"

datatype log_entry =
    LogLine log_type string log_info
  | ActivityLog string log_info
  | ErrorLog string "string option" log_info

datatype metric_update =
    Inc string labels
  | Add string int labels
  | Set string int labels

datatype 'a effect =
    Log log_entry
  | Metric metric_update
  | Act 'a

fun actions :: "'a effect list \<Rightarrow> 'a list" where
  "actions [] = []"
| "actions (Act a # es) = a # actions es"
| "actions (Log _ # es) = actions es"
| "actions (Metric _ # es) = actions es"

fun updates :: "'a effect list \<Rightarrow> metric_update list" where
  "updates [] = []"
| "updates (Metric m # es) = m # updates es"
| "updates (Log _ # es) = updates es"
| "updates (Act _ # es) = updates es"

fun log_lines :: "'a effect list \<Rightarrow> log_entry list" where
  "log_lines [] = []"
| "log_lines (Log l # es) = l # log_lines es"
| "log_lines (Metric _ # es) = log_lines es"
| "log_lines (Act _ # es) = log_lines es"

lemma actions_append [simp]: "actions (xs @ ys) = actions xs @ actions ys"
  by (induction xs rule: actions.induct) auto

lemma updates_append [simp]: "updates (xs @ ys) = updates xs @ updates ys"
  by (induction xs rule: updates.induct) auto

lemma log_lines_append [simp]: "log_lines (xs @ ys) = log_lines xs @ log_lines ys"
  by (induction xs rule: log_lines.induct) auto

lemma actions_map_Act [simp]: "actions (map (Act \<circ> f) xs) = map f xs"
  by (induction xs) auto

lemma actions_map_Act' [simp]: "actions (map (\<lambda>x. Act (f x)) xs) = map f xs"
  by (induction xs) auto

lemma updates_map_Act [simp]: "updates (map (\<lambda>x. Act (f x)) xs) = []"
  by (induction xs) auto

lemma mem_actions [simp]: "a \<in> set (actions es) \<longleftrightarrow> Act a \<in> set es"
  by (induction es rule: actions.induct) auto

lemma mem_updates [simp]: "m \<in> set (updates es) \<longleftrightarrow> Metric m \<in> set es"
  by (induction es rule: updates.induct) auto

lemma map_of_snd: "map_of m k = Some v \<Longrightarrow> v \<in> snd ` set m"
  by (force dest: map_of_SomeD)

lemma map_of_fst: "map_of m k = Some v \<Longrightarrow> k \<in> fst ` set m"
  by (force dest: map_of_SomeD)

section \<open>Go maps with a fixed iteration order\<close>

text \<open>
  A Go map whose contents are only looked up is a HOL map. Where the code iterates over a map,
  the order is not determined; such a map is an association list and the order of the list is one
  of the orders Go may choose, so that a theorem for every list covers every order.
\<close>

definition dom_list :: "('k \<times> 'v) list \<Rightarrow> 'k list" where
  "dom_list m = map fst m"

definition map_put :: "'k \<Rightarrow> 'v \<Rightarrow> ('k \<times> 'v) list \<Rightarrow> ('k \<times> 'v) list" where
  "map_put k v m = (if k \<in> fst ` set m then map (\<lambda>(k', v'). if k' = k then (k', v) else (k', v')) m
                    else m @ [(k, v)])"

lemma map_of_map_upd:
  "map_of (map (\<lambda>(k', v'). if k' = k then (k', v) else (k', v')) m) =
     (if k \<in> fst ` set m then (map_of m)(k \<mapsto> v) else map_of m)"
  by (induction m) (auto simp: fun_eq_iff)

lemma map_of_map_put [simp]: "map_of (map_put k v m) = (map_of m)(k \<mapsto> v)"
proof (cases "k \<in> fst ` set m")
  case True
  then show ?thesis by (simp add: map_put_def map_of_map_upd)
next
  case False
  then have "map_of m k = None" by (simp add: map_of_eq_None_iff)
  with False show ?thesis by (auto simp: map_put_def map_add_def fun_eq_iff split: option.split)
qed

lemma map_add_put: "map_of (map_put k v m) ++ f = map_of m ++ ([k \<mapsto> v] ++ f)"
  by (rule ext) (simp add: map_add_def split: option.split)

lemma fst_map_put:
  "map fst (map_put k v m) = (if k \<in> fst ` set m then map fst m else map fst m @ [k])"
  by (auto simp: map_put_def)

lemma distinct_map_put [simp]: "distinct (map fst m) \<Longrightarrow> distinct (map fst (map_put k v m))"
  by (simp add: fst_map_put)

end
