(* ===== verification/Go_Strings.thy ===== *)
theory Go_Strings
  imports Go_Prelude
begin

text \<open>
  The functions of Go's \<^verbatim>\<open>strings\<close> and \<^verbatim>\<open>strconv\<close> packages that the components use, on byte
  strings: \<^verbatim>\<open>TrimSpace\<close>, \<^verbatim>\<open>ReplaceAll\<close> with one-byte arguments, \<^verbatim>\<open>SplitN\<close> at a one-byte separator,
  \<^verbatim>\<open>Contains\<close>, \<^verbatim>\<open>ContainsAny\<close>, \<^verbatim>\<open>HasSuffix\<close>, \<^verbatim>\<open>Itoa\<close>, \<^verbatim>\<open>Atoi\<close> and \<^verbatim>\<open>ParseBool\<close>.
\<close>

section \<open>TrimSpace\<close>

text \<open>
  The white space that \<^verbatim>\<open>unicode.IsSpace\<close> accepts, in UTF-8: the six ASCII blanks, U+0085, U+00A0,
  U+1680, U+2000 to U+200A, U+2028, U+2029, U+202F, U+205F and U+3000.
\<close>

definition white_space :: "string list" where
  "white_space =
     map (\<lambda>n. [char_of (n::nat)]) [9, 10, 11, 12, 13, 32] @
     [[CHR 0xC2, CHR 0x85], [CHR 0xC2, CHR 0xA0], [CHR 0xE1, CHR 0x9A, CHR 0x80]] @
     map (\<lambda>n. [CHR 0xE2, CHR 0x80, char_of (n::nat)])
       [0x80, 0x81, 0x82, 0x83, 0x84, 0x85, 0x86, 0x87, 0x88, 0x89, 0x8A, 0xA8, 0xA9, 0xAF] @
     [[CHR 0xE2, CHR 0x81, CHR 0x9F], [CHR 0xE3, CHR 0x80, CHR 0x80]]"

function trim_with :: "string list \<Rightarrow> string \<Rightarrow> string" where
  "trim_with ps s =
     (case find (\<lambda>p. p \<noteq> [] \<and> prefix p s) ps of
        None \<Rightarrow> s
      | Some p \<Rightarrow> trim_with ps (drop (length p) s))"
  by pat_completeness auto
termination
proof (relation "measure (length \<circ> snd)")
  fix ps :: "string list" and s p
  assume "find (\<lambda>p. p \<noteq> [] \<and> prefix p s) ps = Some p"
  then have "p \<noteq> []" and "prefix p s" by (auto simp: find_Some_iff)
  then have "s \<noteq> []" and "length p > 0" by auto
  then show "((ps, drop (length p) s), (ps, s)) \<in> measure (length \<circ> snd)" by auto
qed simp

declare trim_with.simps [simp del]

definition TrimSpace :: "string \<Rightarrow> string" where
  "TrimSpace s = rev (trim_with (map rev white_space) (rev (trim_with white_space s)))"

lemma trim_with_Nil [simp]: "trim_with ps [] = []"
proof -
  have "find (\<lambda>p. p \<noteq> [] \<and> prefix p []) ps = None" by (auto simp: find_None_iff)
  then show ?thesis by (subst trim_with.simps) simp
qed

lemma TrimSpace_Nil [simp]: "TrimSpace [] = []"
  by (simp add: TrimSpace_def)

lemma trim_with_no_prefix: "p \<in> set ps \<Longrightarrow> p \<noteq> [] \<Longrightarrow> \<not> prefix p (trim_with ps s)"
proof (induction ps s rule: trim_with.induct)
  case (1 ps s)
  show ?case
  proof (cases "find (\<lambda>p. p \<noteq> [] \<and> prefix p s) ps")
    case None
    then have "trim_with ps s = s" by (subst trim_with.simps) simp
    moreover from None "1.prems" have "\<not> prefix p s" by (auto simp: find_None_iff)
    ultimately show ?thesis by simp
  next
    case (Some q)
    with "1.IH" "1.prems" show ?thesis by (subst trim_with.simps) simp
  qed
qed

lemma trim_with_suffix: "suffix (trim_with ps s) s"
proof (induction ps s rule: trim_with.induct)
  case (1 ps s)
  show ?case
  proof (cases "find (\<lambda>p. p \<noteq> [] \<and> prefix p s) ps")
    case None
    then show ?thesis by (subst trim_with.simps) simp
  next
    case (Some q)
    with "1.IH" have "suffix (trim_with ps (drop (length q) s)) (drop (length q) s)" by simp
    then have "suffix (trim_with ps (drop (length q) s)) s"
      using suffix_drop suffix_order.order_trans by blast
    with Some show ?thesis by (simp add: trim_with.simps [of ps s])
  qed
qed

lemma trim_with_id: "(\<And>p. p \<in> set ps \<Longrightarrow> p \<noteq> [] \<Longrightarrow> \<not> prefix p s) \<Longrightarrow> trim_with ps s = s"
proof -
  assume "\<And>p. p \<in> set ps \<Longrightarrow> p \<noteq> [] \<Longrightarrow> \<not> prefix p s"
  then have "find (\<lambda>p. p \<noteq> [] \<and> prefix p s) ps = None" by (auto simp: find_None_iff)
  then show ?thesis by (subst trim_with.simps) simp
qed

section \<open>ReplaceAll, SplitN, Contains\<close>

definition ReplaceAll :: "char \<Rightarrow> char \<Rightarrow> string \<Rightarrow> string" where
  "ReplaceAll old new = map (\<lambda>c. if c = old then new else c)"

text \<open>\<^verbatim>\<open>SplitN(s, sep, 2)\<close> for a one-byte separator: one part when the separator is absent.\<close>

definition SplitN2 :: "char \<Rightarrow> string \<Rightarrow> string list" where
  "SplitN2 sep s =
     (let front = takeWhile (\<lambda>c. c \<noteq> sep) s
      in if length front = length s then [s] else [front, drop (Suc (length front)) s])"

fun Split :: "char \<Rightarrow> string \<Rightarrow> string list" where
  "Split sep [] = [[]]"
| "Split sep (c # s) =
     (if c = sep then [] # Split sep s
      else (case Split sep s of [] \<Rightarrow> [[c]] | p # ps \<Rightarrow> (c # p) # ps))"

definition Contains :: "string \<Rightarrow> string \<Rightarrow> bool" where
  "Contains s sub = list_ex (prefix sub) (suffixes s)"

definition ContainsAny :: "string \<Rightarrow> string \<Rightarrow> bool" where
  "ContainsAny s cs = list_ex (\<lambda>c. c \<in> set cs) s"

lemma Split_ne [simp]: "Split sep s \<noteq> []"
  by (induction s) (auto split: list.splits)

lemma SplitN2_absent: "sep \<notin> set s \<Longrightarrow> SplitN2 sep s = [s]"
proof -
  assume "sep \<notin> set s"
  then have "takeWhile (\<lambda>c. c \<noteq> sep) s = s" by (auto simp: takeWhile_eq_all_conv)
  then show ?thesis by (simp only: SplitN2_def Let_def refl if_True)
qed

lemma SplitN2_append: "sep \<notin> set s \<Longrightarrow> SplitN2 sep (s @ sep # t) = [s, t]"
  by (simp add: SplitN2_def takeWhile_append)

lemma SplitN2_join:
  "SplitN2 sep s = [a, b] \<Longrightarrow> s = a @ sep # b \<and> sep \<notin> set a"
proof -
  assume eq: "SplitN2 sep s = [a, b]"
  define f where "f = takeWhile (\<lambda>c. c \<noteq> sep) s"
  have ab: "a = f" "b = drop (Suc (length f)) s" "length f \<noteq> length s"
    using eq by (auto simp: SplitN2_def Let_def f_def split: if_splits)
  have len: "length f < length s"
    using ab(3) length_takeWhile_le [of "\<lambda>c. c \<noteq> sep" s] by (simp add: f_def)
  have "s ! length f = sep" using nth_length_takeWhile len by (fastforce simp: f_def)
  then have "drop (length f) s = sep # b"
    using len ab(2) by (metis Cons_nth_drop_Suc)
  moreover have "take (length f) s = f" by (simp add: f_def takeWhile_eq_take [symmetric])
  ultimately have "s = f @ sep # b" by (metis append_take_drop_id)
  moreover have "sep \<notin> set f" using set_takeWhileD by (fastforce simp: f_def)
  ultimately show ?thesis using ab(1) by simp
qed

lemma Contains_Nil [simp]: "Contains s []"
  by (cases s) (auto simp: Contains_def list_ex_iff)

lemma Contains_iff: "Contains s sub \<longleftrightarrow> sublist sub s"
proof
  assume "Contains s sub"
  then obtain t where "suffix t s" and "prefix sub t" by (auto simp: Contains_def list_ex_iff)
  then show "sublist sub s" unfolding sublist_def prefix_def suffix_def by blast
next
  assume "sublist sub s"
  then obtain ps ss where "s = ps @ sub @ ss" by (auto simp: sublist_def)
  then have "suffix (sub @ ss) s" and "prefix sub (sub @ ss)" by (auto simp: suffix_def)
  then show "Contains s sub" unfolding Contains_def list_ex_iff in_set_suffixes [symmetric] by blast
qed

lemma ReplaceAll_notin: "old \<noteq> new \<Longrightarrow> old \<notin> set (ReplaceAll old new s)"
  by (auto simp: ReplaceAll_def)

lemma ReplaceAll_id: "old \<notin> set s \<Longrightarrow> ReplaceAll old new s = s"
  by (auto simp: ReplaceAll_def intro: map_idI)

lemma length_ReplaceAll [simp]: "length (ReplaceAll old new s) = length s"
  by (simp add: ReplaceAll_def)

definition HasSuffix :: "string \<Rightarrow> string \<Rightarrow> bool" where
  "HasSuffix s t = suffix t s"

section \<open>Decimal integers\<close>

definition digit_char :: "nat \<Rightarrow> char" where
  "digit_char d = char_of (48 + d)"

definition is_digit :: "char \<Rightarrow> bool" where
  "is_digit c \<longleftrightarrow> 48 \<le> (of_char c :: nat) \<and> (of_char c :: nat) \<le> 57"

definition digit_val :: "char \<Rightarrow> nat" where
  "digit_val c = of_char c - 48"

fun itoa_nat :: "nat \<Rightarrow> string" where
  "itoa_nat n = (if n < 10 then [digit_char n] else itoa_nat (n div 10) @ [digit_char (n mod 10)])"

declare itoa_nat.simps [simp del]

text \<open>\<^verbatim>\<open>strconv.Itoa\<close>, and the verb \<^verbatim>\<open>%d\<close> of \<^verbatim>\<open>fmt\<close> on an integer.\<close>

definition Itoa :: "int \<Rightarrow> string" where
  "Itoa i = (if i < 0 then ''-'' @ itoa_nat (nat (- i)) else itoa_nat (nat i))"

definition atoi_nat :: "string \<Rightarrow> nat" where
  "atoi_nat s = foldl (\<lambda>n c. 10 * n + digit_val c) 0 s"

text \<open>
  \<^verbatim>\<open>strconv.Atoi\<close> for the 64-bit \<^verbatim>\<open>int\<close>: an optional sign, then at least one digit and nothing else,
  and a value in range; \<^const>\<open>None\<close> is the error (syntax or range).
\<close>

definition Atoi :: "string \<Rightarrow> int option" where
  "Atoi s =
     (let (neg, ds) = (case s of [] \<Rightarrow> (False, [])
                       | c # cs \<Rightarrow> if c = CHR ''-'' then (True, cs)
                                   else if c = CHR ''+'' then (False, cs) else (False, s));
          n = int (atoi_nat ds); v = (if neg then - n else n)
      in if ds = [] \<or> \<not> list_all is_digit ds then None
         else if v < - (2 ^ 63) \<or> v > 2 ^ 63 - 1 then None else Some v)"

text \<open>\<^verbatim>\<open>strconv.ParseBool\<close>; \<^const>\<open>None\<close> is the syntax error.\<close>

definition ParseBool :: "string \<Rightarrow> bool option" where
  "ParseBool s =
     (if s \<in> {''1'', ''t'', ''T'', ''true'', ''TRUE'', ''True''} then Some True
      else if s \<in> {''0'', ''f'', ''F'', ''false'', ''FALSE'', ''False''} then Some False
      else None)"

lemma digit_char_eval [simp]:
  "digit_char 0 = CHR ''0''" "digit_char 1 = CHR ''1''" "digit_char (Suc 0) = CHR ''1''"
  "digit_char 2 = CHR ''2''" "digit_char 3 = CHR ''3''" "digit_char 4 = CHR ''4''"
  "digit_char 5 = CHR ''5''" "digit_char 6 = CHR ''6''" "digit_char 7 = CHR ''7''"
  "digit_char 8 = CHR ''8''" "digit_char 9 = CHR ''9''"
  by code_simp+

lemmas itoa_eval = Itoa_def itoa_nat.simps

lemma of_char_digit_char [simp]: "d < 10 \<Longrightarrow> (of_char (digit_char d) :: nat) = 48 + d"
  by (simp add: digit_char_def)

lemma is_digit_digit_char [simp]: "d < 10 \<Longrightarrow> is_digit (digit_char d)"
  by (simp add: is_digit_def)

lemma digit_val_digit_char [simp]: "d < 10 \<Longrightarrow> digit_val (digit_char d) = d"
  by (simp add: digit_val_def)

lemma itoa_nat_ne [simp]: "itoa_nat n \<noteq> []"
  by (subst itoa_nat.simps) simp

lemma itoa_nat_digits: "list_all is_digit (itoa_nat n)"
proof (induction n rule: itoa_nat.induct)
  case (1 n)
  then show ?case by (simp add: itoa_nat.simps [of n])
qed

lemma atoi_nat_snoc: "atoi_nat (s @ [c]) = 10 * atoi_nat s + digit_val c"
  by (simp add: atoi_nat_def)

lemma atoi_itoa_nat [simp]: "atoi_nat (itoa_nat n) = n"
proof (induction n rule: itoa_nat.induct)
  case (1 n)
  show ?case
  proof (cases "n < 10")
    case True
    then show ?thesis by (simp add: itoa_nat.simps [of n] atoi_nat_def)
  next
    case False
    with "1.IH" show ?thesis by (simp add: itoa_nat.simps [of n] atoi_nat_snoc)
  qed
qed

lemma itoa_nat_first_digit: "is_digit (hd (itoa_nat n))"
  using itoa_nat_digits [of n] by (cases "itoa_nat n") auto

lemma Atoi_Itoa:
  assumes "- (2 ^ 63) \<le> i" and "i \<le> 2 ^ 63 - 1"
  shows "Atoi (Itoa i) = Some i"
proof (cases "i < 0")
  case True
  then show ?thesis
    using assms by (simp add: Atoi_def Itoa_def itoa_nat_digits)
next
  case False
  obtain c cs where s: "itoa_nat (nat i) = c # cs" by (cases "itoa_nat (nat i)") auto
  have "is_digit c" using itoa_nat_first_digit [of "nat i"] s by simp
  then have c: "c \<noteq> CHR ''-''" "c \<noteq> CHR ''+''" by (auto simp: is_digit_def)
  have v: "atoi_nat (c # cs) = nat i" and d: "list_all is_digit (c # cs)"
    using atoi_itoa_nat [of "nat i"] itoa_nat_digits [of "nat i"] s by simp_all
  show ?thesis
    using False assms c v d by (simp add: Atoi_def Itoa_def s)
qed

lemma Itoa_inj: "Itoa i = Itoa j \<Longrightarrow> i = j"
proof -
  have minus: "hd (itoa_nat n) \<noteq> CHR ''-''" for n
    using itoa_nat_first_digit [of n] by (auto simp: is_digit_def)
  have inj: "itoa_nat m = itoa_nat n \<Longrightarrow> m = n" for m n
    by (metis atoi_itoa_nat)
  assume eq: "Itoa i = Itoa j"
  show ?thesis
  proof (cases "i < 0"; cases "j < 0")
    assume "i < 0" "j < 0"
    with eq inj [of "nat (- i)" "nat (- j)"] show ?thesis by (simp add: Itoa_def)
  next
    assume "i < 0" "\<not> j < 0"
    with eq minus [of "nat j"] show ?thesis by (auto simp: Itoa_def dest: arg_cong [where f = hd])
  next
    assume "\<not> i < 0" "j < 0"
    with eq minus [of "nat i"] show ?thesis by (auto simp: Itoa_def dest: arg_cong [where f = hd])
  next
    assume "\<not> i < 0" "\<not> j < 0"
    with eq inj [of "nat i" "nat j"] show ?thesis by (simp add: Itoa_def)
  qed
qed

end
