(* ===== verification/Proto_Enums.thy ===== *)
theory Proto_Enums
  imports Go_Strings
begin

text \<open>
  The enumerations of the protobuf schema (\<^verbatim>\<open>protos/*.pb.go\<close>): for every enumeration the table
  \<^verbatim>\<open><Enum>_name\<close> of numbers and names, and its \<^verbatim>\<open>String\<close> method, which gives the name of a number and
  the number in decimal when it has none. An open enumeration carries any \<^verbatim>\<open>int32\<close>, so its values are
  integers.
\<close>

section \<open>The String method\<close>

definition enum_String :: "(int \<times> string) list \<Rightarrow> int \<Rightarrow> string" where
  "enum_String names i = (case map_of names i of Some n \<Rightarrow> n | None \<Rightarrow> Itoa i)"

definition names_ok :: "string list \<Rightarrow> bool" where
  "names_ok ns = list_all (\<lambda>n. n \<noteq> [] \<and> \<not> is_digit (hd n) \<and> hd n \<noteq> CHR ''-'') ns"

text \<open>What a client needs of an enumeration: distinct numbers, distinct names, no name that reads as a number.\<close>

locale proto_enum =
  fixes name_table :: "(int \<times> string) list"
  assumes numbers: "distinct (map fst name_table)"
    and names: "distinct (map snd name_table)"
    and not_numeral: "names_ok (map snd name_table)"
begin

lemma String_name: "(i, n) \<in> set name_table \<Longrightarrow> enum_String name_table i = n"
  using numbers by (simp add: enum_String_def map_of_eq_Some_iff)

lemma name_not_Itoa: "(i, n) \<in> set name_table \<Longrightarrow> n \<noteq> Itoa j"
proof
  assume "(i, n) \<in> set name_table" and eq: "n = Itoa j"
  then have "n \<noteq> []" "\<not> is_digit (hd n)" "hd n \<noteq> CHR ''-''"
    using not_numeral by (auto simp: names_ok_def list_all_iff)
  with eq itoa_nat_first_digit [of "nat j"] show False
    by (auto simp: Itoa_def split: if_splits)
qed

lemma String_inj:
  assumes eq: "enum_String name_table i = enum_String name_table j"
  shows "i = j"
proof (cases "map_of name_table i"; cases "map_of name_table j")
  assume "map_of name_table i = None" "map_of name_table j = None"
  with eq show ?thesis by (simp add: enum_String_def Itoa_inj)
next
  fix n assume "map_of name_table i = None" "map_of name_table j = Some n"
  with eq name_not_Itoa [of j n i] show ?thesis by (auto simp: enum_String_def dest: map_of_SomeD)
next
  fix n assume "map_of name_table i = Some n" "map_of name_table j = None"
  with eq name_not_Itoa [of i n j] show ?thesis by (auto simp: enum_String_def dest: map_of_SomeD)
next
  fix n n' assume "map_of name_table i = Some n" "map_of name_table j = Some n'"
  with eq have "(i, n) \<in> set name_table" "(j, n) \<in> set name_table"
    by (auto simp: enum_String_def dest: map_of_SomeD)
  then show ?thesis using names by (metis distinct_map fst_conv inj_onD snd_conv)
qed

lemma String_eq_iff: "enum_String name_table i = enum_String name_table j \<longleftrightarrow> i = j"
  using String_inj by blast

end

section \<open>The tables\<close>

definition Field_name :: "(int \<times> string) list" where
  "Field_name =
     [(0, ''Unknown''), (1, ''DriveRail''), (2, ''ChargeState''), (3, ''BmsFullchargecomplete''),
      (4, ''VehicleSpeed''), (5, ''Odometer''), (6, ''PackVoltage''), (7, ''PackCurrent''),
      (8, ''Soc''), (9, ''DCDCEnable''), (10, ''Gear''), (11, ''IsolationResistance''),
      (12, ''PedalPosition''), (13, ''BrakePedal''), (14, ''DiStateR''), (15, ''DiHeatsinkTR''),
      (16, ''DiAxleSpeedR''), (17, ''DiTorquemotor''), (18, ''DiStatorTempR''), (19, ''DiVBatR''),
      (20, ''DiMotorCurrentR''), (21, ''Location''), (22, ''GpsState''), (23, ''GpsHeading''),
      (24, ''NumBrickVoltageMax''), (25, ''BrickVoltageMax''), (26, ''NumBrickVoltageMin''),
      (27, ''BrickVoltageMin''), (28, ''NumModuleTempMax''), (29, ''ModuleTempMax''),
      (30, ''NumModuleTempMin''), (31, ''ModuleTempMin''), (32, ''RatedRange''), (33, ''Hvil''),
      (34, ''DCChargingEnergyIn''), (35, ''DCChargingPower''), (36, ''ACChargingEnergyIn''),
      (37, ''ACChargingPower''), (38, ''ChargeLimitSoc''), (39, ''FastChargerPresent''),
      (40, ''EstBatteryRange''), (41, ''IdealBatteryRange''), (42, ''BatteryLevel''),
      (43, ''TimeToFullCharge''), (44, ''ScheduledChargingStartTime''),
      (45, ''ScheduledChargingPending''), (46, ''ScheduledDepartureTime''),
      (47, ''PreconditioningEnabled''), (48, ''ScheduledChargingMode''), (49, ''ChargeAmps''),
      (50, ''ChargeEnableRequest''), (51, ''ChargerPhases''), (52, ''ChargePortColdWeatherMode''),
      (53, ''ChargeCurrentRequest''), (54, ''ChargeCurrentRequestMax''), (55, ''BatteryHeaterOn''),
      (56, ''NotEnoughPowerToHeat''), (57, ''SuperchargerSessionTripPlanner''), (58, ''DoorState''),
      (59, ''Locked''), (60, ''FdWindow''), (61, ''FpWindow''), (62, ''RdWindow''),
      (63, ''RpWindow''), (64, ''VehicleName''), (65, ''SentryMode''), (66, ''SpeedLimitMode''),
      (67, ''CurrentLimitMph''), (68, ''Version''), (69, ''TpmsPressureFl''),
      (70, ''TpmsPressureFr''), (71, ''TpmsPressureRl''), (72, ''TpmsPressureRr''),
      (73, ''SemitruckTpmsPressureRe1L0''), (74, ''SemitruckTpmsPressureRe1L1''),
      (75, ''SemitruckTpmsPressureRe1R0''), (76, ''SemitruckTpmsPressureRe1R1''),
      (77, ''SemitruckTpmsPressureRe2L0''), (78, ''SemitruckTpmsPressureRe2L1''),
      (79, ''SemitruckTpmsPressureRe2R0''), (80, ''SemitruckTpmsPressureRe2R1''),
      (81, ''TpmsLastSeenPressureTimeFl''), (82, ''TpmsLastSeenPressureTimeFr''),
      (83, ''TpmsLastSeenPressureTimeRl''), (84, ''TpmsLastSeenPressureTimeRr''),
      (85, ''InsideTemp''), (86, ''OutsideTemp''), (87, ''SeatHeaterLeft''),
      (88, ''SeatHeaterRight''), (89, ''SeatHeaterRearLeft''), (90, ''SeatHeaterRearRight''),
      (91, ''SeatHeaterRearCenter''), (92, ''AutoSeatClimateLeft''), (93, ''AutoSeatClimateRight''),
      (94, ''DriverSeatBelt''), (95, ''PassengerSeatBelt''), (96, ''DriverSeatOccupied''),
      (97, ''SemitruckPassengerSeatFoldPosition''), (98, ''LateralAcceleration''),
      (99, ''LongitudinalAcceleration''), (100, ''Deprecated_2''), (101, ''CruiseSetSpeed''),
      (102, ''LifetimeEnergyUsed''), (103, ''LifetimeEnergyUsedDrive''),
      (104, ''SemitruckTractorParkBrakeStatus''), (105, ''SemitruckTrailerParkBrakeStatus''),
      (106, ''BrakePedalPos''), (107, ''RouteLastUpdated''), (108, ''RouteLine''),
      (109, ''MilesToArrival''), (110, ''MinutesToArrival''), (111, ''OriginLocation''),
      (112, ''DestinationLocation''), (113, ''CarType''), (114, ''Trim''), (115, ''ExteriorColor''),
      (116, ''RoofColor''), (117, ''ChargePort''), (118, ''ChargePortLatch''),
      (119, ''Experimental_1''), (120, ''Experimental_2''), (121, ''Experimental_3''),
      (122, ''Experimental_4''), (123, ''GuestModeEnabled''), (124, ''PinToDriveEnabled''),
      (125, ''PairedPhoneKeyAndKeyFobQty''), (126, ''CruiseFollowDistance''),
      (127, ''AutomaticBlindSpotCamera''), (128, ''BlindSpotCollisionWarningChime''),
      (129, ''SpeedLimitWarning''), (130, ''ForwardCollisionWarning''),
      (131, ''LaneDepartureAvoidance''), (132, ''EmergencyLaneDepartureAvoidance''),
      (133, ''AutomaticEmergencyBrakingOff''), (134, ''LifetimeEnergyGainedRegen''),
      (135, ''DiStateF''), (136, ''DiStateREL''), (137, ''DiStateRER''), (138, ''DiHeatsinkTF''),
      (139, ''DiHeatsinkTREL''), (140, ''DiHeatsinkTRER''), (141, ''DiAxleSpeedF''),
      (142, ''DiAxleSpeedREL''), (143, ''DiAxleSpeedRER''), (144, ''DiSlaveTorqueCmd''),
      (145, ''DiTorqueActualR''), (146, ''DiTorqueActualF''), (147, ''DiTorqueActualREL''),
      (148, ''DiTorqueActualRER''), (149, ''DiStatorTempF''), (150, ''DiStatorTempREL''),
      (151, ''DiStatorTempRER''), (152, ''DiVBatF''), (153, ''DiVBatREL''), (154, ''DiVBatRER''),
      (155, ''DiMotorCurrentF''), (156, ''DiMotorCurrentREL''), (157, ''DiMotorCurrentRER''),
      (158, ''EnergyRemaining''), (159, ''ServiceMode''), (160, ''BMSState''),
      (161, ''GuestModeMobileAccessState''), (162, ''Deprecated_1''), (163, ''DestinationName''),
      (164, ''DiInverterTR''), (165, ''DiInverterTF''), (166, ''DiInverterTREL''),
      (167, ''DiInverterTRER''), (168, ''Experimental_5''), (169, ''Experimental_6''),
      (170, ''Experimental_7''), (171, ''Experimental_8''), (172, ''Experimental_9''),
      (173, ''Experimental_10''), (174, ''Experimental_11''), (175, ''Experimental_12''),
      (176, ''Experimental_13''), (177, ''Experimental_14''), (178, ''Experimental_15''),
      (179, ''DetailedChargeState''), (180, ''CabinOverheatProtectionMode''),
      (181, ''CabinOverheatProtectionTemperatureLimit''), (182, ''CenterDisplay''),
      (183, ''ChargePortDoorOpen''), (184, ''ChargerVoltage''), (185, ''ChargingCableType''),
      (186, ''ClimateKeeperMode''), (187, ''DefrostForPreconditioning''), (188, ''DefrostMode''),
      (189, ''EfficiencyPackage''), (190, ''EstimatedHoursToChargeTermination''),
      (191, ''EuropeVehicle''), (192, ''ExpectedEnergyPercentAtTripArrival''),
      (193, ''FastChargerType''), (194, ''HomelinkDeviceCount''), (195, ''HomelinkNearby''),
      (196, ''HvacACEnabled''), (197, ''HvacAutoMode''), (198, ''HvacFanSpeed''),
      (199, ''HvacFanStatus''), (200, ''HvacLeftTemperatureRequest''), (201, ''HvacPower''),
      (202, ''HvacRightTemperatureRequest''), (203, ''HvacSteeringWheelHeatAuto''),
      (204, ''HvacSteeringWheelHeatLevel''), (205, ''OffroadLightbarPresent''),
      (206, ''PowershareHoursLeft''), (207, ''PowershareInstantaneousPowerKW''),
      (208, ''PowershareStatus''), (209, ''PowershareStopReason''), (210, ''PowershareType''),
      (211, ''RearDisplayHvacEnabled''), (212, ''RearSeatHeaters''), (213, ''RemoteStartEnabled''),
      (214, ''RightHandDrive''), (215, ''RouteTrafficMinutesDelay''),
      (216, ''SoftwareUpdateDownloadPercentComplete''),
      (217, ''SoftwareUpdateExpectedDurationMinutes''),
      (218, ''SoftwareUpdateInstallationPercentComplete''),
      (219, ''SoftwareUpdateScheduledStartTime''), (220, ''SoftwareUpdateVersion''),
      (221, ''TonneauOpenPercent''), (222, ''TonneauPosition''), (223, ''TonneauTentMode''),
      (224, ''TpmsHardWarnings''), (225, ''TpmsSoftWarnings''), (226, ''ValetModeEnabled''),
      (227, ''WheelType''), (228, ''WiperHeatEnabled''), (229, ''LocatedAtHome''),
      (230, ''LocatedAtWork''), (231, ''LocatedAtFavorite''), (232, ''SettingDistanceUnit''),
      (233, ''SettingTemperatureUnit''), (234, ''Setting24HourTime''),
      (235, ''SettingTirePressureUnit''), (236, ''SettingChargeUnit''),
      (237, ''ClimateSeatCoolingFrontLeft''), (238, ''ClimateSeatCoolingFrontRight''),
      (239, ''LightsHazardsActive''), (240, ''LightsTurnSignal''), (241, ''LightsHighBeams''),
      (242, ''MediaPlaybackStatus''), (243, ''MediaPlaybackSource''), (244, ''MediaAudioVolume''),
      (245, ''MediaNowPlayingDuration''), (246, ''MediaNowPlayingElapsed''),
      (247, ''MediaNowPlayingArtist''), (248, ''MediaNowPlayingTitle''),
      (249, ''MediaNowPlayingAlbum''), (250, ''MediaNowPlayingStation''),
      (251, ''MediaAudioVolumeIncrement''), (252, ''MediaAudioVolumeMax''),
      (253, ''SunroofInstalled''), (254, ''SeatVentEnabled''), (255, ''RearDefrostEnabled''),
      (256, ''ChargeRateMilePerHour''), (257, ''Deprecated_3''), (258, ''MilesSinceReset''),
      (259, ''SelfDrivingMilesSinceReset'')]"

definition ChargingState_name :: "(int \<times> string) list" where
  "ChargingState_name =
     [(0, ''ChargeStateUnknown''), (1, ''ChargeStateDisconnected''), (2, ''ChargeStateNoPower''),
      (3, ''ChargeStateStarting''), (4, ''ChargeStateCharging''), (5, ''ChargeStateComplete''),
      (6, ''ChargeStateStopped'')]"

definition DetailedChargeStateValue_name :: "(int \<times> string) list" where
  "DetailedChargeStateValue_name =
     [(0, ''DetailedChargeStateUnknown''), (1, ''DetailedChargeStateDisconnected''),
      (2, ''DetailedChargeStateNoPower''), (3, ''DetailedChargeStateStarting''),
      (4, ''DetailedChargeStateCharging''), (5, ''DetailedChargeStateComplete''),
      (6, ''DetailedChargeStateStopped'')]"

definition ShiftState_name :: "(int \<times> string) list" where
  "ShiftState_name =
     [(0, ''ShiftStateUnknown''), (1, ''ShiftStateInvalid''), (2, ''ShiftStateP''),
      (3, ''ShiftStateR''), (4, ''ShiftStateN''), (5, ''ShiftStateD''), (6, ''ShiftStateSNA'')]"

definition FollowDistance_name :: "(int \<times> string) list" where
  "FollowDistance_name =
     [(0, ''FollowDistanceUnknown''), (1, ''FollowDistance1''), (2, ''FollowDistance2''),
      (3, ''FollowDistance3''), (4, ''FollowDistance4''), (5, ''FollowDistance5''),
      (6, ''FollowDistance6''), (7, ''FollowDistance7'')]"

definition ForwardCollisionSensitivity_name :: "(int \<times> string) list" where
  "ForwardCollisionSensitivity_name =
     [(0, ''ForwardCollisionSensitivityUnknown''), (1, ''ForwardCollisionSensitivityOff''),
      (2, ''ForwardCollisionSensitivityLate''), (3, ''ForwardCollisionSensitivityAverage''),
      (4, ''ForwardCollisionSensitivityEarly'')]"

definition GuestModeMobileAccess_name :: "(int \<times> string) list" where
  "GuestModeMobileAccess_name =
     [(0, ''GuestModeMobileAccessUnknown''), (1, ''GuestModeMobileAccessInit''),
      (2, ''GuestModeMobileAccessNotAuthenticated''), (3, ''GuestModeMobileAccessAuthenticated''),
      (4, ''GuestModeMobileAccessAbortedDriving''),
      (5, ''GuestModeMobileAccessAbortedUsingRemoteStart''),
      (6, ''GuestModeMobileAccessAbortedUsingBLEKeys''),
      (7, ''GuestModeMobileAccessAbortedValetMode''),
      (8, ''GuestModeMobileAccessAbortedGuestModeOff''),
      (9, ''GuestModeMobileAccessAbortedDriveAuthTimeExceeded''),
      (10, ''GuestModeMobileAccessAbortedNoDataReceived''),
      (11, ''GuestModeMobileAccessRequestingFromMothership''),
      (12, ''GuestModeMobileAccessRequestingFromAuthD''),
      (13, ''GuestModeMobileAccessAbortedFetchFailed''),
      (14, ''GuestModeMobileAccessAbortedBadDataReceived''),
      (15, ''GuestModeMobileAccessShowingQRCode''), (16, ''GuestModeMobileAccessSwipedAway''),
      (17, ''GuestModeMobileAccessDismissedQRCodeExpired''),
      (18, ''GuestModeMobileAccessSucceededPairedNewBLEKey'')]"

definition LaneAssistLevel_name :: "(int \<times> string) list" where
  "LaneAssistLevel_name =
     [(0, ''LaneAssistLevelUnknown''), (1, ''LaneAssistLevelNone''),
      (2, ''LaneAssistLevelWarning''), (3, ''LaneAssistLevelAssist'')]"

definition ScheduledChargingModeValue_name :: "(int \<times> string) list" where
  "ScheduledChargingModeValue_name =
     [(0, ''ScheduledChargingModeUnknown''), (1, ''ScheduledChargingModeOff''),
      (2, ''ScheduledChargingModeStartAt''), (3, ''ScheduledChargingModeDepartBy'')]"

definition SentryModeState_name :: "(int \<times> string) list" where
  "SentryModeState_name =
     [(0, ''SentryModeStateUnknown''), (1, ''SentryModeStateOff''), (2, ''SentryModeStateIdle''),
      (3, ''SentryModeStateArmed''), (4, ''SentryModeStateAware''), (5, ''SentryModeStatePanic''),
      (6, ''SentryModeStateQuiet'')]"

definition SpeedAssistLevel_name :: "(int \<times> string) list" where
  "SpeedAssistLevel_name =
     [(0, ''SpeedAssistLevelUnknown''), (1, ''SpeedAssistLevelNone''),
      (2, ''SpeedAssistLevelDisplay''), (3, ''SpeedAssistLevelChime'')]"

definition BMSStateValue_name :: "(int \<times> string) list" where
  "BMSStateValue_name =
     [(0, ''BMSStateUnknown''), (1, ''BMSStateStandby''), (2, ''BMSStateDrive''),
      (3, ''BMSStateSupport''), (4, ''BMSStateCharge''), (5, ''BMSStateFEIM''),
      (6, ''BMSStateClearFault''), (7, ''BMSStateFault''), (8, ''BMSStateWeld''),
      (9, ''BMSStateTest''), (10, ''BMSStateSNA'')]"

definition BuckleStatus_name :: "(int \<times> string) list" where
  "BuckleStatus_name =
     [(0, ''BuckleStatusUnknown''), (1, ''BuckleStatusUnlatched''), (2, ''BuckleStatusLatched''),
      (3, ''BuckleStatusFaulted'')]"

definition CarTypeValue_name :: "(int \<times> string) list" where
  "CarTypeValue_name =
     [(0, ''CarTypeUnknown''), (1, ''CarTypeModelS''), (2, ''CarTypeModelX''),
      (3, ''CarTypeModel3''), (4, ''CarTypeModelY''), (5, ''CarTypeSemiTruck''),
      (6, ''CarTypeCybertruck'')]"

definition ChargePortValue_name :: "(int \<times> string) list" where
  "ChargePortValue_name =
     [(0, ''ChargePortUnknown''), (1, ''ChargePortUS''), (2, ''ChargePortEU''),
      (3, ''ChargePortGB''), (4, ''ChargePortCCS'')]"

definition ChargePortLatchValue_name :: "(int \<times> string) list" where
  "ChargePortLatchValue_name =
     [(0, ''ChargePortLatchUnknown''), (1, ''ChargePortLatchSNA''),
      (2, ''ChargePortLatchDisengaged''), (3, ''ChargePortLatchEngaged''),
      (4, ''ChargePortLatchBlocking'')]"

definition DriveInverterState_name :: "(int \<times> string) list" where
  "DriveInverterState_name =
     [(0, ''DriveInverterStateUnknown''), (1, ''DriveInverterStateUnavailable''),
      (2, ''DriveInverterStateStandby''), (3, ''DriveInverterStateFault''),
      (4, ''DriveInverterStateAbort''), (5, ''DriveInverterStateEnable'')]"

definition HvilStatus_name :: "(int \<times> string) list" where
  "HvilStatus_name =
     [(0, ''HvilStatusUnknown''), (1, ''HvilStatusFault''), (2, ''HvilStatusOK'')]"

definition WindowState_name :: "(int \<times> string) list" where
  "WindowState_name =
     [(0, ''WindowStateUnknown''), (1, ''WindowStateClosed''), (2, ''WindowStatePartiallyOpen''),
      (3, ''WindowStateOpened'')]"

definition SeatFoldPosition_name :: "(int \<times> string) list" where
  "SeatFoldPosition_name =
     [(0, ''SeatFoldPositionUnknown''), (1, ''SeatFoldPositionSNA''),
      (2, ''SeatFoldPositionFaulted''), (3, ''SeatFoldPositionNotConfigured''),
      (4, ''SeatFoldPositionFolded''), (5, ''SeatFoldPositionUnfolded'')]"

definition TractorAirStatus_name :: "(int \<times> string) list" where
  "TractorAirStatus_name =
     [(0, ''TractorAirStatusUnknown''), (1, ''TractorAirStatusNotAvailable''),
      (2, ''TractorAirStatusError''), (3, ''TractorAirStatusCharged''),
      (4, ''TractorAirStatusBuildingPressureIntermediate''),
      (5, ''TractorAirStatusExhaustingPressureIntermediate''), (6, ''TractorAirStatusExhausted'')]"

definition TrailerAirStatus_name :: "(int \<times> string) list" where
  "TrailerAirStatus_name =
     [(0, ''TrailerAirStatusUnknown''), (1, ''TrailerAirStatusSNA''),
      (2, ''TrailerAirStatusInvalid''), (3, ''TrailerAirStatusBobtailMode''),
      (4, ''TrailerAirStatusCharged''), (5, ''TrailerAirStatusBuildingPressureIntermediate''),
      (6, ''TrailerAirStatusExhaustingPressureIntermediate''), (7, ''TrailerAirStatusExhausted'')]"

definition HvacAutoModeState_name :: "(int \<times> string) list" where
  "HvacAutoModeState_name =
     [(0, ''HvacAutoModeStateUnknown''), (1, ''HvacAutoModeStateOn''),
      (2, ''HvacAutoModeStateOverride'')]"

definition CabinOverheatProtectionModeState_name :: "(int \<times> string) list" where
  "CabinOverheatProtectionModeState_name =
     [(0, ''CabinOverheatProtectionModeStateUnknown''),
      (1, ''CabinOverheatProtectionModeStateOff''), (2, ''CabinOverheatProtectionModeStateOn''),
      (3, ''CabinOverheatProtectionModeStateFanOnly'')]"

definition ClimateOverheatProtectionTempLimit_name :: "(int \<times> string) list" where
  "ClimateOverheatProtectionTempLimit_name =
     [(0, ''ClimateOverheatProtectionTempLimitUnknown''),
      (1, ''ClimateOverheatProtectionTempLimitHigh''),
      (2, ''ClimateOverheatProtectionTempLimitMedium''),
      (3, ''ClimateOverheatProtectionTempLimitLow'')]"

definition DefrostModeState_name :: "(int \<times> string) list" where
  "DefrostModeState_name =
     [(0, ''DefrostModeStateUnknown''), (1, ''DefrostModeStateOff''),
      (2, ''DefrostModeStateNormal''), (3, ''DefrostModeStateMax''),
      (4, ''DefrostModeStateAutoDefog'')]"

definition ClimateKeeperModeState_name :: "(int \<times> string) list" where
  "ClimateKeeperModeState_name =
     [(0, ''ClimateKeeperModeStateUnknown''), (1, ''ClimateKeeperModeStateOff''),
      (2, ''ClimateKeeperModeStateOn''), (3, ''ClimateKeeperModeStateDog''),
      (4, ''ClimateKeeperModeStateParty'')]"

definition HvacPowerState_name :: "(int \<times> string) list" where
  "HvacPowerState_name =
     [(0, ''HvacPowerStateUnknown''), (1, ''HvacPowerStateOff''), (2, ''HvacPowerStateOn''),
      (3, ''HvacPowerStatePrecondition''), (4, ''HvacPowerStateOverheatProtect'')]"

definition FastCharger_name :: "(int \<times> string) list" where
  "FastCharger_name =
     [(0, ''FastChargerUnknown''), (1, ''FastChargerSupercharger''), (2, ''FastChargerCHAdeMO''),
      (3, ''FastChargerGB''), (4, ''FastChargerACSingleWireCAN''), (5, ''FastChargerCombo''),
      (6, ''FastChargerMCSingleWireCAN''), (7, ''FastChargerOther''), (8, ''FastChargerSNA'')]"

definition CableType_name :: "(int \<times> string) list" where
  "CableType_name =
     [(0, ''CableTypeUnknown''), (1, ''CableTypeIEC''), (2, ''CableTypeSAE''),
      (3, ''CableTypeGB_AC''), (4, ''CableTypeGB_DC''), (5, ''CableTypeSNA'')]"

definition TonneauTentModeState_name :: "(int \<times> string) list" where
  "TonneauTentModeState_name =
     [(0, ''TonneauTentModeStateUnknown''), (1, ''TonneauTentModeStateInactive''),
      (2, ''TonneauTentModeStateMoving''), (3, ''TonneauTentModeStateFailed''),
      (4, ''TonneauTentModeStateActive'')]"

definition TonneauPositionState_name :: "(int \<times> string) list" where
  "TonneauPositionState_name =
     [(0, ''TonneauPositionStateUnknown''), (1, ''TonneauPositionStateInvalid''),
      (2, ''TonneauPositionStateClosed''), (3, ''TonneauPositionStatePartiallyOpen''),
      (4, ''TonneauPositionStateFullyOpen'')]"

definition PowershareState_name :: "(int \<times> string) list" where
  "PowershareState_name =
     [(0, ''PowershareStateUnknown''), (1, ''PowershareStateInactive''),
      (2, ''PowershareStateHandshaking''), (3, ''PowershareStateInit''),
      (4, ''PowershareStateEnabled''), (5, ''PowershareStateEnabledReconnectingSoon''),
      (6, ''PowershareStateStopped'')]"

definition PowershareStopReasonStatus_name :: "(int \<times> string) list" where
  "PowershareStopReasonStatus_name =
     [(0, ''PowershareStopReasonStatusUnknown''), (1, ''PowershareStopReasonStatusNone''),
      (2, ''PowershareStopReasonStatusSOCTooLow''), (3, ''PowershareStopReasonStatusRetry''),
      (4, ''PowershareStopReasonStatusFault''), (5, ''PowershareStopReasonStatusUser''),
      (6, ''PowershareStopReasonStatusReconnecting''),
      (7, ''PowershareStopReasonStatusAuthentication'')]"

definition PowershareTypeStatus_name :: "(int \<times> string) list" where
  "PowershareTypeStatus_name =
     [(0, ''PowershareTypeStatusUnknown''), (1, ''PowershareTypeStatusNone''),
      (2, ''PowershareTypeStatusLoad''), (3, ''PowershareTypeStatusHome'')]"

definition DisplayState_name :: "(int \<times> string) list" where
  "DisplayState_name =
     [(0, ''DisplayStateUnknown''), (1, ''DisplayStateOff''), (2, ''DisplayStateDim''),
      (3, ''DisplayStateAccessory''), (4, ''DisplayStateOn''), (5, ''DisplayStateDriving''),
      (6, ''DisplayStateCharging''), (7, ''DisplayStateLock''), (8, ''DisplayStateSentry''),
      (9, ''DisplayStateDog''), (10, ''DisplayStateEntertainment'')]"

definition DistanceUnit_name :: "(int \<times> string) list" where
  "DistanceUnit_name =
     [(0, ''DistanceUnitUnknown''), (1, ''DistanceUnitMiles''), (2, ''DistanceUnitKilometers'')]"

definition TemperatureUnit_name :: "(int \<times> string) list" where
  "TemperatureUnit_name =
     [(0, ''TemperatureUnitUnknown''), (1, ''TemperatureUnitFahrenheit''),
      (2, ''TemperatureUnitCelsius'')]"

definition PressureUnit_name :: "(int \<times> string) list" where
  "PressureUnit_name =
     [(0, ''PressureUnitUnknown''), (1, ''PressureUnitPsi''), (2, ''PressureUnitBar'')]"

definition ChargeUnitPreference_name :: "(int \<times> string) list" where
  "ChargeUnitPreference_name =
     [(0, ''ChargeUnitUnknown''), (1, ''ChargeUnitDistance''), (2, ''ChargeUnitPercent'')]"

definition SunroofInstalledState_name :: "(int \<times> string) list" where
  "SunroofInstalledState_name =
     [(0, ''SunroofInstalledStateUnknown''), (1, ''SunroofInstalledStateNotInstalled''),
      (2, ''SunroofInstalledStateGen1Installed''), (3, ''SunroofInstalledStateGen2Installed'')]"

definition TurnSignalState_name :: "(int \<times> string) list" where
  "TurnSignalState_name =
     [(0, ''TurnSignalStateUnknown''), (1, ''TurnSignalStateOff''), (2, ''TurnSignalStateLeft''),
      (3, ''TurnSignalStateRight''), (4, ''TurnSignalStateBoth'')]"

definition MediaStatus_name :: "(int \<times> string) list" where
  "MediaStatus_name =
     [(0, ''MediaStatusUnknown''), (1, ''MediaStatusStopped''), (2, ''MediaStatusPlaying''),
      (3, ''MediaStatusPaused'')]"

definition Audience_name :: "(int \<times> string) list" where
  "Audience_name =
     [(0, ''Unknown''), (1, ''Customer''), (2, ''Service''), (3, ''ServiceFix'')]"

definition ConnectivityEvent_name :: "(int \<times> string) list" where
  "ConnectivityEvent_name =
     [(0, ''UNKNOWN''), (1, ''CONNECTED''), (2, ''DISCONNECTED'')]"

section \<open>Every table is an enumeration\<close>

interpretation ChargingState: proto_enum ChargingState_name
  by unfold_locales (simp_all add: ChargingState_name_def names_ok_def is_digit_def)

interpretation DetailedChargeStateValue: proto_enum DetailedChargeStateValue_name
  by unfold_locales (simp_all add: DetailedChargeStateValue_name_def names_ok_def is_digit_def)

interpretation ShiftState: proto_enum ShiftState_name
  by unfold_locales (simp_all add: ShiftState_name_def names_ok_def is_digit_def)

interpretation FollowDistance: proto_enum FollowDistance_name
  by unfold_locales (simp_all add: FollowDistance_name_def names_ok_def is_digit_def)

interpretation ForwardCollisionSensitivity: proto_enum ForwardCollisionSensitivity_name
  by unfold_locales (simp_all add: ForwardCollisionSensitivity_name_def names_ok_def is_digit_def)

interpretation GuestModeMobileAccess: proto_enum GuestModeMobileAccess_name
  by unfold_locales (simp_all add: GuestModeMobileAccess_name_def names_ok_def is_digit_def)

interpretation LaneAssistLevel: proto_enum LaneAssistLevel_name
  by unfold_locales (simp_all add: LaneAssistLevel_name_def names_ok_def is_digit_def)

interpretation ScheduledChargingModeValue: proto_enum ScheduledChargingModeValue_name
  by unfold_locales (simp_all add: ScheduledChargingModeValue_name_def names_ok_def is_digit_def)

interpretation SentryModeState: proto_enum SentryModeState_name
  by unfold_locales (simp_all add: SentryModeState_name_def names_ok_def is_digit_def)

interpretation SpeedAssistLevel: proto_enum SpeedAssistLevel_name
  by unfold_locales (simp_all add: SpeedAssistLevel_name_def names_ok_def is_digit_def)

interpretation BMSStateValue: proto_enum BMSStateValue_name
  by unfold_locales (simp_all add: BMSStateValue_name_def names_ok_def is_digit_def)

interpretation BuckleStatus: proto_enum BuckleStatus_name
  by unfold_locales (simp_all add: BuckleStatus_name_def names_ok_def is_digit_def)

interpretation CarTypeValue: proto_enum CarTypeValue_name
  by unfold_locales (simp_all add: CarTypeValue_name_def names_ok_def is_digit_def)

interpretation ChargePortValue: proto_enum ChargePortValue_name
  by unfold_locales (simp_all add: ChargePortValue_name_def names_ok_def is_digit_def)

interpretation ChargePortLatchValue: proto_enum ChargePortLatchValue_name
  by unfold_locales (simp_all add: ChargePortLatchValue_name_def names_ok_def is_digit_def)

interpretation DriveInverterState: proto_enum DriveInverterState_name
  by unfold_locales (simp_all add: DriveInverterState_name_def names_ok_def is_digit_def)

interpretation HvilStatus: proto_enum HvilStatus_name
  by unfold_locales (simp_all add: HvilStatus_name_def names_ok_def is_digit_def)

interpretation WindowState: proto_enum WindowState_name
  by unfold_locales (simp_all add: WindowState_name_def names_ok_def is_digit_def)

interpretation SeatFoldPosition: proto_enum SeatFoldPosition_name
  by unfold_locales (simp_all add: SeatFoldPosition_name_def names_ok_def is_digit_def)

interpretation TractorAirStatus: proto_enum TractorAirStatus_name
  by unfold_locales (simp_all add: TractorAirStatus_name_def names_ok_def is_digit_def)

interpretation TrailerAirStatus: proto_enum TrailerAirStatus_name
  by unfold_locales (simp_all add: TrailerAirStatus_name_def names_ok_def is_digit_def)

interpretation HvacAutoModeState: proto_enum HvacAutoModeState_name
  by unfold_locales (simp_all add: HvacAutoModeState_name_def names_ok_def is_digit_def)

interpretation CabinOverheatProtectionModeState: proto_enum CabinOverheatProtectionModeState_name
  by unfold_locales (simp_all add: CabinOverheatProtectionModeState_name_def names_ok_def is_digit_def)

interpretation ClimateOverheatProtectionTempLimit: proto_enum ClimateOverheatProtectionTempLimit_name
  by unfold_locales (simp_all add: ClimateOverheatProtectionTempLimit_name_def names_ok_def is_digit_def)

interpretation DefrostModeState: proto_enum DefrostModeState_name
  by unfold_locales (simp_all add: DefrostModeState_name_def names_ok_def is_digit_def)

interpretation ClimateKeeperModeState: proto_enum ClimateKeeperModeState_name
  by unfold_locales (simp_all add: ClimateKeeperModeState_name_def names_ok_def is_digit_def)

interpretation HvacPowerState: proto_enum HvacPowerState_name
  by unfold_locales (simp_all add: HvacPowerState_name_def names_ok_def is_digit_def)

interpretation FastCharger: proto_enum FastCharger_name
  by unfold_locales (simp_all add: FastCharger_name_def names_ok_def is_digit_def)

interpretation CableType: proto_enum CableType_name
  by unfold_locales (simp_all add: CableType_name_def names_ok_def is_digit_def)

interpretation TonneauTentModeState: proto_enum TonneauTentModeState_name
  by unfold_locales (simp_all add: TonneauTentModeState_name_def names_ok_def is_digit_def)

interpretation TonneauPositionState: proto_enum TonneauPositionState_name
  by unfold_locales (simp_all add: TonneauPositionState_name_def names_ok_def is_digit_def)

interpretation PowershareState: proto_enum PowershareState_name
  by unfold_locales (simp_all add: PowershareState_name_def names_ok_def is_digit_def)

interpretation PowershareStopReasonStatus: proto_enum PowershareStopReasonStatus_name
  by unfold_locales (simp_all add: PowershareStopReasonStatus_name_def names_ok_def is_digit_def)

interpretation PowershareTypeStatus: proto_enum PowershareTypeStatus_name
  by unfold_locales (simp_all add: PowershareTypeStatus_name_def names_ok_def is_digit_def)

interpretation DisplayState: proto_enum DisplayState_name
  by unfold_locales (simp_all add: DisplayState_name_def names_ok_def is_digit_def)

interpretation DistanceUnit: proto_enum DistanceUnit_name
  by unfold_locales (simp_all add: DistanceUnit_name_def names_ok_def is_digit_def)

interpretation TemperatureUnit: proto_enum TemperatureUnit_name
  by unfold_locales (simp_all add: TemperatureUnit_name_def names_ok_def is_digit_def)

interpretation PressureUnit: proto_enum PressureUnit_name
  by unfold_locales (simp_all add: PressureUnit_name_def names_ok_def is_digit_def)

interpretation ChargeUnitPreference: proto_enum ChargeUnitPreference_name
  by unfold_locales (simp_all add: ChargeUnitPreference_name_def names_ok_def is_digit_def)

interpretation SunroofInstalledState: proto_enum SunroofInstalledState_name
  by unfold_locales (simp_all add: SunroofInstalledState_name_def names_ok_def is_digit_def)

interpretation TurnSignalState: proto_enum TurnSignalState_name
  by unfold_locales (simp_all add: TurnSignalState_name_def names_ok_def is_digit_def)

interpretation MediaStatus: proto_enum MediaStatus_name
  by unfold_locales (simp_all add: MediaStatus_name_def names_ok_def is_digit_def)

interpretation Audience: proto_enum Audience_name
  by unfold_locales (simp_all add: Audience_name_def names_ok_def is_digit_def)

interpretation ConnectivityEvent: proto_enum ConnectivityEvent_name
  by unfold_locales (simp_all add: ConnectivityEvent_name_def names_ok_def is_digit_def)

end
