(* ===== verification/Go_Time.thy ===== *)
theory Go_Time
  imports Go_Strings
begin

text \<open>
  The part of Go's \<^verbatim>\<open>time\<close> package and of \<^verbatim>\<open>timestamppb\<close> that the code uses. A time is the number of
  nanoseconds since the epoch, an integer; a protobuf timestamp has seconds and nanoseconds.
\<close>

section \<open>Timestamps\<close>

record timestamp =
  Seconds :: int
  Nanos :: int

text \<open>\<^verbatim>\<open>(*Timestamp).AsTime().Unix()\<close>; a nil timestamp reads as the epoch.\<close>

definition AsTime_Unix :: "timestamp option \<Rightarrow> int" where
  "AsTime_Unix t = (case t of None \<Rightarrow> 0 | Some t \<Rightarrow> Seconds t + Nanos t div 10 ^ 9)"

definition AsTime_UnixNano :: "timestamp \<Rightarrow> int" where
  "AsTime_UnixNano t = Seconds t * 10 ^ 9 + Nanos t"

text \<open>\<^verbatim>\<open>timestamppb.New\<close> of a time given in nanoseconds.\<close>

definition timestamp_New :: "int \<Rightarrow> timestamp" where
  "timestamp_New unixNano = \<lparr>Seconds = unixNano div 10 ^ 9, Nanos = unixNano mod 10 ^ 9\<rparr>"

definition UnixMilli :: "int \<Rightarrow> int" where
  "UnixMilli msec = msec * 10 ^ 6"

section \<open>RFC 3339\<close>

text \<open>
  The civil date of a day number (day 0 is 1970-01-01) in the proleptic Gregorian calendar, with
  years that start in March: \<open>era\<close> counts periods of 400 years, \<open>yoe\<close> and \<open>doy\<close> are the year of the era
  and the day of that year.
\<close>

definition civil_from_days :: "int \<Rightarrow> int \<times> int \<times> int" where
  "civil_from_days days =
     (let z = days + 719468; era = z div 146097; doe = z mod 146097;
          yoe = (doe - doe div 1460 + doe div 36524 - doe div 146096) div 365;
          doy = doe - (365 * yoe + yoe div 4 - yoe div 100);
          mp = (5 * doy + 2) div 153;
          d = doy - (153 * mp + 2) div 5 + 1;
          m = (if mp < 10 then mp + 3 else mp - 9);
          y = yoe + era * 400 + (if m \<le> 2 then 1 else 0)
      in (y, m, d))"

definition pad_int :: "nat \<Rightarrow> int \<Rightarrow> string" where
  "pad_int w i =
     (let ds = itoa_nat (nat \<bar>i\<bar>)
      in (if i < 0 then ''-'' else []) @ replicate (w - length ds) CHR ''0'' @ ds)"

text \<open>\<^verbatim>\<open>Format(time.RFC3339)\<close> of a UTC time, from its Unix seconds.\<close>

definition Format_RFC3339 :: "int \<Rightarrow> string" where
  "Format_RFC3339 sec =
     (let (y, m, d) = civil_from_days (sec div 86400); s = sec mod 86400
      in pad_int 4 y @ ''-'' @ pad_int 2 m @ ''-'' @ pad_int 2 d @ ''T'' @
         pad_int 2 (s div 3600) @ '':'' @ pad_int 2 (s mod 3600 div 60) @ '':'' @ pad_int 2 (s mod 60) @ ''Z'')"

text \<open>The verb \<^verbatim>\<open>%02d\<close> counts a minus sign in its width.\<close>

definition Sprintf_02d :: "int \<Rightarrow> string" where
  "Sprintf_02d i =
     (let ds = itoa_nat (nat \<bar>i\<bar>)
      in if i < 0 then ''-'' @ replicate (1 - length ds) CHR ''0'' @ ds
         else replicate (2 - length ds) CHR ''0'' @ ds)"

lemma timestamp_New_bounds: "0 \<le> Nanos (timestamp_New n)" "Nanos (timestamp_New n) < 10 ^ 9"
  by (simp_all add: timestamp_New_def)

lemma AsTime_timestamp_New [simp]: "AsTime_UnixNano (timestamp_New n) = n"
  by (simp add: AsTime_UnixNano_def timestamp_New_def)

lemma AsTime_Unix_div: "AsTime_Unix (Some t) = AsTime_UnixNano t div 10 ^ 9"
  by (simp add: AsTime_Unix_def AsTime_UnixNano_def)

end
