(* ===== verification/Protos.thy ===== *)
theory Protos
  imports Proto_Enums Go_Time
begin

text \<open>
  The protobuf messages (\<^verbatim>\<open>protos/*.pb.go\<close>). A message is a record and a nil pointer is
  \<^const>\<open>None\<close>; the oneof of \<^verbatim>\<open>Value\<close> is a datatype with one constructor for each of its
  \<^verbatim>\<open>Value_...\<close> structs, whose embedded messages are not nil, as the decoder leaves them. Enumerations
  are integers, floating-point numbers are bit patterns. The bookkeeping fields of the runtime (state,
  size cache, unknown fields) are not modelled.
\<close>

section \<open>Values\<close>

record location_value =
  Latitude :: "64 word"
  Longitude :: "64 word"

record doors =
  DriverFront :: bool
  DriverRear :: bool
  PassengerFront :: bool
  PassengerRear :: bool
  TrunkFront :: bool
  TrunkRear :: bool

record tire_location =
  FrontLeft :: bool
  FrontRight :: bool
  RearLeft :: bool
  RearRight :: bool
  SemiMiddleAxleLeft_2 :: bool
  SemiMiddleAxleRight_2 :: bool
  SemiRearAxleLeft :: bool
  SemiRearAxleRight :: bool
  SemiRearAxleLeft_2 :: bool
  SemiRearAxleRight_2 :: bool

record time_value =
  Hour :: int
  Minute :: int
  Second :: int

datatype (plugins only: code) value_oneof =
    Value_StringValue string
  | Value_IntValue int
  | Value_LongValue int
  | Value_FloatValue "32 word"
  | Value_DoubleValue "64 word"
  | Value_BooleanValue bool
  | Value_LocationValue location_value
  | Value_ChargingValue int
  | Value_ShiftStateValue int
  | Value_Invalid bool
  | Value_LaneAssistLevelValue int
  | Value_ScheduledChargingModeValue int
  | Value_SentryModeStateValue int
  | Value_SpeedAssistLevelValue int
  | Value_BmsStateValue int
  | Value_BuckleStatusValue int
  | Value_CarTypeValue int
  | Value_ChargePortValue int
  | Value_ChargePortLatchValue int
  | Value_DoorValue doors
  | Value_DriveInverterStateValue int
  | Value_HvilStatusValue int
  | Value_WindowStateValue int
  | Value_SeatFoldPositionValue int
  | Value_TractorAirStatusValue int
  | Value_FollowDistanceValue int
  | Value_ForwardCollisionSensitivityValue int
  | Value_GuestModeMobileAccessValue int
  | Value_TrailerAirStatusValue int
  | Value_TimeValue time_value
  | Value_DetailedChargeStateValue int
  | Value_HvacAutoModeValue int
  | Value_CabinOverheatProtectionModeValue int
  | Value_CabinOverheatProtectionTemperatureLimitValue int
  | Value_DefrostModeValue int
  | Value_ClimateKeeperModeValue int
  | Value_HvacPowerValue int
  | Value_TireLocationValue tire_location
  | Value_FastChargerValue int
  | Value_CableTypeValue int
  | Value_TonneauTentModeValue int
  | Value_TonneauPositionValue int
  | Value_PowershareTypeValue int
  | Value_PowershareStateValue int
  | Value_PowershareStopReasonValue int
  | Value_DisplayStateValue int
  | Value_DistanceUnitValue int
  | Value_TemperatureUnitValue int
  | Value_PressureUnitValue int
  | Value_ChargeUnitPreferenceValue int
  | Value_TurnSignalStateValue int
  | Value_MediaStatusValue int
  | Value_SunroofInstalledStateValue int

type_synonym pb_value = "value_oneof option"

section \<open>Messages\<close>

record datum =
  Key :: int
  Value :: "pb_value option"

record payload =
  Payload_Data :: "datum option list"
  Payload_CreatedAt :: "timestamp option"
  Payload_Vin :: string
  Payload_IsResend :: bool

text \<open>The audiences of an alert are a slice, which can be nil.\<close>

record vehicle_alert =
  Alert_Name :: string
  Alert_Audiences :: "int list option"
  Alert_StartedAt :: "timestamp option"
  Alert_EndedAt :: "timestamp option"

record vehicle_alerts =
  Alerts_Alerts :: "vehicle_alert list"
  Alerts_CreatedAt :: "timestamp option"
  Alerts_Vin :: string

record vehicle_error =
  Error_CreatedAt :: "timestamp option"
  Error_Name :: string
  Error_Tags :: "(string \<times> string) list"
  Error_Body :: string

record vehicle_errors =
  Errors_Errors :: "vehicle_error list"
  Errors_CreatedAt :: "timestamp option"
  Errors_Vin :: string

record vehicle_connectivity =
  Connectivity_Vin :: string
  Connectivity_ConnectionId :: string
  Connectivity_Status :: int
  Connectivity_CreatedAt :: "timestamp option"
  Connectivity_NetworkInterface :: string

datatype proto_message =
    PayloadMessage payload
  | AlertsMessage vehicle_alerts
  | ErrorsMessage vehicle_errors
  | ConnectivityMessage vehicle_connectivity

definition Field_Location :: int where "Field_Location = 21"
definition ConnectivityEvent_CONNECTED :: int where "ConnectivityEvent_CONNECTED = 1"
definition ConnectivityEvent_DISCONNECTED :: int where "ConnectivityEvent_DISCONNECTED = 2"

section \<open>Getters\<close>

definition GetStringValue :: "pb_value option \<Rightarrow> string" where
  "GetStringValue v = (case v of Some (Some (Value_StringValue s)) \<Rightarrow> s | _ \<Rightarrow> [])"

definition GetKey :: "datum option \<Rightarrow> int" where
  "GetKey d = (case d of Some d \<Rightarrow> Key d | None \<Rightarrow> 0)"

definition GetValue :: "datum option \<Rightarrow> pb_value option" where
  "GetValue d = (case d of Some d \<Rightarrow> Value d | None \<Rightarrow> None)"

text \<open>
  The protobuf runtime is a parameter: decoding into one of the message types, encoding, and the
  JSON encoding with the options of the program. An error is its text; the encoders return bytes
  and an error, as in Go.
\<close>

record protobuf =
  Unmarshal_Payload :: "bytes \<Rightarrow> string + payload"
  Unmarshal_Alerts :: "bytes \<Rightarrow> string + vehicle_alerts"
  Unmarshal_Errors :: "bytes \<Rightarrow> string + vehicle_errors"
  Unmarshal_Connectivity :: "bytes \<Rightarrow> string + vehicle_connectivity"
  Marshal :: "proto_message \<Rightarrow> bytes \<times> string option"
  protojson_Marshal :: "proto_message option \<Rightarrow> bytes \<times> string option"

end
