(* ===== verification/Go_Float.thy ===== *)
theory Go_Float
  imports Go_Strings "HOL-Library.Monad_Syntax"
begin

text \<open>
  The floating-point functions of Go that \<^verbatim>\<open>telemetry/record.go\<close> uses. A float is its IEEE bit
  pattern and every conversion is exact: \<^verbatim>\<open>strconv.ParseFloat\<close> rounds the rational number that the
  text denotes to nearest, ties to even, \<^verbatim>\<open>fmt.Sprintf("%.5f", x)\<close> rounds the exact value of \<^verbatim>\<open>x\<close> in
  the same way to five decimals, and the scanner part follows \<^verbatim>\<open>fmt.Sscanf\<close> for the verbs \<^verbatim>\<open>%f\<close> and
  \<^verbatim>\<open>%1s\<close>. An error is \<^const>\<open>None\<close>.
\<close>

section \<open>Rounding\<close>

definition round_div :: "nat \<Rightarrow> nat \<Rightarrow> nat" where
  "round_div n d = (let q = n div d; r = n mod d in if 2 * r > d \<or> (2 * r = d \<and> odd q) then q + 1 else q)"

fun bitlen :: "nat \<Rightarrow> nat" where
  "bitlen n = (if n = 0 then 0 else Suc (bitlen (n div 2)))"

declare bitlen.simps [simp del]

text \<open>The floor of the binary logarithm of \<open>n / d\<close>, for positive \<open>n\<close> and \<open>d\<close>.\<close>

definition flog :: "nat \<Rightarrow> nat \<Rightarrow> int" where
  "flog n d = (let k = int (bitlen n) - int (bitlen d)
               in if d * 2 ^ nat k \<le> n * 2 ^ nat (- k) then k else k - 1)"

text \<open>A binary format: its precision, the exponent of its smallest number, its pattern of infinity.\<close>

record float_format =
  prec :: nat
  emin :: int
  inf_bits :: nat

definition float32 :: float_format where
  "float32 = \<lparr>prec = 24, emin = -149, inf_bits = 255 * 2 ^ 23\<rparr>"

definition float64 :: float_format where
  "float64 = \<lparr>prec = 53, emin = -1074, inf_bits = 2047 * 2 ^ 52\<rparr>"

text \<open>
  The pattern of the float nearest to \<open>n / d\<close>, without its sign. The mantissa is the quotient by
  \<open>2 ^ e\<close>; adding it to the shifted exponent lets a mantissa that rounds up carry into the exponent.
\<close>

definition round_float :: "float_format \<Rightarrow> nat \<Rightarrow> nat \<Rightarrow> nat" where
  "round_float fmt n d =
     (if n = 0 then 0
      else let e = max (emin fmt) (flog n d - int (prec fmt - 1));
               q = round_div (n * 2 ^ nat (- e)) (d * 2 ^ nat e)
           in nat (e - emin fmt) * 2 ^ (prec fmt - 1) + q)"

text \<open>A finite pattern as mantissa and exponent of two.\<close>

definition unpack :: "float_format \<Rightarrow> nat \<Rightarrow> nat \<times> int" where
  "unpack fmt bits =
     (let m = bits mod 2 ^ (prec fmt - 1); x = bits div 2 ^ (prec fmt - 1)
      in if x = 0 then (m, emin fmt) else (m + 2 ^ (prec fmt - 1), emin fmt + int x - 1))"

section \<open>ParseFloat\<close>

definition lower :: "char \<Rightarrow> char" where
  "lower c = (if 65 \<le> (of_char c :: nat) \<and> (of_char c :: nat) \<le> 90 then char_of (of_char c + 32 :: nat) else c)"

definition hex_val :: "char \<Rightarrow> nat option" where
  "hex_val c = (if is_digit c then Some (digit_val c)
                else let l = of_char (lower c) :: nat in if 97 \<le> l \<and> l \<le> 102 then Some (l - 87) else None)"

text \<open>\<^verbatim>\<open>strconv.underscoreOK\<close>: an underscore stands between digits, or after a base prefix.\<close>

fun underscores :: "bool \<Rightarrow> char \<Rightarrow> string \<Rightarrow> bool" where
  "underscores hex saw [] = (saw \<noteq> CHR ''_'')"
| "underscores hex saw (c # s) =
     (if is_digit c \<or> hex \<and> hex_val c \<noteq> None then underscores hex CHR ''0'' s
      else if c = CHR ''_'' then saw = CHR ''0'' \<and> underscores hex CHR ''_'' s
      else saw \<noteq> CHR ''_'' \<and> underscores hex CHR ''!'' s)"

definition is_sign :: "char \<Rightarrow> bool" where
  "is_sign c \<longleftrightarrow> c = CHR ''+'' \<or> c = CHR ''-''"

definition skip_sign :: "string \<Rightarrow> bool \<times> string" where
  "skip_sign s = (case s of [] \<Rightarrow> (False, []) | c # cs \<Rightarrow> if is_sign c then (c = CHR ''-'', cs) else (False, s))"

definition has_hex_prefix :: "string \<Rightarrow> bool" where
  "has_hex_prefix s = (case s of a # b # _ \<Rightarrow> a = CHR ''0'' \<and> lower b = CHR ''x'' | _ \<Rightarrow> False)"

definition underscoreOK :: "string \<Rightarrow> bool" where
  "underscoreOK s =
     (let s = snd (skip_sign s);
          p = (case s of a # b # _ \<Rightarrow> a = CHR ''0'' \<and> lower b \<in> {CHR ''b'', CHR ''o'', CHR ''x''} | _ \<Rightarrow> False)
      in if p then underscores (has_hex_prefix s) CHR ''0'' (drop 2 s) else underscores False CHR ''^'' s)"

text \<open>
  The mantissa: digits of the base with at most one point, underscores skipped. The state is the
  value so far, the number of digits after the point, whether a point and whether a digit was seen.
\<close>

fun read_mantissa :: "nat \<Rightarrow> nat \<times> nat \<times> bool \<times> bool \<Rightarrow> string \<Rightarrow> (nat \<times> nat \<times> bool \<times> bool) \<times> string" where
  "read_mantissa base st [] = (st, [])"
| "read_mantissa base (v, k, dot, dig) (c # s) =
     (if c = CHR ''_'' then read_mantissa base (v, k, dot, dig) s
      else if c = CHR ''.'' then
        (if dot then ((v, k, dot, dig), c # s) else read_mantissa base (v, k, True, dig) s)
      else case hex_val c of
             Some x \<Rightarrow> if x < base then read_mantissa base (v * base + x, if dot then k + 1 else k, dot, True) s
                       else ((v, k, dot, dig), c # s)
           | None \<Rightarrow> ((v, k, dot, dig), c # s))"

text \<open>The digits of the exponent; the value stops growing at ten thousand, as in \<^verbatim>\<open>readFloat\<close>.\<close>

fun read_exponent :: "nat \<Rightarrow> string \<Rightarrow> nat \<times> string" where
  "read_exponent e [] = (e, [])"
| "read_exponent e (c # s) =
     (if c = CHR ''_'' then read_exponent e s
      else if is_digit c then read_exponent (if e < 10000 then e * 10 + digit_val c else e) s
      else (e, c # s))"

text \<open>
  \<^verbatim>\<open>readFloat\<close> on a whole string: the sign, and the number as a quotient. The exponent must start
  with a digit; a hexadecimal mantissa needs an exponent.
\<close>

definition readFloat :: "string \<Rightarrow> (bool \<times> nat \<times> nat) option" where
  "readFloat s =
     (let (neg, r) = skip_sign s;
          hex = (has_hex_prefix r \<and> length r > 2);
          base = (if hex then 16 else 10);
          ((v, k, dot, dig), r) = read_mantissa base (0, 0, False, False) (if hex then drop 2 r else r);
          mark = (if hex then CHR ''p'' else CHR ''e'');
          k = (if hex then 4 * k else k); b = (if hex then 2 else 10)
      in if \<not> dig then None
         else case r of
                [] \<Rightarrow> if hex \<or> \<not> underscoreOK s \<and> CHR ''_'' \<in> set s then None else Some (neg, v, b ^ k)
              | c # r \<Rightarrow>
                  if lower c \<noteq> mark then None
                  else let (eneg, r) = skip_sign r
                       in if r = [] \<or> \<not> is_digit (hd r) then None
                          else let (e, r) = read_exponent 0 r
                               in if r \<noteq> [] \<or> (CHR ''_'' \<in> set s \<and> \<not> underscoreOK s) then None
                                  else Some (if eneg then (neg, v, b ^ (k + e)) else (neg, v * b ^ e, b ^ k)))"

definition special :: "string \<Rightarrow> (bool \<times> bool) option" where
  "special s =
     (let (neg, r) = skip_sign s; l = map lower r
      in if l \<in> {''inf'', ''infinity''} then Some (neg, True)
         else if map lower s = ''nan'' then Some (False, False) else None)"

text \<open>The pattern with its sign bit; a value that rounds to infinity is a range error.\<close>

definition sign_bit :: "float_format \<Rightarrow> bool \<Rightarrow> nat" where
  "sign_bit fmt neg = (if neg then inf_bits fmt + 2 ^ (prec fmt - 1) else 0)"

definition ParseFloat :: "float_format \<Rightarrow> string \<Rightarrow> nat option" where
  "ParseFloat fmt s =
     (case special s of
        Some (neg, True) \<Rightarrow> Some (sign_bit fmt neg + inf_bits fmt)
      | Some (_, False) \<Rightarrow> Some (inf_bits fmt + 2 ^ (prec fmt - 2) + (if fmt = float64 then 1 else 0))
      | None \<Rightarrow>
          do { (neg, n, d) \<leftarrow> readFloat s;
               let bits = round_float fmt n d;
               if bits \<ge> inf_bits fmt then None else Some (sign_bit fmt neg + bits) })"

section \<open>Printing with five decimals\<close>

definition pad_left :: "nat \<Rightarrow> string \<Rightarrow> string" where
  "pad_left n s = replicate (n - length s) CHR ''0'' @ s"

text \<open>\<^verbatim>\<open>fmt.Sprintf("%.5f", x)\<close> for a finite float.\<close>

definition Sprintf_5f :: "float_format \<Rightarrow> nat \<Rightarrow> string" where
  "Sprintf_5f fmt bits =
     (let neg = (bits \<ge> sign_bit fmt True);
          (m, e) = unpack fmt (if neg then bits - sign_bit fmt True else bits);
          n = round_div (m * 10 ^ 5 * 2 ^ nat e) (2 ^ nat (- e))
      in (if neg then ''-'' else []) @ itoa_nat (n div 10 ^ 5) @ ''.'' @ pad_left 5 (itoa_nat (n mod 10 ^ 5)))"

section \<open>Scanning\<close>

text \<open>\<^verbatim>\<open>(*ss).accept\<close> on the text scanned so far and the rest of the input.\<close>

definition accept :: "string \<Rightarrow> string \<times> string \<Rightarrow> bool \<times> string \<times> string" where
  "accept ok st = (case st of (buf, r) \<Rightarrow>
     (case r of [] \<Rightarrow> (False, buf, r)
      | c # cs \<Rightarrow> if c \<in> set ok then (True, buf @ [c], cs) else (False, buf, r)))"

definition accept_run :: "string \<Rightarrow> string \<times> string \<Rightarrow> string \<times> string" where
  "accept_run ok st = (case st of (buf, r) \<Rightarrow>
     (buf @ takeWhile (\<lambda>c. c \<in> set ok) r, dropWhile (\<lambda>c. c \<in> set ok) r))"

definition accept_word :: "string list \<Rightarrow> string \<times> string \<Rightarrow> bool \<times> string \<times> string" where
  "accept_word oks st =
     foldl (\<lambda>(b, st) ok. if b then accept ok st else (False, st)) (True, st) oks"

definition decimal_digits :: string where "decimal_digits = ''0123456789_''"
definition hex_digits :: string where "hex_digits = ''0123456789aAbBcCdDeEfF_''"

definition floatToken :: "string \<Rightarrow> string \<times> string" where
  "floatToken s =
     (let (nan, st) = accept_word [''nN'', ''aA'', ''nN''] ([], s)
      in if nan then st
         else let (_, st) = accept ''+-'' st;
                  (inf, st) = accept_word [''iI'', ''nN'', ''fF''] st
              in if inf then st
                 else let (hex, st) = accept_word [''0'', ''xX''] st;
                          digits = (if hex then hex_digits else decimal_digits);
                          st = accept_run digits st;
                          (point, st) = accept ''.'' st;
                          st = (if point then accept_run digits st else st);
                          (ex, st) = accept (if hex then ''pP'' else ''eEpP'') st
                      in if ex then accept_run decimal_digits (snd (accept ''+-'' st)) else st)"

text \<open>
  \<^verbatim>\<open>convertFloat\<close> for \<^verbatim>\<open>float64\<close>; a decimal mantissa with a \<^verbatim>\<open>p\<close> exponent is scaled by \<^verbatim>\<open>math.Ldexp\<close>, which
  overflows to infinity and leaves NaN, the infinities and zero as they are.
\<close>

definition Ldexp :: "nat \<Rightarrow> int \<Rightarrow> nat" where
  "Ldexp bits k =
     (let s = sign_bit float64 True; neg = (bits \<ge> s); b = (if neg then bits - s else bits)
      in if b \<ge> inf_bits float64 then bits
         else let (m, e) = unpack float64 b;
                  r = round_float float64 (m * 2 ^ nat (e + k)) (2 ^ nat (- (e + k)))
              in sign_bit float64 neg + min r (inf_bits float64))"

definition convertFloat :: "string \<Rightarrow> nat option" where
  "convertFloat tok =
     (if CHR ''p'' \<in> set tok \<and> \<not> list_ex (\<lambda>c. c = CHR ''x'' \<or> c = CHR ''X'') tok
      then do { f \<leftarrow> ParseFloat float64 (takeWhile (\<lambda>c. c \<noteq> CHR ''p'') tok);
                m \<leftarrow> Atoi (tl (dropWhile (\<lambda>c. c \<noteq> CHR ''p'') tok));
                Some (Ldexp f m) }
      else ParseFloat float64 tok)"

text \<open>
  \<^verbatim>\<open>SkipSpace\<close> fails at a newline (also after a carriage return). A space of the format
  must meet a space in the input, or its end.
\<close>

definition space_prefix :: "string \<Rightarrow> string option" where
  "space_prefix s = find (\<lambda>p. p \<noteq> [] \<and> prefix p s \<and> p \<noteq> [CHR 0x0A]) white_space"

function skip_blanks :: "string \<Rightarrow> string" where
  "skip_blanks s = (case space_prefix s of None \<Rightarrow> s | Some p \<Rightarrow> skip_blanks (drop (length p) s))"
  by pat_completeness auto
termination
proof (relation "measure length")
  fix s p
  assume "space_prefix s = Some p"
  then have "p \<noteq> []" and "prefix p s" by (auto simp: space_prefix_def find_Some_iff)
  then have "s \<noteq> []" and "length p > 0" by auto
  then show "(drop (length p) s, s) \<in> measure length" by auto
qed simp

declare skip_blanks.simps [simp del]

definition SkipSpace :: "string \<Rightarrow> string option" where
  "SkipSpace s = (let r = skip_blanks s in if r \<noteq> [] \<and> hd r = CHR 0x0A then None else Some r)"

definition match_space :: "string \<Rightarrow> string option" where
  "match_space s = (if s \<noteq> [] \<and> space_prefix s = None then None else Some (skip_blanks s))"

definition match_char :: "char \<Rightarrow> string \<Rightarrow> string option" where
  "match_char c s = (case s of [] \<Rightarrow> None | d # ds \<Rightarrow> if c = d then Some ds else None)"

definition scan_float :: "string \<Rightarrow> (nat \<times> string) option" where
  "scan_float s =
     do { s \<leftarrow> SkipSpace s;
          if s = [] then None
          else let (tok, s) = floatToken s in do { f \<leftarrow> convertFloat tok; Some (f, s) } }"

text \<open>
  \<^verbatim>\<open>%1s\<close>, one byte here: the callers accept ASCII letters only, and a longer rune fails their test
  whatever follows it.
\<close>

definition scan_byte :: "string \<Rightarrow> (string \<times> string) option" where
  "scan_byte s = do { s \<leftarrow> SkipSpace s; case s of [] \<Rightarrow> None | c # cs \<Rightarrow> Some ([c], cs) }"

end
