(* ===== verification/Transforms.thy ===== *)
theory Transforms
  imports Protos Go_Float
begin

text \<open>
  The corrections that \<^verbatim>\<open>telemetry/record.go\<close> applies to decoded messages: locations sent as text,
  numbers in scientific notation, alert timestamps in milliseconds.
\<close>

section \<open>Locations\<close>

definition negate64 :: "nat \<Rightarrow> nat" where
  "negate64 bits = (if bits \<ge> 2 ^ 63 then bits - 2 ^ 63 else bits + 2 ^ 63)"

text \<open>\<^const>\<open>None\<close> is the error. The format is \<^verbatim>\<open>(%f %1s, %f %1s)\<close>.\<close>

definition ParseLocation :: "string \<Rightarrow> location_value option" where
  "ParseLocation s =
     do { s \<leftarrow> match_char CHR ''('' s;
          (lat, s) \<leftarrow> scan_float s;
          s \<leftarrow> match_space s;
          (latQ, s) \<leftarrow> scan_byte s;
          s \<leftarrow> match_char CHR '','' s;
          s \<leftarrow> match_space s;
          (lon, s) \<leftarrow> scan_float s;
          s \<leftarrow> match_space s;
          (lonQ, s) \<leftarrow> scan_byte s;
          s \<leftarrow> match_char CHR '')'' s;
          if \<not> Contains ''NS'' latQ \<or> \<not> Contains ''EW'' lonQ then None
          else Some \<lparr>Latitude = of_nat (if latQ = ''S'' then negate64 lat else lat),
                     Longitude = of_nat (if lonQ = ''W'' then negate64 lon else lon)\<rparr> }"

definition set_value :: "value_oneof \<Rightarrow> datum option \<Rightarrow> datum option" where
  "set_value v d = map_option (\<lambda>d. d\<lparr>Value := Some (Some v)\<rparr>) d"

fun transformLocation_data :: "datum option list \<Rightarrow> datum option list" where
  "transformLocation_data [] = []"
| "transformLocation_data (datum # data) =
     (if GetKey datum = Field_Location
      then (let strVal = GetStringValue (GetValue datum)
            in if strVal \<noteq> [] then
                 (case ParseLocation strVal of
                    Some loc \<Rightarrow> set_value (Value_LocationValue loc) datum
                  | None \<Rightarrow> datum)
               else datum) # data
      else datum # transformLocation_data data)"

definition transformLocation :: "payload \<Rightarrow> payload" where
  "transformLocation message = message\<lparr>Payload_Data := transformLocation_data (Payload_Data message)\<rparr>"

section \<open>Scientific notation\<close>

text \<open>The regular expression \<^verbatim>\<open>^[+-]?(\d*\.\d+|\d+\.\d*)([eE][+-]?\d+)$\<close>.\<close>

definition scientificNotationFloatRegex :: "string \<Rightarrow> bool" where
  "scientificNotationFloatRegex s =
     (let r = snd (skip_sign s); ip = takeWhile is_digit r
      in case dropWhile is_digit r of
           c # r \<Rightarrow>
             c = CHR ''.'' \<and> (ip \<noteq> [] \<or> takeWhile is_digit r \<noteq> []) \<and>
             (case dropWhile is_digit r of
                e # r \<Rightarrow> e \<in> {CHR ''e'', CHR ''E''} \<and>
                  snd (skip_sign r) \<noteq> [] \<and> list_all is_digit (snd (skip_sign r))
              | [] \<Rightarrow> False)
         | [] \<Rightarrow> False)"

definition transformScientificNotation_datum :: "datum option \<Rightarrow> datum option" where
  "transformScientificNotation_datum datum =
     (let strVal = GetStringValue (GetValue datum)
      in if strVal \<noteq> [] \<and> scientificNotationFloatRegex strVal then
           (case ParseFloat float32 strVal of
              Some floatVal \<Rightarrow> set_value (Value_StringValue (Sprintf_5f float32 floatVal)) datum
            | None \<Rightarrow> datum)
         else datum)"

definition transformScientificNotation :: "payload \<Rightarrow> payload" where
  "transformScientificNotation message =
     message\<lparr>Payload_Data := map transformScientificNotation_datum (Payload_Data message)\<rparr>"

section \<open>Timestamps\<close>

definition maxSecondsInDuration :: int where "maxSecondsInDuration = 315576000000"

definition convertTimestamp :: "timestamp option \<Rightarrow> timestamp option" where
  "convertTimestamp input =
     (case input of
        None \<Rightarrow> None
      | Some t \<Rightarrow> if Seconds t < maxSecondsInDuration then Some t
                  else Some (timestamp_New (UnixMilli (Seconds t))))"

definition transformTimestamp :: "vehicle_alerts \<Rightarrow> vehicle_alerts" where
  "transformTimestamp message =
     message\<lparr>Alerts_Alerts := map (\<lambda>alert. alert\<lparr>Alert_StartedAt := convertTimestamp (Alert_StartedAt alert),
                                  Alert_EndedAt := convertTimestamp (Alert_EndedAt alert)\<rparr>)
                                (Alerts_Alerts message)\<rparr>"

section \<open>Rounding to five decimals\<close>

lemma round_div_bound:
  assumes "d > 0"
  shows "2 * \<bar>int (round_div n d) * int d - int n\<bar> \<le> int d"
proof -
  have "n = n div d * d + n mod d" by simp
  then have n: "int n = int (n div d) * int d + int (n mod d)" by (metis of_nat_add of_nat_mult)
  have m: "n mod d < d" using assms by simp
  show ?thesis
  proof (cases "2 * (n mod d) > d \<or> (2 * (n mod d) = d \<and> odd (n div d))")
    case True
    then have "round_div n d = n div d + 1" by (simp add: round_div_def Let_def)
    then have "int (round_div n d) * int d - int n = int d - int (n mod d)"
      using n by (simp add: algebra_simps)
    moreover have "d \<le> 2 * (n mod d)" using True by auto
    ultimately show ?thesis using m by simp
  next
    case False
    then have "round_div n d = n div d" by (simp add: round_div_def Let_def)
    then have "int (round_div n d) * int d - int n = - int (n mod d)" using n by simp
    moreover have "2 * (n mod d) \<le> d" using False by auto
    ultimately show ?thesis by simp
  qed
qed

definition decimal_chars :: "char set" where
  "decimal_chars = {c. is_digit c \<or> c = CHR ''-'' \<or> c = CHR ''.''}"

lemma decimal_charsI: "is_digit c \<Longrightarrow> c \<in> decimal_chars"
  by (simp add: decimal_chars_def)

lemma pad_left_digits: "set (pad_left n (itoa_nat k)) \<subseteq> decimal_chars"
proof -
  have "set (itoa_nat k) \<subseteq> decimal_chars"
    using itoa_nat_digits [of k] by (auto simp: list_all_iff intro: decimal_charsI)
  moreover have "CHR ''0'' \<in> decimal_chars" by (simp add: decimal_chars_def is_digit_def)
  ultimately show ?thesis by (auto simp: pad_left_def)
qed

lemma Sprintf_5f_chars: "set (Sprintf_5f fmt bits) \<subseteq> decimal_chars"
proof -
  have "set (itoa_nat k) \<subseteq> decimal_chars" for k
    using itoa_nat_digits [of k] by (auto simp: list_all_iff intro: decimal_charsI)
  moreover have "CHR ''-'' \<in> decimal_chars" "CHR ''.'' \<in> decimal_chars" by (simp_all add: decimal_chars_def)
  ultimately show ?thesis
    unfolding Sprintf_5f_def Let_def using pad_left_digits
    by (auto split: prod.splits if_splits) blast+
qed

lemma regex_exponent:
  assumes "scientificNotationFloatRegex s"
  shows "CHR ''e'' \<in> set s \<or> CHR ''E'' \<in> set s"
proof -
  have sub: "set (snd (skip_sign s)) \<subseteq> set s"
    by (auto simp: skip_sign_def split: list.splits if_splits)
  obtain c r e r' where 1: "dropWhile is_digit (snd (skip_sign s)) = c # r"
    and 2: "dropWhile is_digit r = e # r'" and "e \<in> {CHR ''e'', CHR ''E''}"
    using assms by (auto simp: scientificNotationFloatRegex_def Let_def split: list.splits)
  moreover have "e \<in> set r" using 2 by (metis set_dropWhileD list.set_intros(1))
  moreover have "set r \<subseteq> set (snd (skip_sign s))"
    using 1 by (metis set_dropWhileD set_subset_Cons subset_eq)
  ultimately show ?thesis using sub by auto
qed

lemma Sprintf_5f_not_scientific: "\<not> scientificNotationFloatRegex (Sprintf_5f fmt bits)"
  using regex_exponent Sprintf_5f_chars [of fmt bits]
  by (fastforce simp: decimal_chars_def is_digit_def)

section \<open>The transforms of vehicle data\<close>

lemma GetKey_set_value [simp]: "GetKey (set_value v d) = GetKey d"
  by (simp add: GetKey_def set_value_def split: option.splits)

lemma GetStringValue_set_value:
  "GetStringValue (GetValue (set_value v d)) =
     (case d of None \<Rightarrow> [] | Some _ \<Rightarrow> (case v of Value_StringValue s \<Rightarrow> s | _ \<Rightarrow> []))"
  by (simp add: GetStringValue_def GetValue_def set_value_def split: option.splits)

lemma GetKey_transformScientificNotation_datum [simp]:
  "GetKey (transformScientificNotation_datum d) = GetKey d"
  by (simp add: transformScientificNotation_datum_def Let_def split: option.splits)

lemma transformScientificNotation_datum_idem [simp]:
  "transformScientificNotation_datum (transformScientificNotation_datum d) =
     transformScientificNotation_datum d"
  by (simp add: transformScientificNotation_datum_def Let_def GetStringValue_set_value
      Sprintf_5f_not_scientific split: option.splits)

lemma ParseLocation_needs_paren:
  assumes "set s \<subseteq> decimal_chars"
  shows "ParseLocation s = None"
proof -
  have "match_char CHR ''('' s = None"
    using assms by (auto simp: match_char_def decimal_chars_def is_digit_def split: list.splits)
  then show ?thesis by (simp add: ParseLocation_def)
qed

definition locate :: "datum option \<Rightarrow> datum option" where
  "locate datum =
     (let strVal = GetStringValue (GetValue datum)
      in if strVal \<noteq> [] then
           (case ParseLocation strVal of
              Some loc \<Rightarrow> set_value (Value_LocationValue loc) datum | None \<Rightarrow> datum)
         else datum)"

lemma transformLocation_data_Cons:
  "transformLocation_data (d # ds) =
     (if GetKey d = Field_Location then locate d # ds else d # transformLocation_data ds)"
  by (simp add: locate_def)

lemma locate_settled [simp]:
  "locate (transformScientificNotation_datum (locate d)) = transformScientificNotation_datum (locate d)"
proof (cases "transformScientificNotation_datum (locate d) = locate d")
  case True
  then show ?thesis
    by (auto simp: locate_def Let_def GetStringValue_set_value split: option.splits value_oneof.splits)
next
  case False
  then obtain bits where "transformScientificNotation_datum (locate d) =
      set_value (Value_StringValue (Sprintf_5f float32 bits)) (locate d)"
    by (auto simp: transformScientificNotation_datum_def Let_def split: option.splits if_splits)
  then show ?thesis
    using ParseLocation_needs_paren [OF Sprintf_5f_chars, of float32 bits]
    by (auto simp: locate_def Let_def GetStringValue_set_value split: option.splits)
qed

lemma GetKey_locate [simp]: "GetKey (locate d) = GetKey d"
  by (simp add: locate_def Let_def split: option.splits)

lemma transformLocation_data_settled:
  "transformLocation_data (map transformScientificNotation_datum (transformLocation_data ds)) =
     map transformScientificNotation_datum (transformLocation_data ds)"
proof (induction ds)
  case (Cons d ds)
  then show ?case by (simp add: transformLocation_data_Cons del: transformLocation_data.simps(2))
qed simp

section \<open>Scanning a location\<close>

text \<open>A character that starts no white space.\<close>

definition plain :: "char \<Rightarrow> bool" where
  "plain c = list_all (\<lambda>p. p \<noteq> [] \<and> hd p \<noteq> c) white_space"

lemma is_digit_cases: "is_digit c \<Longrightarrow> c \<in> set ''0123456789''"
proof -
  assume "is_digit c"
  then have k: "of_char c - 48 < (10::nat)" and "(of_char c :: nat) = 48 + (of_char c - 48)"
    by (auto simp: is_digit_def)
  then have "digit_char (of_char c - 48) = char_of (of_char c :: nat)" by (simp add: digit_char_def)
  then have "c = digit_char (of_char c - 48)" by simp
  moreover have "digit_char d \<in> set ''0123456789''" if "d < 10" for d
  proof -
    have "d \<in> {0, 1, 2, 3, 4, 5, 6, 7, 8, 9}" using that unfolding insert_iff empty_iff by presburger
    then show ?thesis by auto
  qed
  ultimately show ?thesis using k by metis
qed

lemma first_bytes:
  "map hd white_space = [CHR 0x09, CHR 0x0A, CHR 0x0B, CHR 0x0C, CHR 0x0D, CHR '' '', CHR 0xC2,
     CHR 0xC2, CHR 0xE1, CHR 0xE2, CHR 0xE2, CHR 0xE2, CHR 0xE2, CHR 0xE2, CHR 0xE2, CHR 0xE2, CHR 0xE2,
     CHR 0xE2, CHR 0xE2, CHR 0xE2, CHR 0xE2, CHR 0xE2, CHR 0xE2, CHR 0xE2, CHR 0xE3]"
  by code_simp

lemma white_space_ne: "[] \<notin> set white_space"
  by (simp add: white_space_def)

lemma plain_eval: "plain c = (c \<notin> {CHR 0x09, CHR 0x0A, CHR 0x0B, CHR 0x0C, CHR 0x0D, CHR '' '',
    CHR 0xC2, CHR 0xE1, CHR 0xE2, CHR 0xE3})"
proof -
  have "plain c = (c \<notin> set (map hd white_space))"
    using white_space_ne by (auto simp: plain_def list_all_iff)
  then show ?thesis unfolding first_bytes by auto
qed

lemma plain_digit: "is_digit c \<Longrightarrow> plain c"
  using is_digit_cases [of c] by (auto simp: plain_eval)

lemma space_prefix_plain: "plain c \<Longrightarrow> space_prefix (c # s) = None"
  by (auto simp: space_prefix_def plain_def find_None_iff list_all_iff prefix_Cons)

lemma skip_blanks_plain: "plain c \<Longrightarrow> skip_blanks (c # s) = c # s"
  by (subst skip_blanks.simps) (simp add: space_prefix_plain)

lemma SkipSpace_plain: "plain c \<Longrightarrow> SkipSpace (c # s) = Some (c # s)"
proof -
  assume p: "plain c"
  then have "c \<noteq> CHR 0x0A" by (simp add: plain_eval)
  with p show ?thesis by (simp add: SkipSpace_def skip_blanks_plain)
qed

lemma white_space_first:
  "white_space = [[CHR 0x09], [CHR 0x0A], [CHR 0x0B], [CHR 0x0C], [CHR 0x0D], '' ''] @ drop 6 white_space"
  by code_simp

lemma space_prefix_blank: "space_prefix (CHR '' '' # s) = Some '' ''"
  unfolding space_prefix_def by (subst white_space_first) simp

lemma match_space_plain: "plain c \<Longrightarrow> match_space (CHR '' '' # c # s) = Some (c # s)"
  by (simp add: match_space_def space_prefix_blank skip_blanks.simps [of "CHR '' '' # c # s"]
      skip_blanks_plain)

lemma scan_byte_plain: "plain c \<Longrightarrow> scan_byte (c # s) = Some ([c], s)"
  by (simp add: scan_byte_def SkipSpace_plain)

text \<open>A decimal number as the vehicles send it: digits, a point, digits.\<close>

definition decimal_text :: "string \<Rightarrow> bool" where
  "decimal_text a \<longleftrightarrow>
     (let i = takeWhile is_digit a
      in i \<noteq> [] \<and> (case dropWhile is_digit a of [] \<Rightarrow> False
                   | c # f \<Rightarrow> c = CHR ''.'' \<and> list_all is_digit f))"

lemma decimal_textE:
  assumes "decimal_text a"
  obtains c i f where "a = c # i @ CHR ''.'' # f" "is_digit c" "list_all is_digit i" "list_all is_digit f"
proof -
  obtain f where f: "dropWhile is_digit a = CHR ''.'' # f" "list_all is_digit f"
    and ne: "takeWhile is_digit a \<noteq> []"
    using assms by (auto simp: decimal_text_def Let_def split: list.splits)
  obtain c i where i: "takeWhile is_digit a = c # i" using ne by (cases "takeWhile is_digit a") auto
  have "a = takeWhile is_digit a @ dropWhile is_digit a" by simp
  then have "a = (c # i) @ CHR ''.'' # f" using i f by metis
  moreover have "list_all is_digit (c # i)"
    using i by (metis list_all_iff set_takeWhileD)
  ultimately show thesis using that f by simp
qed

lemma digit_in_digits: "is_digit c \<Longrightarrow> c \<in> set decimal_digits"
  using is_digit_cases [of c] by (auto simp: decimal_digits_def)

lemma accept_run_digits:
  assumes "list_all is_digit ds" and "c \<notin> set decimal_digits"
  shows "accept_run decimal_digits (buf, ds @ c # r) = (buf @ ds, c # r)"
proof -
  have "\<forall>x \<in> set ds. x \<in> set decimal_digits"
    using assms(1) digit_in_digits by (auto simp: list_all_iff)
  then show ?thesis using assms(2)
    by (simp add: accept_run_def takeWhile_append takeWhile_eq_all_conv [THEN iffD2] dropWhile_append
        dropWhile_eq_Nil_conv [THEN iffD2])
qed

lemma floatToken_digits:
  assumes "is_digit c" "list_all is_digit i" "list_all is_digit f"
  shows "floatToken (c # i @ CHR ''.'' # f @ CHR '' '' # r) =
           (c # i @ CHR ''.'' # f, CHR '' '' # r)"
proof -
  let ?t = "i @ CHR ''.'' # f @ CHR '' '' # r"
  have nd: "CHR ''.'' \<notin> set decimal_digits" "CHR '' '' \<notin> set decimal_digits"
    by (simp_all add: decimal_digits_def)
  have c: "c \<in> set ''0123456789''" by (rule is_digit_cases [OF assms(1)])
  have x: "hd ?t \<noteq> CHR ''x''" "hd ?t \<noteq> CHR ''X''"
    using assms(2) by (cases i; auto simp: is_digit_def)+
  have ne: "?t \<noteq> []" by simp
  then obtain h t where ht: "?t = h # t" by (cases ?t) auto
  have hex: "\<exists>b. accept_word [''0'', ''xX''] ([], c # ?t) = (False, b) \<and>
      accept_run decimal_digits b = (c # i, CHR ''.'' # f @ CHR '' '' # r)"
  proof (cases "c = CHR ''0''")
    case True
    then have "accept_word [''0'', ''xX''] ([], c # ?t) = (False, [c], ?t)"
      using x ht by (simp add: accept_word_def accept_def)
    moreover have "accept_run decimal_digits ([c], ?t) = (c # i, CHR ''.'' # f @ CHR '' '' # r)"
      using accept_run_digits [OF assms(2) nd(1), of "[c]"] by simp
    ultimately show ?thesis by blast
  next
    case False
    then have "accept_word [''0'', ''xX''] ([], c # ?t) = (False, [], c # ?t)"
      by (simp add: accept_word_def accept_def)
    moreover have "accept_run decimal_digits ([], c # ?t) = (c # i, CHR ''.'' # f @ CHR '' '' # r)"
      using accept_run_digits [of "c # i", OF _ nd(1), of "[]"] assms by simp
    ultimately show ?thesis by blast
  qed
  have "accept_word [''nN'', ''aA'', ''nN''] ([], c # ?t) = (False, [], c # ?t)"
    "accept ''+-'' ([], c # ?t) = (False, [], c # ?t)"
    "accept_word [''iI'', ''nN'', ''fF''] ([], c # ?t) = (False, [], c # ?t)"
    using c by (auto simp: accept_word_def accept_def)
  moreover have "accept_run decimal_digits (c # i @ ''.'', f @ CHR '' '' # r) =
      (c # i @ CHR ''.'' # f, CHR '' '' # r)"
    using accept_run_digits [OF assms(3) nd(2), of "c # i @ ''.''"] by simp
  ultimately show ?thesis
    using hex by (auto simp: floatToken_def Let_def accept_def)
qed

lemma scan_float_decimal:
  assumes "decimal_text a"
  shows "scan_float (a @ CHR '' '' # r) = map_option (\<lambda>f. (f, CHR '' '' # r)) (ParseFloat float64 a)"
proof -
  obtain c i f where a: "a = c # i @ CHR ''.'' # f" and d: "is_digit c" "list_all is_digit i" "list_all is_digit f"
    by (rule decimal_textE [OF assms])
  have "CHR ''p'' \<notin> set a" using d by (auto simp: a is_digit_def list_all_iff)
  then have "convertFloat a = ParseFloat float64 a" by (simp add: convertFloat_def)
  then show ?thesis
    using floatToken_digits [OF d, of r] SkipSpace_plain [OF plain_digit [OF d(1)]]
    by (cases "ParseFloat float64 a") (simp_all add: scan_float_def a)
qed

lemma decimal_text_first: "decimal_text a \<Longrightarrow> \<exists>c s. a = c # s \<and> plain c"
  by (erule decimal_textE) (auto intro: plain_digit)

section \<open>What the transforms do\<close>

text \<open>
  C34: A location text \<^verbatim>\<open>(<lat> <q>, <lon> <q>)\<close> with decimal numbers becomes a location whose
  latitude and longitude are the nearest doubles, negative for \<^verbatim>\<open>S\<close> and \<^verbatim>\<open>W\<close>; with any other letter in
  place of the quadrants it is refused. What follows the closing parenthesis is ignored.
\<close>

theorem ParseLocation_decimal:
  assumes "decimal_text a" and "decimal_text b" and "plain q" and "plain q'"
    and "ParseFloat float64 a = Some lat" and "ParseFloat float64 b = Some lon"
  shows "ParseLocation (''('' @ a @ '' '' @ [q] @ '', '' @ b @ '' '' @ [q'] @ '')'' @ rest) =
     (if q \<in> set ''NS'' \<and> q' \<in> set ''EW''
      then Some \<lparr>Latitude = of_nat (if q = CHR ''S'' then negate64 lat else lat),
                 Longitude = of_nat (if q' = CHR ''W'' then negate64 lon else lon)\<rparr>
      else None)"
proof -
  obtain c s where b: "b = c # s" and c: "plain c" using decimal_text_first [OF assms(2)] by blast
  have q: "Contains ''NS'' [q] \<longleftrightarrow> q \<in> set ''NS''" "Contains ''EW'' [q'] \<longleftrightarrow> q' \<in> set ''EW''"
    by (auto simp: Contains_def)
  have b': "match_space (CHR '' '' # b @ r) = Some (b @ r)" for r
    using match_space_plain [OF c] by (simp add: b)
  show ?thesis
    using assms(3-6) q
    by (auto simp: ParseLocation_def match_char_def scan_float_decimal [OF assms(1)]
        scan_float_decimal [OF assms(2)] match_space_plain scan_byte_plain b')
qed

lemmas read_eval = special_def skip_sign_def is_sign_def readFloat_def has_hex_prefix_def
  hex_val_def is_digit_def digit_val_def lower_def Let_def

lemmas round_eval = round_float_def flog_def float64_def float32_def bitlen.simps round_div_def Let_def

lemma ParseFloat_read:
  "special s = None \<Longrightarrow> readFloat s = Some (neg, n, d) \<Longrightarrow> round_float fmt n d = bits \<Longrightarrow> bits < inf_bits fmt \<Longrightarrow>
     ParseFloat fmt s = Some (sign_bit fmt neg + bits)"
  by (auto simp: ParseFloat_def Let_def)

lemma inf_bits_float64: "inf_bits float64 = 9218868437227405312"
  by (simp add: float64_def)

lemma ParseFloat32_bound: "ParseFloat float32 s = Some bits \<Longrightarrow> bits < 2 ^ 32"
  by (auto simp: ParseFloat_def Let_def sign_bit_def float32_def float64_def bind_eq_Some_conv
      split: option.splits if_splits bool.splits)

lemma ParseFloat_example: "ParseFloat float64 ''37.5'' = Some 4630474473122824192"
proof -
  have "special ''37.5'' = None" "readFloat ''37.5'' = Some (False, 375, 10)" by (simp_all add: read_eval)
  moreover have "round_float float64 375 10 = 4630474473122824192" by (simp add: round_eval)
  ultimately show ?thesis
    using ParseFloat_read [of "''37.5''" False 375 10 float64 4630474473122824192]
    by (simp add: sign_bit_def inf_bits_float64)
qed

lemma ParseFloat_example': "ParseFloat float64 ''2.25'' = Some 4612248968380809216"
proof -
  have "special ''2.25'' = None" "readFloat ''2.25'' = Some (False, 225, 100)" by (simp_all add: read_eval)
  moreover have "round_float float64 225 100 = 4612248968380809216" by (simp add: round_eval)
  ultimately show ?thesis
    using ParseFloat_read [of "''2.25''" False 225 100 float64 4612248968380809216]
    by (simp add: sign_bit_def inf_bits_float64)
qed

theorem ParseLocation_decimal_witness:
  "ParseLocation ''(37.5 N, 2.25 W)'' =
     Some \<lparr>Latitude = 4630474473122824192, Longitude = 13835621005235585024\<rparr>"
proof -
  have d: "decimal_text ''37.5''" "decimal_text ''2.25''" by (simp_all add: decimal_text_def is_digit_def)
  have "plain CHR ''N''" "plain CHR ''W''" by (simp_all add: plain_eval)
  then show ?thesis
    using ParseLocation_decimal [OF d _ _ ParseFloat_example ParseFloat_example', of "CHR ''N''" "CHR ''W''" "[]"]
    by (simp add: negate64_def)
qed

text \<open>
  The corrections of vehicle data are stable: transforming the locations and the numbers in
  scientific notation of a payload that has been transformed changes nothing, so a record that is
  processed again keeps its payload.
\<close>

theorem payload_transforms_idempotent:
  "transformScientificNotation (transformLocation (transformScientificNotation (transformLocation message))) =
     transformScientificNotation (transformLocation message)"
  by (simp add: transformScientificNotation_def transformLocation_def transformLocation_data_settled o_def)


lemma ParseFloat32_example: "ParseFloat float32 ''1.5e-3'' = Some 985963430"
proof -
  have "special ''1.5e-3'' = None" "readFloat ''1.5e-3'' = Some (False, 15, 10000)" by (simp_all add: read_eval)
  moreover have "round_float float32 15 10000 = 985963430" by (simp add: round_eval)
  ultimately show ?thesis
    using ParseFloat_read [of "''1.5e-3''" False 15 10000 float32 985963430]
    by (simp add: sign_bit_def float32_def)
qed


text \<open>
  An alert time in milliseconds (a seconds field of at least 315576000000, ten thousand years)
  becomes a valid timestamp of the same instant; any other time is kept.
\<close>

theorem convertTimestamp_instant:
  "convertTimestamp (Some t) =
     (if Seconds t \<ge> 315576000000
      then Some \<lparr>Seconds = Seconds t div 1000, Nanos = Seconds t mod 1000 * 10 ^ 6\<rparr> else Some t)"
proof -
  have "Seconds t * 10 ^ 6 div 10 ^ 9 = Seconds t div 1000"
    using div_mult_mult1 [of "10 ^ 6 :: int" "Seconds t" 1000] by (simp add: mult.commute)
  moreover have "Seconds t * 10 ^ 6 mod 10 ^ 9 = Seconds t mod 1000 * 10 ^ 6"
    using mult_mod_left [of "Seconds t" 1000 "10 ^ 6 :: int"] by simp
  ultimately show ?thesis
    by (simp add: convertTimestamp_def maxSecondsInDuration_def timestamp_New_def UnixMilli_def)
qed

end
