(* ===== verification/Identity.thy ===== *)
theory Identity
  imports Go_Strings
begin

text \<open>
  The identity of a connecting device (\<^verbatim>\<open>messages/identity.go\<close>): the tables of issuers, OIDs and
  organizational units, the functions that turn a verified client certificate into a client type
  and a device id, and the dotted form \<^verbatim>\<open>client_type.device_id\<close> with its parser.
\<close>

section \<open>Certificates and tables\<close>

text \<open>The fields of \<^verbatim>\<open>x509.Certificate\<close> that the code reads; an OID is a list of integers.\<close>

record x509_certificate =
  Subject_CommonName :: string
  Subject_OrganizationalUnit :: "string list"
  Issuer_CommonName :: string
  UnknownExtKeyUsage :: "int list list"

datatype cert_error = ErrUnauthorizedCert | ErrExcludedCert

definition knownIssuers :: "(string \<times> string) list" where
  "knownIssuers =
     [(''TeslaMotors'', ''vehicle_device''),
      (''Tesla Issuing CA'', ''vehicle_device''),
      (''Tesla Motors Products CA'', ''vehicle_device'')]"

definition knownOIDIssuers :: "string list" where
  "knownOIDIssuers =
     [''Tesla Motors Product Issuing CA'',
      ''Tesla Motors Product RSA Issuing CA'',
      ''Tesla Motors GF3 Product Issuing CA'',
      ''Tesla Motors GF3 Product RSA Issuing CA'',
      ''Tesla Energy Product Issuing CA'',
      ''Tesla Energy GF0 Product Issuing CA'',
      ''Tesla Motors GF0 Product Issuing CA'',
      ''Tesla Motors GF Austin Product Issuing CA'',
      ''Tesla Motors GF Berlin Product Issuing CA'',
      ''Tesla Product Access Issuing CA'',
      ''Tesla China Product Access Issuing CA'',
      ''Tesla GF0 Product Access Issuing CA'',
      ''Tesla GF3 Product Access Issuing CA'',
      ''Tesla GF Austin Product Access Issuing CA'',
      ''Tesla GF Berlin Product Access Issuing CA'']"

definition oidMap :: "(string \<times> string) list" where
  "oidMap =
     [(''1.3.6.1.4.1.49279.2.4.1'', ''vehicle_device''),
      (''1.3.6.1.4.1.49279.2.4.11'', ''vehicle_board_device''),
      (''1.3.6.1.4.1.49279.2.4.2'', ''energy_device''),
      (''1.3.6.1.4.1.49279.2.4.12'', ''das_device''),
      (''1.3.6.1.4.1.49279.2.4.14'', ''vehicle_service''),
      (''1.3.6.1.4.1.49279.2.4.15'', ''das_service''),
      (''1.3.6.1.4.1.49279.2.4.16'', ''energy_service''),
      (''1.3.6.1.4.1.49279.2.4.28'', ''robotics_device''),
      (''1.3.6.1.4.1.49279.2.5.1'', ''vehicle_device''),
      (''1.3.6.1.4.1.49279.2.5.11'', ''vehicle_board_device''),
      (''1.3.6.1.4.1.49279.2.5.2'', ''energy_device''),
      (''1.3.6.1.4.1.49279.2.5.12'', ''das_device''),
      (''1.3.6.1.4.1.49279.2.5.14'', ''vehicle_service''),
      (''1.3.6.1.4.1.49279.2.5.15'', ''das_service''),
      (''1.3.6.1.4.1.49279.2.5.16'', ''energy_service''),
      (''1.3.6.1.4.1.49279.2.5.28'', ''robotics_device'')]"

definition ouMap :: "(string \<times> string) list" where
  "ouMap =
     [(''Solar Inverter'', ''solar_inverter_device''),
      (''Gen3 Wall Connector'', ''wall_connector_device'')]"

definition excludedOIDs :: "(string \<times> string) list" where
  "excludedOIDs = [(''1.3.6.1.4.1.49279.2.5.1.1'', ''WifiEapCertOID'')]"

text \<open>\<^verbatim>\<open>asn1.ObjectIdentifier.String\<close>: the components in decimal, joined by dots.\<close>

fun oid_String :: "int list \<Rightarrow> string" where
  "oid_String [] = []"
| "oid_String [n] = Itoa n"
| "oid_String (n # ns) = Itoa n @ ''.'' @ oid_String ns"

section \<open>Operations\<close>

fun createIdentityFromOU :: "string list \<Rightarrow> string \<Rightarrow> bool \<times> string \<times> string" where
  "createIdentityFromOU [] deviceID = (False, [], [])"
| "createIdentityFromOU (ou # ous) deviceID =
     (case map_of ouMap ou of
        Some clientType \<Rightarrow> (True, clientType, deviceID)
      | None \<Rightarrow> createIdentityFromOU ous deviceID)"

fun createIdentifyFromOID_loop ::
    "string list \<Rightarrow> int list list \<Rightarrow> string \<Rightarrow> cert_error + string \<times> string" where
  "createIdentifyFromOID_loop ous [] deviceID = Inl ErrUnauthorizedCert"
| "createIdentifyFromOID_loop ous (oid # oids) deviceID =
     (case map_of excludedOIDs (oid_String oid) of
        Some _ \<Rightarrow> Inl ErrExcludedCert
      | None \<Rightarrow>
          (case map_of oidMap (oid_String oid) of
             Some clientType \<Rightarrow>
               (case createIdentityFromOU ous deviceID of
                  (True, overrideClientType, overrideDeviceID) \<Rightarrow>
                    Inr (overrideClientType, overrideDeviceID)
                | (False, _, _) \<Rightarrow> Inr (clientType, deviceID))
           | None \<Rightarrow> createIdentifyFromOID_loop ous oids deviceID))"

definition createIdentifyFromOID ::
    "x509_certificate \<Rightarrow> string \<Rightarrow> cert_error + string \<times> string" where
  "createIdentifyFromOID fullCert deviceID =
     createIdentifyFromOID_loop (Subject_OrganizationalUnit fullCert)
       (UnknownExtKeyUsage fullCert) deviceID"

definition CreateIdentityFromCert :: "x509_certificate \<Rightarrow> cert_error + string \<times> string" where
  "CreateIdentityFromCert fullCert =
     (let deviceID = ReplaceAll CHR ''.'' CHR ''-'' (Subject_CommonName fullCert);
          issuer = Issuer_CommonName fullCert
      in if issuer \<in> set knownOIDIssuers then createIdentifyFromOID fullCert deviceID
         else (case map_of knownIssuers issuer of
                 None \<Rightarrow> Inl ErrUnauthorizedCert
               | Some clientType \<Rightarrow>
                   Inr (if issuer = ''Tesla Motors Products CA'' \<and>
                           length (Subject_OrganizationalUnit fullCert) > 0 \<and>
                           Subject_OrganizationalUnit fullCert ! 0 = ''Tesla Motors SN''
                        then ''vehicle_board_device'' else clientType, deviceID)))"

definition BuildClientID :: "string \<Rightarrow> string \<Rightarrow> string" where
  "BuildClientID clientType deviceID = clientType @ ''.'' @ deviceID"

text \<open>\<^verbatim>\<open>SplitN\<close> always returns one or two parts here, so the equation for no part is never used.\<close>

definition ParseSenderID :: "string \<Rightarrow> string \<times> string" where
  "ParseSenderID senderID =
     (case SplitN2 CHR ''.'' senderID of
        [] \<Rightarrow> ([], [])
      | [p] \<Rightarrow> (p, [])
      | p # q # _ \<Rightarrow> (p, q))"

section \<open>What an accepted certificate gives\<close>

definition client_types :: "string list" where
  "client_types = map snd knownIssuers @ map snd oidMap @ map snd ouMap @ [''vehicle_board_device'']"

lemma client_types_no_dot: "ct \<in> set client_types \<Longrightarrow> CHR ''.'' \<notin> set ct"
  by (auto simp: client_types_def knownIssuers_def oidMap_def ouMap_def)

lemma createIdentityFromOU_True:
  "createIdentityFromOU ous d = (True, ct, d') \<Longrightarrow> d' = d \<and> ct \<in> set (map snd ouMap)"
  by (induction ous d rule: createIdentityFromOU.induct) (auto split: option.splits dest: map_of_snd)

lemma createIdentifyFromOID_loop_Inr:
  "createIdentifyFromOID_loop ous oids d = Inr (ct, d') \<Longrightarrow>
     d' = d \<and> ct \<in> set (map snd oidMap) \<union> set (map snd ouMap)"
  by (induction ous oids d rule: createIdentifyFromOID_loop.induct)
     (auto split: option.splits prod.splits bool.splits
        dest!: createIdentityFromOU_True dest: map_of_snd)

lemma CreateIdentityFromCert_Inr:
  assumes "CreateIdentityFromCert c = Inr (ct, d)"
  shows "d = ReplaceAll CHR ''.'' CHR ''-'' (Subject_CommonName c)"
    and "ct \<in> set client_types"
    and "Issuer_CommonName c \<in> set knownOIDIssuers \<union> fst ` set knownIssuers"
  using assms
  by (auto simp: CreateIdentityFromCert_def createIdentifyFromOID_def Let_def client_types_def
      split: if_splits option.splits dest!: createIdentifyFromOID_loop_Inr
      dest: map_of_snd map_of_fst)

lemma ParseSenderID_BuildClientID:
  "CHR ''.'' \<notin> set ct \<Longrightarrow> ParseSenderID (BuildClientID ct d) = (ct, d)"
  by (simp add: ParseSenderID_def BuildClientID_def SplitN2_append)

text \<open>The loop over the extended key usages is decided by the first OID that a table knows.\<close>

definition oid_known :: "int list \<Rightarrow> bool" where
  "oid_known oid \<longleftrightarrow>
     map_of excludedOIDs (oid_String oid) \<noteq> None \<or> map_of oidMap (oid_String oid) \<noteq> None"

lemma createIdentifyFromOID_loop_skip:
  "list_all (\<lambda>oid. \<not> oid_known oid) xs \<Longrightarrow>
     createIdentifyFromOID_loop ous (xs @ ys) d = createIdentifyFromOID_loop ous ys d"
  by (induction xs) (auto simp: oid_known_def)

lemma createIdentityFromOU_find:
  "createIdentityFromOU ous d =
     (case find (\<lambda>ou. ou \<in> fst ` set ouMap) ous of
        Some ou \<Rightarrow> (True, the (map_of ouMap ou), d) | None \<Rightarrow> (False, [], []))"
  by (induction ous d rule: createIdentityFromOU.induct)
     (auto split: option.splits simp: map_of_eq_None_iff dest: map_of_fst)

lemma createIdentifyFromOID_loop_known:
  assumes "oid_known oid"
  shows "createIdentifyFromOID_loop ous (oid # oids) d =
     (if oid_String oid \<in> fst ` set excludedOIDs then Inl ErrExcludedCert
      else case find (\<lambda>ou. ou \<in> fst ` set ouMap) ous of
             Some ou \<Rightarrow> Inr (the (map_of ouMap ou), d)
           | None \<Rightarrow> Inr (the (map_of oidMap (oid_String oid)), d))"
proof (cases "map_of excludedOIDs (oid_String oid)")
  case None
  with assms obtain ct where "map_of oidMap (oid_String oid) = Some ct"
    by (auto simp: oid_known_def)
  with None show ?thesis
    using map_of_eq_None_iff [of excludedOIDs "oid_String oid"]
    by (auto simp: createIdentityFromOU_find split: option.splits)
next
  case (Some a)
  then show ?thesis by (auto dest: map_of_fst)
qed

text \<open>
  C32: A certificate is turned into an identity only when its issuer is in one of the two issuer
  tables; the device id is the subject's common name with every dot replaced by a dash, the client
  type is one of the types of the tables, and the dotted sender id built from the two splits back
  into exactly these two parts.
\<close>

theorem accepted_identity:
  assumes "CreateIdentityFromCert c = Inr (clientType, deviceID)"
  shows "Issuer_CommonName c \<in> set knownOIDIssuers \<union> fst ` set knownIssuers \<and>
         deviceID = ReplaceAll CHR ''.'' CHR ''-'' (Subject_CommonName c) \<and>
         CHR ''.'' \<notin> set deviceID \<and>
         clientType \<in> set client_types \<and>
         ParseSenderID (BuildClientID clientType deviceID) = (clientType, deviceID)"
  using CreateIdentityFromCert_Inr [OF assms]
  by (simp_all add: ReplaceAll_notin ParseSenderID_BuildClientID client_types_no_dot)

definition example_cert :: x509_certificate where
  "example_cert = \<lparr>Subject_CommonName = ''5YJ.42'', Subject_OrganizationalUnit = [''Other''],
     Issuer_CommonName = ''Tesla Motors GF3 Product Issuing CA'',
     UnknownExtKeyUsage = [[1, 2], [1, 3, 6, 1, 4, 1, 49279, 2, 5, 2]]\<rparr>"

lemma example_cert_identity:
  "CreateIdentityFromCert example_cert = Inr (''energy_device'', ''5YJ-42'')"
  by (simp add: CreateIdentityFromCert_def createIdentifyFromOID_def example_cert_def itoa_eval
      knownOIDIssuers_def excludedOIDs_def oidMap_def ouMap_def ReplaceAll_def)

theorem accepted_identity_witness:
  "ParseSenderID (BuildClientID ''energy_device'' ''5YJ-42'') = (''energy_device'', ''5YJ-42'')"
  using accepted_identity [OF example_cert_identity] by blast



end
