(* ===== verification/Wire.thy ===== *)
theory Wire
  imports Go_Strings "HOL-Library.Monad_Syntax"
begin

text \<open>
  The wire format (\<^verbatim>\<open>messages/tesla\<close>): the envelope table, the stream table and the functions that
  build and read them. The FlatBuffers runtime is not part of the repository, so it is a parameter:
  a record of the builder and table operations that the code calls. What the code relies on is
  the documented behaviour of that runtime, stated by \<^verbatim>\<open>fb_laws\<close>: a byte string, a table slot
  and a finished root read back as they were written, a slot equal to its default is not stored
  and reads as absent, as long as the buffer stays below a gigabyte.

  An operation that can panic (a read out of the buffer) returns an option, \<^const>\<open>None\<close> for the panic.
\<close>

section \<open>The FlatBuffers runtime\<close>

type_synonym u8 = "8 word"
type_synonym u16 = "16 word"
type_synonym u32 = "32 word"
type_synonym u64 = "64 word"

record fb_table =
  Tab_Bytes :: bytes
  Tab_Pos :: u32

record 'b flatbuffers =
  NewBuilder :: 'b
  CreateByteString :: "'b \<Rightarrow> bytes \<Rightarrow> 'b \<times> u32"
  StartObject :: "'b \<Rightarrow> nat \<Rightarrow> 'b"
  PrependUOffsetTSlot :: "'b \<Rightarrow> nat \<Rightarrow> u32 \<Rightarrow> u32 \<Rightarrow> 'b"
  PrependByteSlot :: "'b \<Rightarrow> nat \<Rightarrow> u8 \<Rightarrow> u8 \<Rightarrow> 'b"
  PrependUint32Slot :: "'b \<Rightarrow> nat \<Rightarrow> u32 \<Rightarrow> u32 \<Rightarrow> 'b"
  PrependUint64Slot :: "'b \<Rightarrow> nat \<Rightarrow> u64 \<Rightarrow> u64 \<Rightarrow> 'b"
  EndObject :: "'b \<Rightarrow> 'b \<times> u32"
  Finish :: "'b \<Rightarrow> u32 \<Rightarrow> 'b"
  HeadBytes :: "'b \<Rightarrow> bytes"
  GetUOffsetT :: "bytes \<Rightarrow> u32 option"
  Table_Offset :: "fb_table \<Rightarrow> u16 \<Rightarrow> u16 option"
  Table_ByteVector :: "fb_table \<Rightarrow> u32 \<Rightarrow> bytes option"
  Table_GetByte :: "fb_table \<Rightarrow> u32 \<Rightarrow> u8 option"
  Table_GetUint32 :: "fb_table \<Rightarrow> u32 \<Rightarrow> u32 option"
  Table_GetUint64 :: "fb_table \<Rightarrow> u32 \<Rightarrow> u64 option"
  Table_Union :: "fb_table \<Rightarrow> u32 \<Rightarrow> fb_table option"

section \<open>Reading: envelope and stream tables\<close>

text \<open>The body that the accessors of both tables share: look up the slot, then read it or return the default.\<close>

definition read_slot ::
    "'b flatbuffers \<Rightarrow> (fb_table \<Rightarrow> u32 \<Rightarrow> 'v option) \<Rightarrow> 'v \<Rightarrow> u16 \<Rightarrow> fb_table \<Rightarrow> 'v option" where
  "read_slot fb get dflt vt rcv =
     do { o' \<leftarrow> Table_Offset fb rcv vt;
          if o' \<noteq> 0 then get rcv (ucast o' + Tab_Pos rcv) else Some dflt }"

definition GetRootAsFlatbuffersEnvelope :: "'b flatbuffers \<Rightarrow> bytes \<Rightarrow> u32 \<Rightarrow> fb_table option" where
  "GetRootAsFlatbuffersEnvelope fb buf offset =
     (if unat offset > length buf then None
      else do { n \<leftarrow> GetUOffsetT fb (drop (unat offset) buf);
                Some \<lparr>Tab_Bytes = buf, Tab_Pos = n + offset\<rparr> })"

definition TxidBytes :: "'b flatbuffers \<Rightarrow> fb_table \<Rightarrow> bytes option" where
  "TxidBytes fb = read_slot fb (Table_ByteVector fb) [] 4"

definition TopicBytes :: "'b flatbuffers \<Rightarrow> fb_table \<Rightarrow> bytes option" where
  "TopicBytes fb = read_slot fb (Table_ByteVector fb) [] 6"

definition MessageType :: "'b flatbuffers \<Rightarrow> fb_table \<Rightarrow> u8 option" where
  "MessageType fb = read_slot fb (Table_GetByte fb) 0 8"

definition Message :: "'b flatbuffers \<Rightarrow> fb_table \<Rightarrow> fb_table option option" where
  "Message fb rcv =
     do { o' \<leftarrow> Table_Offset fb rcv 10;
          if o' \<noteq> 0 then map_option Some (Table_Union fb rcv (ucast o')) else Some None }"

definition MessageIdBytes :: "'b flatbuffers \<Rightarrow> fb_table \<Rightarrow> bytes option" where
  "MessageIdBytes fb = read_slot fb (Table_ByteVector fb) [] 12"

definition CreatedAt :: "'b flatbuffers \<Rightarrow> fb_table \<Rightarrow> u32 option" where
  "CreatedAt fb = read_slot fb (Table_GetUint32 fb) 0 4"

definition SenderIdBytes :: "'b flatbuffers \<Rightarrow> fb_table \<Rightarrow> bytes option" where
  "SenderIdBytes fb = read_slot fb (Table_ByteVector fb) [] 6"

definition PayloadBytes :: "'b flatbuffers \<Rightarrow> fb_table \<Rightarrow> bytes option" where
  "PayloadBytes fb = read_slot fb (Table_ByteVector fb) [] 8"

definition DeviceTypeBytes :: "'b flatbuffers \<Rightarrow> fb_table \<Rightarrow> bytes option" where
  "DeviceTypeBytes fb = read_slot fb (Table_ByteVector fb) [] 10"

definition DeviceIdBytes :: "'b flatbuffers \<Rightarrow> fb_table \<Rightarrow> bytes option" where
  "DeviceIdBytes fb = read_slot fb (Table_ByteVector fb) [] 12"

definition DeliveredAtEpochMs :: "'b flatbuffers \<Rightarrow> fb_table \<Rightarrow> u64 option" where
  "DeliveredAtEpochMs fb = read_slot fb (Table_GetUint64 fb) 0 14"

lemmas accessor_defs = TxidBytes_def TopicBytes_def MessageType_def MessageIdBytes_def
  CreatedAt_def SenderIdBytes_def PayloadBytes_def DeviceTypeBytes_def DeviceIdBytes_def
  DeliveredAtEpochMs_def

section \<open>Building\<close>

definition MessageFlatbuffersStream :: u8 where "MessageFlatbuffersStream = 4"
definition MessageFlatbuffersStreamAck :: u8 where "MessageFlatbuffersStreamAck = 5"

definition FlatbuffersEnvelopeStart :: "'b flatbuffers \<Rightarrow> 'b \<Rightarrow> 'b" where
  "FlatbuffersEnvelopeStart fb b = StartObject fb b 5"
definition FlatbuffersEnvelopeAddTxid :: "'b flatbuffers \<Rightarrow> 'b \<Rightarrow> u32 \<Rightarrow> 'b" where
  "FlatbuffersEnvelopeAddTxid fb b txid = PrependUOffsetTSlot fb b 0 txid 0"
definition FlatbuffersEnvelopeAddTopic :: "'b flatbuffers \<Rightarrow> 'b \<Rightarrow> u32 \<Rightarrow> 'b" where
  "FlatbuffersEnvelopeAddTopic fb b topic = PrependUOffsetTSlot fb b 1 topic 0"
definition FlatbuffersEnvelopeAddMessageType :: "'b flatbuffers \<Rightarrow> 'b \<Rightarrow> u8 \<Rightarrow> 'b" where
  "FlatbuffersEnvelopeAddMessageType fb b messageType = PrependByteSlot fb b 2 messageType 0"
definition FlatbuffersEnvelopeAddMessage :: "'b flatbuffers \<Rightarrow> 'b \<Rightarrow> u32 \<Rightarrow> 'b" where
  "FlatbuffersEnvelopeAddMessage fb b message = PrependUOffsetTSlot fb b 3 message 0"
definition FlatbuffersEnvelopeAddMessageId :: "'b flatbuffers \<Rightarrow> 'b \<Rightarrow> u32 \<Rightarrow> 'b" where
  "FlatbuffersEnvelopeAddMessageId fb b messageId = PrependUOffsetTSlot fb b 4 messageId 0"
definition FlatbuffersEnvelopeEnd :: "'b flatbuffers \<Rightarrow> 'b \<Rightarrow> 'b \<times> u32" where
  "FlatbuffersEnvelopeEnd fb b = EndObject fb b"

definition FlatbuffersStreamStart :: "'b flatbuffers \<Rightarrow> 'b \<Rightarrow> 'b" where
  "FlatbuffersStreamStart fb b = StartObject fb b 6"
definition FlatbuffersStreamAddCreatedAt :: "'b flatbuffers \<Rightarrow> 'b \<Rightarrow> u32 \<Rightarrow> 'b" where
  "FlatbuffersStreamAddCreatedAt fb b createdAt = PrependUint32Slot fb b 0 createdAt 0"
definition FlatbuffersStreamAddSenderId :: "'b flatbuffers \<Rightarrow> 'b \<Rightarrow> u32 \<Rightarrow> 'b" where
  "FlatbuffersStreamAddSenderId fb b senderId = PrependUOffsetTSlot fb b 1 senderId 0"
definition FlatbuffersStreamAddPayload :: "'b flatbuffers \<Rightarrow> 'b \<Rightarrow> u32 \<Rightarrow> 'b" where
  "FlatbuffersStreamAddPayload fb b payload = PrependUOffsetTSlot fb b 2 payload 0"
definition FlatbuffersStreamAddDeviceType :: "'b flatbuffers \<Rightarrow> 'b \<Rightarrow> u32 \<Rightarrow> 'b" where
  "FlatbuffersStreamAddDeviceType fb b deviceType = PrependUOffsetTSlot fb b 3 deviceType 0"
definition FlatbuffersStreamAddDeviceId :: "'b flatbuffers \<Rightarrow> 'b \<Rightarrow> u32 \<Rightarrow> 'b" where
  "FlatbuffersStreamAddDeviceId fb b deviceId = PrependUOffsetTSlot fb b 4 deviceId 0"
definition FlatbuffersStreamAddDeliveredAtEpochMs :: "'b flatbuffers \<Rightarrow> 'b \<Rightarrow> u64 \<Rightarrow> 'b" where
  "FlatbuffersStreamAddDeliveredAtEpochMs fb b ms = PrependUint64Slot fb b 5 ms 0"
definition FlatbuffersStreamEnd :: "'b flatbuffers \<Rightarrow> 'b \<Rightarrow> 'b \<times> u32" where
  "FlatbuffersStreamEnd fb b = EndObject fb b"

lemmas builder_defs = FlatbuffersEnvelopeStart_def FlatbuffersEnvelopeAddTxid_def
  FlatbuffersEnvelopeAddTopic_def FlatbuffersEnvelopeAddMessageType_def
  FlatbuffersEnvelopeAddMessage_def FlatbuffersEnvelopeAddMessageId_def FlatbuffersEnvelopeEnd_def
  FlatbuffersStreamStart_def FlatbuffersStreamAddCreatedAt_def FlatbuffersStreamAddSenderId_def
  FlatbuffersStreamAddPayload_def FlatbuffersStreamAddDeviceType_def
  FlatbuffersStreamAddDeviceId_def FlatbuffersStreamAddDeliveredAtEpochMs_def FlatbuffersStreamEnd_def

definition FlatbuffersEnvelopeToBytes ::
    "'b flatbuffers \<Rightarrow> 'b \<Rightarrow> bytes \<Rightarrow> bytes \<Rightarrow> u32 \<Rightarrow> bytes \<Rightarrow> u8 \<Rightarrow> bytes" where
  "FlatbuffersEnvelopeToBytes fb b txid topic msg messageID msgType =
     (let (b, txidVector) = CreateByteString fb b txid;
          (b, topicVector) = CreateByteString fb b topic;
          (b, messageIDVector) = CreateByteString fb b messageID;
          b = FlatbuffersEnvelopeStart fb b;
          b = FlatbuffersEnvelopeAddTxid fb b txidVector;
          b = FlatbuffersEnvelopeAddTopic fb b topicVector;
          b = FlatbuffersEnvelopeAddMessageType fb b msgType;
          b = FlatbuffersEnvelopeAddMessage fb b msg;
          b = FlatbuffersEnvelopeAddMessageId fb b messageIDVector;
          (b, msgPosition) = FlatbuffersEnvelopeEnd fb b;
          b = Finish fb b msgPosition
      in HeadBytes fb b)"

datatype wire_error =
    EmptyMessage
  | NoUnionMessage bytes
  | WrongMessageType bytes bytes u8

text \<open>The outer option is the panic; then the error, or the envelope and its union table.\<close>

definition FlatbuffersEnvelopeFromBytes ::
    "'b flatbuffers \<Rightarrow> bytes \<Rightarrow> (wire_error + fb_table \<times> fb_table) option" where
  "FlatbuffersEnvelopeFromBytes fb value =
     (if length value = 0 then Some (Inl EmptyMessage)
      else do { envelope \<leftarrow> GetRootAsFlatbuffersEnvelope fb value 0;
                u \<leftarrow> Message fb envelope;
                Some (case u of None \<Rightarrow> Inl (NoUnionMessage value)
                      | Some unionTable \<Rightarrow> Inr (envelope, unionTable)) })"

definition FlatbuffersStreamTable ::
    "'b flatbuffers \<Rightarrow> 'b \<Rightarrow> bytes \<Rightarrow> bytes \<Rightarrow> u32 \<Rightarrow> bytes \<Rightarrow> bytes \<Rightarrow> u64 \<Rightarrow> 'b \<times> u32" where
  "FlatbuffersStreamTable fb b senderID payload createdAt deviceType deviceID deliveredAtEpochMs =
     (let (b, senderIDVector) = CreateByteString fb b senderID;
          (b, payloadVector) = CreateByteString fb b payload;
          (b, deviceTypeVector) = CreateByteString fb b deviceType;
          (b, deviceIDVector) = CreateByteString fb b deviceID;
          b = FlatbuffersStreamStart fb b;
          b = FlatbuffersStreamAddSenderId fb b senderIDVector;
          b = FlatbuffersStreamAddCreatedAt fb b createdAt;
          b = FlatbuffersStreamAddPayload fb b payloadVector;
          b = FlatbuffersStreamAddDeviceType fb b deviceTypeVector;
          b = FlatbuffersStreamAddDeviceId fb b deviceIDVector;
          b = FlatbuffersStreamAddDeliveredAtEpochMs fb b deliveredAtEpochMs
      in FlatbuffersStreamEnd fb b)"

definition FlatbuffersStreamToBytes ::
    "'b flatbuffers \<Rightarrow> bytes \<Rightarrow> bytes \<Rightarrow> bytes \<Rightarrow> bytes \<Rightarrow> u32 \<Rightarrow> bytes \<Rightarrow> bytes \<Rightarrow> bytes \<Rightarrow> u64 \<Rightarrow> bytes"
  where
  "FlatbuffersStreamToBytes fb senderID topic txid payload createdAt messageID deviceType deviceID
       deliveredAtEpochMs =
     (let (b, message) = FlatbuffersStreamTable fb (NewBuilder fb) senderID payload createdAt
                           deviceType deviceID deliveredAtEpochMs
      in FlatbuffersEnvelopeToBytes fb b txid topic message messageID MessageFlatbuffersStream)"

text \<open>\<^verbatim>\<open>(*FlatbuffersStream).ToBytes\<close>: re-encode a stream that was read.\<close>

definition FlatbuffersStream_ToBytes :: "'b flatbuffers \<Rightarrow> fb_table \<Rightarrow> fb_table \<Rightarrow> bytes option" where
  "FlatbuffersStream_ToBytes fb fsm envelope =
     do { senderID \<leftarrow> SenderIdBytes fb fsm; topic \<leftarrow> TopicBytes fb envelope;
          txid \<leftarrow> TxidBytes fb envelope; payload \<leftarrow> PayloadBytes fb fsm;
          createdAt \<leftarrow> CreatedAt fb fsm; messageID \<leftarrow> MessageIdBytes fb envelope;
          deviceType \<leftarrow> DeviceTypeBytes fb fsm; deviceID \<leftarrow> DeviceIdBytes fb fsm;
          ms \<leftarrow> DeliveredAtEpochMs fb fsm;
          Some (FlatbuffersStreamToBytes fb senderID topic txid payload createdAt messageID
                  deviceType deviceID ms) }"

definition FlatbuffersStreamAckToBytes :: "'b flatbuffers \<Rightarrow> bytes \<Rightarrow> bytes \<Rightarrow> bytes \<Rightarrow> bytes" where
  "FlatbuffersStreamAckToBytes fb txid topic messageID =
     (let (b, msg) = CreateByteString fb (NewBuilder fb) []
      in FlatbuffersEnvelopeToBytes fb b txid topic msg messageID MessageFlatbuffersStreamAck)"

end
