(* ===== verification/Wire_Laws.thy ===== *)
theory Wire_Laws
  imports Wire
begin

text \<open>
  The documented behaviour of the FlatBuffers runtime, as a predicate on the parameter of
  \<^verbatim>\<open>Wire\<close>, and what it gives for the two message formats: an encoded envelope reads back.

  The behaviour is stated over a ghost view of a builder: the objects it holds, by their offset, the
  table under construction, and a bound on the bytes used.
\<close>

section \<open>The laws\<close>

datatype fb_val = FOff u32 | FByte u8 | FU32 u32 | FU64 u64

datatype fb_obj = FVec bytes | FTab "nat \<Rightarrow> fb_val option"

record 'b fb_view =
  heap :: "'b \<Rightarrow> u32 \<Rightarrow> fb_obj option"
  opn :: "'b \<Rightarrow> (nat \<times> (nat \<Rightarrow> fb_val option)) option"
  used :: "'b \<Rightarrow> nat"

definition fb_limit :: nat where "fb_limit = 2 ^ 30"

abbreviation fb_max_slots :: nat where "fb_max_slots \<equiv> 100"

definition keeps :: "'b fb_view \<Rightarrow> 'b \<Rightarrow> 'b \<Rightarrow> bool" where
  "keeps g b b' \<longleftrightarrow> (\<forall>p x. heap g b p = Some x \<longrightarrow> heap g b' p = Some x)"

definition grows :: "'b fb_view \<Rightarrow> 'b \<Rightarrow> 'b \<Rightarrow> nat \<Rightarrow> bool" where
  "grows g b b' n \<longleftrightarrow> used g b \<le> used g b' \<and> used g b' \<le> used g b + n"

definition slot_law ::
    "'b fb_view \<Rightarrow> ('b \<Rightarrow> nat \<Rightarrow> 'v \<Rightarrow> 'v \<Rightarrow> 'b) \<Rightarrow> ('v \<Rightarrow> fb_val) \<Rightarrow> ('b \<Rightarrow> 'v \<Rightarrow> bool) \<Rightarrow> bool" where
  "slot_law g prepend mk valid \<longleftrightarrow>
     (\<forall>b i x d. grows g b (prepend b i x d) 512) \<and>
     (\<forall>b i x d n s. opn g b = Some (n, s) \<longrightarrow> i < n \<longrightarrow> valid b x \<longrightarrow>
        used g (prepend b i x d) \<le> fb_limit \<longrightarrow>
        opn g (prepend b i x d) = Some (n, if x = d then s else s(i := Some (mk x))) \<and>
        heap g (prepend b i x d) = heap g b)"

definition fb_builder_laws :: "'b flatbuffers \<Rightarrow> 'b fb_view \<Rightarrow> bool" where
  "fb_builder_laws fb g \<longleftrightarrow>
     opn g (NewBuilder fb) = None \<and> used g (NewBuilder fb) = 0 \<and>
     (\<forall>b v b' p. CreateByteString fb b v = (b', p) \<longrightarrow>
        grows g b b' (length v + 512) \<and>
        (opn g b = None \<longrightarrow> used g b' \<le> fb_limit \<longrightarrow>
           p \<noteq> 0 \<and> heap g b' p = Some (FVec v) \<and> keeps g b b' \<and> opn g b' = None)) \<and>
     (\<forall>b n. grows g b (StartObject fb b n) 512 \<and>
        (opn g b = None \<longrightarrow> n \<le> fb_max_slots \<longrightarrow> used g (StartObject fb b n) \<le> fb_limit \<longrightarrow>
           opn g (StartObject fb b n) = Some (n, \<lambda>_. None) \<and>
           heap g (StartObject fb b n) = heap g b)) \<and>
     slot_law g (PrependUOffsetTSlot fb) FOff (\<lambda>b x. x = 0 \<or> heap g b x \<noteq> None) \<and>
     slot_law g (PrependByteSlot fb) FByte (\<lambda>_ _. True) \<and>
     slot_law g (PrependUint32Slot fb) FU32 (\<lambda>_ _. True) \<and>
     slot_law g (PrependUint64Slot fb) FU64 (\<lambda>_ _. True) \<and>
     (\<forall>b b' p. EndObject fb b = (b', p) \<longrightarrow>
        grows g b b' 512 \<and>
        (\<forall>n s. opn g b = Some (n, s) \<longrightarrow> used g b' \<le> fb_limit \<longrightarrow>
           p \<noteq> 0 \<and> heap g b' p = Some (FTab s) \<and> keeps g b b' \<and> opn g b' = None))"

text \<open>
  How the table at position \<open>pos p\<close> of the finished buffer reads, for a table with the slots
  \<open>s\<close>. Slot \<open>i\<close> has the vtable index \<open>4 + 2 * i\<close>.
\<close>

definition tab_reads ::
    "'b flatbuffers \<Rightarrow> (u32 \<Rightarrow> fb_obj option) \<Rightarrow> bytes \<Rightarrow> (u32 \<Rightarrow> u32) \<Rightarrow> u32 \<Rightarrow> (nat \<Rightarrow> fb_val option) \<Rightarrow> bool"
  where
  "tab_reads fb h buf pos p s \<longleftrightarrow>
     (let tab = \<lparr>Tab_Bytes = buf, Tab_Pos = pos p\<rparr> in
      \<forall>i < fb_max_slots.
        (s i = None \<longrightarrow> Table_Offset fb tab (of_nat (4 + 2 * i)) = Some 0) \<and>
        (\<forall>v. s i = Some v \<longrightarrow>
           (\<exists>k. k \<noteq> 0 \<and> Table_Offset fb tab (of_nat (4 + 2 * i)) = Some k \<and>
              (case v of
                 FOff t \<Rightarrow>
                   Table_Union fb tab (ucast k) = Some \<lparr>Tab_Bytes = buf, Tab_Pos = pos t\<rparr> \<and>
                   (\<forall>bs. h t = Some (FVec bs) \<longrightarrow>
                      Table_ByteVector fb tab (ucast k + pos p) = Some bs)
               | FByte x \<Rightarrow> Table_GetByte fb tab (ucast k + pos p) = Some x
               | FU32 x \<Rightarrow> Table_GetUint32 fb tab (ucast k + pos p) = Some x
               | FU64 x \<Rightarrow> Table_GetUint64 fb tab (ucast k + pos p) = Some x))))"

definition fb_reader_law :: "'b flatbuffers \<Rightarrow> 'b fb_view \<Rightarrow> bool" where
  "fb_reader_law fb g \<longleftrightarrow>
     (\<forall>b r s. opn g b = None \<longrightarrow> heap g b r = Some (FTab s) \<longrightarrow> used g b + 512 \<le> fb_limit \<longrightarrow>
        (let buf = HeadBytes fb (Finish fb b r) in
         buf \<noteq> [] \<and>
         (\<exists>pos. GetUOffsetT fb buf = Some (pos r) \<and>
            (\<forall>p s. heap g b p = Some (FTab s) \<longrightarrow> tab_reads fb (heap g b) buf pos p s))))"

definition fb_laws :: "'b flatbuffers \<Rightarrow> bool" where
  "fb_laws fb \<longleftrightarrow> (\<exists>g. fb_builder_laws fb g \<and> fb_reader_law fb g)"

section \<open>Reading the slots of a finished table\<close>

lemma keeps_trans [trans]: "keeps g a b \<Longrightarrow> keeps g b c \<Longrightarrow> keeps g a c"
  by (auto simp: keeps_def)

lemma keepsD: "keeps g b b' \<Longrightarrow> heap g b p = Some x \<Longrightarrow> heap g b' p = Some x"
  by (auto simp: keeps_def)

lemma keeps_heap_eq: "heap g b' = heap g b \<Longrightarrow> keeps g b b'"
  by (simp add: keeps_def)

lemma tab_reads_none:
  assumes "tab_reads fb h buf pos p s" "i < fb_max_slots" "s i = None" "vt = of_nat (4 + 2 * i)"
  shows "read_slot fb get dflt vt \<lparr>Tab_Bytes = buf, Tab_Pos = pos p\<rparr> = Some dflt"
  using assms by (simp add: tab_reads_def read_slot_def Let_def)

lemma tab_reads_absent:
  assumes "tab_reads fb h buf pos p s" "i < fb_max_slots" "s i = None"
  shows "Table_Offset fb \<lparr>Tab_Bytes = buf, Tab_Pos = pos p\<rparr> (of_nat (4 + 2 * i)) = Some 0"
  using assms by (simp add: tab_reads_def Let_def)

lemma tab_reads_bytes:
  assumes "tab_reads fb h buf pos p s" "i < fb_max_slots" "s i = Some (FOff t)"
    "h t = Some (FVec bs)" "vt = of_nat (4 + 2 * i)"
  shows "read_slot fb (Table_ByteVector fb) dflt vt \<lparr>Tab_Bytes = buf, Tab_Pos = pos p\<rparr> = Some bs"
  using assms by (fastforce simp: tab_reads_def read_slot_def Let_def)

lemma tab_reads_scalar:
  assumes "tab_reads fb h buf pos p s" "i < fb_max_slots" "vt = of_nat (4 + 2 * i)"
  shows "s i = Some (FByte x) \<Longrightarrow>
           read_slot fb (Table_GetByte fb) d vt \<lparr>Tab_Bytes = buf, Tab_Pos = pos p\<rparr> = Some x"
    and "s i = Some (FU32 y) \<Longrightarrow>
           read_slot fb (Table_GetUint32 fb) d' vt \<lparr>Tab_Bytes = buf, Tab_Pos = pos p\<rparr> = Some y"
    and "s i = Some (FU64 z) \<Longrightarrow>
           read_slot fb (Table_GetUint64 fb) d'' vt \<lparr>Tab_Bytes = buf, Tab_Pos = pos p\<rparr> = Some z"
  using assms by (fastforce simp: tab_reads_def read_slot_def Let_def)+

lemma tab_reads_union:
  assumes "tab_reads fb h buf pos p s" "s 3 = Some (FOff t)"
  shows "Message fb \<lparr>Tab_Bytes = buf, Tab_Pos = pos p\<rparr> = Some (Some \<lparr>Tab_Bytes = buf, Tab_Pos = pos t\<rparr>)"
proof -
  have "\<exists>k. k \<noteq> 0 \<and> Table_Offset fb \<lparr>Tab_Bytes = buf, Tab_Pos = pos p\<rparr> 10 = Some k \<and>
      Table_Union fb \<lparr>Tab_Bytes = buf, Tab_Pos = pos p\<rparr> (ucast k) = Some \<lparr>Tab_Bytes = buf, Tab_Pos = pos t\<rparr>"
    using assms(1) [unfolded tab_reads_def Let_def, rule_format, of 3] assms(2) by auto
  then show ?thesis by (auto simp: Message_def)
qed

section \<open>Building, one operation at a time\<close>

lemma grows_used: "grows g b b' n \<Longrightarrow> used g b' \<le> m \<Longrightarrow> used g b \<le> m"
  by (simp add: grows_def)

lemma create_step:
  assumes "fb_builder_laws fb g" "CreateByteString fb b v = (b', p)"
  shows "used g b \<le> used g b'" "used g b' \<le> used g b + length v + 512"
    and "opn g b = None \<Longrightarrow> used g b' \<le> fb_limit \<Longrightarrow>
         p \<noteq> 0 \<and> heap g b' p = Some (FVec v) \<and> keeps g b b' \<and> opn g b' = None"
  using assms by (auto simp: fb_builder_laws_def grows_def add.assoc)

lemma start_step:
  assumes "fb_builder_laws fb g"
  shows "used g b \<le> used g (StartObject fb b n)" "used g (StartObject fb b n) \<le> used g b + 512"
    and "opn g b = None \<Longrightarrow> n \<le> fb_max_slots \<Longrightarrow> used g (StartObject fb b n) \<le> fb_limit \<Longrightarrow>
         opn g (StartObject fb b n) = Some (n, \<lambda>_. None) \<and> heap g (StartObject fb b n) = heap g b"
  using assms by (auto simp: fb_builder_laws_def grows_def)

lemma end_step:
  assumes "fb_builder_laws fb g" "EndObject fb b = (b', p)"
  shows "used g b \<le> used g b'" "used g b' \<le> used g b + 512"
    and "opn g b = Some (n, s) \<Longrightarrow> used g b' \<le> fb_limit \<Longrightarrow>
         p \<noteq> 0 \<and> heap g b' p = Some (FTab s) \<and> keeps g b b' \<and> opn g b' = None"
  using assms by (auto simp: fb_builder_laws_def grows_def)

lemma slot_step:
  assumes "slot_law g prepend mk valid"
  shows "used g b \<le> used g (prepend b i x d)" "used g (prepend b i x d) \<le> used g b + 512"
    and "opn g b = Some (n, s) \<Longrightarrow> i < n \<Longrightarrow> valid b x \<Longrightarrow> used g (prepend b i x d) \<le> fb_limit \<Longrightarrow>
         opn g (prepend b i x d) = Some (n, if x = d then s else s(i := Some (mk x))) \<and>
         heap g (prepend b i x d) = heap g b"
  using assms by (auto simp: slot_law_def grows_def)

lemma slot_laws:
  assumes "fb_builder_laws fb g"
  shows "slot_law g (PrependUOffsetTSlot fb) FOff (\<lambda>b x. x = 0 \<or> heap g b x \<noteq> None)"
    "slot_law g (PrependByteSlot fb) FByte (\<lambda>_ _. True)"
    "slot_law g (PrependUint32Slot fb) FU32 (\<lambda>_ _. True)"
    "slot_law g (PrependUint64Slot fb) FU64 (\<lambda>_ _. True)"
  using assms by (auto simp: fb_builder_laws_def)

text \<open>A sequence of slot writes into an open table, with the values they leave.\<close>

datatype slot_write = WOff nat u32 | WByte nat u8 | WU32 nat u32 | WU64 nat u64

fun do_write :: "'b flatbuffers \<Rightarrow> 'b \<Rightarrow> slot_write \<Rightarrow> 'b" where
  "do_write fb b (WOff i x) = PrependUOffsetTSlot fb b i x 0"
| "do_write fb b (WByte i x) = PrependByteSlot fb b i x 0"
| "do_write fb b (WU32 i x) = PrependUint32Slot fb b i x 0"
| "do_write fb b (WU64 i x) = PrependUint64Slot fb b i x 0"

fun write_slot :: "(nat \<Rightarrow> fb_val option) \<Rightarrow> slot_write \<Rightarrow> nat \<Rightarrow> fb_val option" where
  "write_slot s (WOff i x) = (if x = 0 then s else s(i := Some (FOff x)))"
| "write_slot s (WByte i x) = (if x = 0 then s else s(i := Some (FByte x)))"
| "write_slot s (WU32 i x) = (if x = 0 then s else s(i := Some (FU32 x)))"
| "write_slot s (WU64 i x) = (if x = 0 then s else s(i := Some (FU64 x)))"

fun write_ok :: "(u32 \<Rightarrow> fb_obj option) \<Rightarrow> nat \<Rightarrow> slot_write \<Rightarrow> bool" where
  "write_ok h n (WOff i x) = (i < n \<and> h x \<noteq> None)"
| "write_ok h n (WByte i x) = (i < n)"
| "write_ok h n (WU32 i x) = (i < n)"
| "write_ok h n (WU64 i x) = (i < n)"

lemma do_write_step:
  assumes L: "fb_builder_laws fb g"
  shows "used g b \<le> used g (do_write fb b w)" "used g (do_write fb b w) \<le> used g b + 512"
    and "opn g b = Some (n, s) \<Longrightarrow> write_ok (heap g b) n w \<Longrightarrow> used g (do_write fb b w) \<le> fb_limit \<Longrightarrow>
         opn g (do_write fb b w) = Some (n, write_slot s w) \<and> heap g (do_write fb b w) = heap g b"
  using slot_step [OF slot_laws(1) [OF L]] slot_step [OF slot_laws(2) [OF L]]
    slot_step [OF slot_laws(3) [OF L]] slot_step [OF slot_laws(4) [OF L]]
  by (cases w; simp)+

lemma foldl_write_step:
  assumes L: "fb_builder_laws fb g"
  shows "used g b \<le> used g (foldl (do_write fb) b ws) \<and>
         used g (foldl (do_write fb) b ws) \<le> used g b + 512 * length ws \<and>
         (opn g b = Some (n, s) \<longrightarrow> (\<forall>w \<in> set ws. write_ok (heap g b) n w) \<longrightarrow>
          used g (foldl (do_write fb) b ws) \<le> fb_limit \<longrightarrow>
          opn g (foldl (do_write fb) b ws) = Some (n, foldl write_slot s ws) \<and>
          heap g (foldl (do_write fb) b ws) = heap g b)"
proof (induction ws arbitrary: b s)
  case Nil
  then show ?case by simp
next
  case (Cons w ws)
  note step = do_write_step [OF L, where b = b and w = w]
  note IH = Cons.IH [of "do_write fb b w" "write_slot s w"]
  show ?case using step(1,2) step(3) [of n s] IH by auto
qed

lemma build_table:
  assumes L: "fb_builder_laws fb g" and "opn g b = None" and "n \<le> fb_max_slots"
    and "\<forall>w \<in> set ws. write_ok (heap g b) n w"
    and E: "EndObject fb (foldl (do_write fb) (StartObject fb b n) ws) = (b', p)"
    and U: "used g b + 1024 + 512 * length ws \<le> fb_limit"
  shows "heap g b' p = Some (FTab (foldl write_slot (\<lambda>_. None) ws))"
    and "keeps g b b'" and "opn g b' = None" and "p \<noteq> 0"
    and "used g b' \<le> used g b + 1024 + 512 * length ws"
proof -
  let ?b1 = "StartObject fb b n" and ?b2 = "foldl (do_write fb) (StartObject fb b n) ws"
  have u1: "used g ?b1 \<le> used g b + 512" by (rule start_step(2) [OF L])
  have u2: "used g ?b2 \<le> used g ?b1 + 512 * length ws"
    using foldl_write_step [OF L, of ?b1 ws] by simp
  have u3: "used g b' \<le> used g ?b2 + 512" by (rule end_step(2) [OF L E])
  from u1 u2 u3 show used': "used g b' \<le> used g b + 1024 + 512 * length ws" by linarith
  have lim: "used g ?b1 \<le> fb_limit" "used g ?b2 \<le> fb_limit" "used g b' \<le> fb_limit"
    using u1 u2 u3 U by linarith+
  have s1: "opn g ?b1 = Some (n, \<lambda>_. None)" "heap g ?b1 = heap g b"
    using start_step(3) [OF L assms(2,3) lim(1)] by auto
  have s2: "opn g ?b2 = Some (n, foldl write_slot (\<lambda>_. None) ws)" "heap g ?b2 = heap g b"
    using foldl_write_step [OF L, of ?b1 ws n "\<lambda>_. None"] s1 lim(2) assms(4) by auto
  show "heap g b' p = Some (FTab (foldl write_slot (\<lambda>_. None) ws))" "opn g b' = None" "p \<noteq> 0"
    using end_step(3) [OF L E s2(1) lim(3)] by auto
  show "keeps g b b'"
    using end_step(3) [OF L E s2(1) lim(3)] s2(2) by (auto simp: keeps_def)
qed

text \<open>A sequence of byte strings, and the vectors they leave.\<close>

fun create_list :: "'b flatbuffers \<Rightarrow> 'b \<Rightarrow> bytes list \<Rightarrow> 'b \<times> u32 list" where
  "create_list fb b [] = (b, [])"
| "create_list fb b (v # vs) =
     (let (b, p) = CreateByteString fb b v; (b, ps) = create_list fb b vs in (b, p # ps))"

definition create_cost :: "bytes list \<Rightarrow> nat" where
  "create_cost vs = sum_list (map length vs) + 512 * length vs"

lemma create_list_step:
  assumes L: "fb_builder_laws fb g"
  shows "create_list fb b vs = (b', ps) \<Longrightarrow> opn g b = None \<Longrightarrow> used g b + create_cost vs \<le> fb_limit \<Longrightarrow>
     list_all2 (\<lambda>p v. p \<noteq> 0 \<and> heap g b' p = Some (FVec v)) ps vs \<and> keeps g b b' \<and>
     opn g b' = None \<and> used g b' \<le> used g b + create_cost vs"
proof (induction vs arbitrary: b b' ps)
  case Nil
  then show ?case by (simp add: keeps_def)
next
  case (Cons v vs)
  obtain b1 p where c1: "CreateByteString fb b v = (b1, p)" by (cases "CreateByteString fb b v")
  obtain b2 qs where c2: "create_list fb b1 vs = (b2, qs)" by (cases "create_list fb b1 vs")
  from Cons.prems(1) c1 c2 have res: "b' = b2" "ps = p # qs" by simp_all
  have u1: "used g b1 \<le> used g b + length v + 512" by (rule create_step(2) [OF L c1])
  with Cons.prems(3) have "used g b1 \<le> fb_limit" and u2: "used g b1 + create_cost vs \<le> fb_limit"
    by (auto simp: create_cost_def)
  then have s1: "p \<noteq> 0" "heap g b1 p = Some (FVec v)" "keeps g b b1" "opn g b1 = None"
    using create_step(3) [OF L c1 Cons.prems(2)] by auto
  from Cons.IH [OF c2 s1(4) u2] s1 u1 res show ?case
    by (auto simp: create_cost_def intro: keeps_trans dest: keepsD)
qed

section \<open>Encoded envelopes read back\<close>

text \<open>What reading an encoded envelope gives, with the table at \<open>m\<close> in its union.\<close>

definition envelope_reads ::
    "'b flatbuffers \<Rightarrow> bytes \<Rightarrow> bytes \<Rightarrow> bytes \<Rightarrow> bytes \<Rightarrow> u8 \<Rightarrow> fb_table \<Rightarrow> fb_table \<Rightarrow> bool" where
  "envelope_reads fb buf txid topic messageID t env m \<longleftrightarrow>
     FlatbuffersEnvelopeFromBytes fb buf = Some (Inr (env, m)) \<and>
     GetRootAsFlatbuffersEnvelope fb buf 0 = Some env \<and>
     TxidBytes fb env = Some txid \<and> TopicBytes fb env = Some topic \<and>
     MessageType fb env = Some t \<and> MessageIdBytes fb env = Some messageID"

lemma envelope_to_bytes:
  assumes L: "fb_builder_laws fb g" and R: "fb_reader_law fb g"
    and O: "opn g b = None" and M: "heap g b msg = Some x" "msg \<noteq> 0" and T: "t \<noteq> 0"
    and U: "used g b + length txid + length topic + length messageID + 6000 \<le> fb_limit"
  shows "\<exists>env pos h. envelope_reads fb (FlatbuffersEnvelopeToBytes fb b txid topic msg messageID t)
             txid topic messageID t env
             \<lparr>Tab_Bytes = FlatbuffersEnvelopeToBytes fb b txid topic msg messageID t, Tab_Pos = pos msg\<rparr> \<and>
           (\<forall>q y. heap g b q = Some y \<longrightarrow> h q = Some y) \<and>
           (\<forall>s. x = FTab s \<longrightarrow>
              tab_reads fb h (FlatbuffersEnvelopeToBytes fb b txid topic msg messageID t) pos msg s)"
    (is "\<exists>env pos h. envelope_reads fb ?buf txid topic messageID t env _ \<and> _ h \<and> _ pos h")
proof -
  obtain b1 ps where c: "create_list fb b [txid, topic, messageID] = (b1, ps)"
    by (cases "create_list fb b [txid, topic, messageID]")
  have cost: "create_cost [txid, topic, messageID] =
      length txid + length topic + length messageID + 1536" by (simp add: create_cost_def)
  have S: "list_all2 (\<lambda>p v. p \<noteq> 0 \<and> heap g b1 p = Some (FVec v)) ps [txid, topic, messageID]"
      "keeps g b b1" "opn g b1 = None"
      "used g b1 \<le> used g b + create_cost [txid, topic, messageID]"
    using create_list_step [OF L c O] U cost by auto
  from S(1) obtain p1 p2 p3 where ps: "ps = [p1, p2, p3]"
    and P: "p1 \<noteq> 0" "heap g b1 p1 = Some (FVec txid)" "p2 \<noteq> 0" "heap g b1 p2 = Some (FVec topic)"
      "p3 \<noteq> 0" "heap g b1 p3 = Some (FVec messageID)"
    by (auto simp: list_all2_Cons2)
  define ws where "ws = [WOff 0 p1, WOff 1 p2, WByte 2 t, WOff 3 msg, WOff 4 p3]"
  obtain b2 r where e: "EndObject fb (foldl (do_write fb) (StartObject fb b1 5) ws) = (b2, r)"
    by (cases "EndObject fb (foldl (do_write fb) (StartObject fb b1 5) ws)")
  have buf: "?buf = HeadBytes fb (Finish fb b2 r)"
    using c ps e by (simp add: FlatbuffersEnvelopeToBytes_def builder_defs ws_def split: prod.splits)
  have wok: "\<forall>w \<in> set ws. write_ok (heap g b1) 5 w"
    using P M keepsD [OF S(2)] by (auto simp: ws_def)
  have u1: "used g b1 + 1024 + 512 * length ws \<le> fb_limit" using S(4) cost U by (simp add: ws_def)
  note B = build_table [OF L S(3) _ wok e u1, simplified]
  define s where "s = foldl write_slot (\<lambda>_. None) ws"
  have sl: "s 0 = Some (FOff p1)" "s 1 = Some (FOff p2)" "s 2 = Some (FByte t)"
      "s 3 = Some (FOff msg)" "s 4 = Some (FOff p3)"
    using P M T by (auto simp: s_def ws_def)
  have lim: "used g b2 + 512 \<le> fb_limit" using B(5) S(4) cost U by (simp add: ws_def)
  obtain pos where ne: "?buf \<noteq> []" and root: "GetUOffsetT fb ?buf = Some (pos r)"
    and reads: "\<And>p s. heap g b2 p = Some (FTab s) \<Longrightarrow> tab_reads fb (heap g b2) ?buf pos p s"
    using R B(1,3) lim unfolding fb_reader_law_def buf Let_def by blast
  have kb: "heap g b q = Some y \<Longrightarrow> heap g b2 q = Some y" for q y
    using S(2) B(2) by (auto simp: keeps_def)
  have T0: "tab_reads fb (heap g b2) ?buf pos r s" using reads B(1) by (simp add: s_def)
  have h2: "heap g b2 p1 = Some (FVec txid)" "heap g b2 p2 = Some (FVec topic)"
      "heap g b2 p3 = Some (FVec messageID)" using P B(2) by (auto dest: keepsD)
  have "envelope_reads fb ?buf txid topic messageID t \<lparr>Tab_Bytes = ?buf, Tab_Pos = pos r\<rparr>
      \<lparr>Tab_Bytes = ?buf, Tab_Pos = pos msg\<rparr>"
    using ne root tab_reads_union [OF T0 sl(4)]
      tab_reads_bytes [OF T0 _ sl(1) h2(1), of 4] tab_reads_bytes [OF T0 _ sl(2) h2(2), of 6]
      tab_reads_bytes [OF T0 _ sl(5) h2(3), of 12] tab_reads_scalar(1) [OF T0 _ _ sl(3), of 8]
    by (simp add: envelope_reads_def FlatbuffersEnvelopeFromBytes_def
        GetRootAsFlatbuffersEnvelope_def accessor_defs)
  moreover have "tab_reads fb (heap g b2) ?buf pos msg s'" if "x = FTab s'" for s'
    using reads kb M(1) that by blast
  ultimately show ?thesis using kb by blast
qed

text \<open>What reading the stream table of an encoded stream message gives.\<close>

definition stream_reads ::
    "'b flatbuffers \<Rightarrow> fb_table \<Rightarrow> bytes \<Rightarrow> bytes \<Rightarrow> u32 \<Rightarrow> bytes \<Rightarrow> bytes \<Rightarrow> u64 \<Rightarrow> bool" where
  "stream_reads fb fsm senderID payload createdAt deviceType deviceID ms \<longleftrightarrow>
     SenderIdBytes fb fsm = Some senderID \<and> PayloadBytes fb fsm = Some payload \<and>
     CreatedAt fb fsm = Some createdAt \<and> DeviceTypeBytes fb fsm = Some deviceType \<and>
     DeviceIdBytes fb fsm = Some deviceID \<and> DeliveredAtEpochMs fb fsm = Some ms"

lemma stream_table:
  assumes L: "fb_builder_laws fb g"
    and U: "length senderID + length payload + length deviceType + length deviceID + 8000 \<le> fb_limit"
    and E: "FlatbuffersStreamTable fb (NewBuilder fb) senderID payload createdAt deviceType deviceID ms
              = (b, msg)"
  obtains p1 p2 p3 p4 s where
    "heap g b msg = Some (FTab s)" "msg \<noteq> 0" "opn g b = None"
    "used g b \<le> length senderID + length payload + length deviceType + length deviceID + 7000"
    "s 1 = Some (FOff p1)" "heap g b p1 = Some (FVec senderID)"
    "s 2 = Some (FOff p2)" "heap g b p2 = Some (FVec payload)"
    "s 3 = Some (FOff p3)" "heap g b p3 = Some (FVec deviceType)"
    "s 4 = Some (FOff p4)" "heap g b p4 = Some (FVec deviceID)"
    "s 0 = (if createdAt = 0 then None else Some (FU32 createdAt))"
    "s 5 = (if ms = 0 then None else Some (FU64 ms))"
proof -
  let ?vs = "[senderID, payload, deviceType, deviceID]"
  have N: "opn g (NewBuilder fb) = None" "used g (NewBuilder fb) = 0"
    using L by (auto simp: fb_builder_laws_def)
  obtain b1 ps where c: "create_list fb (NewBuilder fb) ?vs = (b1, ps)"
    by (cases "create_list fb (NewBuilder fb) ?vs")
  have cost: "create_cost ?vs =
      length senderID + length payload + length deviceType + length deviceID + 2048"
    by (simp add: create_cost_def)
  have S: "list_all2 (\<lambda>p v. p \<noteq> 0 \<and> heap g b1 p = Some (FVec v)) ps ?vs"
      "opn g b1 = None" "used g b1 \<le> create_cost ?vs"
    using create_list_step [OF L c N(1)] U cost N(2) by auto
  from S(1) obtain p1 p2 p3 p4 where ps: "ps = [p1, p2, p3, p4]"
    and P: "p1 \<noteq> 0" "heap g b1 p1 = Some (FVec senderID)" "p2 \<noteq> 0" "heap g b1 p2 = Some (FVec payload)"
      "p3 \<noteq> 0" "heap g b1 p3 = Some (FVec deviceType)" "p4 \<noteq> 0" "heap g b1 p4 = Some (FVec deviceID)"
    by (auto simp: list_all2_Cons2)
  define ws where "ws = [WOff 1 p1, WU32 0 createdAt, WOff 2 p2, WOff 3 p3, WOff 4 p4, WU64 5 ms]"
  have e: "EndObject fb (foldl (do_write fb) (StartObject fb b1 6) ws) = (b, msg)"
    using E c ps by (simp add: FlatbuffersStreamTable_def builder_defs ws_def split: prod.splits)
  have wok: "\<forall>w \<in> set ws. write_ok (heap g b1) 6 w" using P by (auto simp: ws_def)
  have u1: "used g b1 + 1024 + 512 * length ws \<le> fb_limit" using S(3) cost U by (simp add: ws_def)
  note B = build_table [OF L S(2) _ wok e u1, simplified]
  show thesis
  proof (rule that [of "foldl write_slot (\<lambda>_. None) ws" p1 p2 p3 p4])
    show "used g b \<le> length senderID + length payload + length deviceType + length deviceID + 7000"
      using B(5) S(3) cost by (simp add: ws_def)
  qed (use B(1-4) P in \<open>auto simp: ws_def dest: keepsD\<close>)
qed

lemma stream_encoding:
  assumes "fb_laws fb"
    and U: "length senderID + length topic + length txid + length payload + length messageID +
            length deviceType + length deviceID + 14000 \<le> fb_limit"
  shows "\<exists>env fsm. envelope_reads fb
           (FlatbuffersStreamToBytes fb senderID topic txid payload createdAt messageID deviceType deviceID ms)
           txid topic messageID MessageFlatbuffersStream env fsm \<and>
         stream_reads fb fsm senderID payload createdAt deviceType deviceID ms \<and>
         (createdAt = 0 \<longrightarrow> Table_Offset fb fsm 4 = Some 0) \<and> (ms = 0 \<longrightarrow> Table_Offset fb fsm 14 = Some 0)"
proof -
  obtain g where L: "fb_builder_laws fb g" and R: "fb_reader_law fb g"
    using assms(1) by (auto simp: fb_laws_def)
  obtain b msg where E: "FlatbuffersStreamTable fb (NewBuilder fb) senderID payload createdAt
      deviceType deviceID ms = (b, msg)"
    by (cases "FlatbuffersStreamTable fb (NewBuilder fb) senderID payload createdAt deviceType deviceID ms")
  have U1: "length senderID + length payload + length deviceType + length deviceID + 8000 \<le> fb_limit"
    using U by linarith
  obtain p1 p2 p3 p4 s where S:
    "heap g b msg = Some (FTab s)" "msg \<noteq> 0" "opn g b = None"
    "used g b \<le> length senderID + length payload + length deviceType + length deviceID + 7000"
    "s 1 = Some (FOff p1)" "heap g b p1 = Some (FVec senderID)"
    "s 2 = Some (FOff p2)" "heap g b p2 = Some (FVec payload)"
    "s 3 = Some (FOff p3)" "heap g b p3 = Some (FVec deviceType)"
    "s 4 = Some (FOff p4)" "heap g b p4 = Some (FVec deviceID)"
    "s 0 = (if createdAt = 0 then None else Some (FU32 createdAt))"
    "s 5 = (if ms = 0 then None else Some (FU64 ms))"
    by (rule stream_table [OF L U1 E])
  let ?buf = "FlatbuffersEnvelopeToBytes fb b txid topic msg messageID MessageFlatbuffersStream"
  have t: "MessageFlatbuffersStream \<noteq> 0" by (simp add: MessageFlatbuffersStream_def)
  have U2: "used g b + length txid + length topic + length messageID + 6000 \<le> fb_limit"
    using U S(4) by linarith
  obtain env pos h where
    env: "envelope_reads fb ?buf txid topic messageID MessageFlatbuffersStream env
            \<lparr>Tab_Bytes = ?buf, Tab_Pos = pos msg\<rparr>"
    and h: "\<forall>q y. heap g b q = Some y \<longrightarrow> h q = Some y" and T: "tab_reads fb h ?buf pos msg s"
    using envelope_to_bytes [OF L R S(3,1,2) t U2] by auto
  have "read_slot fb (Table_GetUint32 fb) 0 4 \<lparr>Tab_Bytes = ?buf, Tab_Pos = pos msg\<rparr> = Some createdAt"
    using tab_reads_none [OF T, of 0 4 "Table_GetUint32 fb" 0] tab_reads_scalar(2) [OF T, of 0 4] S(13)
    by (cases "createdAt = 0") simp_all
  moreover have "read_slot fb (Table_GetUint64 fb) 0 14 \<lparr>Tab_Bytes = ?buf, Tab_Pos = pos msg\<rparr> = Some ms"
    using tab_reads_none [OF T, of 5 14 "Table_GetUint64 fb" 0] tab_reads_scalar(3) [OF T, of 5 14] S(14)
    by (cases "ms = 0") simp_all
  ultimately have "stream_reads fb \<lparr>Tab_Bytes = ?buf, Tab_Pos = pos msg\<rparr> senderID payload createdAt
      deviceType deviceID ms"
    using tab_reads_bytes [OF T _ S(5), of senderID 6] tab_reads_bytes [OF T _ S(7), of payload 8]
      tab_reads_bytes [OF T _ S(9), of deviceType 10] tab_reads_bytes [OF T _ S(11), of deviceID 12]
      h S(6,8,10,12)
    by (simp add: stream_reads_def accessor_defs)
  moreover have "createdAt = 0 \<longrightarrow> Table_Offset fb \<lparr>Tab_Bytes = ?buf, Tab_Pos = pos msg\<rparr> 4 = Some 0"
    and "ms = 0 \<longrightarrow> Table_Offset fb \<lparr>Tab_Bytes = ?buf, Tab_Pos = pos msg\<rparr> 14 = Some 0"
    using tab_reads_absent [OF T, of 0] tab_reads_absent [OF T, of 5] S(13,14) by simp_all
  ultimately show ?thesis using env by (auto simp: FlatbuffersStreamToBytes_def E)
qed

lemma stream_to_bytes:
  assumes "fb_laws fb"
    and "length senderID + length topic + length txid + length payload + length messageID +
         length deviceType + length deviceID + 14000 \<le> fb_limit"
  shows "\<exists>env fsm. envelope_reads fb
           (FlatbuffersStreamToBytes fb senderID topic txid payload createdAt messageID deviceType deviceID ms)
           txid topic messageID MessageFlatbuffersStream env fsm \<and>
         stream_reads fb fsm senderID payload createdAt deviceType deviceID ms"
  using stream_encoding [OF assms] by blast

lemma ack_to_bytes:
  assumes "fb_laws fb"
    and U: "length txid + length topic + length messageID + 7000 \<le> fb_limit"
  shows "\<exists>env m. envelope_reads fb (FlatbuffersStreamAckToBytes fb txid topic messageID)
           txid topic messageID MessageFlatbuffersStreamAck env m"
proof -
  obtain g where L: "fb_builder_laws fb g" and R: "fb_reader_law fb g"
    using assms(1) by (auto simp: fb_laws_def)
  have N: "opn g (NewBuilder fb) = None" "used g (NewBuilder fb) = 0"
    using L by (auto simp: fb_builder_laws_def)
  obtain b p where c: "CreateByteString fb (NewBuilder fb) [] = (b, p)"
    by (cases "CreateByteString fb (NewBuilder fb) []")
  have u: "used g b \<le> 512" using create_step(2) [OF L c] N by simp
  have "used g b \<le> fb_limit" using u U by linarith
  then have S: "p \<noteq> 0" "heap g b p = Some (FVec [])" "opn g b = None"
    using create_step(3) [OF L c N(1)] by auto
  have t: "MessageFlatbuffersStreamAck \<noteq> 0" by (simp add: MessageFlatbuffersStreamAck_def)
  have U2: "used g b + length txid + length topic + length messageID + 6000 \<le> fb_limit"
    using U u by linarith
  show ?thesis
    using envelope_to_bytes [OF L R S(3,2,1) t U2] by (auto simp: FlatbuffersStreamAckToBytes_def c)
qed

end
