(* ===== verification/Wire_Instance.thy ===== *)
theory Wire_Instance
  imports Wire_Laws
begin

text \<open>
  A concrete runtime that satisfies \<^const>\<open>fb_laws\<close>, so that theorems with this hypothesis can be applied.
  It keeps the objects in a list, hands out multiples of 256 as offsets and serializes the list
  with a self-delimiting code; it is not the FlatBuffers layout.
\<close>

section \<open>A self-delimiting code\<close>

definition enc_nat :: "nat \<Rightarrow> string" where
  "enc_nat n = replicate n (CHR 0x01) @ [CHR 0x00]"

fun dec_nat :: "string \<Rightarrow> (nat \<times> string) option" where
  "dec_nat [] = None"
| "dec_nat (c # s) =
     (if c = CHR 0x01 then map_option (apfst Suc) (dec_nat s)
      else if c = CHR 0x00 then Some (0, s) else None)"

fun dec_many :: "(string \<Rightarrow> ('a \<times> string) option) \<Rightarrow> nat \<Rightarrow> string \<Rightarrow> ('a list \<times> string) option" where
  "dec_many d 0 s = Some ([], s)"
| "dec_many d (Suc n) s = do { (x, s) \<leftarrow> d s; (xs, s) \<leftarrow> dec_many d n s; Some (x # xs, s) }"

definition enc_list :: "('a \<Rightarrow> string) \<Rightarrow> 'a list \<Rightarrow> string" where
  "enc_list e xs = enc_nat (length xs) @ concat (map e xs)"

definition dec_list :: "(string \<Rightarrow> ('a \<times> string) option) \<Rightarrow> string \<Rightarrow> ('a list \<times> string) option" where
  "dec_list d s = do { (n, s) \<leftarrow> dec_nat s; dec_many d n s }"

lemma dec_enc_nat [simp]: "dec_nat (enc_nat n @ s) = Some (n, s)"
  by (induction n) (auto simp: enc_nat_def)

lemma dec_enc_list:
  assumes "\<And>x s. x \<in> set xs \<Longrightarrow> d (e x @ s) = Some (x, s)"
  shows "dec_list d (enc_list e xs @ s) = Some (xs, s)"
proof -
  have "dec_many d (length xs) (concat (map e xs) @ s) = Some (xs, s)"
    using assms by (induction xs) auto
  then show ?thesis by (simp add: dec_list_def enc_list_def)
qed

section \<open>Objects and builders\<close>

datatype tobj = TVec bytes | TTab "(nat \<times> fb_val) list"

fun enc_char :: "char \<Rightarrow> string" where "enc_char c = [c]"
fun dec_char :: "string \<Rightarrow> (char \<times> string) option" where
  "dec_char [] = None" | "dec_char (c # s) = Some (c, s)"

fun enc_val :: "fb_val \<Rightarrow> string" where
  "enc_val (FOff x) = enc_nat 0 @ enc_nat (unat x)"
| "enc_val (FByte x) = enc_nat 1 @ enc_nat (unat x)"
| "enc_val (FU32 x) = enc_nat 2 @ enc_nat (unat x)"
| "enc_val (FU64 x) = enc_nat 3 @ enc_nat (unat x)"

definition dec_val :: "string \<Rightarrow> (fb_val \<times> string) option" where
  "dec_val s = do { (t, s) \<leftarrow> dec_nat s; (n, s) \<leftarrow> dec_nat s;
     Some (if t = 0 then FOff (of_nat n) else if t = 1 then FByte (of_nat n)
           else if t = 2 then FU32 (of_nat n) else FU64 (of_nat n), s) }"

fun enc_slot :: "nat \<times> fb_val \<Rightarrow> string" where
  "enc_slot (i, v) = enc_nat i @ enc_val v"
definition dec_slot :: "string \<Rightarrow> ((nat \<times> fb_val) \<times> string) option" where
  "dec_slot s = do { (i, s) \<leftarrow> dec_nat s; (v, s) \<leftarrow> dec_val s; Some ((i, v), s) }"

fun enc_obj :: "tobj \<Rightarrow> string" where
  "enc_obj (TVec v) = enc_nat 0 @ enc_list enc_char v"
| "enc_obj (TTab ws) = enc_nat 1 @ enc_list enc_slot ws"
definition dec_obj :: "string \<Rightarrow> (tobj \<times> string) option" where
  "dec_obj s = do { (t, s) \<leftarrow> dec_nat s;
     if t = 0 then map_option (apfst TVec) (dec_list dec_char s)
     else map_option (apfst TTab) (dec_list dec_slot s) }"

definition enc_buf :: "u32 \<Rightarrow> tobj list \<Rightarrow> string" where
  "enc_buf root objs = enc_nat (unat root) @ enc_list enc_obj objs"
definition dec_buf :: "string \<Rightarrow> (u32 \<times> tobj list) option" where
  "dec_buf s = do { (r, s) \<leftarrow> dec_nat s; (objs, s) \<leftarrow> dec_list dec_obj s; Some (of_nat r, objs) }"

lemma dec_enc_val [simp]: "dec_val (enc_val v @ s) = Some (v, s)"
  by (cases v) (simp_all add: dec_val_def)

lemma dec_enc_slot [simp]: "dec_slot (enc_slot w @ s) = Some (w, s)"
  by (cases w) (simp add: dec_slot_def)

lemma dec_enc_obj [simp]: "dec_obj (enc_obj x @ s) = Some (x, s)"
  by (cases x) (simp_all add: dec_obj_def dec_enc_list)

lemma dec_enc_buf [simp]: "dec_buf (enc_buf r objs) = Some (r, objs)"
  using dec_enc_list [of objs dec_obj enc_obj "[]"] by (simp add: dec_buf_def enc_buf_def)

record tbuilder =
  tb_objs :: "tobj list"
  tb_open :: "(nat \<times> (nat \<times> fb_val) list) option"
  tb_root :: u32

definition toff :: "nat \<Rightarrow> u32" where "toff j = of_nat (256 * (j + 1))"

definition tget :: "tobj list \<Rightarrow> u32 \<Rightarrow> tobj option" where
  "tget objs p = (let k = unat p in
     if k mod 256 = 0 \<and> 0 < k \<and> k div 256 \<le> length objs then Some (objs ! (k div 256 - 1)) else None)"

definition tslot :: "bytes \<Rightarrow> u32 \<Rightarrow> nat \<Rightarrow> fb_val option" where
  "tslot buf p i = do { (r, objs) \<leftarrow> dec_buf buf; x \<leftarrow> tget objs p;
     case x of TVec _ \<Rightarrow> None | TTab ws \<Rightarrow> map_of ws i }"

text \<open>The slot that an address inside a table belongs to.\<close>

definition taddr :: "u32 \<Rightarrow> u32 \<times> nat" where
  "taddr a = (of_nat (unat a - unat a mod 256), (unat a mod 256 - 4) div 2)"

definition tprep :: "('v \<Rightarrow> fb_val) \<Rightarrow> tbuilder \<Rightarrow> nat \<Rightarrow> 'v \<Rightarrow> 'v \<Rightarrow> tbuilder" where
  "tprep mk b i x d = (case tb_open b of None \<Rightarrow> b
     | Some (n, ws) \<Rightarrow> if x = d then b else b\<lparr>tb_open := Some (n, (i, mk x) # ws)\<rparr>)"

definition tfb :: "tbuilder flatbuffers" where
  "tfb = \<lparr>NewBuilder = \<lparr>tb_objs = [], tb_open = None, tb_root = 0\<rparr>,
     CreateByteString = (\<lambda>b v. (b\<lparr>tb_objs := tb_objs b @ [TVec v]\<rparr>, toff (length (tb_objs b)))),
     StartObject = (\<lambda>b n. if tb_open b = None then b\<lparr>tb_open := Some (n, [])\<rparr> else b),
     PrependUOffsetTSlot = tprep FOff, PrependByteSlot = tprep FByte,
     PrependUint32Slot = tprep FU32, PrependUint64Slot = tprep FU64,
     EndObject = (\<lambda>b. case tb_open b of None \<Rightarrow> (b, 0)
        | Some (n, ws) \<Rightarrow> (b\<lparr>tb_objs := tb_objs b @ [TTab ws], tb_open := None\<rparr>, toff (length (tb_objs b)))),
     Finish = (\<lambda>b r. b\<lparr>tb_root := r\<rparr>),
     HeadBytes = (\<lambda>b. enc_buf (tb_root b) (tb_objs b)),
     GetUOffsetT = (\<lambda>buf. map_option fst (dec_buf buf)),
     Table_Offset = (\<lambda>t vt. do { (r, objs) \<leftarrow> dec_buf (Tab_Bytes t);
        Some (if tslot (Tab_Bytes t) (Tab_Pos t) ((unat vt - 4) div 2) = None then 0 else vt) }),
     Table_ByteVector = (\<lambda>t a. do { v \<leftarrow> tslot (Tab_Bytes t) (fst (taddr a)) (snd (taddr a));
        (r, objs) \<leftarrow> dec_buf (Tab_Bytes t);
        case v of FOff p \<Rightarrow> (case tget objs p of Some (TVec bs) \<Rightarrow> Some bs | _ \<Rightarrow> None) | _ \<Rightarrow> None }),
     Table_GetByte = (\<lambda>t a. do { v \<leftarrow> tslot (Tab_Bytes t) (fst (taddr a)) (snd (taddr a));
        case v of FByte x \<Rightarrow> Some x | _ \<Rightarrow> None }),
     Table_GetUint32 = (\<lambda>t a. do { v \<leftarrow> tslot (Tab_Bytes t) (fst (taddr a)) (snd (taddr a));
        case v of FU32 x \<Rightarrow> Some x | _ \<Rightarrow> None }),
     Table_GetUint64 = (\<lambda>t a. do { v \<leftarrow> tslot (Tab_Bytes t) (fst (taddr a)) (snd (taddr a));
        case v of FU64 x \<Rightarrow> Some x | _ \<Rightarrow> None }),
     Table_Union = (\<lambda>t k. do { v \<leftarrow> tslot (Tab_Bytes t) (Tab_Pos t) ((unat k - 4) div 2);
        case v of FOff p \<Rightarrow> Some \<lparr>Tab_Bytes = Tab_Bytes t, Tab_Pos = p\<rparr> | _ \<Rightarrow> None })\<rparr>"

section \<open>It satisfies the laws\<close>

fun tview :: "tobj \<Rightarrow> fb_obj" where
  "tview (TVec v) = FVec v"
| "tview (TTab ws) = FTab (map_of ws)"

fun tsize :: "tobj \<Rightarrow> nat" where
  "tsize (TVec v) = length v + 512"
| "tsize (TTab ws) = 1024 + 512 * length ws"

definition tg :: "tbuilder fb_view" where
  "tg = \<lparr>heap = (\<lambda>b p. map_option tview (tget (tb_objs b) p)),
     opn = (\<lambda>b. map_option (\<lambda>(n, ws). (n, map_of ws)) (tb_open b)),
     used = (\<lambda>b. sum_list (map tsize (tb_objs b)) +
        (case tb_open b of None \<Rightarrow> 0 | Some (n, ws) \<Rightarrow> 512 + 512 * length ws))\<rparr>"

lemma tg_sel:
  "heap tg b p = map_option tview (tget (tb_objs b) p)"
  "opn tg b = map_option (\<lambda>(n, ws). (n, map_of ws)) (tb_open b)"
  "used tg b = sum_list (map tsize (tb_objs b)) +
     (case tb_open b of None \<Rightarrow> 0 | Some (n, ws) \<Rightarrow> 512 + 512 * length ws)"
  by (simp_all add: tg_def)

lemma tsize_sum: "512 * length objs \<le> sum_list (map tsize objs)"
proof (induction objs)
  case (Cons x objs)
  then show ?case by (cases x) auto
qed simp

lemma unat_toff: "j < 2 ^ 22 \<Longrightarrow> unat (toff j) = 256 * (j + 1)"
proof -
  assume "j < 2 ^ 22"
  then have "256 * (j + 1) < 2 ^ 32" by simp
  then show ?thesis unfolding toff_def by (subst unat_of_nat) simp
qed

lemma tget_append: "tget objs p = Some x \<Longrightarrow> tget (objs @ [y]) p = Some x"
proof -
  assume "tget objs p = Some x"
  then have k: "unat p mod 256 = 0" "0 < unat p" "unat p div 256 \<le> length objs"
      "x = objs ! (unat p div 256 - 1)"
    by (auto simp: tget_def Let_def split: if_splits)
  then have "0 < unat p div 256" by (auto simp: mod_0_imp_dvd elim!: dvdE)
  with k show ?thesis by (auto simp: tget_def Let_def nth_append)
qed

lemma tget_new: "length objs < 2 ^ 22 \<Longrightarrow> tget (objs @ [y]) (toff (length objs)) = Some y"
  by (simp add: tget_def Let_def unat_toff)

lemma toff_ne: "j < 2 ^ 22 \<Longrightarrow> toff j \<noteq> 0"
  using unat_toff [of j] by auto

lemma objs_bound: "sum_list (map tsize objs) \<le> fb_limit \<Longrightarrow> length objs < 2 ^ 22"
  using tsize_sum [of objs] by (simp add: fb_limit_def)

lemma slot_law_tprep: "slot_law tg (tprep mk) mk valid"
  by (auto simp: slot_law_def grows_def tg_sel tprep_def fun_eq_iff split: option.splits)

lemma builder_laws_tfb: "fb_builder_laws tfb tg"
  unfolding fb_builder_laws_def
proof (intro conjI allI impI)
  fix b v b' p
  assume c: "CreateByteString tfb b v = (b', p)"
  show "grows tg b b' (length v + 512)"
    using c by (auto simp: grows_def tg_sel tfb_def)
  assume "opn tg b = None" and "used tg b' \<le> fb_limit"
  then have "length (tb_objs b) < 2 ^ 22" using c objs_bound [of "tb_objs b"] by (auto simp: tg_sel tfb_def)
  then show "p \<noteq> 0" and "heap tg b' p = Some (FVec v)" and "keeps tg b b'" and "opn tg b' = None"
    using c \<open>opn tg b = None\<close>
    by (auto simp: tg_sel tfb_def keeps_def toff_ne tget_new tget_append)
next
  fix b b' p
  assume e: "EndObject tfb b = (b', p)"
  show "grows tg b b' 512"
    using e by (auto simp: grows_def tg_sel tfb_def split: option.splits)
  fix n s
  assume "opn tg b = Some (n, s)" and "used tg b' \<le> fb_limit"
  then obtain ws where ws: "tb_open b = Some (n, ws)" "s = map_of ws" by (auto simp: tg_sel)
  then have "length (tb_objs b) < 2 ^ 22"
    using e \<open>used tg b' \<le> fb_limit\<close> objs_bound [of "tb_objs b"] by (auto simp: tg_sel tfb_def)
  then show "p \<noteq> 0" and "heap tg b' p = Some (FTab s)" and "keeps tg b b'" and "opn tg b' = None"
    using e ws by (auto simp: tg_sel tfb_def keeps_def toff_ne tget_new tget_append)
qed (auto simp: tg_sel tfb_def grows_def slot_law_tprep fun_eq_iff split: option.splits)

lemma taddr_slot:
  assumes "unat p mod 256 = 0" and "i < fb_max_slots"
  shows "taddr (ucast (of_nat (4 + 2 * i) :: u16) + p) = (p, i)"
proof -
  have vt: "unat (of_nat (4 + 2 * i) :: u16) = 4 + 2 * i"
    using assms(2) by (subst unat_of_nat) simp
  then have u: "unat (ucast (of_nat (4 + 2 * i) :: u16) :: u32) = 4 + 2 * i"
    using assms(2) unsigned_ucast_eq [where 'a = nat and 'c = 32 and w = "of_nat (4 + 2 * i) :: u16"]
    by (simp add: take_bit_nat_eq_self)
  obtain q where q: "unat p = 256 * q" using assms(1) by auto
  have "unat p < 2 ^ 32" using unsigned_less [of p] by simp
  with q have "q < 2 ^ 24" by simp
  with q have "4 + 2 * i + unat p < 2 ^ 32" using assms(2) by simp
  then have s: "unat (ucast (of_nat (4 + 2 * i) :: u16) + p) = 4 + 2 * i + unat p"
    using u by (simp add: unat_word_ariths)
  have "(4 + 2 * i + unat p) mod 256 = 4 + 2 * i" using assms(2) by (simp add: q)
  then show ?thesis unfolding taddr_def s by simp
qed

lemma tget_mod: "tget objs p = Some x \<Longrightarrow> unat p mod 256 = 0"
  by (auto simp: tget_def Let_def split: if_splits)

lemma tab_reads_tfb:
  assumes "tget objs p = Some (TTab ws)"
  shows "tab_reads tfb (\<lambda>q. map_option tview (tget objs q)) (enc_buf r objs) id p (map_of ws)"
  unfolding tab_reads_def Let_def
proof (intro allI impI conjI)
  fix i :: nat
  assume i: "i < fb_max_slots"
  let ?tab = "\<lparr>Tab_Bytes = enc_buf r objs, Tab_Pos = id p\<rparr>" and ?vt = "of_nat (4 + 2 * i) :: u16"
  have vt: "unat ?vt = 4 + 2 * i" using i by (subst unat_of_nat) simp
  have sl: "tslot (enc_buf r objs) p j = map_of ws j" for j using assms by (simp add: tslot_def)
  have ta: "taddr (ucast ?vt + p) = (p, i)" by (rule taddr_slot [OF tget_mod [OF assms] i])
  have off: "Table_Offset tfb ?tab ?vt = Some (if map_of ws i = None then 0 else ?vt)"
    using vt by (simp add: tfb_def sl)
  show "Table_Offset tfb ?tab ?vt = Some 0" if "map_of ws i = None" using off that by simp
  have ucv: "unat (ucast ?vt :: u32) = 4 + 2 * i" using vt i unsigned_ucast_eq [where 'a = nat and 'c = 32 and w = ?vt]
    by (simp add: take_bit_nat_eq_self)
  have nz: "?vt \<noteq> 0" using vt by auto
  show "\<exists>k. k \<noteq> 0 \<and> Table_Offset tfb ?tab ?vt = Some k \<and>
      (case v of
         FOff t \<Rightarrow> Table_Union tfb ?tab (ucast k) = Some \<lparr>Tab_Bytes = enc_buf r objs, Tab_Pos = id t\<rparr> \<and>
           (\<forall>bs. map_option tview (tget objs t) = Some (FVec bs) \<longrightarrow>
              Table_ByteVector tfb ?tab (ucast k + id p) = Some bs)
       | FByte x \<Rightarrow> Table_GetByte tfb ?tab (ucast k + id p) = Some x
       | FU32 x \<Rightarrow> Table_GetUint32 tfb ?tab (ucast k + id p) = Some x
       | FU64 x \<Rightarrow> Table_GetUint64 tfb ?tab (ucast k + id p) = Some x)"
    if v: "map_of ws i = Some v" for v
  proof (intro exI [of _ ?vt] conjI)
    show "?vt \<noteq> 0" by (rule nz)
    show "Table_Offset tfb ?tab ?vt = Some ?vt" using off v by simp
    have tv: "tview x = FVec bs \<longleftrightarrow> x = TVec bs" for x bs by (cases x) auto
    show "case v of
         FOff t \<Rightarrow> Table_Union tfb ?tab (ucast ?vt) = Some \<lparr>Tab_Bytes = enc_buf r objs, Tab_Pos = id t\<rparr> \<and>
           (\<forall>bs. map_option tview (tget objs t) = Some (FVec bs) \<longrightarrow>
              Table_ByteVector tfb ?tab (ucast ?vt + id p) = Some bs)
       | FByte x \<Rightarrow> Table_GetByte tfb ?tab (ucast ?vt + id p) = Some x
       | FU32 x \<Rightarrow> Table_GetUint32 tfb ?tab (ucast ?vt + id p) = Some x
       | FU64 x \<Rightarrow> Table_GetUint64 tfb ?tab (ucast ?vt + id p) = Some x"
      using v ta ucv by (cases v) (auto simp: tfb_def sl tv)
  qed
qed

lemma reader_law_tfb: "fb_reader_law tfb tg"
  unfolding fb_reader_law_def Let_def
proof (intro allI impI conjI)
  fix b r s
  let ?buf = "HeadBytes tfb (Finish tfb b r)"
  have buf: "?buf = enc_buf r (tb_objs b)" by (simp add: tfb_def)
  show "?buf \<noteq> []" by (simp add: buf enc_buf_def enc_nat_def)
  have "GetUOffsetT tfb ?buf = Some (id r)" unfolding buf by (simp add: tfb_def)
  moreover have "tab_reads tfb (heap tg b) ?buf id p s" if h: "heap tg b p = Some (FTab s)" for p s
  proof -
    obtain x where x: "tget (tb_objs b) p = Some x" "tview x = FTab s"
      using h by (auto simp: tg_sel)
    then obtain ws where "x = TTab ws" "s = map_of ws" by (cases x) auto
    moreover have "heap tg b = (\<lambda>q. map_option tview (tget (tb_objs b) q))"
      by (simp add: tg_sel fun_eq_iff)
    ultimately show ?thesis using tab_reads_tfb x(1) by (simp add: buf)
  qed
  ultimately show "\<exists>pos. GetUOffsetT tfb ?buf = Some (pos r) \<and>
      (\<forall>p s. heap tg b p = Some (FTab s) \<longrightarrow> tab_reads tfb (heap tg b) ?buf pos p s)"
    by blast
qed

theorem fb_laws_tfb: "fb_laws tfb"
  using builder_laws_tfb reader_law_tfb by (auto simp: fb_laws_def)

end
