(* ===== verification/Stream_Messages.thy ===== *)
theory Stream_Messages
  imports Identity Wire_Instance
begin

text \<open>
  The two messages of the protocol (\<^verbatim>\<open>messages/stream_message.go\<close>, \<^verbatim>\<open>messages/stream_ack_message.go\<close>).
  A message read from bytes keeps the tables it was read from; every setter drops the stream table,
  so that encoding uses the fields again. The FlatBuffers runtime is the parameter \<open>fb\<close>.
\<close>

section \<open>StreamMessage\<close>

record stream_message =
  msg_fsm :: "fb_table option"
  msg_envelope :: "fb_table option"
  msg_MessageTopic :: bytes
  msg_TXID :: bytes
  msg_SenderID :: bytes
  msg_DeviceType :: bytes
  msg_DeviceID :: bytes
  msg_DeliveredAtEpochMs :: u64
  msg_CreatedAt :: u32
  msg_Payload :: bytes
  msg_EnvMessageID :: bytes

definition StreamMessageFromBytes ::
    "'b flatbuffers \<Rightarrow> bytes \<Rightarrow> (wire_error + stream_message) option" where
  "StreamMessageFromBytes fb value =
     do { res \<leftarrow> FlatbuffersEnvelopeFromBytes fb value;
          case res of
            Inl e \<Rightarrow> Some (Inl e)
          | Inr (envelope, unionTable) \<Rightarrow>
              do { t \<leftarrow> MessageType fb envelope;
                   if t \<noteq> MessageFlatbuffersStream
                   then do { txid \<leftarrow> TxidBytes fb envelope; topic \<leftarrow> TopicBytes fb envelope;
                             Some (Inl (WrongMessageType txid topic t)) }
                   else do { topic \<leftarrow> TopicBytes fb envelope; txid \<leftarrow> TxidBytes fb envelope;
                             senderID \<leftarrow> SenderIdBytes fb unionTable;
                             deviceType \<leftarrow> DeviceTypeBytes fb unionTable;
                             deviceID \<leftarrow> DeviceIdBytes fb unionTable;
                             ms \<leftarrow> DeliveredAtEpochMs fb unionTable;
                             createdAt \<leftarrow> CreatedAt fb unionTable;
                             payload \<leftarrow> PayloadBytes fb unionTable;
                             messageID \<leftarrow> MessageIdBytes fb envelope;
                             Some (Inr \<lparr>msg_fsm = Some unionTable, msg_envelope = Some envelope,
                               msg_MessageTopic = topic, msg_TXID = txid, msg_SenderID = senderID,
                               msg_DeviceType = deviceType, msg_DeviceID = deviceID,
                               msg_DeliveredAtEpochMs = ms, msg_CreatedAt = createdAt,
                               msg_Payload = payload, msg_EnvMessageID = messageID\<rparr>) } } }"

text \<open>\<^verbatim>\<open>m.envelope\<close> is nil only together with \<^verbatim>\<open>m.fsm\<close>; reading through a nil envelope panics.\<close>

definition StreamMessage_ToBytes :: "'b flatbuffers \<Rightarrow> stream_message \<Rightarrow> bytes option" where
  "StreamMessage_ToBytes fb m =
     (case msg_fsm m of
        None \<Rightarrow> Some (FlatbuffersStreamToBytes fb (msg_SenderID m) (msg_MessageTopic m) (msg_TXID m)
                  (msg_Payload m) (msg_CreatedAt m) (msg_EnvMessageID m) (msg_DeviceType m)
                  (msg_DeviceID m) (msg_DeliveredAtEpochMs m))
      | Some fsm \<Rightarrow>
          do { envelope \<leftarrow> msg_envelope m; FlatbuffersStream_ToBytes fb fsm envelope })"

definition StreamMessage_MsgType :: "'b flatbuffers \<Rightarrow> stream_message \<Rightarrow> u8 option" where
  "StreamMessage_MsgType fb m =
     (case msg_envelope m of None \<Rightarrow> Some MessageFlatbuffersStream | Some env \<Rightarrow> MessageType fb env)"

definition SetSenderID :: "string \<Rightarrow> stream_message \<Rightarrow> stream_message" where
  "SetSenderID senderID m =
     (let (deviceType, deviceID) = ParseSenderID senderID
      in m\<lparr>msg_SenderID := senderID, msg_DeviceType := deviceType, msg_DeviceID := deviceID,
           msg_fsm := None\<rparr>)"

definition SetIdentity :: "string \<Rightarrow> string \<Rightarrow> stream_message \<Rightarrow> stream_message" where
  "SetIdentity deviceType deviceID m =
     m\<lparr>msg_DeviceType := deviceType, msg_DeviceID := deviceID,
       msg_SenderID := BuildClientID deviceType deviceID, msg_fsm := None\<rparr>"

definition SetMessageID :: "bytes \<Rightarrow> stream_message \<Rightarrow> stream_message" where
  "SetMessageID messageID m = m\<lparr>msg_EnvMessageID := messageID, msg_fsm := None\<rparr>"

text \<open>
  A time is its \<^verbatim>\<open>UnixNano\<close>, an integer; Go divides towards zero and the conversion to
  \<^verbatim>\<open>uint64\<close> wraps.
\<close>

definition go_div :: "int \<Rightarrow> int \<Rightarrow> int" where
  "go_div a b = sgn a * sgn b * (\<bar>a\<bar> div \<bar>b\<bar>)"

definition SetDeliveredAt :: "int \<Rightarrow> stream_message \<Rightarrow> stream_message" where
  "SetDeliveredAt unixNano m =
     m\<lparr>msg_DeliveredAtEpochMs := word_of_int (go_div unixNano 1000000), msg_fsm := None\<rparr>"

definition StreamMessage_ExtraLogInfo :: "stream_message \<Rightarrow> log_info" where
  "StreamMessage_ExtraLogInfo m =
     [(''message_topic'', GStr (msg_MessageTopic m)), (''sender_id'', GStr (msg_SenderID m))]"

section \<open>StreamAckMessage\<close>

record stream_ack_message =
  ack_envelope :: "fb_table option"
  ack_TXID :: bytes
  ack_MessageTopic :: bytes
  ack_EnvMessageID :: bytes

definition StreamAckMessageFromBytes ::
    "'b flatbuffers \<Rightarrow> bytes \<Rightarrow> (wire_error + stream_ack_message) option" where
  "StreamAckMessageFromBytes fb value =
     do { envelope \<leftarrow> GetRootAsFlatbuffersEnvelope fb value 0;
          t \<leftarrow> MessageType fb envelope;
          if t \<noteq> MessageFlatbuffersStreamAck
          then do { txid \<leftarrow> TxidBytes fb envelope; topic \<leftarrow> TopicBytes fb envelope;
                    Some (Inl (WrongMessageType txid topic t)) }
          else do { topic \<leftarrow> TopicBytes fb envelope; txid \<leftarrow> TxidBytes fb envelope;
                    messageID \<leftarrow> MessageIdBytes fb envelope;
                    Some (Inr \<lparr>ack_envelope = Some envelope, ack_TXID = txid,
                      ack_MessageTopic = topic, ack_EnvMessageID = messageID\<rparr>) } }"

definition StreamAckMessage_ToBytes :: "'b flatbuffers \<Rightarrow> stream_ack_message \<Rightarrow> bytes" where
  "StreamAckMessage_ToBytes fb m =
     FlatbuffersStreamAckToBytes fb (ack_TXID m) (ack_MessageTopic m) (ack_EnvMessageID m)"

definition StreamAckMessage_MsgType :: "'b flatbuffers \<Rightarrow> stream_ack_message \<Rightarrow> u8 option" where
  "StreamAckMessage_MsgType fb m =
     (case ack_envelope m of None \<Rightarrow> Some MessageFlatbuffersStreamAck | Some env \<Rightarrow> MessageType fb env)"

definition Ack_SetMessageID :: "bytes \<Rightarrow> stream_ack_message \<Rightarrow> stream_ack_message" where
  "Ack_SetMessageID messageID m = m\<lparr>ack_EnvMessageID := messageID\<rparr>"

section \<open>Round trips\<close>

text \<open>The fields of a message, without the tables it was read from.\<close>

definition msg_fields :: "stream_message \<Rightarrow> stream_message" where
  "msg_fields m = m\<lparr>msg_fsm := None, msg_envelope := None\<rparr>"

definition message_size :: "stream_message \<Rightarrow> nat" where
  "message_size m = length (msg_SenderID m) + length (msg_MessageTopic m) + length (msg_TXID m) +
     length (msg_Payload m) + length (msg_EnvMessageID m) + length (msg_DeviceType m) +
     length (msg_DeviceID m)"

lemma message_size_setters [simp]:
  "message_size (SetDeliveredAt t m) = message_size m"
  "message_size (msg_fields m) = message_size m"
  by (simp_all add: message_size_def SetDeliveredAt_def msg_fields_def)

lemma StreamMessageFromBytes_reads:
  assumes "envelope_reads fb buf txid topic messageID MessageFlatbuffersStream env fsm"
    and "stream_reads fb fsm senderID payload createdAt deviceType deviceID ms"
  shows "StreamMessageFromBytes fb buf =
     Some (Inr \<lparr>msg_fsm = Some fsm, msg_envelope = Some env, msg_MessageTopic = topic,
       msg_TXID = txid, msg_SenderID = senderID, msg_DeviceType = deviceType, msg_DeviceID = deviceID,
       msg_DeliveredAtEpochMs = ms, msg_CreatedAt = createdAt, msg_Payload = payload,
       msg_EnvMessageID = messageID\<rparr>)"
  using assms by (simp add: StreamMessageFromBytes_def envelope_reads_def stream_reads_def)

lemma stream_message_encode:
  assumes L: "fb_laws fb" and F: "msg_fsm m = None" and U: "message_size m + 14000 \<le> fb_limit"
  obtains buf m' where "StreamMessage_ToBytes fb m = Some buf"
    and "StreamMessageFromBytes fb buf = Some (Inr m')" and "msg_fields m' = msg_fields m"
    and "StreamMessage_ToBytes fb m' = Some buf" and "msg_fsm m' \<noteq> None" and "msg_envelope m' \<noteq> None"
proof -
  let ?buf = "FlatbuffersStreamToBytes fb (msg_SenderID m) (msg_MessageTopic m) (msg_TXID m)
     (msg_Payload m) (msg_CreatedAt m) (msg_EnvMessageID m) (msg_DeviceType m) (msg_DeviceID m)
     (msg_DeliveredAtEpochMs m)"
  have U': "length (msg_SenderID m) + length (msg_MessageTopic m) + length (msg_TXID m) +
     length (msg_Payload m) + length (msg_EnvMessageID m) + length (msg_DeviceType m) +
     length (msg_DeviceID m) + 14000 \<le> fb_limit" using U by (simp add: message_size_def)
  obtain env fsm where E: "envelope_reads fb ?buf (msg_TXID m) (msg_MessageTopic m)
      (msg_EnvMessageID m) MessageFlatbuffersStream env fsm"
    and S: "stream_reads fb fsm (msg_SenderID m) (msg_Payload m) (msg_CreatedAt m) (msg_DeviceType m)
      (msg_DeviceID m) (msg_DeliveredAtEpochMs m)"
    using stream_to_bytes [OF L U'] by blast
  show thesis
  proof (rule that [OF _ StreamMessageFromBytes_reads [OF E S]])
    show "StreamMessage_ToBytes fb m = Some ?buf" using F by (simp add: StreamMessage_ToBytes_def)
  qed (use E S in \<open>simp_all add: msg_fields_def StreamMessage_ToBytes_def FlatbuffersStream_ToBytes_def
         envelope_reads_def stream_reads_def\<close>)
qed

lemma ack_encode:
  assumes L: "fb_laws fb"
    and U: "length (ack_TXID m) + length (ack_MessageTopic m) + length (ack_EnvMessageID m) + 7000 \<le> fb_limit"
  obtains env where
    "StreamAckMessageFromBytes fb (StreamAckMessage_ToBytes fb m) = Some (Inr (m\<lparr>ack_envelope := Some env\<rparr>))"
proof -
  obtain env w where "envelope_reads fb (StreamAckMessage_ToBytes fb m) (ack_TXID m) (ack_MessageTopic m)
      (ack_EnvMessageID m) MessageFlatbuffersStreamAck env w"
    using ack_to_bytes [OF L U] by (auto simp: StreamAckMessage_ToBytes_def)
  then show thesis
    by (intro that [of env], cases m) (simp add: StreamAckMessageFromBytes_def envelope_reads_def)
qed

text \<open>
  C24: A stream message that is encoded from its fields decodes to a message with the same fields
  (topic, transaction id, sender, device type and id, timestamps, payload, message id), and encoding
  the decoded message again, now from the tables it was read from, gives the same bytes.
\<close>

theorem stream_message_roundtrip:
  assumes "fb_laws fb" and "msg_fsm m = None" and "message_size m + 14000 \<le> fb_limit"
  shows "\<exists>buf m'. StreamMessage_ToBytes fb m = Some buf \<and>
           StreamMessageFromBytes fb buf = Some (Inr m') \<and> msg_fields m' = msg_fields m \<and>
           StreamMessage_ToBytes fb m' = Some buf"
  using stream_message_encode [OF assms] by metis

definition example_message :: stream_message where
  "example_message = \<lparr>msg_fsm = None, msg_envelope = None, msg_MessageTopic = ''V'',
     msg_TXID = ''1234'', msg_SenderID = ''vehicle_device.42'', msg_DeviceType = ''vehicle_device'',
     msg_DeviceID = ''42'', msg_DeliveredAtEpochMs = 0, msg_CreatedAt = 17, msg_Payload = ''data'',
     msg_EnvMessageID = []\<rparr>"

theorem stream_message_roundtrip_witness:
  "\<exists>buf m'. StreamMessage_ToBytes tfb example_message = Some buf \<and>
     StreamMessageFromBytes tfb buf = Some (Inr m') \<and> msg_fields m' = msg_fields example_message \<and>
     StreamMessage_ToBytes tfb m' = Some buf"
  by (rule stream_message_roundtrip [OF fb_laws_tfb])
     (simp_all add: example_message_def message_size_def fb_limit_def)

text \<open>
  An acknowledgement decodes to the transaction id, topic and message id it was built from, and
  an acknowledgement is not accepted where a stream message is expected: the decoder reports
  the wrong message type together with the transaction id and the topic.
\<close>

theorem ack_message_roundtrip:
  assumes "fb_laws fb"
    and "length (ack_TXID m) + length (ack_MessageTopic m) + length (ack_EnvMessageID m) + 7000 \<le> fb_limit"
  shows "(\<exists>env. StreamAckMessageFromBytes fb (StreamAckMessage_ToBytes fb m) =
            Some (Inr (m\<lparr>ack_envelope := Some env\<rparr>))) \<and>
         StreamMessageFromBytes fb (StreamAckMessage_ToBytes fb m) =
            Some (Inl (WrongMessageType (ack_TXID m) (ack_MessageTopic m) MessageFlatbuffersStreamAck))"
proof -
  have "MessageFlatbuffersStreamAck \<noteq> MessageFlatbuffersStream"
    by (simp add: MessageFlatbuffersStreamAck_def MessageFlatbuffersStream_def)
  moreover obtain env w where "envelope_reads fb (StreamAckMessage_ToBytes fb m) (ack_TXID m)
      (ack_MessageTopic m) (ack_EnvMessageID m) MessageFlatbuffersStreamAck env w"
    using ack_to_bytes [OF assms] by (auto simp: StreamAckMessage_ToBytes_def)
  ultimately have "StreamMessageFromBytes fb (StreamAckMessage_ToBytes fb m) =
      Some (Inl (WrongMessageType (ack_TXID m) (ack_MessageTopic m) MessageFlatbuffersStreamAck))"
    by (simp add: StreamMessageFromBytes_def envelope_reads_def)
  then show ?thesis using ack_encode [OF assms] by blast
qed

theorem ack_message_roundtrip_witness:
  "\<exists>env. StreamAckMessageFromBytes tfb (StreamAckMessage_ToBytes tfb
       \<lparr>ack_envelope = None, ack_TXID = ''1234'', ack_MessageTopic = ''V'', ack_EnvMessageID = []\<rparr>) =
     Some (Inr \<lparr>ack_envelope = Some env, ack_TXID = ''1234'', ack_MessageTopic = ''V'', ack_EnvMessageID = []\<rparr>)"
  using ack_message_roundtrip [OF fb_laws_tfb, of
      "\<lparr>ack_envelope = None, ack_TXID = ''1234'', ack_MessageTopic = ''V'', ack_EnvMessageID = []\<rparr>"]
  by (simp add: fb_limit_def)

end
