(* ===== verification/Telemetry.thy ===== *)
theory Telemetry
  imports Transforms Stream_Messages
begin

text \<open>
  The telemetry record and its serializer (\<^verbatim>\<open>telemetry/errors.go\<close>, \<^verbatim>\<open>producer.go\<close>, \<^verbatim>\<open>serializer.go\<close>,
  \<^verbatim>\<open>record.go\<close>). A producer is a value of the type parameter \<open>'p\<close>; calling \<^verbatim>\<open>Produce\<close> on it is an
  effect. A function that returns a record and an error returns both, as in Go. The clock readings
  (in nanoseconds) and the text of a recovered panic are arguments.
\<close>

section \<open>Errors\<close>

datatype go_error =
    ErrMessageTooBig
  | UnauthorizedSenderIDError string string
  | NonAnonymizedError
  | UnknownMessageType bytes string u8
  | Errorf string

fun Error_text :: "go_error \<Rightarrow> string" where
  "Error_text ErrMessageTooBig = ''can't process message, size above 1mb''"
| "Error_text (UnauthorizedSenderIDError expected received) =
     ''Sender ID mismatch '' @ expected @ '' - '' @ received"
| "Error_text NonAnonymizedError = ''unexpected non-anonymized message''"
| "Error_text (UnknownMessageType _ txid guessedType) =
     ''Unknown message Type for '' @ txid @ '' - '' @ Itoa (uint guessedType)"
| "Error_text (Errorf s) = s"

section \<open>Dispatchers and topics\<close>

datatype dispatcher = Pubsub | Kafka | Kinesis | Logger | ZMQ | MQTT | Redis

fun dispatcher_name :: "dispatcher \<Rightarrow> string" where
  "dispatcher_name Pubsub = ''pubsub''"
| "dispatcher_name Kafka = ''kafka''"
| "dispatcher_name Kinesis = ''kinesis''"
| "dispatcher_name Logger = ''logger''"
| "dispatcher_name ZMQ = ''zmq''"
| "dispatcher_name MQTT = ''mqtt''"
| "dispatcher_name Redis = ''redis''"

definition BuildTopicName :: "string \<Rightarrow> string \<Rightarrow> string" where
  "BuildTopicName namespace recordName = namespace @ ''_'' @ recordName"

section \<open>Serializer and record\<close>

record request_identity =
  DeviceID :: string
  SenderID :: string
  DeviceClientVersion :: string

record 'p serializer =
  DispatchRules :: "string \<rightharpoonup> 'p list"
  RequestIdentity :: "request_identity option"

record 'p telemetry_record =
  rec_ProduceTime :: int
  rec_ReceivedTimestamp :: int
  rec_Serializer :: "'p serializer option"
  rec_SocketID :: string
  rec_Timestamp :: int
  rec_Txid :: string
  rec_TxType :: string
  rec_TripID :: string
  rec_DeviceClientVersion :: string
  rec_Version :: int
  rec_Vin :: string
  rec_PayloadBytes :: bytes
  rec_RawBytes :: "bytes option"
  rec_transmitDecodedRecords :: bool
  rec_protoMessage :: "proto_message option"

definition blank_record :: "'p serializer \<Rightarrow> 'p telemetry_record" where
  "blank_record ts = \<lparr>rec_ProduceTime = 0, rec_ReceivedTimestamp = 0, rec_Serializer = Some ts,
     rec_SocketID = [], rec_Timestamp = 0, rec_Txid = [], rec_TxType = [], rec_TripID = [],
     rec_DeviceClientVersion = [], rec_Version = 0, rec_Vin = [], rec_PayloadBytes = [],
     rec_RawBytes = None, rec_transmitDecodedRecords = False, rec_protoMessage = None\<rparr>"

definition NewBinarySerializer ::
    "request_identity option \<Rightarrow> (string \<rightharpoonup> 'p list) \<Rightarrow> 'p serializer" where
  "NewBinarySerializer requestIdentity dispatchRules =
     \<lparr>DispatchRules = dispatchRules, RequestIdentity = requestIdentity\<rparr>"

section \<open>The serializer\<close>

text \<open>\<^const>\<open>None\<close> as the error stands for a panic; the record keeps what was written to it before.\<close>

definition guessError ::
    "'b flatbuffers \<Rightarrow> 'p telemetry_record \<Rightarrow> bytes \<Rightarrow> 'p telemetry_record \<times> go_error option" where
  "guessError fb record msg =
     (case FlatbuffersEnvelopeFromBytes fb msg of
        None \<Rightarrow> (record, None)
      | Some (Inl _) \<Rightarrow> (record, Some (UnknownMessageType msg [] 0))
      | Some (Inr (envelope, _)) \<Rightarrow>
          (case TxidBytes fb envelope of
             None \<Rightarrow> (record, None)
           | Some txid \<Rightarrow>
               (record\<lparr>rec_Txid := txid\<rparr>,
                map_option (UnknownMessageType msg txid) (MessageType fb envelope))))"

text \<open>
  \<^verbatim>\<open>now1\<close> and \<^verbatim>\<open>now2\<close> are the two readings of the clock, \<^verbatim>\<open>panicked\<close> the text of a recovered panic. Encoding
  a message whose stream table was dropped never returns an error.
\<close>

definition Deserialize ::
    "'b flatbuffers \<Rightarrow> string \<Rightarrow> int \<Rightarrow> int \<Rightarrow> 'p serializer \<Rightarrow> bytes \<Rightarrow> string \<Rightarrow>
     'p telemetry_record \<times> go_error option \<times> log_entry list" where
  "Deserialize fb panicked now1 now2 bs msg socketID =
     (let recovered = Some (Errorf (''panic while deserializing binary hermes stream: '' @ panicked));
          record = (blank_record bs)\<lparr>rec_RawBytes := Some msg, rec_SocketID := socketID\<rparr>
      in case StreamMessageFromBytes fb msg of
           None \<Rightarrow> (record, recovered, [])
         | Some (Inl _) \<Rightarrow>
             (case guessError fb record msg of
                (record, None) \<Rightarrow> (record, recovered, [])
              | (record, Some err) \<Rightarrow> (record, Some err, []))
         | Some (Inr streamMessage) \<Rightarrow>
             (let streamMessage = SetDeliveredAt now1 streamMessage
              in case StreamMessage_ToBytes fb streamMessage of
                   None \<Rightarrow> (record, recovered, [])
                 | Some raw \<Rightarrow>
                     (let record = record\<lparr>rec_RawBytes := Some raw,
                                          rec_TxType := msg_MessageTopic streamMessage,
                                          rec_Txid := msg_TXID streamMessage\<rparr>
                      in case RequestIdentity bs of
                           None \<Rightarrow> (record, recovered, [])
                         | Some identity \<Rightarrow>
                             (let record = record\<lparr>rec_Vin := DeviceID identity,
                                                  rec_PayloadBytes := msg_Payload streamMessage,
                                                  rec_ReceivedTimestamp := now2 div 10 ^ 6,
                                                  rec_DeviceClientVersion := DeviceClientVersion identity\<rparr>
                              in if DispatchRules bs (msg_MessageTopic streamMessage) \<noteq> None
                                 then (record, None, [])
                                 else if msg_SenderID streamMessage \<noteq> SenderID identity \<and>
                                         msg_SenderID streamMessage \<noteq> DeviceID identity
                                 then (record,
                                       Some (Errorf (''message SenderID: '' @ msg_SenderID streamMessage @
                                         '' do not match vehicleID: '' @ SenderID identity)),
                                       [ErrorLog ''unexpected_sender_id'' None
                                         [(''sender_id'', GStr (msg_SenderID streamMessage)),
                                          (''expected_sender_id'', GStr (SenderID identity)),
                                          (''txid'', GStr (rec_Txid record)),
                                          (''record_type'', GStr (rec_TxType record))]])
                                 else (record, None, [])))))"

definition Serializer_Ack :: "'b flatbuffers \<Rightarrow> 'p telemetry_record \<Rightarrow> bytes" where
  "Serializer_Ack fb record =
     StreamAckMessage_ToBytes fb \<lparr>ack_envelope = None, ack_TXID = rec_Txid record,
       ack_MessageTopic = rec_TxType record, ack_EnvMessageID = []\<rparr>"

definition error_message :: "string \<Rightarrow> bytes \<Rightarrow> stream_message" where
  "error_message txid payload = \<lparr>msg_fsm = None, msg_envelope = None, msg_MessageTopic = [],
     msg_TXID = txid, msg_SenderID = [], msg_DeviceType = [], msg_DeviceID = [],
     msg_DeliveredAtEpochMs = 0, msg_CreatedAt = 0, msg_Payload = payload, msg_EnvMessageID = []\<rparr>"

definition Serializer_Error :: "'b flatbuffers \<Rightarrow> string \<Rightarrow> 'p telemetry_record \<Rightarrow> bytes option" where
  "Serializer_Error fb err record =
     StreamMessage_ToBytes fb (error_message (rec_Txid record) err)"

text \<open>A lookup of a type without rules gives the nil slice, so nothing is produced.\<close>

definition Serializer_Dispatch ::
    "'p serializer \<Rightarrow> 'p telemetry_record \<Rightarrow> ('p \<times> 'p telemetry_record) list" where
  "Serializer_Dispatch bs record =
     map (\<lambda>producer. (producer, record))
       (case DispatchRules bs (rec_TxType record) of Some producers \<Rightarrow> producers | None \<Rightarrow> [])"

section \<open>The record\<close>

definition SizeLimit :: nat where "SizeLimit = 1000000"

definition toJSON :: "protobuf \<Rightarrow> 'p telemetry_record \<Rightarrow> bytes \<times> string option" where
  "toJSON pb record = protojson_Marshal pb (rec_protoMessage record)"

text \<open>The body that the four record types share: encode the changed message and keep it.\<close>

definition store_message ::
    "protobuf \<Rightarrow> 'p telemetry_record \<Rightarrow> proto_message \<Rightarrow> 'p telemetry_record \<times> go_error option" where
  "store_message pb record message =
     (let (bytes, err) = Marshal pb message
      in (record\<lparr>rec_PayloadBytes := bytes, rec_protoMessage := Some message\<rparr>, map_option Errorf err))"

definition applyProtoRecordTransforms ::
    "protobuf \<Rightarrow> 'p telemetry_record \<Rightarrow> 'p telemetry_record \<times> go_error option" where
  "applyProtoRecordTransforms pb record =
     (if rec_TxType record = ''alerts'' then
        (case Unmarshal_Alerts pb (rec_PayloadBytes record) of
           Inl err \<Rightarrow> (record, Some (Errorf err))
         | Inr message \<Rightarrow>
             store_message pb record (AlertsMessage
               (transformTimestamp (message\<lparr>Alerts_Vin := rec_Vin record\<rparr>))))
      else if rec_TxType record = ''errors'' then
        (case Unmarshal_Errors pb (rec_PayloadBytes record) of
           Inl err \<Rightarrow> (record, Some (Errorf err))
         | Inr message \<Rightarrow> store_message pb record (ErrorsMessage (message\<lparr>Errors_Vin := rec_Vin record\<rparr>)))
      else if rec_TxType record = ''V'' then
        (case Unmarshal_Payload pb (rec_PayloadBytes record) of
           Inl err \<Rightarrow> (record, Some (Errorf err))
         | Inr message \<Rightarrow>
             store_message pb record (PayloadMessage
               (transformScientificNotation (transformLocation (message\<lparr>Payload_Vin := rec_Vin record\<rparr>)))))
      else if rec_TxType record = ''connectivity'' then
        (case Unmarshal_Connectivity pb (rec_PayloadBytes record) of
           Inl err \<Rightarrow> (record, Some (Errorf err))
         | Inr message \<Rightarrow>
             store_message pb record (ConnectivityMessage (message\<lparr>Connectivity_Vin := rec_Vin record\<rparr>)))
      else (record, None))"

definition applyRecordTransforms ::
    "protobuf \<Rightarrow> 'p telemetry_record \<Rightarrow> 'p telemetry_record \<times> go_error option" where
  "applyRecordTransforms pb record =
     (case applyProtoRecordTransforms pb record of
        (record, Some err) \<Rightarrow> (record, Some err)
      | (record, None) \<Rightarrow>
          if \<not> rec_transmitDecodedRecords record then (record, None)
          else let (json, err) = toJSON pb record
               in (record\<lparr>rec_PayloadBytes := json\<rparr>, map_option Errorf err))"

definition NewRecord ::
    "'b flatbuffers \<Rightarrow> protobuf \<Rightarrow> string \<Rightarrow> int \<Rightarrow> int \<Rightarrow> 'p serializer \<Rightarrow> bytes \<Rightarrow> string \<Rightarrow> bool \<Rightarrow>
     'p telemetry_record \<times> go_error option \<times> log_entry list" where
  "NewRecord fb pb panicked now1 now2 ts msg socketID transmitDecodedRecords =
     (if length msg > SizeLimit
      then ((blank_record ts)\<lparr>rec_transmitDecodedRecords := transmitDecodedRecords\<rparr>, Some ErrMessageTooBig, [])
      else let (record, err, logs) = Deserialize fb panicked now1 now2 ts msg socketID;
               record = record\<lparr>rec_transmitDecodedRecords := transmitDecodedRecords\<rparr>
           in case err of
                Some err \<Rightarrow> (record, Some err, logs)
              | None \<Rightarrow> let (record, err) = applyRecordTransforms pb record in (record, err, logs))"

text \<open>Through the record's serializer; \<^const>\<open>None\<close> is the panic when it has none.\<close>

definition Record_Ack :: "'b flatbuffers \<Rightarrow> 'p telemetry_record \<Rightarrow> bytes option" where
  "Record_Ack fb record =
     (case rec_Serializer record of None \<Rightarrow> None | Some _ \<Rightarrow> Some (Serializer_Ack fb record))"

definition Record_Error :: "'b flatbuffers \<Rightarrow> string \<Rightarrow> 'p telemetry_record \<Rightarrow> bytes option" where
  "Record_Error fb err record =
     (case rec_Serializer record of None \<Rightarrow> None | Some _ \<Rightarrow> Serializer_Error fb err record)"

definition Record_Dispatch ::
    "'p telemetry_record \<Rightarrow> ('p \<times> 'p telemetry_record) effect list option" where
  "Record_Dispatch record =
     (case rec_Serializer record of
        None \<Rightarrow> None
      | Some bs \<Rightarrow>
          Some (Log (LogLine DEBUG ''dispatching_message''
                  [(''socket_id'', GStr (rec_SocketID record)),
                   (''payload'', case rec_RawBytes record of None \<Rightarrow> GNil | Some raw \<Rightarrow> GStr raw)]) #
                map Act (Serializer_Dispatch bs record)))"

definition Metadata :: "'p telemetry_record \<Rightarrow> (string \<times> string) list" where
  "Metadata record =
     [(''vin'', rec_Vin record),
      (''receivedat'', Itoa (rec_ReceivedTimestamp record)),
      (''timestamp'', Itoa (rec_Timestamp record)),
      (''txid'', rec_Txid record),
      (''txtype'', rec_TxType record),
      (''version'', Itoa (rec_Version record)),
      (''device_client_version'', rec_DeviceClientVersion record)]"

definition GetJSONPayload :: "protobuf \<Rightarrow> 'p telemetry_record \<Rightarrow> bytes \<times> string option" where
  "GetJSONPayload pb record =
     (if rec_transmitDecodedRecords record then (rec_PayloadBytes record, None) else toJSON pb record)"

definition ensureEncoded :: "'p telemetry_record \<Rightarrow> log_entry list" where
  "ensureEncoded record =
     (if rec_RawBytes record = None \<and> rec_Serializer record \<noteq> None
      then [ErrorLog ''record_RawBytes_blank'' None []] else [])"

definition LengthRawBytes :: "'p telemetry_record \<Rightarrow> nat \<times> log_entry list" where
  "LengthRawBytes record =
     (case rec_RawBytes record of None \<Rightarrow> 0 | Some raw \<Rightarrow> length raw, ensureEncoded record)"

definition Length :: "'p telemetry_record \<Rightarrow> nat" where
  "Length record = length (rec_PayloadBytes record)"

definition Encode :: "'p telemetry_record \<Rightarrow> bytes option \<times> log_entry list" where
  "Encode record = (rec_RawBytes record, ensureEncoded record)"

definition SignalsCount :: "'p telemetry_record \<Rightarrow> nat" where
  "SignalsCount record =
     (case rec_protoMessage record of
        Some (PayloadMessage payload) \<Rightarrow> length (Payload_Data payload)
      | Some (AlertsMessage alerts) \<Rightarrow> length (Alerts_Alerts alerts)
      | _ \<Rightarrow> 0)"

section \<open>What the transforms keep\<close>

fun message_vin :: "proto_message \<Rightarrow> string" where
  "message_vin (PayloadMessage m) = Payload_Vin m"
| "message_vin (AlertsMessage m) = Alerts_Vin m"
| "message_vin (ErrorsMessage m) = Errors_Vin m"
| "message_vin (ConnectivityMessage m) = Connectivity_Vin m"

text \<open>The fields that identify a record; the transforms change only the payload and the message.\<close>

definition record_id :: "'p telemetry_record \<Rightarrow> 'p telemetry_record" where
  "record_id r = r\<lparr>rec_PayloadBytes := [], rec_protoMessage := None\<rparr>"

lemma record_id_fields:
  assumes "record_id r = record_id r'"
  shows "rec_Vin r = rec_Vin r'" "rec_Serializer r = rec_Serializer r'" "rec_SocketID r = rec_SocketID r'"
    "rec_TxType r = rec_TxType r'" "rec_Txid r = rec_Txid r'" "rec_RawBytes r = rec_RawBytes r'"
    "rec_transmitDecodedRecords r = rec_transmitDecodedRecords r'"
  using assms by (cases r; cases r'; simp add: record_id_def)+

lemma transform_vin [simp]:
  "Payload_Vin (transformScientificNotation m) = Payload_Vin m"
  "Payload_Vin (transformLocation m) = Payload_Vin m"
  "Alerts_Vin (transformTimestamp a) = Alerts_Vin a"
  by (simp_all add: transformScientificNotation_def transformLocation_def transformTimestamp_def)

lemma store_message_props:
  "store_message pb r m = (r', err) \<Longrightarrow> record_id r' = record_id r \<and> rec_protoMessage r' = Some m"
  by (auto simp: store_message_def record_id_def split: prod.splits)

lemma applyProtoRecordTransforms_props:
  assumes "applyProtoRecordTransforms pb r = (r', err)" and "rec_protoMessage r = None"
  shows "record_id r' = record_id r \<and> (\<forall>m. rec_protoMessage r' = Some m \<longrightarrow> message_vin m = rec_Vin r)"
  using assms
  by (auto simp: applyProtoRecordTransforms_def split: if_splits sum.splits dest!: store_message_props)

lemma applyRecordTransforms_props:
  assumes "applyRecordTransforms pb r = (r', err)" and "rec_protoMessage r = None"
  shows "record_id r' = record_id r \<and> (\<forall>m. rec_protoMessage r' = Some m \<longrightarrow> message_vin m = rec_Vin r)"
proof -
  obtain r1 e1 where 1: "applyProtoRecordTransforms pb r = (r1, e1)" by force
  have "record_id r' = record_id r1 \<and> rec_protoMessage r' = rec_protoMessage r1"
    using assms(1) 1
    by (auto simp: applyRecordTransforms_def record_id_def Let_def split: option.splits prod.splits if_splits)
  then show ?thesis using applyProtoRecordTransforms_props [OF 1 assms(2)] by simp
qed

lemma applyRecordTransforms_error:
  assumes "applyRecordTransforms pb r = (r', Some err)"
  shows "\<exists>s. err = Errorf s"
  using assms
  by (auto simp: applyRecordTransforms_def applyProtoRecordTransforms_def store_message_def Let_def
      split: option.splits prod.splits if_splits sum.splits)

lemma Deserialize_fresh:
  assumes "Deserialize fb panicked now1 now2 bs msg socketID = (r, err, logs)"
  shows "rec_protoMessage r = None \<and> rec_Serializer r = Some bs \<and> rec_SocketID r = socketID"
  using assms
  by (auto simp: Deserialize_def guessError_def blank_record_def Let_def
      split: option.splits sum.splits prod.splits if_splits)

lemma Deserialize_error:
  assumes "Deserialize fb panicked now1 now2 bs msg socketID = (r, Some err, logs)"
  shows "(\<exists>b t k. err = UnknownMessageType b t k) \<or> (\<exists>s. err = Errorf s)"
  using assms
  by (auto simp: Deserialize_def guessError_def Let_def
      split: option.splits sum.splits prod.splits if_splits)

lemma Deserialize_accepted:
  assumes "Deserialize fb panicked now1 now2 bs msg socketID = (r, None, logs)"
  obtains m identity raw where "StreamMessageFromBytes fb msg = Some (Inr m)"
    and "StreamMessage_ToBytes fb (SetDeliveredAt now1 m) = Some raw" and "RequestIdentity bs = Some identity"
    and "rec_Vin r = DeviceID identity" "rec_TxType r = msg_MessageTopic m" "rec_Txid r = msg_TXID m"
      "rec_PayloadBytes r = msg_Payload m" "rec_RawBytes r = Some raw"
      "rec_DeviceClientVersion r = DeviceClientVersion identity"
    and "DispatchRules bs (msg_MessageTopic m) \<noteq> None \<or> msg_SenderID m \<in> {SenderID identity, DeviceID identity}"
proof (cases "StreamMessageFromBytes fb msg")
  case None
  with assms show ?thesis by (simp add: Deserialize_def Let_def)
next
  case (Some res)
  note res = this
  show ?thesis
  proof (cases res)
    case (Inl e)
    with res assms show ?thesis by (auto simp: Deserialize_def Let_def split: prod.splits option.splits)
  next
    case (Inr m)
    obtain raw where raw: "StreamMessage_ToBytes fb (SetDeliveredAt now1 m) = Some raw"
      using assms res Inr by (auto simp: Deserialize_def Let_def split: option.splits)
    obtain identity where identity: "RequestIdentity bs = Some identity"
      using assms res Inr raw by (auto simp: Deserialize_def Let_def split: option.splits)
    show ?thesis
      by (rule that [of m raw identity])
         (use assms res Inr raw identity in
           \<open>auto simp: Deserialize_def Let_def SetDeliveredAt_def split: if_splits\<close>)
  qed
qed

lemma NewRecord_split:
  assumes "NewRecord fb pb panicked now1 now2 ts msg socketID decoded = (r, err, logs)"
    and "length msg \<le> SizeLimit"
  obtains r0 err0 where "Deserialize fb panicked now1 now2 ts msg socketID = (r0, err0, logs)"
    and "err0 \<noteq> None \<Longrightarrow> err = err0 \<and> r = r0\<lparr>rec_transmitDecodedRecords := decoded\<rparr>"
    and "err0 = None \<Longrightarrow> applyRecordTransforms pb (r0\<lparr>rec_transmitDecodedRecords := decoded\<rparr>) = (r, err)"
proof -
  obtain r0 err0 l0 where d: "Deserialize fb panicked now1 now2 ts msg socketID = (r0, err0, l0)"
    using prod_cases3 by blast
  show thesis
    by (rule that [of r0 err0])
       (use assms d in \<open>auto simp: NewRecord_def Let_def split: option.splits prod.splits\<close>)
qed

lemma NewRecord_identity:
  assumes "NewRecord fb pb panicked now1 now2 ts msg socketID decoded = (r, err, logs)"
  shows "rec_Serializer r = Some ts"
    and "err = None \<Longrightarrow> rec_SocketID r = socketID"
    and "rec_transmitDecodedRecords r = decoded"
proof -
  have "rec_Serializer r = Some ts \<and> (err = None \<longrightarrow> rec_SocketID r = socketID) \<and>
      rec_transmitDecodedRecords r = decoded"
  proof (cases "length msg \<le> SizeLimit")
    case False
    then show ?thesis using assms by (auto simp: NewRecord_def blank_record_def)
  next
    case True
    then obtain r0 err0 where d: "Deserialize fb panicked now1 now2 ts msg socketID = (r0, err0, logs)"
      and e: "err0 \<noteq> None \<Longrightarrow> err = err0 \<and> r = r0\<lparr>rec_transmitDecodedRecords := decoded\<rparr>"
      and a: "err0 = None \<Longrightarrow> applyRecordTransforms pb (r0\<lparr>rec_transmitDecodedRecords := decoded\<rparr>) = (r, err)"
      using NewRecord_split [OF assms] by metis
    show ?thesis
    proof (cases err0)
      case None
      then have "record_id r = record_id (r0\<lparr>rec_transmitDecodedRecords := decoded\<rparr>)"
        using applyRecordTransforms_props [OF a] Deserialize_fresh [OF d] by simp
      from record_id_fields [OF this] show ?thesis using Deserialize_fresh [OF d] by simp
    next
      case (Some e')
      then show ?thesis using e Deserialize_fresh [OF d] by simp
    qed
  qed
  then show "rec_Serializer r = Some ts" "err = None \<Longrightarrow> rec_SocketID r = socketID"
    "rec_transmitDecodedRecords r = decoded" by auto
qed

lemma deserialize_lemma:
  assumes "fb_laws fb" and "msg_fsm m = None" and "message_size m + 14000 \<le> fb_limit"
    and "RequestIdentity ts = Some identity" and "DispatchRules ts (msg_MessageTopic m) \<noteq> None"
  shows "\<exists>buf raw m'. StreamMessage_ToBytes fb m = Some buf \<and>
     Deserialize fb panicked now1 now2 ts buf socketID =
       ((blank_record ts)\<lparr>rec_RawBytes := Some raw, rec_SocketID := socketID,
          rec_TxType := msg_MessageTopic m, rec_Txid := msg_TXID m, rec_Vin := DeviceID identity,
          rec_PayloadBytes := msg_Payload m, rec_ReceivedTimestamp := now2 div 10 ^ 6,
          rec_DeviceClientVersion := DeviceClientVersion identity\<rparr>, None, []) \<and>
     StreamMessageFromBytes fb raw = Some (Inr m') \<and>
     msg_fields m' = (msg_fields m)\<lparr>msg_DeliveredAtEpochMs := word_of_int (go_div now1 1000000)\<rparr>"
proof -
  obtain buf m1 where 1: "StreamMessage_ToBytes fb m = Some buf" "StreamMessageFromBytes fb buf = Some (Inr m1)"
    "msg_fields m1 = msg_fields m"
    using stream_message_encode [OF assms(1-3)] by metis
  have F: "msg_fsm (SetDeliveredAt now1 m1) = None" by (simp add: SetDeliveredAt_def)
  have U: "message_size (SetDeliveredAt now1 m1) + 14000 \<le> fb_limit"
    using assms(3) 1(3) message_size_setters(2) by (metis message_size_setters(1))
  obtain raw m2 where 2: "StreamMessage_ToBytes fb (SetDeliveredAt now1 m1) = Some raw"
    "StreamMessageFromBytes fb raw = Some (Inr m2)" "msg_fields m2 = msg_fields (SetDeliveredAt now1 m1)"
    using stream_message_encode [OF assms(1) F U] by metis
  have "msg_fields (SetDeliveredAt now1 m1) =
      (msg_fields m1)\<lparr>msg_DeliveredAtEpochMs := word_of_int (go_div now1 1000000)\<rparr>"
    by (simp add: SetDeliveredAt_def msg_fields_def)
  moreover have f: "msg_MessageTopic m1 = msg_MessageTopic m" "msg_TXID m1 = msg_TXID m" "msg_Payload m1 = msg_Payload m"
    using 1(3) by (cases m; cases m1; simp add: msg_fields_def)+
  moreover have "Deserialize fb panicked now1 now2 ts buf socketID =
       ((blank_record ts)\<lparr>rec_RawBytes := Some raw, rec_SocketID := socketID,
          rec_TxType := msg_MessageTopic m, rec_Txid := msg_TXID m, rec_Vin := DeviceID identity,
          rec_PayloadBytes := msg_Payload m, rec_ReceivedTimestamp := now2 div 10 ^ 6,
          rec_DeviceClientVersion := DeviceClientVersion identity\<rparr>, None, [])"
    using 1 2 assms(4,5) f by (simp add: Deserialize_def SetDeliveredAt_def)
  ultimately show ?thesis using 1 2 by metis
qed

section \<open>A concrete connection\<close>

text \<open>A protobuf runtime with one payload, for the examples.\<close>

definition tpb :: protobuf where
  "tpb = \<lparr>Unmarshal_Payload = (\<lambda>b. Inr \<lparr>Payload_Data = [], Payload_CreatedAt = None, Payload_Vin = b,
       Payload_IsResend = False\<rparr>),
     Unmarshal_Alerts = (\<lambda>b. Inl b), Unmarshal_Errors = (\<lambda>b. Inl b), Unmarshal_Connectivity = (\<lambda>b. Inl b),
     Marshal = (\<lambda>m. (message_vin m, None)), protojson_Marshal = (\<lambda>_. (''{}'', None))\<rparr>"

definition example_serializer :: "dispatcher serializer" where
  "example_serializer = NewBinarySerializer
     (Some \<lparr>DeviceID = ''42'', SenderID = ''vehicle_device.42'', DeviceClientVersion = ''1''\<rparr>)
     [''V'' \<mapsto> [Kafka, Logger]]"

lemma length_enc_nat [simp]: "length (enc_nat n) = n + 1"
  by (simp add: enc_nat_def)

lemma length_enc_list: "length (enc_list e xs) = length xs + 1 + sum_list (map (length \<circ> e) xs)"
  by (simp add: enc_list_def length_concat o_def)

definition example_buf :: bytes where
  "example_buf = the (StreamMessage_ToBytes tfb example_message)"

lemma example_buf: "StreamMessage_ToBytes tfb example_message = Some example_buf"
  by (simp add: example_buf_def StreamMessage_ToBytes_def example_message_def)

lemma tfb_steps:
  "NewBuilder tfb = \<lparr>tb_objs = [], tb_open = None, tb_root = 0\<rparr>"
  "CreateByteString tfb \<lparr>tb_objs = os, tb_open = w, tb_root = r\<rparr> v =
     (\<lparr>tb_objs = os @ [TVec v], tb_open = w, tb_root = r\<rparr>, toff (length os))"
  "StartObject tfb \<lparr>tb_objs = os, tb_open = None, tb_root = r\<rparr> n = \<lparr>tb_objs = os, tb_open = Some (n, []), tb_root = r\<rparr>"
  "EndObject tfb \<lparr>tb_objs = os, tb_open = Some (n, ws), tb_root = r\<rparr> =
     (\<lparr>tb_objs = os @ [TTab ws], tb_open = None, tb_root = r\<rparr>, toff (length os))"
  "HeadBytes tfb (Finish tfb \<lparr>tb_objs = os, tb_open = w, tb_root = r\<rparr> r') = enc_buf r' os"
  by (simp_all add: tfb_def)

lemma tfb_slots:
  "PrependUOffsetTSlot tfb = tprep FOff" "PrependByteSlot tfb = tprep FByte"
  "PrependUint32Slot tfb = tprep FU32" "PrependUint64Slot tfb = tprep FU64"
  "tprep mk \<lparr>tb_objs = os, tb_open = Some (n, ws), tb_root = r\<rparr> i x d =
     \<lparr>tb_objs = os, tb_open = Some (n, if x = d then ws else (i, mk x) # ws), tb_root = r\<rparr>"
  by (simp_all add: tfb_def tprep_def)

lemma example_table:
  "FlatbuffersStreamTable tfb (NewBuilder tfb) ''vehicle_device.42'' ''data'' 17 ''vehicle_device'' ''42'' 0 =
     (\<lparr>tb_objs = [TVec ''vehicle_device.42'', TVec ''data'', TVec ''vehicle_device'', TVec ''42'',
        TTab [(4, FOff 1024), (3, FOff 768), (2, FOff 512), (0, FU32 17), (1, FOff 256)]],
       tb_open = None, tb_root = 0\<rparr>, 1280)"
  unfolding FlatbuffersStreamTable_def builder_defs
  by (simp add: tfb_steps tfb_slots toff_def)

lemma example_buf_size: "length example_buf \<le> SizeLimit"
proof -
  have "example_buf = FlatbuffersEnvelopeToBytes tfb \<lparr>tb_objs = [TVec ''vehicle_device.42'', TVec ''data'',
        TVec ''vehicle_device'', TVec ''42'',
        TTab [(4, FOff 1024), (3, FOff 768), (2, FOff 512), (0, FU32 17), (1, FOff 256)]],
       tb_open = None, tb_root = 0\<rparr> ''1234'' ''V'' 1280 [] 4"
    by (simp add: example_buf_def StreamMessage_ToBytes_def example_message_def FlatbuffersStreamToBytes_def
        example_table MessageFlatbuffersStream_def)
  also have "\<dots> = enc_buf 2304 [TVec ''vehicle_device.42'', TVec ''data'', TVec ''vehicle_device'', TVec ''42'',
        TTab [(4, FOff 1024), (3, FOff 768), (2, FOff 512), (0, FU32 17), (1, FOff 256)],
        TVec ''1234'', TVec ''V'', TVec [],
        TTab [(4, FOff 2048), (3, FOff 1280), (2, FByte 4), (1, FOff 1792), (0, FOff 1536)]]"
    unfolding FlatbuffersEnvelopeToBytes_def builder_defs
    by (simp add: tfb_steps tfb_slots toff_def)
  finally have eq: "example_buf = enc_buf 2304 [TVec ''vehicle_device.42'', TVec ''data'', TVec ''vehicle_device'',
        TVec ''42'', TTab [(4, FOff 1024), (3, FOff 768), (2, FOff 512), (0, FU32 17), (1, FOff 256)],
        TVec ''1234'', TVec ''V'', TVec [],
        TTab [(4, FOff 2048), (3, FOff 1280), (2, FByte 4), (1, FOff 1792), (0, FOff 1536)]]" .
  show ?thesis unfolding eq by (simp add: enc_buf_def length_enc_list SizeLimit_def)
qed

lemma example_accepted:
  assumes "RequestIdentity ts = Some identity" and "DispatchRules ts ''V'' \<noteq> None"
  obtains r where "NewRecord tfb tpb panicked now1 now2 ts example_buf socketID decoded = (r, None, [])"
    and "rec_Txid r = ''1234''" and "rec_TxType r = ''V''"
proof -
  have h: "msg_fsm example_message = None" "message_size example_message + 14000 \<le> fb_limit"
    "DispatchRules ts (msg_MessageTopic example_message) \<noteq> None"
    using assms(2) by (simp_all add: example_message_def message_size_def fb_limit_def)
  obtain buf raw where b: "StreamMessage_ToBytes tfb example_message = Some buf"
    and d: "Deserialize tfb panicked now1 now2 ts buf socketID =
       ((blank_record ts)\<lparr>rec_RawBytes := Some raw, rec_SocketID := socketID,
          rec_TxType := msg_MessageTopic example_message, rec_Txid := msg_TXID example_message,
          rec_Vin := DeviceID identity, rec_PayloadBytes := msg_Payload example_message,
          rec_ReceivedTimestamp := now2 div 10 ^ 6, rec_DeviceClientVersion := DeviceClientVersion identity\<rparr>, None, [])"
    using deserialize_lemma [OF fb_laws_tfb h(1,2) assms(1) h(3)] by blast
  have "buf = example_buf" using b example_buf by simp
  with d example_buf_size have "\<exists>r. NewRecord tfb tpb panicked now1 now2 ts example_buf socketID decoded = (r, None, []) \<and>
      rec_Txid r = ''1234'' \<and> rec_TxType r = ''V''"
    by (simp add: NewRecord_def applyRecordTransforms_def applyProtoRecordTransforms_def store_message_def
        tpb_def toJSON_def example_message_def)
  then show thesis using that by blast
qed

lemma example_new_record:
  obtains r where "NewRecord tfb tpb panicked now1 now2 example_serializer example_buf ''s'' decoded = (r, None, [])"
    and "rec_Txid r = ''1234''" and "rec_TxType r = ''V''"
  by (rule example_accepted [of example_serializer]) (auto simp: example_serializer_def NewBinarySerializer_def)

section \<open>Properties\<close>


lemma NewRecord_accepted:
  assumes "NewRecord fb pb panicked now1 now2 ts msg socketID decoded = (r, None, logs)"
    and "RequestIdentity ts = Some identity"
  shows "rec_Vin r = DeviceID identity \<and>
         (\<forall>m. rec_protoMessage r = Some m \<longrightarrow> message_vin m = DeviceID identity) \<and>
         rec_SocketID r = socketID \<and>
         (\<exists>m. StreamMessageFromBytes fb msg = Some (Inr m) \<and>
              rec_TxType r = msg_MessageTopic m \<and> rec_Txid r = msg_TXID m \<and>
              (DispatchRules ts (rec_TxType r) = None \<longrightarrow> msg_SenderID m \<in> {SenderID identity, DeviceID identity}))"
proof -
  have "length msg \<le> SizeLimit" using assms(1) by (auto simp: NewRecord_def split: if_splits)
  then obtain r0 err0 where d: "Deserialize fb panicked now1 now2 ts msg socketID = (r0, err0, logs)"
    and e: "err0 \<noteq> None \<Longrightarrow> None = err0 \<and> r = r0\<lparr>rec_transmitDecodedRecords := decoded\<rparr>"
    and a: "err0 = None \<Longrightarrow> applyRecordTransforms pb (r0\<lparr>rec_transmitDecodedRecords := decoded\<rparr>) = (r, None)"
    using NewRecord_split [OF assms(1)] by metis
  have none: "err0 = None" using e by metis
  have p: "record_id r = record_id (r0\<lparr>rec_transmitDecodedRecords := decoded\<rparr>)"
    "\<forall>m. rec_protoMessage r = Some m \<longrightarrow> message_vin m = rec_Vin r0"
    using applyRecordTransforms_props [OF a [OF none]] Deserialize_fresh [OF d] by simp_all
  obtain m where m: "StreamMessageFromBytes fb msg = Some (Inr m)" "rec_Vin r0 = DeviceID identity"
    "rec_TxType r0 = msg_MessageTopic m" "rec_Txid r0 = msg_TXID m"
    "DispatchRules ts (msg_MessageTopic m) \<noteq> None \<or> msg_SenderID m \<in> {SenderID identity, DeviceID identity}"
    using Deserialize_accepted [OF d [unfolded none]] assms(2) by (metis option.inject)
  show ?thesis
    using p m record_id_fields [OF p(1)] NewRecord_identity(2) [OF assms(1)] by auto
qed

lemma NewRecord_vin:
  assumes "NewRecord fb pb panicked now1 now2 ts msg socketID decoded = (r, None, logs)"
    and "RequestIdentity ts = Some identity"
  shows "rec_Vin r = DeviceID identity" and "rec_protoMessage r = Some m \<Longrightarrow> message_vin m = DeviceID identity"
    and "rec_SocketID r = socketID"
  using NewRecord_accepted [OF assms] by blast+

text \<open>
  C2: The vehicle number of an accepted record is the device id of the connection's certificate, in
  the record and inside its decoded message, whatever the message claims; topic and transaction
  id are those of the message, the record belongs to the socket it was read from, and a message
  whose topic has no dispatch rule is accepted only when it names the connection as its sender.
\<close>

theorem record_vin_from_certificate:
  assumes "NewRecord fb pb panicked now1 now2 ts msg socketID decoded = (r, None, logs)"
    and "RequestIdentity ts = Some identity"
  shows "rec_Vin r = DeviceID identity \<and>
         (\<forall>m. rec_protoMessage r = Some m \<longrightarrow> message_vin m = DeviceID identity) \<and>
         rec_SocketID r = socketID \<and>
         (\<exists>m. StreamMessageFromBytes fb msg = Some (Inr m) \<and>
              rec_TxType r = msg_MessageTopic m \<and> rec_Txid r = msg_TXID m \<and>
              (DispatchRules ts (rec_TxType r) = None \<longrightarrow> msg_SenderID m \<in> {SenderID identity, DeviceID identity}))"
  by (rule NewRecord_accepted [OF assms])

theorem record_vin_from_certificate_witness:
  "\<exists>r logs. NewRecord tfb tpb ''p'' 0 0 example_serializer example_buf ''s'' False = (r, None, logs) \<and>
     rec_Vin r = ''42'' \<and> rec_SocketID r = ''s''"
proof -
  obtain r where n: "NewRecord tfb tpb ''p'' 0 0 example_serializer example_buf ''s'' False = (r, None, [])"
    using example_new_record .
  have "RequestIdentity example_serializer =
      Some \<lparr>DeviceID = ''42'', SenderID = ''vehicle_device.42'', DeviceClientVersion = ''1''\<rparr>"
    by (simp add: example_serializer_def NewBinarySerializer_def)
  from record_vin_from_certificate [OF n this] n show ?thesis by auto
qed

lemma NewRecord_errors:
  assumes "NewRecord fb pb panicked now1 now2 ts msg socketID decoded = (r, err, logs)"
  shows "(err = Some ErrMessageTooBig \<longleftrightarrow> length msg > 1000000) \<and>
         err \<noteq> Some NonAnonymizedError \<and> (\<forall>a b. err \<noteq> Some (UnauthorizedSenderIDError a b))"
proof (cases "length msg \<le> SizeLimit")
  case False
  then show ?thesis using assms by (auto simp: NewRecord_def SizeLimit_def)
next
  case True
  then obtain r0 err0 where d: "Deserialize fb panicked now1 now2 ts msg socketID = (r0, err0, logs)"
    and e: "err0 \<noteq> None \<Longrightarrow> err = err0 \<and> r = r0\<lparr>rec_transmitDecodedRecords := decoded\<rparr>"
    and a: "err0 = None \<Longrightarrow> applyRecordTransforms pb (r0\<lparr>rec_transmitDecodedRecords := decoded\<rparr>) = (r, err)"
    using NewRecord_split [OF assms] by metis
  have "(\<exists>b t k. err = Some (UnknownMessageType b t k)) \<or> (\<exists>s. err = Some (Errorf s)) \<or> err = None"
  proof (cases err0)
    case None
    then show ?thesis using applyRecordTransforms_error a by (cases err) blast+
  next
    case (Some x)
    then show ?thesis using e Deserialize_error [of fb panicked now1 now2 ts msg socketID r0 x logs] d by simp
  qed
  then show ?thesis using True by (auto simp: SizeLimit_def)
qed

lemma NewRecord_unknown_type:
  assumes "NewRecord fb pb panicked now1 now2 ts msg socketID decoded = (r, Some (UnknownMessageType b t k), logs)"
  shows "rec_TxType r = []"
proof -
  have "length msg \<le> SizeLimit" using assms by (auto simp: NewRecord_def split: if_splits)
  then obtain r0 err0 where d: "Deserialize fb panicked now1 now2 ts msg socketID = (r0, err0, logs)"
    and e: "err0 \<noteq> None \<Longrightarrow> Some (UnknownMessageType b t k) = err0 \<and> r = r0\<lparr>rec_transmitDecodedRecords := decoded\<rparr>"
    and a: "err0 = None \<Longrightarrow>
      applyRecordTransforms pb (r0\<lparr>rec_transmitDecodedRecords := decoded\<rparr>) = (r, Some (UnknownMessageType b t k))"
    using NewRecord_split [OF assms] by metis
  have "err0 \<noteq> None" using a applyRecordTransforms_error by blast
  then have "err0 = Some (UnknownMessageType b t k)" "r = r0\<lparr>rec_transmitDecodedRecords := decoded\<rparr>" using e by auto
  with d show ?thesis
    by (auto simp: Deserialize_def guessError_def blank_record_def Let_def
        split: option.splits sum.splits prod.splits if_splits)
qed

lemma NewRecord_not_unauthorized:
  assumes "NewRecord fb pb panicked now1 now2 ts msg socketID decoded = (r, err, logs)"
  shows "\<forall>a b. err \<noteq> Some (UnauthorizedSenderIDError a b)"
  using NewRecord_errors [OF assms] by simp

text \<open>
  C28: A message is refused in three ways only: too big, exactly when it has more than a million
  bytes; of an unknown type; or with a formatted error. The typed error for an unauthorized sender,
  which the socket handles specially, is never returned.
\<close>

theorem new_record_errors:
  assumes "NewRecord fb pb panicked now1 now2 ts msg socketID decoded = (r, err, logs)"
  shows "(err = Some ErrMessageTooBig \<longleftrightarrow> length msg > 1000000) \<and>
         err \<noteq> Some NonAnonymizedError \<and> (\<forall>a b. err \<noteq> Some (UnauthorizedSenderIDError a b))"
  by (rule NewRecord_errors [OF assms])

theorem new_record_errors_witness:
  "\<exists>r logs. NewRecord tfb tpb ''p'' 0 0 example_serializer example_buf ''s'' False = (r, None, logs) \<and>
     length example_buf \<le> 1000000"
proof -
  obtain r where n: "NewRecord tfb tpb ''p'' 0 0 example_serializer example_buf ''s'' False = (r, None, [])"
    using example_new_record .
  from new_record_errors [OF n] n show ?thesis by auto
qed

text \<open>
  C27: A stream message that was encoded by the client library, has at most a million bytes and
  names a topic with a rule is decoded into a record with its topic, transaction id and payload;
  the raw bytes of the record decode to the same message with the delivery time of the server.
\<close>

theorem deserialize_stream_message:
  assumes "fb_laws fb" and "msg_fsm m = None" and "message_size m + 14000 \<le> fb_limit"
    and "RequestIdentity ts = Some identity" and "DispatchRules ts (msg_MessageTopic m) \<noteq> None"
  shows "\<exists>buf raw m'. StreamMessage_ToBytes fb m = Some buf \<and>
     Deserialize fb panicked now1 now2 ts buf socketID =
       ((blank_record ts)\<lparr>rec_RawBytes := Some raw, rec_SocketID := socketID,
          rec_TxType := msg_MessageTopic m, rec_Txid := msg_TXID m, rec_Vin := DeviceID identity,
          rec_PayloadBytes := msg_Payload m, rec_ReceivedTimestamp := now2 div 10 ^ 6,
          rec_DeviceClientVersion := DeviceClientVersion identity\<rparr>, None, []) \<and>
     StreamMessageFromBytes fb raw = Some (Inr m') \<and>
     msg_fields m' = (msg_fields m)\<lparr>msg_DeliveredAtEpochMs := word_of_int (go_div now1 1000000)\<rparr>"
  by (rule deserialize_lemma [OF assms])

theorem deserialize_stream_message_witness:
  "\<exists>buf raw m'. StreamMessage_ToBytes tfb example_message = Some buf \<and>
     rec_Txid (fst (Deserialize tfb ''p'' 0 0 example_serializer buf ''s'')) = ''1234'' \<and>
     StreamMessageFromBytes tfb raw = Some (Inr m')"
proof -
  have "msg_fsm example_message = None" "message_size example_message + 14000 \<le> fb_limit"
    "RequestIdentity example_serializer =
       Some \<lparr>DeviceID = ''42'', SenderID = ''vehicle_device.42'', DeviceClientVersion = ''1''\<rparr>"
    "DispatchRules example_serializer (msg_MessageTopic example_message) \<noteq> None"
    by (simp_all add: example_message_def message_size_def fb_limit_def example_serializer_def NewBinarySerializer_def)
  from deserialize_stream_message [OF fb_laws_tfb this, of "''p''" 0 0 "''s''"]
  obtain buf raw m' where "StreamMessage_ToBytes tfb example_message = Some buf"
    and "rec_Txid (fst (Deserialize tfb ''p'' 0 0 example_serializer buf ''s'')) = msg_TXID example_message"
    and "StreamMessageFromBytes tfb raw = Some (Inr m')" by auto
  then show ?thesis by (auto simp: example_message_def)
qed

text \<open>
  C29: The JSON form of an accepted record is the JSON encoding of its decoded message, whether the
  server transmits decoded records, so that the payload is JSON already, or not.
\<close>

theorem json_payload_of_record:
  assumes "NewRecord fb pb panicked now1 now2 ts msg socketID decoded = (r, None, logs)"
  shows "GetJSONPayload pb r = protojson_Marshal pb (rec_protoMessage r) \<and>
         (decoded \<longrightarrow> rec_PayloadBytes r = fst (protojson_Marshal pb (rec_protoMessage r)))"
proof -
  have "length msg \<le> SizeLimit" using assms by (auto simp: NewRecord_def split: if_splits)
  then obtain r0 err0 where e: "err0 \<noteq> None \<Longrightarrow> None = err0 \<and> r = r0\<lparr>rec_transmitDecodedRecords := decoded\<rparr>"
    and a: "err0 = None \<Longrightarrow> applyRecordTransforms pb (r0\<lparr>rec_transmitDecodedRecords := decoded\<rparr>) = (r, None)"
    using NewRecord_split [OF assms] by metis
  have ap: "applyRecordTransforms pb (r0\<lparr>rec_transmitDecodedRecords := decoded\<rparr>) = (r, None)" using a e by metis
  show ?thesis
  proof (cases decoded)
    case False
    then show ?thesis using NewRecord_identity(3) [OF assms] by (simp add: GetJSONPayload_def toJSON_def)
  next
    case True
    obtain r1 err1 where 1: "applyProtoRecordTransforms pb (r0\<lparr>rec_transmitDecodedRecords := decoded\<rparr>) = (r1, err1)"
      by force
    have t: "rec_transmitDecodedRecords r = decoded" by (rule NewRecord_identity(3) [OF assms])
    have "\<exists>json. toJSON pb r1 = (json, None) \<and> r = r1\<lparr>rec_PayloadBytes := json\<rparr>"
      using ap 1 True t
      by (auto simp: applyRecordTransforms_def Let_def split: option.splits prod.splits if_splits)
    then show ?thesis using t True by (auto simp: GetJSONPayload_def toJSON_def)
  qed
qed

theorem json_payload_of_record_witness:
  "\<exists>r logs. NewRecord tfb tpb ''p'' 0 0 example_serializer example_buf ''s'' True = (r, None, logs) \<and>
     rec_PayloadBytes r = ''{}''"
proof -
  obtain r where n: "NewRecord tfb tpb ''p'' 0 0 example_serializer example_buf ''s'' True = (r, None, [])"
    using example_new_record .
  from json_payload_of_record [OF n] n show ?thesis by (auto simp: tpb_def)
qed

end
