(* ===== verification/Logging.thy ===== *)
theory Logging
  imports Go_Strings
begin

text \<open>
  The logger (\<^verbatim>\<open>logger/logger.go\<close>): a wrapper of the logrus library that adds fields to an entry and
  drops messages that contain a suppression filter. The calls into logrus are a list of actions; what
  logrus does with them (formatting, output, leaving the process after a fatal entry) is its own.
  Also the process environment, which the logger is the first to read.
\<close>

section \<open>The environment\<close>

text \<open>\<^verbatim>\<open>os.LookupEnv\<close> is the map itself, \<^verbatim>\<open>os.Getenv\<close> gives the empty string for an unset variable.\<close>

type_synonym environ = "string \<rightharpoonup> string"

definition Getenv :: "environ \<Rightarrow> string \<Rightarrow> string" where
  "Getenv environ name = (case environ name of None \<Rightarrow> [] | Some value \<Rightarrow> value)"

section \<open>Log levels and calls into logrus\<close>

definition tlsFilter :: string where
  "tlsFilter = ''http: TLS handshake error from''"

fun AllLogType :: "log_type \<Rightarrow> string" where
  "AllLogType DEBUG = ''debug''"
| "AllLogType INFO = ''info''"
| "AllLogType WARN = ''warn''"
| "AllLogType ERROR = ''error''"
| "AllLogType FATAL = ''fatal''"

datatype entry_call =
    EntryLog log_type string
  | EntryPrint "goval list"
  | EntryPrintf string "goval list"
  | EntryPrintln "goval list"
  | EntryFatalf string "goval list"

datatype formatter = JSONFormatter string | TextFormatter bool bool
datatype log_output = ColorableStdout | Stdout

text \<open>
  A call on an entry with its fields, or a change of the settings of the library. The level is a
  \<^verbatim>\<open>uint32\<close>; \<^verbatim>\<open>TextFormatter\<close> has its switches \<^verbatim>\<open>ForceColors\<close> and \<^verbatim>\<open>DisableColors\<close>.
\<close>

datatype logrus_action =
    Entry log_info entry_call
  | SetLevel "32 word"
  | SetFormatter formatter
  | SetOutput log_output

definition RFC3339Nano :: string where
  "RFC3339Nano = ''2006-01-02T15:04:05.999999999Z07:00''"

section \<open>The logger\<close>

record logger =
  logger_entry :: log_info
  suppressionFilter :: string

definition WithField :: "string \<Rightarrow> goval \<Rightarrow> log_info \<Rightarrow> log_info" where
  "WithField key value entry = map_put key value entry"

definition getEntry :: "logger \<Rightarrow> log_info \<Rightarrow> log_info" where
  "getEntry l info =
     (if length info > 0 then foldl (\<lambda>entry (k, v). WithField k v entry) (logger_entry l) info
      else logger_entry l)"

text \<open>The error is the value of the variable that \<^verbatim>\<open>ParseBool\<close> does not accept.\<close>

definition NewLogrusLogger :: "environ \<Rightarrow> string \<Rightarrow> log_info \<Rightarrow> log_info option \<Rightarrow> string + logger" where
  "NewLogrusLogger environ context info entry =
     (let entry = (case entry of None \<Rightarrow> WithField ''context'' (GStr context) [] | Some e \<Rightarrow> e);
          l = \<lparr>logger_entry = entry, suppressionFilter = []\<rparr>;
          l = l\<lparr>logger_entry := getEntry l info\<rparr>
      in case environ ''SUPPRESS_TLS_HANDSHAKE_ERROR_LOGGING'' of
           None \<Rightarrow> Inr l
         | Some value \<Rightarrow>
             (case ParseBool value of
                None \<Rightarrow> Inl value
              | Some b \<Rightarrow> Inr (if b then l\<lparr>suppressionFilter := tlsFilter\<rparr> else l)))"

definition NewBasicLogrusLogger :: "environ \<Rightarrow> string \<Rightarrow> string + logger" where
  "NewBasicLogrusLogger environ context = NewLogrusLogger environ context [] None"

definition SetJSONFormatter :: "bool \<Rightarrow> logrus_action list" where
  "SetJSONFormatter json =
     (if json then [SetFormatter (JSONFormatter RFC3339Nano)] else [SetFormatter (TextFormatter False False)])"

definition SetColorFormatter :: "bool \<Rightarrow> logrus_action list" where
  "SetColorFormatter color =
     (if color then [SetFormatter (TextFormatter True False), SetOutput ColorableStdout]
      else [SetFormatter (TextFormatter False True), SetOutput Stdout])"

definition NewColorLogrusLogger :: "environ \<Rightarrow> string \<Rightarrow> (string + logger) \<times> logrus_action list" where
  "NewColorLogrusLogger environ context =
     (case NewLogrusLogger environ context [] None of
        Inl err \<Rightarrow> (Inl err, [])
      | Inr l \<Rightarrow> (Inr l, SetColorFormatter True))"

text \<open>\<^verbatim>\<open>logrus.ParseLevel\<close> is an argument; an unknown name leaves the level as it is.\<close>

definition SetLogLevel :: "(string \<Rightarrow> string + 32 word) \<Rightarrow> string \<Rightarrow> logrus_action list" where
  "SetLogLevel ParseLevel name = (case ParseLevel name of Inl _ \<Rightarrow> [] | Inr level \<Rightarrow> [SetLevel level])"

definition shouldSuppress :: "logger \<Rightarrow> string \<Rightarrow> bool" where
  "shouldSuppress l message =
     (if suppressionFilter l = [] then False else Contains message (suppressionFilter l))"

definition logger_Log :: "logger \<Rightarrow> log_type \<Rightarrow> string \<Rightarrow> log_info \<Rightarrow> logrus_action list" where
  "logger_Log l logType message info =
     (if shouldSuppress l message then [] else [Entry (getEntry l info) (EntryLog logType message)])"

definition logger_ActivityLog :: "logger \<Rightarrow> string \<Rightarrow> log_info \<Rightarrow> logrus_action list" where
  "logger_ActivityLog l message info =
     (if shouldSuppress l message then []
      else [Entry (WithField ''activity'' (GBool True) (getEntry l info)) (EntryLog INFO message)])"

definition logger_ErrorLog :: "logger \<Rightarrow> string \<Rightarrow> string option \<Rightarrow> log_info \<Rightarrow> logrus_action list" where
  "logger_ErrorLog l message err info =
     (if shouldSuppress l message then []
      else [Entry (WithField ''error'' (case err of None \<Rightarrow> GNil | Some e \<Rightarrow> GStr e) (getEntry l info))
              (EntryLog ERROR message)])"

text \<open>The actions, the number of bytes taken and the error, which is always nil.\<close>

definition logger_Write :: "logger \<Rightarrow> bytes \<Rightarrow> logrus_action list \<times> nat \<times> string option" where
  "logger_Write l p = (logger_ActivityLog l p [], length p, None)"

definition logger_Print :: "logger \<Rightarrow> goval list \<Rightarrow> logrus_action list" where
  "logger_Print l v = [Entry (logger_entry l) (EntryPrint v)]"

definition logger_Printf :: "logger \<Rightarrow> string \<Rightarrow> goval list \<Rightarrow> logrus_action list" where
  "logger_Printf l format v =
     (if shouldSuppress l format then [] else [Entry (logger_entry l) (EntryPrintf format v)])"

definition logger_Println :: "logger \<Rightarrow> goval list \<Rightarrow> logrus_action list" where
  "logger_Println l v = [Entry (logger_entry l) (EntryPrintln v)]"

definition logger_Fatalf :: "logger \<Rightarrow> string \<Rightarrow> goval list \<Rightarrow> logrus_action list" where
  "logger_Fatalf l format v =
     (if shouldSuppress l format then [] else [Entry (logger_entry l) (EntryFatalf format v)])"

text \<open>The log entries of the other components, as calls of the logger.\<close>

fun log_call :: "logger \<Rightarrow> log_entry \<Rightarrow> logrus_action list" where
  "log_call l (LogLine logType message info) = logger_Log l logType message info"
| "log_call l (ActivityLog message info) = logger_ActivityLog l message info"
| "log_call l (ErrorLog message err info) = logger_ErrorLog l message err info"

section \<open>What is written\<close>

lemma map_of_foldl_WithField:
  "map_of (foldl (\<lambda>entry (k, v). WithField k v entry) entry info) = map_of entry ++ map_of (rev info)"
proof (induction info arbitrary: entry)
  case (Cons p info)
  obtain k v where "p = (k, v)" by force
  with Cons.IH [of "WithField k v entry"] show ?case
    by (auto simp: WithField_def map_add_def fun_eq_iff split: option.splits)
qed simp

lemma map_of_rev: "distinct (map fst m) \<Longrightarrow> map_of (rev m) = map_of m"
  by (subst map_of_inject_set) (simp_all add: rev_map [symmetric])

lemma map_of_getEntry:
  "distinct (map fst info) \<Longrightarrow> map_of (getEntry l info) = map_of (logger_entry l) ++ map_of info"
  by (auto simp: getEntry_def map_of_foldl_WithField map_of_rev)

text \<open>The parts of a log entry: its level, message, fields, and the field its method adds.\<close>

fun entry_level :: "log_entry \<Rightarrow> log_type" where
  "entry_level (LogLine t m i) = t"
| "entry_level (ActivityLog m i) = INFO"
| "entry_level (ErrorLog m e i) = ERROR"

fun entry_message :: "log_entry \<Rightarrow> string" where
  "entry_message (LogLine t m i) = m"
| "entry_message (ActivityLog m i) = m"
| "entry_message (ErrorLog m e i) = m"

fun entry_info :: "log_entry \<Rightarrow> log_info" where
  "entry_info (LogLine t m i) = i"
| "entry_info (ActivityLog m i) = i"
| "entry_info (ErrorLog m e i) = i"

fun entry_mark :: "log_entry \<Rightarrow> (string \<rightharpoonup> goval)" where
  "entry_mark (LogLine t m i) = Map.empty"
| "entry_mark (ActivityLog m i) = [''activity'' \<mapsto> GBool True]"
| "entry_mark (ErrorLog m e i) = [''error'' \<mapsto> (case e of None \<Rightarrow> GNil | Some t \<Rightarrow> GStr t)]"

definition suppressing :: "environ \<Rightarrow> bool" where
  "suppressing environ \<longleftrightarrow>
     (case environ ''SUPPRESS_TLS_HANDSHAKE_ERROR_LOGGING'' of
        None \<Rightarrow> False | Some v \<Rightarrow> v \<in> {''1'', ''t'', ''T'', ''true'', ''TRUE'', ''True''})"

lemma NewBasicLogrusLogger_Inr:
  assumes "NewBasicLogrusLogger environ context = Inr l"
  shows "l = \<lparr>logger_entry = [(''context'', GStr context)],
               suppressionFilter = (if suppressing environ then tlsFilter else [])\<rparr>"
  using assms
  by (auto simp: NewBasicLogrusLogger_def NewLogrusLogger_def getEntry_def WithField_def map_put_def
      ParseBool_def suppressing_def Let_def split: option.splits if_splits)

lemma shouldSuppress_iff:
  assumes "NewBasicLogrusLogger environ context = Inr l"
  shows "shouldSuppress l message \<longleftrightarrow> suppressing environ \<and> sublist tlsFilter message"
  using NewBasicLogrusLogger_Inr [OF assms] by (simp add: shouldSuppress_def Contains_iff tlsFilter_def)

lemma log_call_unsuppressed:
  assumes "\<not> shouldSuppress l (entry_message e)" and "distinct (map fst (entry_info e))"
  shows "\<exists>fields. log_call l e = [Entry fields (EntryLog (entry_level e) (entry_message e))] \<and>
           map_of fields = map_of (logger_entry l) ++ map_of (entry_info e) ++ entry_mark e"
  using assms
  by (cases e) (simp_all add: logger_Log_def logger_ActivityLog_def logger_ErrorLog_def map_of_getEntry WithField_def)

lemma log_call_suppressed: "shouldSuppress l (entry_message e) \<Longrightarrow> log_call l e = []"
  by (cases e) (simp_all add: logger_Log_def logger_ActivityLog_def logger_ErrorLog_def)

text \<open>
  Every log entry of the program becomes exactly one logrus entry of its level with its message,
  the context, its fields and the mark of its method, unless suppression is switched on in the
  environment and the message reports a failed TLS handshake; then it is dropped. What the standard
  library writes is treated as an activity and always counts as written.
\<close>

theorem log_entry_written_once:
  assumes "NewBasicLogrusLogger environ context = Inr l" and "distinct (map fst (entry_info e))"
  shows "(if suppressing environ \<and> sublist ''http: TLS handshake error from'' (entry_message e) then log_call l e = []
          else \<exists>fields. log_call l e = [Entry fields (EntryLog (entry_level e) (entry_message e))] \<and>
                 map_of fields = [''context'' \<mapsto> GStr context] ++ map_of (entry_info e) ++ entry_mark e) \<and>
         logger_Write l p = (log_call l (ActivityLog p []), length p, None)"
proof -
  note s = shouldSuppress_iff [OF assms(1), unfolded tlsFilter_def]
  have "logger_entry l = [(''context'', GStr context)]" by (simp add: NewBasicLogrusLogger_Inr [OF assms(1)])
  with log_call_unsuppressed [OF _ assms(2), of l] log_call_suppressed [of l e] s show ?thesis
    by (auto simp: logger_Write_def)
qed

definition quiet :: environ where
  "quiet = [''SUPPRESS_TLS_HANDSHAKE_ERROR_LOGGING'' \<mapsto> ''true'']"

theorem log_entry_written_once_witness:
  "\<exists>l. NewBasicLogrusLogger quiet ''fleet-telemetry'' = Inr l \<and>
     log_call l (ErrorLog ''http: TLS handshake error from 10.0.0.1:55: EOF'' None [(''n'', GInt 1)]) = []"
proof -
  obtain l where l: "NewBasicLogrusLogger quiet ''fleet-telemetry'' = Inr l"
    by (simp add: NewBasicLogrusLogger_def NewLogrusLogger_def quiet_def ParseBool_def)
  have "suppressing quiet" by (simp add: suppressing_def quiet_def)
  moreover have "sublist ''http: TLS handshake error from'' ''http: TLS handshake error from 10.0.0.1:55: EOF''"
    by (rule prefix_imp_sublist) simp
  ultimately show ?thesis
    using log_entry_written_once [OF l, of "ErrorLog ''http: TLS handshake error from 10.0.0.1:55: EOF'' None [(''n'', GInt 1)]" "[]"] l
    by simp
qed

text \<open>
  A suppressed format makes \<^verbatim>\<open>Fatalf\<close> return to its caller, where an unsuppressed one leaves the process;
  \<^verbatim>\<open>Print\<close> and \<^verbatim>\<open>Println\<close> are never suppressed.
\<close>

lemma fatal_suppressed:
  assumes "NewBasicLogrusLogger environ context = Inr l"
  shows "logger_Fatalf l format v = [] \<longleftrightarrow> suppressing environ \<and> sublist tlsFilter format"
    and "logger_Print l v \<noteq> []" and "logger_Println l v \<noteq> []"
  by (simp_all add: logger_Fatalf_def shouldSuppress_iff [OF assms] logger_Print_def logger_Println_def)

end
