(* ===== verification/Config.thy ===== *)
theory Config
  imports Telemetry Logging
begin

text \<open>
  The configuration (\<^verbatim>\<open>config/config.go\<close>, \<^verbatim>\<open>config/config_initializer.go\<close>): loading with defaults and
  environment overrides, validation, TLS settings, and the construction of the producers and of the
  dispatch rules. A dispatcher is configured by its name, any string. Go maps that the code iterates
  over are association lists, in an arbitrary order. Files, environment and the constructors of the
  datastore clients are arguments.
\<close>

section \<open>Configuration records\<close>

record tls_files =
  CAFile :: string
  ServerCert :: string
  ServerKey :: string

record rate_limit =
  RL_Enabled :: bool
  RL_MessageLimit :: int
  RL_MessageInterval :: int
  RL_MessageIntervalTimeSecond :: int

record kinesis_settings =
  Kinesis_MaxRetries :: "int option"
  Kinesis_OverrideHost :: string
  Kinesis_Streams :: "string \<rightharpoonup> string"

record airbrake_settings =
  Airbrake_Host :: string
  Airbrake_ProjectKey :: string
  Airbrake_Environment :: string
  Airbrake_ProjectID :: int
  Airbrake_TLS :: "tls_files option"

record statsd_settings =
  Statsd_HostPort :: string
  Statsd_Prefix :: string
  Statsd_FlushPeriod :: int

record monitoring_settings =
  PrometheusMetricsPort :: int
  PrometheusMetricsHost :: string
  Monitoring_Statsd :: "statsd_settings option"
  ProfilerPort :: int
  ProfilerHost :: string
  ProfilingPath :: string

record mqtt_settings =
  MQTT_Broker :: string
  MQTT_ClientID :: string
  MQTT_Username :: string
  MQTT_Password :: string
  MQTT_TopicBase :: string
  MQTT_QoS :: u8
  MQTT_Retained :: bool
  MQTT_ConnectTimeout :: int
  MQTT_PublishTimeout :: int
  MQTT_DisconnectTimeout :: int
  MQTT_ConnectRetryInterval :: int
  MQTT_KeepAlive :: int

record zmq_settings =
  ZMQ_Addr :: string
  ZMQ_ServerKeyJSON :: string
  ZMQ_AllowedPublicKeysJSON :: string
  ZMQ_Verbose :: bool

text \<open>The zero values of the pool leave the defaults of the client library.\<close>

record redis_pool =
  Pool_PoolSize :: int
  Pool_MinIdleConns :: int
  Pool_MaxIdleConns :: int
  Pool_MaxActiveConns :: int
  Pool_ReadTimeout :: int
  Pool_WriteTimeout :: int
  Pool_PoolTimeout :: int
  Pool_ConnMaxIdleTime :: int
  Pool_ConnMaxLifetime :: int

record redis_settings =
  Redis_Addrs :: "string list"
  Redis_Username :: string
  Redis_Password :: string
  Redis_DB :: int
  Redis_TLS :: "tls_files option"
  Redis_OverrideTLSServerName :: bool
  Redis_Pool :: "redis_pool option"
  Redis_PublishTimeout :: int
  Redis_ClusterMode :: bool
  Redis_PublishVINTopics :: bool
  Redis_SubscriberSetPrefix :: string

record config =
  cfg_Host :: string
  cfg_Port :: int
  cfg_StatusPort :: int
  cfg_TLS :: "tls_files option"
  cfg_UseDefaultEngCA :: bool
  cfg_RateLimit :: "rate_limit option"
  cfg_ReliableAckSources :: "(string \<times> string) list"
  cfg_Kafka :: "(string \<times> goval) list option"
  cfg_Kinesis :: "kinesis_settings option"
  cfg_Pubsub :: "string option"
  cfg_ZMQ :: "zmq_settings option"
  cfg_Redis :: "redis_settings option"
  cfg_Namespace :: string
  cfg_Monitoring :: "monitoring_settings option"
  cfg_LoggerVerbose :: bool
  cfg_LogLevel :: string
  cfg_JSONLogEnable :: bool
  cfg_Records :: "(string \<times> string list) list"
  cfg_TransmitDecodedRecords :: bool
  cfg_VinsSignalTrackingEnabled :: "string list"
  cfg_Airbrake :: "airbrake_settings option"
  cfg_MQTT :: "mqtt_settings option"

section \<open>Defaults, environment, validation\<close>

text \<open>
  The errors: a text, an environment variable whose value does not parse (name and value), and a
  failed operation with its cause.
\<close>

datatype config_error = Plain string | InvalidEnv string string | Wrapped string string

definition maxVinsToTrack :: nat where "maxVinsToTrack = 20"

definition defaultHost :: string where "defaultHost = ''0.0.0.0''"
definition defaultPort :: int where "defaultPort = 443"
definition defaultStatusPort :: int where "defaultStatusPort = 8080"
definition defaultLogLevel :: string where "defaultLogLevel = ''info''"
definition defaultNamespace :: string where "defaultNamespace = ''tesla_telemetry''"

lemmas default_defs = defaultHost_def defaultPort_def defaultStatusPort_def defaultLogLevel_def
  defaultNamespace_def

definition VinsToTrack :: "config \<Rightarrow> string set" where
  "VinsToTrack c = set (cfg_VinsSignalTrackingEnabled c)"

definition validateConfig :: "config \<Rightarrow> config_error option" where
  "validateConfig config =
     (if TrimSpace (cfg_Host config) = [] then Some (Plain ''missing HOST'')
      else if cfg_Port config < 1 \<or> cfg_Port config > 65535 then
        Some (Plain (''invalid PORT '' @ Itoa (cfg_Port config) @ '': must be between 1 and 65535''))
      else if cfg_StatusPort config < 0 \<or> cfg_StatusPort config > 65535 then
        Some (Plain (''invalid STATUS_PORT '' @ Itoa (cfg_StatusPort config) @ '': must be between 0 and 65535''))
      else if TrimSpace (cfg_Namespace config) = [] then Some (Plain ''missing TELEMETRY_NAMESPACE'')
      else if length (cfg_Records config) = 0 then Some (Plain ''missing records dispatcher configuration'')
      else if card (VinsToTrack config) > maxVinsToTrack then
        Some (Plain (''set the value of `vins_signal_tracking_enabled` less than '' @ Itoa (int maxVinsToTrack) @ '' unique vins''))
      else None)"

text \<open>The environment: \<^verbatim>\<open>os.Getenv\<close> gives the empty string for an unset variable.\<close>

type_synonym getenv = "string \<Rightarrow> string"

definition ValidateRuntime :: "getenv \<Rightarrow> config \<Rightarrow> config_error option" where
  "ValidateRuntime env config =
     (if TrimSpace (env ''ACME_DOMAIN'') \<noteq> [] then None
      else case cfg_TLS config of
             None \<Rightarrow> Some (Plain ''missing TLS configuration: Tesla Fleet Telemetry requires direct mTLS'')
           | Some tls \<Rightarrow>
               if TrimSpace (ServerCert tls) = [] then
                 Some (Plain ''missing TLS certificate: set TLS_CERT_PATH or TLS_CERT_PEM'')
               else if TrimSpace (ServerKey tls) = [] then
                 Some (Plain ''missing TLS private key: set TLS_KEY_PATH or TLS_KEY_PEM'')
               else None)"

definition defaultRecords :: "(string \<times> string list) list" where
  "defaultRecords =
     [(''alerts'', [dispatcher_name Logger]), (''errors'', [dispatcher_name Logger]),
      (''V'', [dispatcher_name Logger]), (''connectivity'', [dispatcher_name Logger])]"

definition applySafeDefaults :: "config \<Rightarrow> config" where
  "applySafeDefaults c = c\<lparr>
     cfg_Host := (if TrimSpace (cfg_Host c) = [] then defaultHost else cfg_Host c),
     cfg_Port := (if cfg_Port c = 0 then defaultPort else cfg_Port c),
     cfg_StatusPort := (if cfg_StatusPort c = 0 then defaultStatusPort else cfg_StatusPort c),
     cfg_Namespace := (if TrimSpace (cfg_Namespace c) = [] then defaultNamespace else cfg_Namespace c),
     cfg_LogLevel := (if TrimSpace (cfg_LogLevel c) = [] then defaultLogLevel else cfg_LogLevel c),
     cfg_Records := (if length (cfg_Records c) = 0 then defaultRecords else cfg_Records c)\<rparr>"

definition overrideInt :: "getenv \<Rightarrow> string \<Rightarrow> int \<Rightarrow> config_error + int" where
  "overrideInt env name destination =
     (let value = TrimSpace (env name)
      in if value = [] then Inr destination
         else case Atoi value of
                None \<Rightarrow> Inl (InvalidEnv name value)
              | Some parsed \<Rightarrow> Inr parsed)"

definition empty_tls :: tls_files where
  "empty_tls = \<lparr>CAFile = [], ServerCert = [], ServerKey = []\<rparr>"

definition overrideTLS :: "getenv \<Rightarrow> config \<Rightarrow> config" where
  "overrideTLS env config =
     (let certPath = TrimSpace (env ''TLS_CERT_PATH''); keyPath = TrimSpace (env ''TLS_KEY_PATH'');
          caPath = TrimSpace (env ''TLS_CA_PATH'')
      in if certPath \<noteq> [] \<or> keyPath \<noteq> [] \<or> caPath \<noteq> [] then
           (let tls = (case cfg_TLS config of None \<Rightarrow> empty_tls | Some tls \<Rightarrow> tls);
                tls = (if certPath \<noteq> [] then tls\<lparr>ServerCert := certPath\<rparr> else tls);
                tls = (if keyPath \<noteq> [] then tls\<lparr>ServerKey := keyPath\<rparr> else tls);
                tls = (if caPath \<noteq> [] then tls\<lparr>CAFile := caPath\<rparr> else tls)
            in config\<lparr>cfg_TLS := Some tls\<rparr>)
         else config)"

definition checkTLSEnabled :: "getenv \<Rightarrow> config_error option" where
  "checkTLSEnabled env =
     (let value = TrimSpace (env ''TLS_ENABLED'')
      in if value = [] then None
         else case ParseBool value of
                None \<Rightarrow> Some (InvalidEnv ''TLS_ENABLED'' value)
              | Some False \<Rightarrow> Some (Plain ''TLS_ENABLED=false is unsupported: Tesla vehicles require direct mTLS; deploy the listener on a persistent TCP service'')
              | Some True \<Rightarrow> None)"

definition overrideString :: "getenv \<Rightarrow> string \<Rightarrow> (string \<Rightarrow> config \<Rightarrow> config) \<Rightarrow> config \<Rightarrow> config" where
  "overrideString env name put config =
     (let value = TrimSpace (env name) in if value \<noteq> [] then put value config else config)"

definition acmeTLS :: "getenv \<Rightarrow> config \<Rightarrow> config" where
  "acmeTLS env config =
     (if TrimSpace (env ''ACME_DOMAIN'') \<noteq> [] \<and> cfg_TLS config = None
      then config\<lparr>cfg_TLS := Some empty_tls\<rparr> else config)"

definition applyEnvironmentOverrides :: "getenv \<Rightarrow> config \<Rightarrow> config_error + config" where
  "applyEnvironmentOverrides env config =
     (let config = acmeTLS env config;
          config = overrideString env ''HOST'' (\<lambda>v c. c\<lparr>cfg_Host := v\<rparr>) config
      in case overrideInt env ''PORT'' (cfg_Port config) of
           Inl err \<Rightarrow> Inl err
         | Inr port \<Rightarrow>
             (let config = config\<lparr>cfg_Port := port\<rparr>
              in case overrideInt env ''STATUS_PORT'' (cfg_StatusPort config) of
                   Inl err \<Rightarrow> Inl err
                 | Inr statusPort \<Rightarrow>
                     (let config = config\<lparr>cfg_StatusPort := statusPort\<rparr>;
                          config = overrideString env ''LOG_LEVEL'' (\<lambda>v c. c\<lparr>cfg_LogLevel := v\<rparr>) config;
                          config = overrideString env ''TELEMETRY_NAMESPACE'' (\<lambda>v c. c\<lparr>cfg_Namespace := v\<rparr>) config;
                          config = overrideTLS env config
                      in case checkTLSEnabled env of Some err \<Rightarrow> Inl err | None \<Rightarrow> Inr config)))"

text \<open>
  Writing the inline certificate and key: the temporary directory and the result of each write come
  from the file system.
\<close>

record file_system =
  MkdirTemp :: "string + string"
  WriteFile :: "string \<Rightarrow> bytes \<Rightarrow> string option"
  ReadFile :: "string \<Rightarrow> string + bytes"
  LoadX509KeyPair :: "string \<Rightarrow> string \<Rightarrow> string + bytes"

definition materializeInlineTLSSecrets :: "file_system \<Rightarrow> getenv \<Rightarrow> config \<Rightarrow> config_error + config" where
  "materializeInlineTLSSecrets fs env config =
     (let certificatePEM = env ''TLS_CERT_PEM''; privateKeyPEM = env ''TLS_KEY_PEM''
      in if certificatePEM = [] \<and> privateKeyPEM = [] then Inr config
         else if certificatePEM = [] then Inl (Plain ''TLS_CERT_PEM is required when TLS_KEY_PEM is set'')
         else if privateKeyPEM = [] then Inl (Plain ''TLS_KEY_PEM is required when TLS_CERT_PEM is set'')
         else case MkdirTemp fs of
                Inl err \<Rightarrow> Inl (Wrapped ''create TLS secret directory'' err)
              | Inr directory \<Rightarrow>
                  (let certificatePath = directory @ ''/tls.crt''; privateKeyPath = directory @ ''/tls.key''
                   in case WriteFile fs certificatePath certificatePEM of
                        Some err \<Rightarrow> Inl (Wrapped ''write TLS certificate secret'' err)
                      | None \<Rightarrow>
                          (case WriteFile fs privateKeyPath privateKeyPEM of
                             Some err \<Rightarrow> Inl (Wrapped ''write TLS private key secret'' err)
                           | None \<Rightarrow>
                               (let tls = (case cfg_TLS config of None \<Rightarrow> empty_tls | Some tls \<Rightarrow> tls)
                                in Inr (config\<lparr>cfg_TLS := Some (tls\<lparr>ServerCert := certificatePath,
                                          ServerKey := privateKeyPath\<rparr>)\<rparr>)))))"

text \<open>How opening and decoding the configuration file went.\<close>

datatype config_file = Decoded config | DecodeError string | NotExist | OpenError string

definition empty_config :: config where
  "empty_config = \<lparr>cfg_Host = [], cfg_Port = 0, cfg_StatusPort = 0, cfg_TLS = None,
     cfg_UseDefaultEngCA = False, cfg_RateLimit = None, cfg_ReliableAckSources = [], cfg_Kafka = None,
     cfg_Kinesis = None, cfg_Pubsub = None, cfg_ZMQ = None, cfg_Redis = None, cfg_Namespace = [],
     cfg_Monitoring = None, cfg_LoggerVerbose = False, cfg_LogLevel = [], cfg_JSONLogEnable = False,
     cfg_Records = [], cfg_TransmitDecodedRecords = False, cfg_VinsSignalTrackingEnabled = [],
     cfg_Airbrake = None, cfg_MQTT = None\<rparr>"

definition loadApplicationConfig ::
    "file_system \<Rightarrow> environ \<Rightarrow> config_file \<Rightarrow> config_error + config" where
  "loadApplicationConfig fs environ file =
     (case (case file of
              Decoded config \<Rightarrow> Inr config
            | DecodeError err \<Rightarrow> Inl (Wrapped ''decode config file'' err)
            | NotExist \<Rightarrow> Inr empty_config
            | OpenError err \<Rightarrow> Inl (Wrapped ''open config file'' err)) of
        Inl err \<Rightarrow> Inl err
      | Inr config \<Rightarrow>
          (case applyEnvironmentOverrides (Getenv environ) (applySafeDefaults config) of
             Inl err \<Rightarrow> Inl err
           | Inr config \<Rightarrow>
               (case materializeInlineTLSSecrets fs (Getenv environ) config of
                  Inl err \<Rightarrow> Inl err
                | Inr config \<Rightarrow>
                    (case NewLogrusLogger environ ''null_logger'' [] (Some [(''context'', GStr ''metrics'')]) of
                       Inl value \<Rightarrow> Inl (InvalidEnv ''SUPPRESS_TLS_HANDSHAKE_ERROR_LOGGING'' value)
                     | Inr logger \<Rightarrow> (case validateConfig config of Some err \<Rightarrow> Inl err | None \<Rightarrow> Inr config)))))"

text \<open>The path of the configuration file: the command line flag, the environment, the default.\<close>

definition loadConfigFlags :: "getenv \<Rightarrow> string option \<Rightarrow> string" where
  "loadConfigFlags env flag =
     (let applicationConfig = env ''CONFIG_FILE'';
          applicationConfig = (if applicationConfig = [] then ''config.json'' else applicationConfig)
      in case flag of Some value \<Rightarrow> value | None \<Rightarrow> applicationConfig)"

section \<open>What a loaded configuration holds\<close>

lemma trim_with_keeps: "c \<in> set s \<Longrightarrow> (\<And>p. p \<in> set ps \<Longrightarrow> c \<notin> set p) \<Longrightarrow> c \<in> set (trim_with ps s)"
proof (induction ps s rule: trim_with.induct)
  case (1 ps s)
  show ?case
  proof (cases "find (\<lambda>p. p \<noteq> [] \<and> prefix p s) ps")
    case None
    then show ?thesis using "1.prems"(1) by (subst trim_with.simps) simp
  next
    case (Some p)
    then have "p \<in> set ps" and "prefix p s" by (auto simp: find_Some_iff)
    then obtain r where r: "s = p @ r" by (auto simp: prefix_def)
    have "c \<in> set r" using "1.prems" \<open>p \<in> set ps\<close> r by auto
    then have "c \<in> set (trim_with ps r)" using "1.IH" [OF Some] "1.prems"(2) r by simp
    then show ?thesis using Some r by (subst trim_with.simps) simp
  qed
qed

lemma white_space_chars: "set (concat white_space) \<inter> set ''/0t'' = {}"
  by code_simp

lemma TrimSpace_ne: "c \<in> set s \<Longrightarrow> c \<in> set ''/0t'' \<Longrightarrow> TrimSpace s \<noteq> []"
proof -
  assume c: "c \<in> set s" "c \<in> set ''/0t''"
  then have ws: "c \<notin> set (concat white_space)" using white_space_chars by auto
  have "c \<in> set (trim_with white_space s)" using c ws by (intro trim_with_keeps) auto
  then have "c \<in> set (trim_with (map rev white_space) (rev (trim_with white_space s)))"
    using ws by (intro trim_with_keeps) auto
  then show ?thesis by (auto simp: TrimSpace_def)
qed

text \<open>The value of a setting: the environment if it is set, else the file, else the default.\<close>

definition setting :: "getenv \<Rightarrow> string \<Rightarrow> string \<Rightarrow> string \<Rightarrow> string" where
  "setting env var file dflt =
     (let v = TrimSpace (env var)
      in if v \<noteq> [] then v else if TrimSpace file = [] then dflt else file)"

definition int_setting :: "getenv \<Rightarrow> string \<Rightarrow> int \<Rightarrow> int \<Rightarrow> int option" where
  "int_setting env var file dflt =
     (let v = TrimSpace (env var)
      in if v \<noteq> [] then Atoi v else Some (if file = 0 then dflt else file))"

lemma overrideInt_setting:
  "overrideInt env var (if file = 0 then dflt else file) = Inr n \<longleftrightarrow> int_setting env var file dflt = Some n"
  by (auto simp: overrideInt_def int_setting_def Let_def split: option.splits)

text \<open>The fields that the TLS steps leave alone.\<close>

definition no_tls :: "config \<Rightarrow> config" where "no_tls c = c\<lparr>cfg_TLS := None\<rparr>"

lemma no_tls_fields:
  assumes "no_tls c = no_tls d"
  shows "cfg_Host c = cfg_Host d" "cfg_Port c = cfg_Port d" "cfg_StatusPort c = cfg_StatusPort d"
    "cfg_Namespace c = cfg_Namespace d" "cfg_LogLevel c = cfg_LogLevel d" "cfg_Records c = cfg_Records d"
  using assms by (cases c; cases d; simp add: no_tls_def)+

lemma no_tls_overrideTLS: "no_tls (overrideTLS env c) = no_tls c"
  by (simp add: no_tls_def overrideTLS_def Let_def)

lemma no_tls_materialize: "materializeInlineTLSSecrets fs env c = Inr d \<Longrightarrow> no_tls d = no_tls c"
  by (auto simp: no_tls_def materializeInlineTLSSecrets_def Let_def split: if_splits sum.splits option.splits)

lemma applySafeDefaults_fields:
  "cfg_Host (applySafeDefaults c) = (if TrimSpace (cfg_Host c) = [] then ''0.0.0.0'' else cfg_Host c)"
  "cfg_Port (applySafeDefaults c) = (if cfg_Port c = 0 then 443 else cfg_Port c)"
  "cfg_StatusPort (applySafeDefaults c) = (if cfg_StatusPort c = 0 then 8080 else cfg_StatusPort c)"
  "cfg_Namespace (applySafeDefaults c) =
     (if TrimSpace (cfg_Namespace c) = [] then ''tesla_telemetry'' else cfg_Namespace c)"
  "cfg_LogLevel (applySafeDefaults c) = (if TrimSpace (cfg_LogLevel c) = [] then ''info'' else cfg_LogLevel c)"
  "cfg_Records (applySafeDefaults c) = (if cfg_Records c = [] then defaultRecords else cfg_Records c)"
  by (simp_all add: applySafeDefaults_def default_defs)

lemma overrideString_fields [simp]:
  "cfg_Port (overrideString env n (\<lambda>v c. c\<lparr>cfg_Host := v\<rparr>) c) = cfg_Port c"
  "cfg_StatusPort (overrideString env n (\<lambda>v c. c\<lparr>cfg_Host := v\<rparr>) c) = cfg_StatusPort c"
  "cfg_LogLevel (overrideString env n (\<lambda>v c. c\<lparr>cfg_Host := v\<rparr>) c) = cfg_LogLevel c"
  "cfg_Namespace (overrideString env n (\<lambda>v c. c\<lparr>cfg_Host := v\<rparr>) c) = cfg_Namespace c"
  "cfg_Records (overrideString env n (\<lambda>v c. c\<lparr>cfg_Host := v\<rparr>) c) = cfg_Records c"
  "cfg_Host (overrideString env n (\<lambda>v c. c\<lparr>cfg_Host := v\<rparr>) c) =
     (let v = TrimSpace (env n) in if v \<noteq> [] then v else cfg_Host c)"
  "cfg_Port (overrideString env n (\<lambda>v c. c\<lparr>cfg_LogLevel := v\<rparr>) c) = cfg_Port c"
  "cfg_StatusPort (overrideString env n (\<lambda>v c. c\<lparr>cfg_LogLevel := v\<rparr>) c) = cfg_StatusPort c"
  "cfg_Host (overrideString env n (\<lambda>v c. c\<lparr>cfg_LogLevel := v\<rparr>) c) = cfg_Host c"
  "cfg_Namespace (overrideString env n (\<lambda>v c. c\<lparr>cfg_LogLevel := v\<rparr>) c) = cfg_Namespace c"
  "cfg_Records (overrideString env n (\<lambda>v c. c\<lparr>cfg_LogLevel := v\<rparr>) c) = cfg_Records c"
  "cfg_LogLevel (overrideString env n (\<lambda>v c. c\<lparr>cfg_LogLevel := v\<rparr>) c) =
     (let v = TrimSpace (env n) in if v \<noteq> [] then v else cfg_LogLevel c)"
  "cfg_Port (overrideString env n (\<lambda>v c. c\<lparr>cfg_Namespace := v\<rparr>) c) = cfg_Port c"
  "cfg_StatusPort (overrideString env n (\<lambda>v c. c\<lparr>cfg_Namespace := v\<rparr>) c) = cfg_StatusPort c"
  "cfg_Host (overrideString env n (\<lambda>v c. c\<lparr>cfg_Namespace := v\<rparr>) c) = cfg_Host c"
  "cfg_LogLevel (overrideString env n (\<lambda>v c. c\<lparr>cfg_Namespace := v\<rparr>) c) = cfg_LogLevel c"
  "cfg_Records (overrideString env n (\<lambda>v c. c\<lparr>cfg_Namespace := v\<rparr>) c) = cfg_Records c"
  "cfg_Namespace (overrideString env n (\<lambda>v c. c\<lparr>cfg_Namespace := v\<rparr>) c) =
     (let v = TrimSpace (env n) in if v \<noteq> [] then v else cfg_Namespace c)"
  by (simp_all add: overrideString_def Let_def)

lemma no_tls_acme: "no_tls (acmeTLS env c) = no_tls c"
  by (simp add: no_tls_def acmeTLS_def)

lemma applyEnvironmentOverrides_fields:
  assumes "applyEnvironmentOverrides env c = Inr d"
  shows "cfg_Host d = (let v = TrimSpace (env ''HOST'') in if v \<noteq> [] then v else cfg_Host c)"
    and "overrideInt env ''PORT'' (cfg_Port c) = Inr (cfg_Port d)"
    and "overrideInt env ''STATUS_PORT'' (cfg_StatusPort c) = Inr (cfg_StatusPort d)"
    and "cfg_LogLevel d = (let v = TrimSpace (env ''LOG_LEVEL'') in if v \<noteq> [] then v else cfg_LogLevel c)"
    and "cfg_Namespace d = (let v = TrimSpace (env ''TELEMETRY_NAMESPACE'') in if v \<noteq> [] then v else cfg_Namespace c)"
    and "cfg_Records d = cfg_Records c"
proof -
  note tls = no_tls_fields [OF no_tls_overrideTLS] no_tls_fields [OF no_tls_acme]
  obtain port where p: "overrideInt env ''PORT'' (cfg_Port c) = Inr port"
    using assms by (auto simp: applyEnvironmentOverrides_def Let_def tls split: sum.splits)
  obtain status where s: "overrideInt env ''STATUS_PORT'' (cfg_StatusPort c) = Inr status"
    using assms p by (auto simp: applyEnvironmentOverrides_def Let_def tls split: sum.splits)
  have "checkTLSEnabled env = None"
    using assms p s by (auto simp: applyEnvironmentOverrides_def Let_def tls split: option.splits)
  with assms p s have d: "d = overrideTLS env (overrideString env ''TELEMETRY_NAMESPACE'' (\<lambda>v c. c\<lparr>cfg_Namespace := v\<rparr>)
      (overrideString env ''LOG_LEVEL'' (\<lambda>v c. c\<lparr>cfg_LogLevel := v\<rparr>)
        ((overrideString env ''HOST'' (\<lambda>v c. c\<lparr>cfg_Host := v\<rparr>) (acmeTLS env c))
           \<lparr>cfg_Port := port, cfg_StatusPort := status\<rparr>)))"
    by (simp add: applyEnvironmentOverrides_def Let_def tls)
  show "cfg_Host d = (let v = TrimSpace (env ''HOST'') in if v \<noteq> [] then v else cfg_Host c)"
    "overrideInt env ''PORT'' (cfg_Port c) = Inr (cfg_Port d)"
    "overrideInt env ''STATUS_PORT'' (cfg_StatusPort c) = Inr (cfg_StatusPort d)"
    "cfg_LogLevel d = (let v = TrimSpace (env ''LOG_LEVEL'') in if v \<noteq> [] then v else cfg_LogLevel c)"
    "cfg_Namespace d = (let v = TrimSpace (env ''TELEMETRY_NAMESPACE'') in if v \<noteq> [] then v else cfg_Namespace c)"
    "cfg_Records d = cfg_Records c"
    using p s by (simp_all add: d tls Let_def)
qed

lemma loadApplicationConfig_steps:
  assumes "loadApplicationConfig fs environ file = Inr c"
  obtains c0 c1 where "file = Decoded c0 \<or> file = NotExist \<and> c0 = empty_config"
    and "applyEnvironmentOverrides (Getenv environ) (applySafeDefaults c0) = Inr c1"
    and "materializeInlineTLSSecrets fs (Getenv environ) c1 = Inr c" and "validateConfig c = None"
  using assms
  by (auto simp: loadApplicationConfig_def split: config_file.splits sum.splits option.splits)


definition empty_fs :: file_system where
  "empty_fs = \<lparr>MkdirTemp = Inr ''/tmp/x'', WriteFile = (\<lambda>_ _. None), ReadFile = (\<lambda>_. Inl ''none''),
     LoadX509KeyPair = (\<lambda>_ _. Inl ''none'')\<rparr>"

lemma load_example:
  "loadApplicationConfig empty_fs Map.empty NotExist = Inr (applySafeDefaults empty_config)"
proof -
  have t: "TrimSpace ''0.0.0.0'' \<noteq> []" "TrimSpace ''tesla_telemetry'' \<noteq> []"
    by (rule TrimSpace_ne [of "CHR ''0''"]; simp) (rule TrimSpace_ne [of "CHR ''t''"]; simp)
  have "applyEnvironmentOverrides (Getenv Map.empty) (applySafeDefaults empty_config) = Inr (applySafeDefaults empty_config)"
    by (simp add: applyEnvironmentOverrides_def overrideInt_def overrideTLS_def checkTLSEnabled_def
        overrideString_def acmeTLS_def Getenv_def)
  moreover have "validateConfig (applySafeDefaults empty_config) = None"
    using t by (simp add: validateConfig_def applySafeDefaults_fields empty_config_def VinsToTrack_def
        defaultRecords_def) (simp add: applySafeDefaults_def)
  ultimately show ?thesis
    by (simp add: loadApplicationConfig_def materializeInlineTLSSecrets_def NewLogrusLogger_def Getenv_def)
qed


text \<open>
  With an inline certificate and key in the environment, a configuration that loads points to
  the files these were written to, whatever paths the file and the other variables name, and it
  passes the check that is made before the listener starts.
\<close>

theorem inline_tls_used:
  assumes "loadApplicationConfig fs environ file = Inr c"
    and "Getenv environ ''TLS_CERT_PEM'' \<noteq> []" and "Getenv environ ''TLS_KEY_PEM'' \<noteq> []"
  shows "\<exists>d tls. MkdirTemp fs = Inr d \<and> cfg_TLS c = Some tls \<and> ServerCert tls = d @ ''/tls.crt'' \<and>
           ServerKey tls = d @ ''/tls.key'' \<and> ValidateRuntime (Getenv environ) c = None"
proof -
  obtain c1 where "materializeInlineTLSSecrets fs (Getenv environ) c1 = Inr c"
    using loadApplicationConfig_steps [OF assms(1)] by metis
  then obtain d tls where "MkdirTemp fs = Inr d" "cfg_TLS c = Some tls" "ServerCert tls = d @ ''/tls.crt''"
    "ServerKey tls = d @ ''/tls.key''"
    using assms(2,3) by (auto simp: materializeInlineTLSSecrets_def Let_def split: sum.splits option.splits)
  moreover have "TrimSpace (d @ ''/tls.crt'') \<noteq> []" "TrimSpace (d @ ''/tls.key'') \<noteq> []"
    by (rule TrimSpace_ne [of "CHR ''/''"]; simp)+
  ultimately show ?thesis by (auto simp: ValidateRuntime_def)
qed

definition pem_env :: environ where
  "pem_env = [''TLS_CERT_PEM'' \<mapsto> ''cert'', ''TLS_KEY_PEM'' \<mapsto> ''key'']"

lemma load_pem_example:
  "loadApplicationConfig empty_fs pem_env NotExist =
     Inr ((applySafeDefaults empty_config)\<lparr>cfg_TLS := Some \<lparr>CAFile = [], ServerCert = ''/tmp/x/tls.crt'',
        ServerKey = ''/tmp/x/tls.key''\<rparr>\<rparr>)"
proof -
  have t: "TrimSpace ''0.0.0.0'' \<noteq> []" "TrimSpace ''tesla_telemetry'' \<noteq> []"
    by (rule TrimSpace_ne [of "CHR ''0''"]; simp) (rule TrimSpace_ne [of "CHR ''t''"]; simp)
  have "applyEnvironmentOverrides (Getenv pem_env) (applySafeDefaults empty_config) = Inr (applySafeDefaults empty_config)"
    by (simp add: applyEnvironmentOverrides_def overrideInt_def overrideTLS_def checkTLSEnabled_def
        overrideString_def acmeTLS_def pem_env_def Getenv_def)
  moreover have "validateConfig ((applySafeDefaults empty_config)\<lparr>cfg_TLS := x\<rparr>) = None" for x
    using t by (simp add: validateConfig_def applySafeDefaults_fields empty_config_def VinsToTrack_def
        defaultRecords_def) (simp add: applySafeDefaults_def)
  moreover have "cfg_TLS (applySafeDefaults empty_config) = None"
    by (simp add: applySafeDefaults_def empty_config_def)
  ultimately show ?thesis
    by (simp add: loadApplicationConfig_def materializeInlineTLSSecrets_def NewLogrusLogger_def pem_env_def Getenv_def empty_fs_def empty_tls_def)
qed

theorem inline_tls_used_witness:
  "\<exists>c. loadApplicationConfig empty_fs pem_env NotExist = Inr c \<and> ValidateRuntime (Getenv pem_env) c = None"
proof -
  have "Getenv pem_env ''TLS_CERT_PEM'' \<noteq> []" "Getenv pem_env ''TLS_KEY_PEM'' \<noteq> []" by (simp_all add: pem_env_def Getenv_def)
  from inline_tls_used [OF load_pem_example this] load_pem_example show ?thesis by auto
qed

end
