(* ===== verification/Config_Producers.thy ===== *)
theory Config_Producers
  imports Config
begin

text \<open>
  The second half of \<^verbatim>\<open>config/config.go\<close>: TLS configurations, the sources of reliable acknowledgements,
  the producers and the dispatch rules. A producer is named by its dispatcher; a dispatch rule holds
  \<^const>\<open>None\<close> where the code stores a nil producer.
\<close>

section \<open>TLS\<close>

datatype client_auth = NoClientCert | RequireAndVerifyClientCert

text \<open>
  \<^verbatim>\<open>GetCertificate\<close> is nil or the callback of an ACME manager, which is named by the domains it manages.
\<close>

record tls_config =
  Certificates :: "bytes list"
  GetCertificate :: "string list option"
  ServerName :: string
  RootCAs :: "bytes list"
  ClientCAs :: "bytes list"
  ClientAuth :: client_auth

definition empty_tls_config :: tls_config where
  "empty_tls_config = \<lparr>Certificates = [], GetCertificate = None, ServerName = [], RootCAs = [], ClientCAs = [], ClientAuth = NoClientCert\<rparr>"

text \<open>A nil receiver gives a nil configuration. A certificate pool is the list of the texts added to it.\<close>

definition ClientTLSConfig :: "file_system \<Rightarrow> tls_files option \<Rightarrow> config_error + tls_config option" where
  "ClientTLSConfig fs t =
     (case t of
        None \<Rightarrow> Inr None
      | Some t \<Rightarrow>
          (case (if ServerCert t \<noteq> [] \<and> ServerKey t \<noteq> []
                 then (case LoadX509KeyPair fs (ServerCert t) (ServerKey t) of
                         Inl err \<Rightarrow> Inl (Plain (''can't properly load cert pair ('' @ ServerCert t @ '', '' @ ServerKey t @ ''): '' @ err))
                       | Inr cert \<Rightarrow> Inr (empty_tls_config\<lparr>Certificates := [cert]\<rparr>))
                 else Inr empty_tls_config) of
             Inl err \<Rightarrow> Inl err
           | Inr tlsConfig \<Rightarrow>
               if CAFile t \<noteq> [] then
                 (case ReadFile fs (CAFile t) of
                    Inl err \<Rightarrow> Inl (Plain (''can't properly load ca cert ('' @ CAFile t @ ''): '' @ err))
                  | Inr caCert \<Rightarrow> Inr (Some (tlsConfig\<lparr>RootCAs := [caCert]\<rparr>)))
               else Inr (Some tlsConfig)))"

text \<open>
  The embedded certificates are arguments, and so is \<^verbatim>\<open>AppendCertsFromPEM\<close>, which tells whether a text
  held a certificate.
\<close>

definition ExtractServiceTLSConfig ::
    "file_system \<Rightarrow> bytes \<Rightarrow> bytes \<Rightarrow> (bytes \<Rightarrow> bool) \<Rightarrow> config \<Rightarrow> (config_error + tls_config) \<times> log_entry list" where
  "ExtractServiceTLSConfig fs defaultEngCA defaultProdCA parses c =
     (case cfg_TLS c of
        None \<Rightarrow> (Inl (Plain ''tls config is empty - telemetry server is mTLS only, make sure to provide certificates in the config''), [])
      | Some tls \<Rightarrow>
          (let (caEnv, caFileBytes) = (if cfg_UseDefaultEngCA c then (''eng'', defaultEngCA) else (''prod'', defaultProdCA))
           in if \<not> parses caFileBytes then
                (Inl (Plain (''tls ca not properly loaded for '' @ caEnv @ '' environment'')), [])
              else if CAFile tls \<noteq> [] then
                (case ReadFile fs (CAFile tls) of
                   Inl err \<Rightarrow> (Inl (Plain err), [])
                 | Inr customCaFileBytes \<Rightarrow>
                     if \<not> parses customCaFileBytes then
                       (Inl (Plain (''custom ca not properly loaded: '' @ CAFile tls)), [])
                     else (Inr (empty_tls_config\<lparr>ClientCAs := [caFileBytes, customCaFileBytes],
                                  ClientAuth := RequireAndVerifyClientCert\<rparr>),
                           [ActivityLog ''custom_ca_file_appened'' [(''ca_file_path'', GStr (CAFile tls))]]))
              else (Inr (empty_tls_config\<lparr>ClientCAs := [caFileBytes], ClientAuth := RequireAndVerifyClientCert\<rparr>), [])))"

definition prometheusEnabled :: "config \<Rightarrow> bool" where
  "prometheusEnabled c = (case cfg_Monitoring c of Some m \<Rightarrow> PrometheusMetricsPort m > 0 | None \<Rightarrow> False)"

section \<open>Reliable acknowledgements\<close>

text \<open>\<^verbatim>\<open>parseValidDispatchers\<close> drops the logger.\<close>

definition parseValidDispatchers :: "string list \<Rightarrow> string list" where
  "parseValidDispatchers input = filter (\<lambda>v. v \<noteq> dispatcher_name Logger) input"

datatype ack_error =
    AckConnectivity string
  | AckLogger string
  | AckNoRecord string string
  | AckNotDispatched string string "string list"

text \<open>
  The result maps a dispatcher to the record types it acknowledges; adding a type to a dispatcher
  creates its set when it has none.
\<close>

type_synonym ack_sources = "string \<rightharpoonup> string set"

definition add_source :: "string \<Rightarrow> string \<Rightarrow> ack_sources \<Rightarrow> ack_sources" where
  "add_source d txType m = m(d \<mapsto> insert txType (case m d of None \<Rightarrow> {} | Some ts \<Rightarrow> ts))"

fun reliableAckSources_loop ::
    "(string \<rightharpoonup> string list) \<Rightarrow> (string \<times> string) list \<Rightarrow> ack_sources \<Rightarrow> ack_error + ack_sources" where
  "reliableAckSources_loop records [] acc = Inr acc"
| "reliableAckSources_loop records ((txType, dispatchRule) # rest) acc =
     (if txType = ''connectivity'' then Inl (AckConnectivity txType)
      else if dispatchRule = dispatcher_name Logger then Inl (AckLogger txType)
      else case records txType of
             None \<Rightarrow> Inl (AckNoRecord dispatchRule txType)
           | Some dispatchers \<Rightarrow>
               (let validDispatchers = parseValidDispatchers dispatchers
                in if dispatchRule \<in> set validDispatchers
                   then reliableAckSources_loop records rest (add_source dispatchRule txType acc)
                   else Inl (AckNotDispatched dispatchRule txType validDispatchers)))"

definition configureReliableAckSources :: "config \<Rightarrow> ack_error + ack_sources" where
  "configureReliableAckSources c =
     reliableAckSources_loop (map_of (cfg_Records c)) (cfg_ReliableAckSources c) (\<lambda>_. None)"

section \<open>Producers and dispatch rules\<close>

text \<open>\<^verbatim>\<open>convertKafkaConfig\<close>: the JSON numbers become integers; \<^verbatim>\<open>trunc\<close> is the conversion from float64 to int.\<close>

definition convertKafkaConfig :: "(64 word \<Rightarrow> int) \<Rightarrow> (string \<times> goval) list \<Rightarrow> (string \<times> goval) list" where
  "convertKafkaConfig trunc input =
     map (\<lambda>(key, val). (key, case val of GFloat64 f \<Rightarrow> GInt (trunc f) | _ \<Rightarrow> val)) input"

text \<open>\<^verbatim>\<open>strings.ToUpper\<close> on ASCII letters, which is all the record names have.\<close>

definition ToUpper :: "string \<Rightarrow> string" where
  "ToUpper = map (\<lambda>c. if 97 \<le> (of_char c :: nat) \<and> (of_char c :: nat) \<le> 122 then char_of (of_char c - 32 :: nat) else c)"

definition kinesisStream :: "getenv \<Rightarrow> config \<Rightarrow> string \<Rightarrow> string" where
  "kinesisStream env c recordName =
     (let configured = (case cfg_Kinesis c of
                          None \<Rightarrow> []
                        | Some k \<Rightarrow> (case Kinesis_Streams k recordName of Some s \<Rightarrow> s | None \<Rightarrow> []));
          envVarStreamName = env (''KINESIS_STREAM_'' @ ToUpper recordName);
          stream = (if envVarStreamName \<noteq> [] then envVarStreamName else configured)
      in if stream = [] then BuildTopicName (cfg_Namespace c) recordName else stream)"

definition CreateKinesisStreamMapping :: "getenv \<Rightarrow> config \<Rightarrow> string list \<Rightarrow> (string \<rightharpoonup> string)" where
  "CreateKinesisStreamMapping env c recordNames =
     foldl (\<lambda>m recordName. m(recordName \<mapsto> kinesisStream env c recordName)) (\<lambda>_. None) recordNames"

definition requiredDispatchers :: "config \<Rightarrow> string \<Rightarrow> string list" where
  "requiredDispatchers c d =
     concat (map (\<lambda>(recordName, rules). map (\<lambda>_. recordName) (filter (\<lambda>r. r = d) rules)) (cfg_Records c))"

datatype producer_error =
    AckError ack_error
  | NotConfigured dispatcher
  | ProducerFailed dispatcher string
  | UnknownDispatchRule string "string list"
  | ProvisionFailed string
  | ConnectFailed string

type_synonym producer_map = "string \<rightharpoonup> dispatcher"

text \<open>
  The constructor of a client and the steps made outside tests can fail: \<^verbatim>\<open>NewProducer\<close> of every datastore,
  \<^verbatim>\<open>ProvisionTopics\<close> of Pub/Sub and \<^verbatim>\<open>Connect\<close> of MQTT. \<^const>\<open>None\<close> is success.
\<close>

record clients =
  New_producer :: "dispatcher \<Rightarrow> string option"
  Provision_topics :: "string list \<Rightarrow> string option"
  Connect_mqtt :: "string option"

text \<open>One required datastore: it must be configured and its client must start.\<close>

definition requireProducer ::
    "clients \<Rightarrow> config \<Rightarrow> dispatcher \<Rightarrow> bool \<Rightarrow> producer_map \<Rightarrow> producer_error + producer_map" where
  "requireProducer cl c d configured producers =
     (if requiredDispatchers c (dispatcher_name d) \<noteq> [] then
        (if \<not> configured then Inl (NotConfigured d)
         else case New_producer cl d of
                Some err \<Rightarrow> Inl (ProducerFailed d err)
              | None \<Rightarrow> Inr (producers(dispatcher_name d \<mapsto> d)))
      else Inr producers)"

fun then_do :: "'e + 'a \<Rightarrow> ('a \<Rightarrow> 'e + 'b) \<Rightarrow> 'e + 'b" where
  "then_do (Inl e) f = Inl e"
| "then_do (Inr a) f = f a"

definition createProducers :: "clients \<Rightarrow> config \<Rightarrow> producer_error + producer_map" where
  "createProducers cl c =
     then_do (requireProducer cl c Kafka (cfg_Kafka c \<noteq> None) [dispatcher_name Logger \<mapsto> Logger]) (\<lambda>ps.
     then_do (requireProducer cl c Pubsub (cfg_Pubsub c \<noteq> None) ps) (\<lambda>ps.
     then_do (requireProducer cl c Kinesis (cfg_Kinesis c \<noteq> None) ps) (\<lambda>ps.
     then_do (requireProducer cl c ZMQ (cfg_ZMQ c \<noteq> None) ps) (\<lambda>ps.
     then_do (requireProducer cl c MQTT (cfg_MQTT c \<noteq> None) ps) (\<lambda>ps.
     requireProducer cl c Redis (cfg_Redis c \<noteq> None) ps)))))"

fun dispatchProducerRules ::
    "producer_map \<Rightarrow> (string \<times> string list) list \<Rightarrow> (string \<rightharpoonup> dispatcher option list) \<Rightarrow>
     producer_error + (string \<rightharpoonup> dispatcher option list)" where
  "dispatchProducerRules producers [] acc = Inr acc"
| "dispatchProducerRules producers ((recordName, rules) # rest) acc =
     (if length (map producers rules) = 0 then Inl (UnknownDispatchRule recordName rules)
      else dispatchProducerRules producers rest (acc(recordName \<mapsto> map producers rules)))"

definition pubsubTxTypes :: "config \<Rightarrow> string list" where
  "pubsubTxTypes c = requiredDispatchers c (dispatcher_name Pubsub)"

definition ConfigureProducers ::
    "clients \<Rightarrow> bool \<Rightarrow> config \<Rightarrow> producer_error + producer_map \<times> (string \<rightharpoonup> dispatcher option list)" where
  "ConfigureProducers cl test c =
     (case configureReliableAckSources c of
        Inl err \<Rightarrow> Inl (AckError err)
      | Inr _ \<Rightarrow>
          then_do (createProducers cl c) (\<lambda>producers.
          then_do (dispatchProducerRules producers (cfg_Records c) (\<lambda>_. None)) (\<lambda>rules.
          then_do (if \<not> test \<and> pubsubTxTypes c \<noteq> []
                   then (case Provision_topics cl (pubsubTxTypes c) of
                           Some err \<Rightarrow> Inl (ProvisionFailed err) | None \<Rightarrow> Inr ())
                   else Inr ()) (\<lambda>_.
          then_do (if \<not> test \<and> producers (dispatcher_name MQTT) \<noteq> None
                   then (case Connect_mqtt cl of Some err \<Rightarrow> Inl (ConnectFailed err) | None \<Rightarrow> Inr ())
                   else Inr ()) (\<lambda>_. Inr (producers, rules))))))"

section \<open>Acknowledging exactly the configured types\<close>

definition acks :: "ack_sources \<Rightarrow> string \<Rightarrow> string \<Rightarrow> bool" where
  "acks m d t = (case m d of None \<Rightarrow> False | Some ts \<Rightarrow> t \<in> ts)"

lemma acks_empty [simp]: "\<not> acks (\<lambda>_. None) d t"
  by (simp add: acks_def)

lemma acks_add_source [simp]: "acks (add_source d t m) d' t' \<longleftrightarrow> d = d' \<and> t = t' \<or> acks m d' t'"
  by (auto simp: acks_def add_source_def split: option.splits)

definition valid_source :: "(string \<rightharpoonup> string list) \<Rightarrow> string \<times> string \<Rightarrow> bool" where
  "valid_source records = (\<lambda>(t, d). t \<noteq> ''connectivity'' \<and> d \<noteq> ''logger'' \<and>
     (case records t of None \<Rightarrow> False | Some ds \<Rightarrow> d \<in> set ds))"

lemma valid_source_iff:
  "valid_source records (t, d) \<longleftrightarrow>
     t \<noteq> ''connectivity'' \<and> d \<noteq> ''logger'' \<and> (\<exists>ds. records t = Some ds \<and> d \<in> set ds)"
  by (auto simp: valid_source_def split: option.splits)

lemma reliableAckSources_loop_valid:
  "valid_source records (t, d) \<Longrightarrow>
     reliableAckSources_loop records ((t, d) # rest) acc = reliableAckSources_loop records rest (add_source d t acc)"
  by (auto simp: valid_source_iff parseValidDispatchers_def)

lemma reliableAckSources_loop_invalid:
  "\<not> valid_source records (t, d) \<Longrightarrow> \<exists>e. reliableAckSources_loop records ((t, d) # rest) acc = Inl e"
  by (auto simp: valid_source_iff parseValidDispatchers_def Let_def split: option.splits)

lemma reliableAckSources_loop_Inr:
  "reliableAckSources_loop records sources acc = Inr m \<Longrightarrow>
     (\<forall>d t. acks m d t \<longleftrightarrow> (t, d) \<in> set sources \<or> acks acc d t) \<and> list_all (valid_source records) sources"
proof (induction sources arbitrary: acc)
  case (Cons s rest)
  obtain t d where s: "s = (t, d)" by force
  have v: "valid_source records (t, d)"
    using Cons.prems reliableAckSources_loop_invalid [of records t d rest acc] s by auto
  have "reliableAckSources_loop records rest (add_source d t acc) = Inr m"
    using Cons.prems reliableAckSources_loop_valid [OF v] s by metis
  from Cons.IH [OF this] show ?case using v s by auto
qed simp

lemma reliableAckSources_loop_total:
  "list_all (valid_source records) sources \<Longrightarrow> \<exists>m. reliableAckSources_loop records sources acc = Inr m"
proof (induction sources arbitrary: acc)
  case (Cons s rest)
  obtain t d where s: "s = (t, d)" by force
  then have "valid_source records (t, d)" using Cons.prems by simp
  from reliableAckSources_loop_valid [OF this] Cons show ?case by (simp add: s del: reliableAckSources_loop.simps)
qed simp

text \<open>
  C21: The reliable acknowledgement sources are accepted exactly when every one of them names a
  record type other than connectivity and a dispatcher other than the logger to which that type is
  dispatched; then a dispatcher acknowledges a record type if and only if it is configured as the
  source of that type, so every type has at most one source, in whatever order the sources are read.
\<close>

theorem reliable_ack_sources:
  assumes "distinct (map fst (cfg_ReliableAckSources c))"
  shows "(\<forall>m. configureReliableAckSources c = Inr m \<longrightarrow>
            (\<forall>d t. acks m d t \<longleftrightarrow> map_of (cfg_ReliableAckSources c) t = Some d)) \<and>
         ((\<exists>m. configureReliableAckSources c = Inr m) \<longleftrightarrow>
            list_all (\<lambda>(t, d). t \<noteq> ''connectivity'' \<and> d \<noteq> ''logger'' \<and>
               (case map_of (cfg_Records c) t of None \<Rightarrow> False | Some ds \<Rightarrow> d \<in> set ds))
              (cfg_ReliableAckSources c))"
proof -
  have v: "valid_source (map_of (cfg_Records c)) = (\<lambda>(t, d). t \<noteq> ''connectivity'' \<and> d \<noteq> ''logger'' \<and>
      (case map_of (cfg_Records c) t of None \<Rightarrow> False | Some ds \<Rightarrow> d \<in> set ds))"
    by (simp add: valid_source_def)
  let ?loop = "reliableAckSources_loop (map_of (cfg_Records c)) (cfg_ReliableAckSources c) (\<lambda>_. None)"
  have "acks m d t \<longleftrightarrow> map_of (cfg_ReliableAckSources c) t = Some d" if "?loop = Inr m" for m d t
    using reliableAckSources_loop_Inr [OF that] map_of_eq_Some_iff [OF assms] by simp
  moreover have "(\<exists>m. ?loop = Inr m) \<longleftrightarrow> list_all (valid_source (map_of (cfg_Records c))) (cfg_ReliableAckSources c)"
    using reliableAckSources_loop_Inr reliableAckSources_loop_total by blast
  ultimately show ?thesis unfolding configureReliableAckSources_def v by blast
qed

definition example_config :: config where
  "example_config = empty_config\<lparr>cfg_Records := [(''V'', [''kafka'', ''logger'']), (''alerts'', [''kafk''])],
     cfg_ReliableAckSources := [(''V'', ''kafka'')], cfg_Kafka := Some []\<rparr>"

theorem reliable_ack_sources_witness:
  "\<exists>m. configureReliableAckSources example_config = Inr m \<and> acks m ''kafka'' ''V''"
proof -
  have "distinct (map fst (cfg_ReliableAckSources example_config))" by (simp add: example_config_def)
  from reliable_ack_sources [OF this] show ?thesis by (force simp: example_config_def)
qed

section \<open>Every rule has its producers\<close>

lemma requireProducer_Inr:
  assumes "requireProducer cl c d configured ps = Inr ps'"
  shows "ps' = (if requiredDispatchers c (dispatcher_name d) \<noteq> [] then ps(dispatcher_name d \<mapsto> d) else ps)"
  using assms by (auto simp: requireProducer_def split: if_splits option.splits)

lemma then_do_Inr: "then_do r f = Inr y \<longleftrightarrow> (\<exists>a. r = Inr a \<and> f a = Inr y)"
  by (cases r) auto

text \<open>The producers that a successful configuration creates.\<close>

definition known :: "string \<Rightarrow> dispatcher option" where
  "known name = find (\<lambda>d. dispatcher_name d = name) [Pubsub, Kafka, Kinesis, Logger, ZMQ, MQTT, Redis]"

lemma known_name [simp]: "known (dispatcher_name d) = Some d"
  by (cases d) (simp_all add: known_def)

lemma known_Some: "known name = Some d \<Longrightarrow> name = dispatcher_name d"
  by (auto simp: known_def split: if_splits)

lemma createProducers_Inr:
  assumes "createProducers cl c = Inr ps"
  shows "ps name =
     (case known name of
        None \<Rightarrow> None
      | Some d \<Rightarrow> if d = Logger \<or> requiredDispatchers c name \<noteq> [] then Some d else None)"
proof (cases "known name")
  case None
  then have "\<And>d. name \<noteq> dispatcher_name d" by auto
  with assms None show ?thesis
    by (auto simp: createProducers_def then_do_Inr dest!: requireProducer_Inr simp del: dispatcher_name.simps)
next
  case (Some d)
  with assms known_Some [OF Some] show ?thesis
    by (cases d) (auto simp: createProducers_def then_do_Inr dest!: requireProducer_Inr)
qed

lemma requiredDispatchers_ne:
  "(t, rules) \<in> set (cfg_Records c) \<Longrightarrow> name \<in> set rules \<Longrightarrow> requiredDispatchers c name \<noteq> []"
  by (force simp: requiredDispatchers_def filter_empty_conv)

lemma dispatchProducerRules_Inr:
  "dispatchProducerRules ps records acc = Inr rules \<Longrightarrow> distinct (map fst records) \<Longrightarrow>
     rules t = (case map_of records t of Some ds \<Rightarrow> Some (map ps ds) | None \<Rightarrow> acc t)"
proof (induction records arbitrary: acc)
  case (Cons r rest)
  obtain n ds where r: "r = (n, ds)" by force
  have "dispatchProducerRules ps rest (acc(n \<mapsto> map ps ds)) = Inr rules"
    using Cons.prems(1) r by (auto split: if_splits)
  from Cons.IH [OF this] have "rules t = (case map_of rest t of Some ds \<Rightarrow> Some (map ps ds) | None \<Rightarrow> (acc(n \<mapsto> map ps ds)) t)"
    using Cons.prems(2) by simp
  moreover have "map_of rest n = None" using Cons.prems(2) r by (simp add: map_of_eq_None_iff)
  ultimately show ?case using r by (simp split: option.split)
qed simp

lemma dispatchProducerRules_nonempty:
  "dispatchProducerRules ps records acc = Inr rules \<Longrightarrow> (t, ds) \<in> set records \<Longrightarrow> ds \<noteq> []"
  by (induction ps records acc rule: dispatchProducerRules.induct) (auto split: if_splits)

lemma configured_rules:
  assumes "ConfigureProducers cl test c = Inr (producers, rules)" and "distinct (map fst (cfg_Records c))"
  shows "rules t = map_option (map known) (map_of (cfg_Records c) t)"
proof -
  have ps: "createProducers cl c = Inr producers"
    and dp: "dispatchProducerRules producers (cfg_Records c) (\<lambda>_. None) = Inr rules"
    using assms(1) by (auto simp: ConfigureProducers_def then_do_Inr split: sum.splits)
  show ?thesis
  proof (cases "map_of (cfg_Records c) t")
    case None
    then show ?thesis using dispatchProducerRules_Inr [OF dp assms(2)] by simp
  next
    case (Some ds)
    have "producers name = known name" if "name \<in> set ds" for name
      using createProducers_Inr [OF ps, of name] requiredDispatchers_ne [OF map_of_SomeD [OF Some] that]
      by (auto split: option.splits)
    then have "map producers ds = map known ds" by simp
    then show ?thesis using dispatchProducerRules_Inr [OF dp assms(2), of t] Some by simp
  qed
qed

text \<open>
  C22: When the producers are configured, every configured record type, and no other, has a
  dispatch rule; the rule lists, in the configured order, the producers of the named dispatchers,
  and the entry of a name that is no dispatcher is nil. An empty list is refused, an unknown name is
  not.
\<close>

theorem dispatch_rules_complete:
  assumes "ConfigureProducers cl test c = Inr (producers, rules)" and "distinct (map fst (cfg_Records c))"
  shows "rules t = map_option (map known) (map_of (cfg_Records c) t) \<and> rules t \<noteq> Some []"
proof -
  have "dispatchProducerRules producers (cfg_Records c) (\<lambda>_. None) = Inr rules"
    using assms(1) by (auto simp: ConfigureProducers_def then_do_Inr split: sum.splits)
  from dispatchProducerRules_nonempty [OF this] configured_rules [OF assms] show ?thesis
    by (auto dest: map_of_SomeD)
qed

definition ready :: clients where
  "ready = \<lparr>New_producer = (\<lambda>_. None), Provision_topics = (\<lambda>_. None), Connect_mqtt = None\<rparr>"

theorem dispatch_rules_complete_witness:
  "\<exists>producers rules. ConfigureProducers ready False example_config = Inr (producers, rules) \<and>
     rules ''V'' = Some [Some Kafka, Some Logger] \<and> rules ''alerts'' = Some [None]"
proof -
  have "\<exists>r. ConfigureProducers ready False example_config = Inr r"
    by (simp add: ConfigureProducers_def configureReliableAckSources_def createProducers_def requireProducer_def
        requiredDispatchers_def example_config_def empty_config_def ready_def parseValidDispatchers_def
        pubsubTxTypes_def)
  then obtain producers rules where r: "ConfigureProducers ready False example_config = Inr (producers, rules)"
    by auto
  have "distinct (map fst (cfg_Records example_config))" by (simp add: example_config_def)
  from dispatch_rules_complete [OF r this, of "''V''"] dispatch_rules_complete [OF r this, of "''alerts''"] r
  show ?thesis by (simp add: example_config_def known_def)
qed

lemma kinesis_mapping_eq:
  "CreateKinesisStreamMapping env c names t = (if t \<in> set names then Some (kinesisStream env c t) else None)"
proof -
  have "foldl (\<lambda>m r. m(r \<mapsto> f r)) m0 names t = (if t \<in> set names then Some (f t) else m0 t)" for f :: "string \<Rightarrow> string" and m0
    by (induction names arbitrary: m0) auto
  then show ?thesis by (simp add: CreateKinesisStreamMapping_def)
qed

text \<open>
  The stream of every record type that Kinesis receives is never blank: the environment variable
  of the type if it is set, else the configured stream if it is not blank, else the namespace and
  the type.
\<close>

theorem kinesis_stream_mapping:
  "CreateKinesisStreamMapping env c names t =
     (if t \<notin> set names then None
      else if env (''KINESIS_STREAM_'' @ ToUpper t) \<noteq> [] then Some (env (''KINESIS_STREAM_'' @ ToUpper t))
      else Some (case Option.bind (cfg_Kinesis c) (\<lambda>k. Kinesis_Streams k t) of
                   Some s \<Rightarrow> if s \<noteq> [] then s else cfg_Namespace c @ ''_'' @ t
                 | None \<Rightarrow> cfg_Namespace c @ ''_'' @ t)) \<and>
   CreateKinesisStreamMapping env c names t \<noteq> Some []"
  by (auto simp: kinesis_mapping_eq kinesisStream_def Let_def BuildTopicName_def split: option.splits)

text \<open>
  Whenever the service gets a TLS configuration, it demands and verifies a client certificate,
  against the embedded certificates of the chosen environment and those of the custom file if one
  is named; without TLS settings, or with certificates that do not load, there is none.
\<close>

lemma ExtractServiceTLSConfig_Inr:
  assumes "ExtractServiceTLSConfig fs engCA prodCA parses c = (Inr tls, logs)"
  shows "\<exists>t cas. cfg_TLS c = Some t \<and>
           tls = empty_tls_config\<lparr>ClientCAs := (if cfg_UseDefaultEngCA c then engCA else prodCA) # cas,
                   ClientAuth := RequireAndVerifyClientCert\<rparr> \<and>
           list_all parses (ClientCAs tls) \<and>
           (if CAFile t = [] then cas = [] else \<exists>pem. ReadFile fs (CAFile t) = Inr pem \<and> cas = [pem])"
  using assms
  by (auto simp: ExtractServiceTLSConfig_def Let_def split: option.splits if_splits sum.splits)

end
