(* ===== verification/Socket.thy ===== *)
theory Socket
  imports Config_Producers
begin

text \<open>
  One client connection (\<^verbatim>\<open>server/streaming/socket.go\<close>): reading messages, rate limiting, turning a
  message into a record, dispatching it and answering. The effects of a handler are its log lines,
  its metric updates and its actions, in order: a call of \<^verbatim>\<open>Produce\<close> on a producer, or a response put
  into the write channel. \<^const>\<open>None\<close> is a panic.
\<close>

section \<open>State\<close>

record socket_message =
  sock_MsgType :: int
  sock_Txid :: string
  sock_Msg :: bytes

datatype 'p socket_action =
    Produce 'p "'p telemetry_record"
  | Respond socket_message

type_synonym 'p effects = "'p socket_action effect list"

record socket_manager =
  sm_MsgType :: int
  sm_RecordsStats :: "(string \<times> int) list"
  sm_StartTime :: int
  sm_UUID :: string
  sm_config :: config
  sm_requestIdentity :: request_identity
  sm_requestInfo :: log_info
  sm_transmitDecodedRecords :: bool
  sm_vinsSignalTracking :: "string set"

text \<open>
  A header maps canonical names to values; \<^verbatim>\<open>X-TXID\<close> is canonically \<^verbatim>\<open>X-Txid\<close>. Parsing and making UUIDs is
  a library function; a UUID is its text.
\<close>

record http_request =
  req_Method :: string
  req_URLPath :: string
  req_RemoteAddr :: string
  req_Header :: "string \<rightharpoonup> string list"

definition Header_Get :: "http_request \<Rightarrow> string \<Rightarrow> string" where
  "Header_Get r k = (case req_Header r k of Some (v # _) \<Rightarrow> v | _ \<Rightarrow> [])"

definition Header_Add :: "http_request \<Rightarrow> string \<Rightarrow> string \<Rightarrow> http_request" where
  "Header_Add r k v =
     r\<lparr>req_Header := (req_Header r)(k \<mapsto> (case req_Header r k of Some vs \<Rightarrow> vs | None \<Rightarrow> []) @ [v])\<rparr>"

text \<open>
  The request is absent when the context is nil or does not hold one; \<^verbatim>\<open>fresh\<close> is the new UUID. The
  request comes back with the header that was added.
\<close>

definition buildRequestContext ::
    "(string \<Rightarrow> string option) \<Rightarrow> string \<Rightarrow> http_request option \<Rightarrow> log_info \<times> string \<times> http_request option" where
  "buildRequestContext uuid_Parse fresh request =
     (case request of
        None \<Rightarrow> ([], fresh, None)
      | Some r \<Rightarrow>
          (let (txid, socketUUID, r) =
                 (case uuid_Parse (Header_Get r ''X-Txid'') of
                    None \<Rightarrow> (fresh, fresh, Header_Add r ''X-Txid'' fresh)
                  | Some txid \<Rightarrow> (txid, txid, r))
           in ([(''network_interface'', GStr (Header_Get r ''X-Network-Interface'')),
                (''txid'', GStr txid),
                (''method'', GStr (req_Method r)),
                (''path'', GStr (req_URLPath r)),
                (''user_agent'', GStr (Header_Get r ''User-Agent'')),
                (''X-Forwarded-For'', GStr (Header_Get r ''X-Forwarded-For''))], socketUUID, Some r)))"

definition BinaryMessage :: int where "BinaryMessage = 2"

definition NewSocketManager ::
    "(string \<Rightarrow> string option) \<Rightarrow> string \<Rightarrow> int \<Rightarrow> http_request option \<Rightarrow> request_identity \<Rightarrow> config \<Rightarrow> socket_manager" where
  "NewSocketManager uuid_Parse fresh now request identity c =
     (let (requestLogInfo, socketUUID, _) = buildRequestContext uuid_Parse fresh request
      in \<lparr>sm_MsgType = BinaryMessage, sm_RecordsStats = [], sm_StartTime = now, sm_UUID = socketUUID,
          sm_config = c, sm_requestIdentity = identity, sm_requestInfo = requestLogInfo,
          sm_transmitDecodedRecords = cfg_TransmitDecodedRecords c,
          sm_vinsSignalTracking = VinsToTrack c\<rparr>)"

text \<open>The type assertion to a string panics on any other value; \<^verbatim>\<open>buildRequestContext\<close> stores a string.\<close>

definition GetNetworkInterface :: "socket_manager \<Rightarrow> string option" where
  "GetNetworkInterface sm =
     (case map_of (sm_requestInfo sm) ''network_interface'' of
        None \<Rightarrow> Some []
      | Some (GStr s) \<Rightarrow> Some s
      | Some _ \<Rightarrow> None)"

definition RecordsStatsToLogInfo :: "socket_manager \<Rightarrow> log_info" where
  "RecordsStatsToLogInfo sm =
     map_put ''total'' (GStr (Itoa (sum_list (map snd (sm_RecordsStats sm)))))
       (map (\<lambda>(key, value). (key, GStr (Itoa value))) (sm_RecordsStats sm))"

text \<open>Closing: the result of closing the connection, and the clock.\<close>

definition Socket_Close :: "string option \<Rightarrow> int \<Rightarrow> socket_manager \<Rightarrow> log_entry list" where
  "Socket_Close closeErr now sm =
     (case closeErr of None \<Rightarrow> [] | Some err \<Rightarrow> [ErrorLog ''websocket_close_err'' (Some err) []]) @
     [ActivityLog ''socket_disconnected''
        (map_put ''duration_sec'' (GInt (go_div (now - sm_StartTime sm) (10 ^ 9))) (RecordsStatsToLogInfo sm))]"

section \<open>Handling one message\<close>

text \<open>A byte converted to a string is the UTF-8 text of that code point.\<close>

definition rune_string :: "u8 \<Rightarrow> string" where
  "rune_string b =
     (if b < 0x80 then [char_of (unat b)]
      else [char_of (0xC0 + unat b div 64), char_of (0x80 + unat b mod 64)])"

definition trackSignalUsage :: "socket_manager \<Rightarrow> 'p telemetry_record \<Rightarrow> metric_update list" where
  "trackSignalUsage sm record =
     Add ''signal_count'' (int (SignalsCount record)) [(''record_type'', rec_TxType record)] #
     (if rec_Vin record \<in> sm_vinsSignalTracking sm
      then [Add ''vin_signal_count'' (int (SignalsCount record))
              [(''vin'', rec_Vin record), (''record_type'', rec_TxType record)]]
      else [])"

definition respondToVehicle ::
    "'b flatbuffers \<Rightarrow> socket_manager \<Rightarrow> 'p telemetry_record \<Rightarrow> go_error option \<Rightarrow> 'p effects option" where
  "respondToVehicle fb sm record err =
     (let logInfo = [(''txid'', GStr (rec_Txid record)), (''record_type'', GStr (rec_TxType record)),
                     (''device_id'', GStr (DeviceID (sm_requestIdentity sm)))]
      in case err of
           Some e \<Rightarrow>
             (case Record_Error fb ''incorrect message format'' record of
                None \<Rightarrow> None
              | Some response \<Rightarrow>
                  Some [Log (ErrorLog ''unexpected_record'' (Some (Error_text e)) logInfo),
                        Metric (Inc ''unexpected_record_err_total'' []),
                        Log (LogLine DEBUG ''message_respond'' (logInfo @ [(''response_type'', GStr ''error'')])),
                        Act (Respond \<lparr>sock_MsgType = sm_MsgType sm, sock_Txid = rec_Txid record, sock_Msg = response\<rparr>)])
         | None \<Rightarrow>
             (case Record_Ack fb record of
                None \<Rightarrow> None
              | Some response \<Rightarrow>
                  Some [Log (LogLine DEBUG ''message_respond'' (logInfo @ [(''response_type'', GStr ''ack'')])),
                        Act (Respond \<lparr>sock_MsgType = sm_MsgType sm, sock_Txid = rec_Txid record, sock_Msg = response\<rparr>)]))"

definition reliableAck :: "socket_manager \<Rightarrow> 'p telemetry_record \<Rightarrow> bool" where
  "reliableAck sm record = (map_of (cfg_ReliableAckSources (sm_config sm)) (rec_TxType record) \<noteq> None)"

definition processRecord :: "'p telemetry_record \<Rightarrow> 'p effects option" where
  "processRecord record =
     map_option (\<lambda>es. map (map_effect (\<lambda>(p, r). Produce p r)) es @
                      [Metric (Inc ''dispatch_total'' [(''record_type'', rec_TxType record)])])
       (Record_Dispatch record)"

definition ReportMetricBytesPerRecords ::
    "string \<Rightarrow> nat \<Rightarrow> socket_manager \<Rightarrow> socket_manager \<times> metric_update list" where
  "ReportMetricBytesPerRecords recordType byteSize sm =
     (sm\<lparr>sm_RecordsStats := map_put recordType
           ((case map_of (sm_RecordsStats sm) recordType of Some n \<Rightarrow> n | None \<Rightarrow> 0) + int byteSize)
           (sm_RecordsStats sm)\<rparr>,
      [Add ''record_size_bytes_total'' (int byteSize) [(''record_type'', recordType)],
       Inc ''record_total'' [(''record_type'', recordType)]])"

text \<open>What follows the checks: count, dispatch, and answer unless the answer is left to a producer.\<close>

definition acceptRecord ::
    "'b flatbuffers \<Rightarrow> socket_manager \<Rightarrow> 'p telemetry_record \<Rightarrow> (socket_manager \<times> 'p effects) option" where
  "acceptRecord fb sm record =
     (let (sm, ms) = ReportMetricBytesPerRecords (rec_TxType record) (Length record) sm
      in do { es \<leftarrow> processRecord record;
              rs \<leftarrow> (if reliableAck sm record then Some [] else respondToVehicle fb sm record None);
              Some (sm, map Metric ms @ es @ rs) })"

definition ParseAndProcessRecord ::
    "'b flatbuffers \<Rightarrow> protobuf \<Rightarrow> string \<Rightarrow> int \<Rightarrow> int \<Rightarrow> 'p serializer \<Rightarrow> socket_manager \<Rightarrow> bytes \<Rightarrow>
     (socket_manager \<times> 'p effects) option" where
  "ParseAndProcessRecord fb pb panicked now1 now2 ts sm message =
     (let (record, err, logs) = NewRecord fb pb panicked now1 now2 ts message (sm_UUID sm) (sm_transmitDecodedRecords sm);
          logInfo = [(''txid'', GStr (rec_Txid record)), (''record_type'', GStr (rec_TxType record))]
      in map_option (\<lambda>(sm, es). (sm, map Log logs @ es))
         (case err of
            None \<Rightarrow> acceptRecord fb sm record
          | Some ErrMessageTooBig \<Rightarrow>
              do { es \<leftarrow> respondToVehicle fb sm record err;
                   Some (sm, es @ [Metric (Inc ''record_too_big_total'' [])]) }
          | Some (UnauthorizedSenderIDError expected received) \<Rightarrow>
              do { es \<leftarrow> respondToVehicle fb sm record None;
                   Some (sm, [Log (ErrorLog ''unauthorized_sender_id'' None
                                (logInfo @ [(''sender_id'', GStr received), (''expected_sender_id'', GStr expected)])),
                              Metric (Inc ''unauthorized_sender_id_total'' [])] @ es) }
          | Some (UnknownMessageType bytes txid guessed) \<Rightarrow>
              do { es \<leftarrow> respondToVehicle fb sm record None;
                   (sm, es') \<leftarrow> acceptRecord fb sm record;
                   Some (sm, [Log (ErrorLog ''unknown_message_type_error'' (Some (Error_text (UnknownMessageType bytes txid guessed)))
                                (logInfo @ [(''msg_txid'', GStr txid), (''msg_type'', GStr (rune_string guessed))])),
                              Metric (Inc ''unknown_message_type_error_total'' [(''msg_type'', rune_string guessed)])] @ es @ es') }
          | Some _ \<Rightarrow>
              do { es \<leftarrow> respondToVehicle fb sm record err; Some (sm, es) }))"

section \<open>The read loop\<close>

text \<open>
  What the loop meets: the type and bytes of the next message, whether the rate limiter lets it
  pass, and the clock readings it makes. The list ends when reading fails.
\<close>

record ws_input =
  in_MsgType :: int
  in_Message :: bytes
  in_Try :: bool
  in_Now :: int
  in_Since :: int
  in_Now1 :: int
  in_Now2 :: int
  in_Panicked :: string

record loop_state =
  ls_sm :: socket_manager
  ls_limited :: int
  ls_limitStart :: int

definition rateLimitEnabled :: "socket_manager \<Rightarrow> bool" where
  "rateLimitEnabled sm = (case cfg_RateLimit (sm_config sm) of Some rl \<Rightarrow> RL_Enabled rl | None \<Rightarrow> False)"

text \<open>The parameters of the limiter: messages and interval in nanoseconds.\<close>

definition rateLimiter :: "socket_manager \<Rightarrow> int \<times> int" where
  "rateLimiter sm =
     (case cfg_RateLimit (sm_config sm) of
        Some rl \<Rightarrow> if RL_Enabled rl then (RL_MessageLimit rl, RL_MessageIntervalTimeSecond rl) else (100, 60 * 10 ^ 9)
      | None \<Rightarrow> (100, 60 * 10 ^ 9))"

text \<open>A message over the limit: counted, tracked, and skipped when the limit is enforced.\<close>

definition limitMessage ::
    "'b flatbuffers \<Rightarrow> protobuf \<Rightarrow> 'p serializer \<Rightarrow> ws_input \<Rightarrow> loop_state \<Rightarrow> loop_state \<times> 'p effects" where
  "limitMessage fb pb ts i ls =
     (let sm = ls_sm ls;
          (record, _, logs) = NewRecord fb pb (in_Panicked i) (in_Now1 i) (in_Now2 i) ts (in_Message i)
                                (sm_UUID sm) (sm_transmitDecodedRecords sm)
      in (ls\<lparr>ls_limitStart := (if ls_limited ls = 0 then in_Now i else ls_limitStart ls),
             ls_limited := ls_limited ls + 1\<rparr>,
          map Log logs @ map Metric (trackSignalUsage sm record) @
          [Metric (Inc ''rate_limit_exceeded_total''
             [(''device_id'', DeviceID (sm_requestIdentity sm)), (''txtype'', rec_TxType record)])]))"

definition reportLimit :: "ws_input \<Rightarrow> loop_state \<Rightarrow> loop_state \<times> log_entry list" where
  "reportLimit i ls =
     (if ls_limited ls > 0 then
        (let parts = Split CHR '','' (in_Message i)
         in (ls\<lparr>ls_limited := 0\<rparr>,
             if length parts > 2 then
               [ErrorLog ''rate_limit_exceeded'' None
                  [(''txid'', GStr (parts ! 2)),
                   (''duration_sec'', GInt (go_div (in_Since i - ls_limitStart ls) (10 ^ 9))),
                   (''messages_rate_limited'', GInt (ls_limited ls))]]
             else []))
      else (ls, []))"

definition handleMessage ::
    "'b flatbuffers \<Rightarrow> protobuf \<Rightarrow> 'p serializer \<Rightarrow> ws_input \<Rightarrow> loop_state \<Rightarrow> (loop_state \<times> 'p effects) option" where
  "handleMessage fb pb ts i ls =
     (let (ls, es) = (if in_Try i then (ls, []) else limitMessage fb pb ts i ls)
      in if \<not> in_Try i \<and> rateLimitEnabled (ls_sm ls) then Some (ls, es)
         else (let (ls, logs) = reportLimit i ls
               in do { (sm, es') \<leftarrow> ParseAndProcessRecord fb pb (in_Panicked i) (in_Now1 i) (in_Now2 i) ts (ls_sm ls) (in_Message i);
                       Some (ls\<lparr>ls_sm := sm\<rparr>, es @ map Log logs @ es') }))"

fun read_loop ::
    "'b flatbuffers \<Rightarrow> protobuf \<Rightarrow> 'p serializer \<Rightarrow> ws_input list \<Rightarrow> loop_state \<Rightarrow> (loop_state \<times> 'p effects) option" where
  "read_loop fb pb ts [] ls = Some (ls, [])"
| "read_loop fb pb ts (i # is) ls =
     (if in_MsgType i \<noteq> sm_MsgType (ls_sm ls) then Some (ls, [])
      else do { (ls, es) \<leftarrow> handleMessage fb pb ts i ls;
                (ls, es') \<leftarrow> read_loop fb pb ts is ls;
                Some (ls, es @ es') })"

definition ProcessTelemetry ::
    "'b flatbuffers \<Rightarrow> protobuf \<Rightarrow> 'p serializer \<Rightarrow> ws_input list \<Rightarrow> string option \<Rightarrow> int \<Rightarrow> socket_manager \<Rightarrow>
     (socket_manager \<times> 'p effects) option" where
  "ProcessTelemetry fb pb ts inputs closeErr now sm =
     do { (ls, es) \<leftarrow> read_loop fb pb ts inputs \<lparr>ls_sm = sm, ls_limited = 0, ls_limitStart = 0\<rparr>;
          Some (ls_sm ls, Log (ActivityLog ''socket_connected'' (sm_requestInfo sm)) # es @
                          map Log (Socket_Close closeErr now (ls_sm ls))) }"

section \<open>The actions of one message\<close>

definition ack_response :: "'b flatbuffers \<Rightarrow> socket_manager \<Rightarrow> 'p telemetry_record \<Rightarrow> socket_message" where
  "ack_response fb sm record =
     \<lparr>sock_MsgType = sm_MsgType sm, sock_Txid = rec_Txid record, sock_Msg = Serializer_Ack fb record\<rparr>"

definition error_response :: "'b flatbuffers \<Rightarrow> socket_manager \<Rightarrow> 'p telemetry_record \<Rightarrow> socket_message" where
  "error_response fb sm record =
     \<lparr>sock_MsgType = sm_MsgType sm, sock_Txid = rec_Txid record,
      sock_Msg = the (Serializer_Error fb ''incorrect message format'' record)\<rparr>"

text \<open>What a message leads to, from the record and the error that its decoding gives.\<close>

definition accepted_actions ::
    "'b flatbuffers \<Rightarrow> 'p serializer \<Rightarrow> socket_manager \<Rightarrow> 'p telemetry_record \<Rightarrow> 'p socket_action list" where
  "accepted_actions fb ts sm record =
     map (\<lambda>p. Produce p record) (case DispatchRules ts (rec_TxType record) of Some ps \<Rightarrow> ps | None \<Rightarrow> []) @
     (if map_of (cfg_ReliableAckSources (sm_config sm)) (rec_TxType record) = None
      then [Respond (ack_response fb sm record)] else [])"

definition outcome ::
    "'b flatbuffers \<Rightarrow> 'p serializer \<Rightarrow> socket_manager \<Rightarrow> 'p telemetry_record \<Rightarrow> go_error option \<Rightarrow> 'p socket_action list" where
  "outcome fb ts sm record err =
     (case err of
        None \<Rightarrow> accepted_actions fb ts sm record
      | Some (UnknownMessageType _ _ _) \<Rightarrow> Respond (ack_response fb sm record) # accepted_actions fb ts sm record
      | Some _ \<Rightarrow> [Respond (error_response fb sm record)])"

definition same_socket :: "socket_manager \<Rightarrow> socket_manager \<Rightarrow> bool" where
  "same_socket sm sm' \<longleftrightarrow> sm' = sm\<lparr>sm_RecordsStats := sm_RecordsStats sm'\<rparr>"

lemma same_socket_refl [simp]: "same_socket sm sm"
  by (simp add: same_socket_def)

lemma same_socket_trans: "same_socket a b \<Longrightarrow> same_socket b c \<Longrightarrow> same_socket a c"
  by (cases a; cases b; cases c) (simp add: same_socket_def)

lemma same_socket_fields:
  assumes "same_socket sm sm'"
  shows "sm_MsgType sm' = sm_MsgType sm" "sm_UUID sm' = sm_UUID sm" "sm_config sm' = sm_config sm"
    "sm_requestIdentity sm' = sm_requestIdentity sm" "sm_transmitDecodedRecords sm' = sm_transmitDecodedRecords sm"
  using assms by (cases sm; cases sm'; simp add: same_socket_def)+

lemma actions_map_Log [simp]: "actions (map Log ls) = []"
  by (induction ls) auto

lemma actions_map_Metric [simp]: "actions (map Metric ms) = []"
  by (induction ms) auto

lemma respond_ack:
  "rec_Serializer record \<noteq> None \<Longrightarrow>
     \<exists>es. respondToVehicle fb sm record None = Some es \<and> actions es = [Respond (ack_response fb sm record)]"
  by (auto simp: respondToVehicle_def Record_Ack_def ack_response_def)

lemma respond_error:
  "rec_Serializer record \<noteq> None \<Longrightarrow>
     \<exists>es. respondToVehicle fb sm record (Some e) = Some es \<and> actions es = [Respond (error_response fb sm record)]"
  by (auto simp: respondToVehicle_def Record_Error_def error_response_def Serializer_Error_def
      StreamMessage_ToBytes_def error_message_def)

lemma processRecord_actions:
  "rec_Serializer record = Some ts \<Longrightarrow>
     \<exists>es. processRecord record = Some es \<and>
          actions es = map (\<lambda>p. Produce p record) (case DispatchRules ts (rec_TxType record) of Some ps \<Rightarrow> ps | None \<Rightarrow> [])"
  by (auto simp: processRecord_def Record_Dispatch_def Serializer_Dispatch_def o_def)

lemma acceptRecord_actions:
  assumes "rec_Serializer record = Some ts"
  shows "\<exists>sm' es. acceptRecord fb sm record = Some (sm', es) \<and> same_socket sm sm' \<and>
           actions es = accepted_actions fb ts sm record \<and>
           sm' = fst (ReportMetricBytesPerRecords (rec_TxType record) (Length record) sm)"
proof -
  obtain es where es: "processRecord record = Some es"
    "actions es = map (\<lambda>p. Produce p record) (case DispatchRules ts (rec_TxType record) of Some ps \<Rightarrow> ps | None \<Rightarrow> [])"
    using processRecord_actions [OF assms] by blast
  obtain sm' ms where r: "ReportMetricBytesPerRecords (rec_TxType record) (Length record) sm = (sm', ms)" by force
  then have s: "same_socket sm sm'" by (auto simp: ReportMetricBytesPerRecords_def same_socket_def)
  obtain rs where rs: "respondToVehicle fb sm' record None = Some rs" "actions rs = [Respond (ack_response fb sm' record)]"
    using respond_ack assms by (metis option.distinct(1))
  have "ack_response fb sm' record = ack_response fb sm record"
    using same_socket_fields [OF s] by (simp add: ack_response_def)
  then show ?thesis
    using es rs r s same_socket_fields(3) [OF s]
    by (auto simp: acceptRecord_def accepted_actions_def reliableAck_def)
qed

lemma ParseAndProcessRecord_actions:
  assumes "NewRecord fb pb panicked now1 now2 ts message (sm_UUID sm) (sm_transmitDecodedRecords sm) = (record, err, logs)"
  shows "\<exists>sm' es. ParseAndProcessRecord fb pb panicked now1 now2 ts sm message = Some (sm', es) \<and>
           same_socket sm sm' \<and> actions es = outcome fb ts sm record err"
proof -
  have ser: "rec_Serializer record = Some ts" by (rule NewRecord_identity(1) [OF assms])
  have ack: "\<exists>es. respondToVehicle fb sm record None = Some es \<and> actions es = [Respond (ack_response fb sm record)]"
    and error: "\<exists>es. respondToVehicle fb sm record (Some e) = Some es \<and> actions es = [Respond (error_response fb sm record)]" for e
    using respond_ack respond_error ser by (metis option.distinct(1))+
  have acc: "\<exists>sm' es. acceptRecord fb sm record = Some (sm', es) \<and> same_socket sm sm' \<and> actions es = accepted_actions fb ts sm record"
    using acceptRecord_actions [OF ser] by blast
  show ?thesis
  proof (cases err)
    case None
    then show ?thesis using acc assms by (auto simp: ParseAndProcessRecord_def outcome_def)
  next
    case (Some e)
    have "\<forall>a b. e \<noteq> UnauthorizedSenderIDError a b"
      using NewRecord_not_unauthorized [OF assms] Some by simp
    then show ?thesis
      using Some acc ack error [of e] assms
      by (cases e) (auto simp: ParseAndProcessRecord_def outcome_def)
  qed
qed

text \<open>The actions of processing one input of the loop on its own.\<close>

definition message_actions ::
    "'b flatbuffers \<Rightarrow> protobuf \<Rightarrow> 'p serializer \<Rightarrow> socket_manager \<Rightarrow> ws_input \<Rightarrow> 'p socket_action list" where
  "message_actions fb pb ts sm i =
     (case ParseAndProcessRecord fb pb (in_Panicked i) (in_Now1 i) (in_Now2 i) ts sm (in_Message i) of
        Some (_, es) \<Rightarrow> actions es
      | None \<Rightarrow> [])"

lemma message_actions_outcome:
  "message_actions fb pb ts sm i =
     (let (record, err, _) = NewRecord fb pb (in_Panicked i) (in_Now1 i) (in_Now2 i) ts (in_Message i)
                               (sm_UUID sm) (sm_transmitDecodedRecords sm)
      in outcome fb ts sm record err)"
proof -
  obtain rcd err logs where n: "NewRecord fb pb (in_Panicked i) (in_Now1 i) (in_Now2 i) ts (in_Message i)
      (sm_UUID sm) (sm_transmitDecodedRecords sm) = (rcd, err, logs)"
    using prod_cases3 by blast
  from ParseAndProcessRecord_actions [OF n] n show ?thesis by (auto simp: message_actions_def)
qed

lemma message_actions_same:
  assumes "same_socket sm sm'"
  shows "message_actions fb pb ts sm' i = message_actions fb pb ts sm i"
  using same_socket_fields [OF assms]
  by (simp add: message_actions_outcome outcome_def accepted_actions_def ack_response_def error_response_def
      split: prod.split option.split go_error.split)

definition limited :: "socket_manager \<Rightarrow> ws_input \<Rightarrow> bool" where
  "limited sm i \<longleftrightarrow> \<not> in_Try i \<and> rateLimitEnabled sm"

lemma limitMessage_props:
  assumes "limitMessage fb pb ts i ls = (ls', es)"
  shows "ls_sm ls' = ls_sm ls \<and> actions es = []"
  using assms by (auto simp: limitMessage_def Let_def split: prod.splits)

lemma reportLimit_sm: "reportLimit i ls = (ls', logs) \<Longrightarrow> ls_sm ls' = ls_sm ls"
  by (auto simp: reportLimit_def Let_def split: if_splits)

lemma handleMessage_actions:
  "\<exists>ls' es. handleMessage fb pb ts i ls = Some (ls', es) \<and> same_socket (ls_sm ls) (ls_sm ls') \<and>
     actions es = (if limited (ls_sm ls) i then [] else message_actions fb pb ts (ls_sm ls) i)"
proof -
  obtain l1 es1 where 1: "(if in_Try i then (ls, []) else limitMessage fb pb ts i ls) = (l1, es1)" by force
  then have sm: "ls_sm l1 = ls_sm ls" and none: "actions es1 = []"
    using limitMessage_props [of fb pb ts i ls l1 es1] by (auto split: if_splits)
  show ?thesis
  proof (cases "limited (ls_sm ls) i")
    case True
    then show ?thesis using 1 sm none by (auto simp: handleMessage_def limited_def)
  next
    case False
    obtain l2 logs where 2: "reportLimit i l1 = (l2, logs)" by force
    have sm2: "ls_sm l2 = ls_sm ls" using reportLimit_sm [OF 2] sm by simp
    obtain rcd err rlogs where n: "NewRecord fb pb (in_Panicked i) (in_Now1 i) (in_Now2 i) ts (in_Message i)
        (sm_UUID (ls_sm ls)) (sm_transmitDecodedRecords (ls_sm ls)) = (rcd, err, rlogs)"
      using prod_cases3 by blast
    obtain sm' es' where p: "ParseAndProcessRecord fb pb (in_Panicked i) (in_Now1 i) (in_Now2 i) ts (ls_sm ls) (in_Message i) = Some (sm', es')"
      "same_socket (ls_sm ls) sm'" "actions es' = outcome fb ts (ls_sm ls) rcd err"
      using ParseAndProcessRecord_actions [OF n] by blast
    have "handleMessage fb pb ts i ls = Some (l2\<lparr>ls_sm := sm'\<rparr>, es1 @ map Log logs @ es')"
      using 1 2 p(1) sm sm2 False by (auto simp: handleMessage_def limited_def)
    moreover have "message_actions fb pb ts (ls_sm ls) i = actions es'"
      using p(1) by (simp add: message_actions_def)
    ultimately show ?thesis using False none p(2) by auto
  qed
qed

lemma read_loop_actions:
  "\<exists>ls' es. read_loop fb pb ts inputs ls = Some (ls', es) \<and> same_socket (ls_sm ls) (ls_sm ls') \<and>
     actions es = concat (map (message_actions fb pb ts (ls_sm ls))
       (filter (\<lambda>i. \<not> limited (ls_sm ls) i) (takeWhile (\<lambda>i. in_MsgType i = sm_MsgType (ls_sm ls)) inputs)))"
proof (induction inputs arbitrary: ls)
  case Nil
  then show ?case by simp
next
  case (Cons i inputs)
  obtain l1 es1 where 1: "handleMessage fb pb ts i ls = Some (l1, es1)" "same_socket (ls_sm ls) (ls_sm l1)"
    "actions es1 = (if limited (ls_sm ls) i then [] else message_actions fb pb ts (ls_sm ls) i)"
    using handleMessage_actions by blast
  have f: "sm_MsgType (ls_sm l1) = sm_MsgType (ls_sm ls)" "limited (ls_sm l1) = limited (ls_sm ls)"
    "message_actions fb pb ts (ls_sm l1) = message_actions fb pb ts (ls_sm ls)"
    using same_socket_fields [OF 1(2)] message_actions_same [OF 1(2)]
    by (auto simp: limited_def rateLimitEnabled_def fun_eq_iff)
  obtain l2 es2 where 2: "read_loop fb pb ts inputs l1 = Some (l2, es2)" "same_socket (ls_sm l1) (ls_sm l2)"
    "actions es2 = concat (map (message_actions fb pb ts (ls_sm ls)) (filter (\<lambda>i. \<not> limited (ls_sm ls) i)
        (takeWhile (\<lambda>i. in_MsgType i = sm_MsgType (ls_sm ls)) inputs)))"
    using Cons.IH [of l1] unfolding f by blast
  show ?case
  proof (cases "in_MsgType i = sm_MsgType (ls_sm ls)")
    case True
    then show ?thesis using 1 2 same_socket_trans by force
  next
    case False
    then show ?thesis by simp
  qed
qed

section \<open>Properties\<close>

text \<open>
  A connection processes its messages in order until one is not binary, and never panics: the
  calls of the producers and the responses are those of the messages one after the other. With the
  limit enabled, the messages that the limiter rejects lead to nothing; without it, they are
  processed as well.
\<close>

theorem process_telemetry_actions:
  "\<exists>sm' es. ProcessTelemetry fb pb ts inputs closeErr now sm = Some (sm', es) \<and>
     actions es = concat (map (message_actions fb pb ts sm)
       (if rateLimitEnabled sm then filter in_Try (takeWhile (\<lambda>i. in_MsgType i = sm_MsgType sm) inputs)
        else takeWhile (\<lambda>i. in_MsgType i = sm_MsgType sm) inputs))"
proof -
  have "filter (\<lambda>i. \<not> limited sm i) is = (if rateLimitEnabled sm then filter in_Try is else is)" for "is"
    by (simp add: limited_def)
  then show ?thesis
    using read_loop_actions [of fb pb ts inputs "\<lparr>ls_sm = sm, ls_limited = 0, ls_limitStart = 0\<rparr>"]
    by (auto simp: ProcessTelemetry_def)
qed


definition example_sm :: socket_manager where
  "example_sm = NewSocketManager (\<lambda>_. None) ''s'' 0 None
     \<lparr>DeviceID = ''42'', SenderID = ''vehicle_device.42'', DeviceClientVersion = ''1''\<rparr> empty_config"


text \<open>
  C26: The responses carry what the client needs to match them: an ack decodes to the transaction id
  and the type of the record, an error decodes to a message with the transaction id and the text
  of the error, as long as they fit a buffer.
\<close>

theorem responses_decode:
  assumes "fb_laws fb" and "length (rec_Txid record) + length (rec_TxType record) + 15000 \<le> fb_limit"
    and "rec_Serializer record \<noteq> None"
  shows "(\<exists>es r env. respondToVehicle fb sm record None = Some es \<and> actions es = [Respond r] \<and>
            StreamAckMessageFromBytes fb (sock_Msg r) =
              Some (Inr \<lparr>ack_envelope = Some env, ack_TXID = rec_Txid record, ack_MessageTopic = rec_TxType record,
                ack_EnvMessageID = []\<rparr>)) \<and>
         (\<exists>es r m. respondToVehicle fb sm record (Some err) = Some es \<and> actions es = [Respond r] \<and>
            StreamMessageFromBytes fb (sock_Msg r) = Some (Inr m) \<and>
            msg_TXID m = rec_Txid record \<and> msg_Payload m = ''incorrect message format'')"
proof
  let ?a = "\<lparr>ack_envelope = None, ack_TXID = rec_Txid record, ack_MessageTopic = rec_TxType record, ack_EnvMessageID = []\<rparr>"
  have "length (ack_TXID ?a) + length (ack_MessageTopic ?a) + length (ack_EnvMessageID ?a) + 7000 \<le> fb_limit"
    using assms(2) by simp
  from ack_encode [OF assms(1) this] obtain env where
    "StreamAckMessageFromBytes fb (StreamAckMessage_ToBytes fb ?a) = Some (Inr (?a\<lparr>ack_envelope := Some env\<rparr>))" .
  then have "StreamAckMessageFromBytes fb (sock_Msg (ack_response fb sm record)) =
      Some (Inr \<lparr>ack_envelope = Some env, ack_TXID = rec_Txid record, ack_MessageTopic = rec_TxType record, ack_EnvMessageID = []\<rparr>)"
    by (simp add: ack_response_def Serializer_Ack_def)
  then show "\<exists>es r env. respondToVehicle fb sm record None = Some es \<and> actions es = [Respond r] \<and>
      StreamAckMessageFromBytes fb (sock_Msg r) =
        Some (Inr \<lparr>ack_envelope = Some env, ack_TXID = rec_Txid record, ack_MessageTopic = rec_TxType record, ack_EnvMessageID = []\<rparr>)"
    using respond_ack [OF assms(3), of fb sm] by blast
next
  let ?e = "error_message (rec_Txid record) ''incorrect message format''"
  have F: "msg_fsm ?e = None" and U: "message_size ?e + 14000 \<le> fb_limit"
    using assms(2) by (simp_all add: error_message_def message_size_def)
  obtain buf m where 2: "StreamMessage_ToBytes fb ?e = Some buf" "StreamMessageFromBytes fb buf = Some (Inr m)" "msg_fields m = msg_fields ?e"
    using stream_message_encode [OF assms(1) F U] .
  have "msg_TXID m = rec_Txid record \<and> msg_Payload m = ''incorrect message format''"
    using 2(3) by (cases m) (simp add: msg_fields_def error_message_def)
  moreover have "StreamMessageFromBytes fb (sock_Msg (error_response fb sm record)) = Some (Inr m)"
    using 2 by (simp add: error_response_def Serializer_Error_def)
  ultimately show "\<exists>es r m. respondToVehicle fb sm record (Some err) = Some es \<and> actions es = [Respond r] \<and>
      StreamMessageFromBytes fb (sock_Msg r) = Some (Inr m) \<and>
      msg_TXID m = rec_Txid record \<and> msg_Payload m = ''incorrect message format''"
    using respond_error [OF assms(3), of fb sm err] by blast
qed

theorem responses_decode_witness:
  "\<exists>es r m. respondToVehicle tfb example_sm ((blank_record example_serializer)\<lparr>rec_Txid := ''1234''\<rparr>) (Some ErrMessageTooBig) = Some es \<and>
     actions es = [Respond r] \<and> StreamMessageFromBytes tfb (sock_Msg r) = Some (Inr m) \<and> msg_TXID m = ''1234''"
  using responses_decode [OF fb_laws_tfb, of "(blank_record example_serializer)\<lparr>rec_Txid := ''1234''\<rparr>" example_sm ErrMessageTooBig]
  by (auto simp: blank_record_def fb_limit_def)

text \<open>
  C37: A message of an unknown type is answered twice: the handler sends the ack that stops the
  client from repeating it, then goes on as for an accepted record, with an empty record type, and
  sends a second one.
\<close>

theorem unknown_message_acked_twice:
  assumes "NewRecord fb pb panicked now1 now2 ts message (sm_UUID sm) (sm_transmitDecodedRecords sm) =
             (record, Some (UnknownMessageType bytes txid guessed), logs)"
    and "DispatchRules ts [] = None" and "map_of (cfg_ReliableAckSources (sm_config sm)) [] = None"
  shows "\<exists>sm' es. ParseAndProcessRecord fb pb panicked now1 now2 ts sm message = Some (sm', es) \<and>
           actions es = [Respond (ack_response fb sm record), Respond (ack_response fb sm record)]"
proof -
  have "rec_TxType record = []" by (rule NewRecord_unknown_type [OF assms(1)])
  with assms ParseAndProcessRecord_actions [OF assms(1)] show ?thesis
    by (auto simp: outcome_def accepted_actions_def)
qed

definition ack_buf :: bytes where
  "ack_buf = StreamAckMessage_ToBytes tfb
     \<lparr>ack_envelope = None, ack_TXID = ''77'', ack_MessageTopic = ''V'', ack_EnvMessageID = []\<rparr>"

lemma ack_buf_size: "length ack_buf \<le> SizeLimit"
proof -
  have eq: "ack_buf = enc_buf 1280 [TVec [], TVec ''77'', TVec ''V'', TVec [],
      TTab [(4, FOff 1024), (3, FOff 256), (2, FByte 5), (1, FOff 768), (0, FOff 512)]]"
    unfolding ack_buf_def StreamAckMessage_ToBytes_def FlatbuffersStreamAckToBytes_def FlatbuffersEnvelopeToBytes_def
      builder_defs MessageFlatbuffersStreamAck_def
    by (simp add: tfb_steps tfb_slots toff_def)
  show ?thesis unfolding eq by (simp add: enc_buf_def length_enc_list SizeLimit_def)
qed

lemma ack_buf_unknown:
  "\<exists>r. NewRecord tfb tpb ''p'' 0 0 example_serializer ack_buf ''s'' False =
         (r, Some (UnknownMessageType ack_buf ''77'' MessageFlatbuffersStreamAck), [])"
proof -
  let ?m = "\<lparr>ack_envelope = None, ack_TXID = ''77'', ack_MessageTopic = ''V'', ack_EnvMessageID = []\<rparr>"
  have "length (ack_TXID ?m) + length (ack_MessageTopic ?m) + length (ack_EnvMessageID ?m) + 7000 \<le> fb_limit"
    by (simp add: fb_limit_def)
  from ack_to_bytes [OF fb_laws_tfb this]
  obtain env w where e: "envelope_reads tfb ack_buf ''77'' ''V'' [] MessageFlatbuffersStreamAck env w"
    by (auto simp: ack_buf_def StreamAckMessage_ToBytes_def)
  have "MessageFlatbuffersStreamAck \<noteq> MessageFlatbuffersStream"
    by (simp add: MessageFlatbuffersStreamAck_def MessageFlatbuffersStream_def)
  with e ack_buf_size show ?thesis
    by (auto simp: NewRecord_def Deserialize_def guessError_def StreamMessageFromBytes_def envelope_reads_def)
qed

theorem unknown_message_acked_twice_witness:
  "\<exists>sm es. \<exists>record :: dispatcher telemetry_record.
     ParseAndProcessRecord tfb tpb ''p'' 0 0 example_serializer example_sm ack_buf = Some (sm, es) \<and>
     actions es = [Respond (ack_response tfb example_sm record), Respond (ack_response tfb example_sm record)]"
proof -
  obtain r where n: "NewRecord tfb tpb ''p'' 0 0 example_serializer ack_buf ''s'' False =
      (r, Some (UnknownMessageType ack_buf ''77'' MessageFlatbuffersStreamAck), [])"
    using ack_buf_unknown by blast
  have s: "sm_UUID example_sm = ''s''" "sm_transmitDecodedRecords example_sm = False"
    "map_of (cfg_ReliableAckSources (sm_config example_sm)) [] = None" "DispatchRules example_serializer [] = None"
    by (simp_all add: example_sm_def NewSocketManager_def buildRequestContext_def empty_config_def
        example_serializer_def NewBinarySerializer_def)
  have "NewRecord tfb tpb ''p'' 0 0 example_serializer ack_buf (sm_UUID example_sm) (sm_transmitDecodedRecords example_sm) =
      (r, Some (UnknownMessageType ack_buf ''77'' MessageFlatbuffersStreamAck), [])"
    unfolding s by (rule n)
  from unknown_message_acked_twice [OF this s(4) s(3)] show ?thesis by blast
qed

end
