(* ===== verification/Registry.thy ===== *)
theory Registry
  imports Go_Prelude
begin

text \<open>
  The registry of connected sockets (\<^verbatim>\<open>server/streaming/socket_registry.go\<close>). A socket is its address; the
  registry maps UUIDs to addresses and counts. Every operation runs under the registry's lock, so
  operations are atomic and any interleaving is a sequence of them.
\<close>

section \<open>Operations\<close>

record socket_registry =
  reg_sockets :: "string \<rightharpoonup> nat"
  reg_counter :: int

definition NewSocketRegistry :: socket_registry where
  "NewSocketRegistry = \<lparr>reg_sockets = (\<lambda>_. None), reg_counter = 0\<rparr>"

definition RegisterSocket :: "string \<Rightarrow> nat \<Rightarrow> socket_registry \<Rightarrow> socket_registry" where
  "RegisterSocket uuid socket s =
     s\<lparr>reg_sockets := (reg_sockets s)(uuid \<mapsto> socket), reg_counter := reg_counter s + 1\<rparr>"

definition DeregisterSocket :: "string \<Rightarrow> socket_registry \<Rightarrow> socket_registry" where
  "DeregisterSocket uuid s =
     s\<lparr>reg_sockets := (reg_sockets s)(uuid := None),
       reg_counter := (if reg_counter s > 0 then reg_counter s - 1 else reg_counter s)\<rparr>"

definition GetSocket :: "string \<Rightarrow> socket_registry \<Rightarrow> nat option" where
  "GetSocket uuid s = reg_sockets s uuid"

definition NumConnectedSockets :: "socket_registry \<Rightarrow> int" where
  "NumConnectedSockets s = reg_counter s"

section \<open>The interface\<close>

text \<open>
  Connections with distinct UUIDs come and go: the state is the map of the live connections and
  the registry.
\<close>

inductive connections ::
    "'r \<Rightarrow> (string \<Rightarrow> nat \<Rightarrow> 'r \<Rightarrow> 'r) \<Rightarrow> (string \<Rightarrow> 'r \<Rightarrow> 'r) \<Rightarrow> (string \<rightharpoonup> nat) \<Rightarrow> 'r \<Rightarrow> bool"
  for empty register deregister where
  start: "connections empty register deregister (\<lambda>_. None) empty"
| connect: "connections empty register deregister live r \<Longrightarrow> live uuid = None \<Longrightarrow>
    connections empty register deregister (live(uuid \<mapsto> socket)) (register uuid socket r)"
| disconnect: "connections empty register deregister live r \<Longrightarrow> live uuid \<noteq> None \<Longrightarrow>
    connections empty register deregister (live(uuid := None)) (deregister uuid r)"

locale connection_registry =
  fixes empty :: 'r
    and register :: "string \<Rightarrow> nat \<Rightarrow> 'r \<Rightarrow> 'r"
    and deregister :: "string \<Rightarrow> 'r \<Rightarrow> 'r"
    and lookup :: "string \<Rightarrow> 'r \<Rightarrow> nat option"
    and num :: "'r \<Rightarrow> int"
  assumes lookup_empty: "lookup u empty = None"
    and lookup_register: "lookup u (register v a r) = (if u = v then Some a else lookup u r)"
    and lookup_deregister: "lookup u (deregister v r) = (if u = v then None else lookup u r)"
    and num_empty: "num empty = 0"
    and num_register: "num (register u a r) = num r + 1"
    and num_deregister: "num r > 0 \<Longrightarrow> num (deregister u r) = num r - 1"
begin

lemma tracks:
  "connections empty register deregister live r \<Longrightarrow>
     (\<forall>u. lookup u r = live u) \<and> finite (dom live) \<and> num r = int (card (dom live))"
proof (induction rule: connections.induct)
  case start
  then show ?case by (simp add: lookup_empty num_empty)
next
  case (connect live r uuid socket)
  then have u: "uuid \<notin> dom live" and f: "finite (dom live)" by auto
  have "dom (\<lambda>a. if a = uuid then Some socket else live a) = insert uuid (dom live)"
    by (auto split: if_splits)
  with connect u f show ?case by (simp add: lookup_register num_register)
next
  case (disconnect live r uuid)
  then have u: "uuid \<in> dom live" and f: "finite (dom live)" by auto
  then have "card (dom live) > 0" by (auto simp: card_gt_0_iff)
  moreover have "dom (\<lambda>a. if a = uuid then None else live a) = dom live - {uuid}"
    by (auto split: if_splits)
  ultimately show ?case
    using disconnect u f by (simp add: lookup_deregister num_deregister card_Diff_singleton of_nat_diff)
qed

end

interpretation sockets: connection_registry NewSocketRegistry RegisterSocket DeregisterSocket GetSocket NumConnectedSockets
  by unfold_locales
    (auto simp: NewSocketRegistry_def RegisterSocket_def DeregisterSocket_def GetSocket_def NumConnectedSockets_def)

section \<open>Properties\<close>



text \<open>
  When two connections use one UUID, which a client chooses in a request header, the first to
  disconnect removes the other: it is still connected and counted, but no longer found, so
  acknowledgements for it are dropped.
\<close>

theorem shared_uuid_loses_socket:
  "GetSocket uuid (DeregisterSocket uuid (RegisterSocket uuid second (RegisterSocket uuid first r))) = None \<and>
   (NumConnectedSockets r \<ge> 0 \<longrightarrow>
      NumConnectedSockets (DeregisterSocket uuid (RegisterSocket uuid second (RegisterSocket uuid first r))) =
        NumConnectedSockets r + 1)"
  by (simp add: sockets.lookup_deregister sockets.num_deregister sockets.num_register)

theorem shared_uuid_loses_socket_witness:
  "NumConnectedSockets (DeregisterSocket ''a'' (RegisterSocket ''a'' 2 (RegisterSocket ''a'' 1 NewSocketRegistry))) = 1"
  using shared_uuid_loses_socket [of "''a''" 2 1 NewSocketRegistry] by (simp add: sockets.num_empty)

end
