(* ===== verification/Server.thy ===== *)
theory Server
  imports Socket Registry
begin

text \<open>
  The streaming server (\<^verbatim>\<open>server/streaming/server.go\<close>): the identity of a connection, the life of a
  connection with its connectivity events, and the acknowledgements that the datastores send back.
  Sockets have addresses; a response is addressed to a socket. The state is the registry.
\<close>

section \<open>Identity of a connection\<close>

text \<open>\<^verbatim>\<open>r.TLS\<close> is absent without TLS; a verified chain is a list of certificates, the client's first.\<close>

datatype identity_error = MissingTLSState | MissingVerifiedCertificate | CreateIdentity string string cert_error

definition extractCertFromHeaders :: "x509_certificate list list option \<Rightarrow> identity_error + x509_certificate" where
  "extractCertFromHeaders tls =
     (case tls of
        None \<Rightarrow> Inl MissingTLSState
      | Some [] \<Rightarrow> Inl MissingVerifiedCertificate
      | Some ([] # _) \<Rightarrow> Inl MissingVerifiedCertificate
      | Some ((cert # _) # _) \<Rightarrow> Inr cert)"

definition extractIdentityFromConnection ::
    "x509_certificate list list option \<Rightarrow> http_request \<Rightarrow> identity_error + request_identity" where
  "extractIdentityFromConnection tls r =
     (case extractCertFromHeaders tls of
        Inl err \<Rightarrow> Inl err
      | Inr cert \<Rightarrow>
          (case CreateIdentityFromCert cert of
             Inl err \<Rightarrow> Inl (CreateIdentity (Issuer_CommonName cert) (Subject_CommonName cert) err)
           | Inr (clientType, deviceID) \<Rightarrow>
               Inr \<lparr>DeviceID = deviceID, SenderID = clientType @ ''.'' @ deviceID,
                    DeviceClientVersion = Header_Get r ''Version''\<rparr>))"

section \<open>Connectivity events\<close>

definition connectivityTopic :: string where "connectivityTopic = ''connectivity''"

definition connectivity_message :: "socket_manager \<Rightarrow> string \<Rightarrow> int \<Rightarrow> int \<Rightarrow> vehicle_connectivity" where
  "connectivity_message sm networkInterface now event =
     \<lparr>Connectivity_Vin = DeviceID (sm_requestIdentity sm), Connectivity_ConnectionId = sm_UUID sm,
      Connectivity_Status = event, Connectivity_CreatedAt = Some (timestamp_New now),
      Connectivity_NetworkInterface = networkInterface\<rparr>"

definition connectivity_stream_message :: "socket_manager \<Rightarrow> bytes \<Rightarrow> int \<Rightarrow> stream_message" where
  "connectivity_stream_message sm payload now =
     \<lparr>msg_fsm = None, msg_envelope = None, msg_MessageTopic = connectivityTopic, msg_TXID = sm_UUID sm,
      msg_SenderID = SenderID (sm_requestIdentity sm), msg_DeviceType = ''vehicle_device'',
      msg_DeviceID = DeviceID (sm_requestIdentity sm), msg_DeliveredAtEpochMs = 0,
      msg_CreatedAt = word_of_int (AsTime_Unix (Some (timestamp_New now))), msg_Payload = payload,
      msg_EnvMessageID = []\<rparr>"

text \<open>The error, if any, and the effects. \<^const>\<open>None\<close> is a panic.\<close>

definition dispatchConnectivityEvent ::
    "'b flatbuffers \<Rightarrow> protobuf \<Rightarrow> string \<Rightarrow> int \<Rightarrow> int \<Rightarrow> int \<Rightarrow> (string \<rightharpoonup> 'p list) \<Rightarrow> socket_manager \<Rightarrow> 'p serializer \<Rightarrow>
     int \<Rightarrow> (go_error option \<times> 'p effects) option" where
  "dispatchConnectivityEvent fb pb panicked now now1 now2 rules sm serializer event =
     (case rules connectivityTopic of
        None \<Rightarrow> Some (None, [])
      | Some connectivityDispatcher \<Rightarrow>
          do { networkInterface \<leftarrow> GetNetworkInterface sm;
               case Marshal pb (ConnectivityMessage (connectivity_message sm networkInterface now event)) of
                 (_, Some err) \<Rightarrow> Some (Some (Errorf err), [])
               | (payload, None) \<Rightarrow>
                   do { message \<leftarrow> StreamMessage_ToBytes fb (connectivity_stream_message sm payload now);
                        case NewRecord fb pb panicked now1 now2 serializer message (sm_UUID sm) (sm_transmitDecodedRecords sm) of
                          (_, Some err, logs) \<Rightarrow> Some (Some err, map Log logs)
                        | (record, None, logs) \<Rightarrow>
                            Some (None, map Log logs @ map (\<lambda>dispatcher. Act (Produce dispatcher record)) connectivityDispatcher) } })"

definition report_connectivity :: "string \<Rightarrow> socket_manager \<Rightarrow> int \<Rightarrow> go_error option \<Rightarrow> log_entry list" where
  "report_connectivity name sm event err =
     (case err of
        None \<Rightarrow> []
      | Some e \<Rightarrow> [ErrorLog name (Some (Error_text e))
                     [(''deviceID'', GStr (DeviceID (sm_requestIdentity sm))),
                      (''event'', GInt event)]])"

text \<open>The readings of the clock for an event, and the text of a panic it recovers from.\<close>

record event_times =
  ev_Now :: int
  ev_Now1 :: int
  ev_Now2 :: int
  ev_Panicked :: string

definition registerSocket ::
    "'b flatbuffers \<Rightarrow> protobuf \<Rightarrow> event_times \<Rightarrow> (string \<rightharpoonup> 'p list) \<Rightarrow> nat \<Rightarrow> socket_manager \<Rightarrow> 'p serializer \<Rightarrow>
     socket_registry \<Rightarrow> (socket_registry \<times> 'p effects) option" where
  "registerSocket fb pb t rules addr sm serializer reg =
     (let reg = RegisterSocket (sm_UUID sm) addr reg
      in do { (err, es) \<leftarrow> dispatchConnectivityEvent fb pb (ev_Panicked t) (ev_Now t) (ev_Now1 t) (ev_Now2 t) rules sm
                serializer ConnectivityEvent_CONNECTED;
              Some (reg, es @ map Log (report_connectivity ''connectivity_registeration_error'' sm
                                         ConnectivityEvent_CONNECTED err)) })"

definition deregisterSocket ::
    "'b flatbuffers \<Rightarrow> protobuf \<Rightarrow> event_times \<Rightarrow> (string \<rightharpoonup> 'p list) \<Rightarrow> socket_manager \<Rightarrow> 'p serializer \<Rightarrow>
     socket_registry \<Rightarrow> (socket_registry \<times> 'p effects) option" where
  "deregisterSocket fb pb t rules sm serializer reg =
     (let reg = DeregisterSocket (sm_UUID sm) reg
      in do { (err, es) \<leftarrow> dispatchConnectivityEvent fb pb (ev_Panicked t) (ev_Now t) (ev_Now1 t) (ev_Now2 t) rules sm
                serializer ConnectivityEvent_DISCONNECTED;
              Some (reg, es @ map Log (report_connectivity ''connectivity_deregisteration_error'' sm
                                         ConnectivityEvent_DISCONNECTED err)) })"

section \<open>Serving a connection\<close>

text \<open>
  A connection as the handler meets it: the request, the TLS state, the outcome of the upgrade (the
  error and whether it is a handshake error), the address of the new socket, the fresh UUID, the
  messages, the result of closing and the clock readings.
\<close>

record connection =
  con_request :: http_request
  con_tls :: "x509_certificate list list option"
  con_upgrade :: "(string \<times> bool) option"
  con_addr :: nat
  con_fresh :: string
  con_start :: int
  con_inputs :: "ws_input list"
  con_closeErr :: "string option"
  con_end :: int
  con_connected :: event_times
  con_disconnected :: event_times

datatype 'p server_effect =
    SocketAction 'p "'p telemetry_record"
  | SendTo nat socket_message
  | ReportAirbrake string
  | CloseWs

definition on_socket :: "nat \<Rightarrow> 'p effects \<Rightarrow> 'p server_effect effect list" where
  "on_socket addr es =
     map (map_effect (\<lambda>a. case a of Produce p r \<Rightarrow> SocketAction p r | Respond m \<Rightarrow> SendTo addr m)) es"

text \<open>The third component of an upgrade error tells whether it is logged; nil stands for no connection.\<close>

definition promoteToWebsocket :: "connection \<Rightarrow> bool \<times> 'p server_effect effect list" where
  "promoteToWebsocket con =
     (case con_upgrade con of
        None \<Rightarrow> (True, [])
      | Some (err, handshake) \<Rightarrow>
          (False, Act (ReportAirbrake err) #
                  (if handshake then [] else [Log (ErrorLog ''websocket_promotion_error'' (Some err) [])])))"

fun identity_error_text :: "identity_error \<Rightarrow> string" where
  "identity_error_text MissingTLSState = ''missing_tls_state''"
| "identity_error_text MissingVerifiedCertificate = ''missing_verified_client_certificate''"
| "identity_error_text (CreateIdentity issuer commonName err) =
     ''create_identity issuer: '' @ issuer @ '', common_name: '' @ commonName @ '', err: '' @
     (case err of ErrUnauthorizedCert \<Rightarrow> ''unauthorized certificate'' | ErrExcludedCert \<Rightarrow> ''excluded certificate'')"

definition ServeBinaryWs ::
    "'b flatbuffers \<Rightarrow> protobuf \<Rightarrow> (string \<Rightarrow> string option) \<Rightarrow> (string \<rightharpoonup> 'p list) \<Rightarrow> config \<Rightarrow> connection \<Rightarrow>
     socket_registry \<Rightarrow> (socket_registry \<times> 'p server_effect effect list) option" where
  "ServeBinaryWs fb pb uuid_Parse rules c con reg =
     (case promoteToWebsocket con of
        (False, es) \<Rightarrow> Some (reg, es)
      | (True, es) \<Rightarrow>
          (case extractIdentityFromConnection (con_tls con) (con_request con) of
             Inl err \<Rightarrow>
               Some (reg, es @ [Log (ErrorLog ''extract_sender_id_err'' (Some (identity_error_text err)) []), Act CloseWs])
           | Inr requestIdentity \<Rightarrow>
               (let binarySerializer = NewBinarySerializer (Some requestIdentity) rules;
                    socketManager = NewSocketManager uuid_Parse (con_fresh con) (con_start con) (Some (con_request con)) requestIdentity c
                in do { (reg, es1) \<leftarrow> registerSocket fb pb (con_connected con) rules (con_addr con) socketManager binarySerializer reg;
                        (sm, es2) \<leftarrow> ProcessTelemetry fb pb binarySerializer (con_inputs con) (con_closeErr con) (con_end con) socketManager;
                        (reg, es3) \<leftarrow> deregisterSocket fb pb (con_disconnected con) rules sm binarySerializer reg;
                        Some (reg, es @ on_socket (con_addr con) (es1 @ es2 @ es3)) })))"

section \<open>Reliable acknowledgements\<close>

text \<open>
  \<^verbatim>\<open>handleAcks\<close> on one record from the channel; \<^verbatim>\<open>sockets\<close> gives the socket at an address.
\<close>

definition handleAck ::
    "'b flatbuffers \<Rightarrow> (string \<times> string) list \<Rightarrow> (nat \<Rightarrow> socket_manager) \<Rightarrow> socket_registry \<Rightarrow> 'p telemetry_record \<Rightarrow>
     'p server_effect effect list option" where
  "handleAck fb reliableAckSources sockets reg record =
     (let reliableAckSource = (case map_of reliableAckSources (rec_TxType record) of Some d \<Rightarrow> d | None \<Rightarrow> []);
          labels = [(''record_type'', rec_TxType record), (''dispatcher'', reliableAckSource)]
      in if rec_Serializer record = None then Some []
         else case GetSocket (rec_SocketID record) reg of
                Some addr \<Rightarrow>
                  map_option (\<lambda>es. Metric (Inc ''reliable_ack'' labels) # on_socket addr es)
                    (respondToVehicle fb (sockets addr) record None)
              | None \<Rightarrow> Some [Metric (Inc ''reliable_ack_miss'' labels)])"

fun handleAcks ::
    "'b flatbuffers \<Rightarrow> (string \<times> string) list \<Rightarrow> (nat \<Rightarrow> socket_manager) \<Rightarrow> socket_registry \<Rightarrow> 'p telemetry_record list \<Rightarrow>
     'p server_effect effect list option" where
  "handleAcks fb srcs sockets reg [] = Some []"
| "handleAcks fb srcs sockets reg (record # records) =
     do { es \<leftarrow> handleAck fb srcs sockets reg record;
          es' \<leftarrow> handleAcks fb srcs sockets reg records;
          Some (es @ es') }"

section \<open>HTTP\<close>

definition Status :: string where "Status = ''mtls ok''"

datatype route = StatusRoute | WebsocketRoute

text \<open>The two patterns of the multiplexer: \<^verbatim>\<open>/status\<close> exactly, and everything else.\<close>

definition InitServer_route :: "string \<Rightarrow> route" where
  "InitServer_route path = (if path = ''/status'' then StatusRoute else WebsocketRoute)"

definition InitServer_addr :: "config \<Rightarrow> string" where
  "InitServer_addr c = cfg_Host c @ '':'' @ Itoa (cfg_Port c)"

definition serveHTTPWithLogs ::
    "string \<Rightarrow> http_request \<Rightarrow> int \<Rightarrow> int \<Rightarrow> 'a effect list \<Rightarrow> 'a effect list" where
  "serveHTTPWithLogs uuidStr r start stop handler =
     (let info = [(''uuid'', GStr uuidStr), (''method'', GStr (req_Method r)), (''urlPath'', GStr (req_URLPath r)),
                  (''remote_ip'', GStr (req_RemoteAddr r))]
      in [Log (ActivityLog ''request_start'' info)] @ handler @
         [Log (ActivityLog ''request_end'' (info @ [(''duration_ms'', GInt (go_div (stop - start) (10 ^ 6)))]))])"

section \<open>The life of a connection\<close>

lemma actions_on_socket:
  "actions (on_socket addr es) =
     map (\<lambda>a. case a of Produce p r \<Rightarrow> SocketAction p r | Respond m \<Rightarrow> SendTo addr m) (actions es)"
  by (induction es rule: actions.induct) (auto simp: on_socket_def)

lemma network_interface:
  assumes "same_socket (NewSocketManager uuid_Parse fresh now (Some r) identity c) sm"
  shows "\<exists>s. GetNetworkInterface sm = Some s"
proof -
  have "sm_requestInfo sm = sm_requestInfo (NewSocketManager uuid_Parse fresh now (Some r) identity c)"
    using assms by (cases sm) (auto simp: same_socket_def)
  then show ?thesis
    by (auto simp: GetNetworkInterface_def NewSocketManager_def buildRequestContext_def Let_def
        split: prod.splits option.splits)
qed

lemma connectivity_bytes: "\<exists>buf. StreamMessage_ToBytes fb (connectivity_stream_message sm payload now) = Some buf"
  by (simp add: StreamMessage_ToBytes_def connectivity_stream_message_def)

text \<open>
  A connectivity event that gets as far as the producers hands one accepted record to all of them;
  otherwise it does nothing but log.
\<close>

lemma dispatchConnectivityEvent_cases:
  assumes "GetNetworkInterface sm = Some ni"
  obtains err es where "dispatchConnectivityEvent fb pb panicked now now1 now2 rules sm ts event = Some (err, es)"
    and "actions es = []"
  | es ds rcd msg logs where "dispatchConnectivityEvent fb pb panicked now now1 now2 rules sm ts event = Some (None, es)"
    and "rules ''connectivity'' = Some ds" and "actions es = map (\<lambda>d. Produce d rcd) ds"
    and "NewRecord fb pb panicked now1 now2 ts msg (sm_UUID sm) (sm_transmitDecodedRecords sm) = (rcd, None, logs)"
proof (cases "rules ''connectivity''")
  case None
  then show thesis using that(1) by (simp add: dispatchConnectivityEvent_def connectivityTopic_def)
next
  case (Some ds)
  obtain payload merr where m: "Marshal pb (ConnectivityMessage (connectivity_message sm ni now event)) = (payload, merr)"
    by force
  obtain buf where b: "StreamMessage_ToBytes fb (connectivity_stream_message sm payload now) = Some buf"
    using connectivity_bytes by blast
  obtain rcd err logs where n: "NewRecord fb pb panicked now1 now2 ts buf (sm_UUID sm) (sm_transmitDecodedRecords sm) = (rcd, err, logs)"
    using prod_cases3 by blast
  show thesis
  proof (cases "merr = None \<and> err = None")
    case True
    then show thesis
      using that(2) [OF _ Some _ n [simplified True]] Some assms m b n
      by (simp add: dispatchConnectivityEvent_def connectivityTopic_def)
  next
    case False
    then show thesis
      using that(1) Some assms m b n
      by (cases merr; cases err) (simp_all add: dispatchConnectivityEvent_def connectivityTopic_def)
  qed
qed

lemma dispatchConnectivityEvent_Some:
  assumes "GetNetworkInterface sm = Some ni"
  shows "\<exists>err es. dispatchConnectivityEvent fb pb panicked now now1 now2 rules sm ts event = Some (err, es)"
  using assms by (rule dispatchConnectivityEvent_cases) auto

text \<open>The actions of the connectivity event of a socket, none when it fails.\<close>

definition event_actions ::
    "'b flatbuffers \<Rightarrow> protobuf \<Rightarrow> event_times \<Rightarrow> (string \<rightharpoonup> 'p list) \<Rightarrow> socket_manager \<Rightarrow> 'p serializer \<Rightarrow> int \<Rightarrow>
     'p socket_action list" where
  "event_actions fb pb t rules sm ts event =
     (case dispatchConnectivityEvent fb pb (ev_Panicked t) (ev_Now t) (ev_Now1 t) (ev_Now2 t) rules sm ts event of
        Some (_, es) \<Rightarrow> actions es
      | None \<Rightarrow> [])"

lemma registerSocket_actions:
  assumes "GetNetworkInterface sm = Some ni"
  shows "\<exists>es. registerSocket fb pb t rules addr sm ts reg = Some (RegisterSocket (sm_UUID sm) addr reg, es) \<and>
           actions es = event_actions fb pb t rules sm ts ConnectivityEvent_CONNECTED"
    and "\<exists>es. deregisterSocket fb pb t rules sm ts reg = Some (DeregisterSocket (sm_UUID sm) reg, es) \<and>
           actions es = event_actions fb pb t rules sm ts ConnectivityEvent_DISCONNECTED"
proof -
  have "\<exists>err es. dispatchConnectivityEvent fb pb (ev_Panicked t) (ev_Now t) (ev_Now1 t) (ev_Now2 t) rules sm ts event = Some (err, es)"
    for event by (rule dispatchConnectivityEvent_Some [OF assms])
  from this [of ConnectivityEvent_CONNECTED] this [of ConnectivityEvent_DISCONNECTED]
  show "\<exists>es. registerSocket fb pb t rules addr sm ts reg = Some (RegisterSocket (sm_UUID sm) addr reg, es) \<and>
           actions es = event_actions fb pb t rules sm ts ConnectivityEvent_CONNECTED"
    and "\<exists>es. deregisterSocket fb pb t rules sm ts reg = Some (DeregisterSocket (sm_UUID sm) reg, es) \<and>
           actions es = event_actions fb pb t rules sm ts ConnectivityEvent_DISCONNECTED"
    by (auto simp: registerSocket_def deregisterSocket_def event_actions_def)
qed

lemma event_actions_same:
  assumes "same_socket sm sm'"
  shows "event_actions fb pb t rules sm' ts event = event_actions fb pb t rules sm ts event"
proof -
  obtain stats where sm': "sm' = sm\<lparr>sm_RecordsStats := stats\<rparr>" using assms by (auto simp: same_socket_def)
  have eqs: "GetNetworkInterface sm' = GetNetworkInterface sm" "connectivity_message sm' = connectivity_message sm"
    "connectivity_stream_message sm' = connectivity_stream_message sm" "sm_UUID sm' = sm_UUID sm"
    "sm_transmitDecodedRecords sm' = sm_transmitDecodedRecords sm"
    by (simp_all add: sm' fun_eq_iff GetNetworkInterface_def connectivity_message_def connectivity_stream_message_def)
  show ?thesis unfolding event_actions_def dispatchConnectivityEvent_def eqs ..
qed

lemma ProcessTelemetry_same:
  "\<exists>sm' es. ProcessTelemetry fb pb ts inputs closeErr now sm = Some (sm', es) \<and> same_socket sm sm' \<and>
     actions es = concat (map (message_actions fb pb ts sm) (filter (\<lambda>i. \<not> limited sm i)
       (takeWhile (\<lambda>i. in_MsgType i = sm_MsgType sm) inputs)))"
  using read_loop_actions [of fb pb ts inputs "\<lparr>ls_sm = sm, ls_limited = 0, ls_limitStart = 0\<rparr>"]
  by (auto simp: ProcessTelemetry_def)

definition telemetry_actions :: "'b flatbuffers \<Rightarrow> protobuf \<Rightarrow> 'p serializer \<Rightarrow> connection \<Rightarrow> socket_manager \<Rightarrow> 'p socket_action list" where
  "telemetry_actions fb pb ts con sm =
     (case ProcessTelemetry fb pb ts (con_inputs con) (con_closeErr con) (con_end con) sm of
        Some (_, es) \<Rightarrow> actions es
      | None \<Rightarrow> [])"

lemma serve_accepted:
  assumes "con_upgrade con = None" and "extractIdentityFromConnection (con_tls con) (con_request con) = Inr identity"
    and sm: "sm = NewSocketManager uuid_Parse (con_fresh con) (con_start con) (Some (con_request con)) identity c"
    and ts: "ts = NewBinarySerializer (Some identity) rules"
  shows "\<exists>es. ServeBinaryWs fb pb uuid_Parse rules c con reg =
             Some (DeregisterSocket (sm_UUID sm) (RegisterSocket (sm_UUID sm) (con_addr con) reg), es) \<and>
           actions es = map (\<lambda>a. case a of Produce p r \<Rightarrow> SocketAction p r | Respond m \<Rightarrow> SendTo (con_addr con) m)
             (event_actions fb pb (con_connected con) rules sm ts ConnectivityEvent_CONNECTED @
              telemetry_actions fb pb ts con sm @
              event_actions fb pb (con_disconnected con) rules sm ts ConnectivityEvent_DISCONNECTED)"
proof -
  obtain ni where ni: "GetNetworkInterface sm = Some ni"
    using network_interface [OF same_socket_refl] sm by blast
  obtain es1 where 1: "registerSocket fb pb (con_connected con) rules (con_addr con) sm ts reg =
      Some (RegisterSocket (sm_UUID sm) (con_addr con) reg, es1)"
    "actions es1 = event_actions fb pb (con_connected con) rules sm ts ConnectivityEvent_CONNECTED"
    using registerSocket_actions(1) [OF ni] by blast
  obtain sm' es2 where 2: "ProcessTelemetry fb pb ts (con_inputs con) (con_closeErr con) (con_end con) sm = Some (sm', es2)"
    "same_socket sm sm'"
    using ProcessTelemetry_same by blast
  obtain ni' where ni': "GetNetworkInterface sm' = Some ni'" using network_interface 2(2) sm by metis
  obtain es3 where 3: "deregisterSocket fb pb (con_disconnected con) rules sm' ts (RegisterSocket (sm_UUID sm) (con_addr con) reg) =
      Some (DeregisterSocket (sm_UUID sm) (RegisterSocket (sm_UUID sm) (con_addr con) reg), es3)"
    "actions es3 = event_actions fb pb (con_disconnected con) rules sm ts ConnectivityEvent_DISCONNECTED"
    using registerSocket_actions(2) [OF ni'] same_socket_fields(2) [OF 2(2)] event_actions_same [OF 2(2)] by metis
  have "telemetry_actions fb pb ts con sm = actions es2" using 2 by (simp add: telemetry_actions_def)
  then show ?thesis
    using assms(1,2) 1 2 3 sm ts
    by (simp add: ServeBinaryWs_def promoteToWebsocket_def Let_def actions_on_socket)
qed

lemma serve_refused:
  "con_upgrade con \<noteq> None \<Longrightarrow> \<exists>es err. ServeBinaryWs fb pb uuid_Parse rules c con reg = Some (reg, es) \<and> actions es = [ReportAirbrake err]"
  "con_upgrade con = None \<Longrightarrow> extractIdentityFromConnection (con_tls con) (con_request con) = Inl e \<Longrightarrow>
     \<exists>es. ServeBinaryWs fb pb uuid_Parse rules c con reg = Some (reg, es) \<and> actions es = [CloseWs]"
  by (auto simp: ServeBinaryWs_def promoteToWebsocket_def)

text \<open>
  A record that a socket hands to a producer was accepted by it, and the producer is one of the record's type, or
  one of connectivity events.
\<close>

definition accepted_by :: "'b flatbuffers \<Rightarrow> protobuf \<Rightarrow> 'p serializer \<Rightarrow> socket_manager \<Rightarrow> 'p telemetry_record \<Rightarrow> bool" where
  "accepted_by fb pb ts sm r \<longleftrightarrow>
     (\<exists>panicked now1 now2 msg logs.
        NewRecord fb pb panicked now1 now2 ts msg (sm_UUID sm) (sm_transmitDecodedRecords sm) = (r, None, logs))"

definition routed :: "(string \<rightharpoonup> 'p list) \<Rightarrow> 'p \<Rightarrow> 'p telemetry_record \<Rightarrow> bool" where
  "routed rules p r \<longleftrightarrow> (\<exists>t ds. (t = rec_TxType r \<or> t = connectivityTopic) \<and> rules t = Some ds \<and> p \<in> set ds)"

lemma accepted_by_vin:
  assumes "accepted_by fb pb ts sm r" and "RequestIdentity ts = Some identity"
  shows "rec_Vin r = DeviceID identity" and "rec_protoMessage r = Some m \<Longrightarrow> message_vin m = DeviceID identity"
    and "rec_SocketID r = sm_UUID sm" and "rec_Serializer r = Some ts"
proof -
  obtain panicked now1 now2 msg logs where
    n: "NewRecord fb pb panicked now1 now2 ts msg (sm_UUID sm) (sm_transmitDecodedRecords sm) = (r, None, logs)"
    using assms(1) unfolding accepted_by_def by blast
  show "rec_Vin r = DeviceID identity" "rec_protoMessage r = Some m \<Longrightarrow> message_vin m = DeviceID identity"
    "rec_SocketID r = sm_UUID sm"
    by (rule NewRecord_vin [OF n assms(2)]; assumption)+
  show "rec_Serializer r = Some ts" by (rule NewRecord_identity(1) [OF n])
qed

lemma accepted_byI:
  "NewRecord fb pb panicked now1 now2 ts msg (sm_UUID sm) (sm_transmitDecodedRecords sm) = (r, None, logs) \<Longrightarrow>
     accepted_by fb pb ts sm r"
  unfolding accepted_by_def by blast

lemma event_produces:
  assumes "Produce p r \<in> set (event_actions fb pb t rules sm ts event)" and "GetNetworkInterface sm = Some ni"
  shows "accepted_by fb pb ts sm r \<and> routed rules p r"
proof (rule dispatchConnectivityEvent_cases [OF assms(2), of fb pb "ev_Panicked t" "ev_Now t" "ev_Now1 t" "ev_Now2 t" rules ts event])
  fix err es
  assume "dispatchConnectivityEvent fb pb (ev_Panicked t) (ev_Now t) (ev_Now1 t) (ev_Now2 t) rules sm ts event = Some (err, es)"
    and "actions es = []"
  with assms(1) show ?thesis by (simp add: event_actions_def del: mem_actions)
next
  fix es ds rcd msg logs
  assume "dispatchConnectivityEvent fb pb (ev_Panicked t) (ev_Now t) (ev_Now1 t) (ev_Now2 t) rules sm ts event = Some (None, es)"
    and "actions es = map (\<lambda>d. Produce d rcd) ds" and d: "rules ''connectivity'' = Some ds"
    and n: "NewRecord fb pb (ev_Panicked t) (ev_Now1 t) (ev_Now2 t) ts msg (sm_UUID sm) (sm_transmitDecodedRecords sm) = (rcd, None, logs)"
  with assms(1) have "r = rcd" "p \<in> set ds" by (auto simp: event_actions_def simp del: mem_actions)
  with accepted_byI [OF n] d show ?thesis by (auto simp: routed_def connectivityTopic_def)
qed

lemma message_produces:
  assumes "Produce p r \<in> set (message_actions fb pb ts sm i)" and "DispatchRules ts [] = None"
  shows "accepted_by fb pb ts sm r \<and> routed (DispatchRules ts) p r"
proof -
  obtain rcd err logs where n: "NewRecord fb pb (in_Panicked i) (in_Now1 i) (in_Now2 i) ts (in_Message i)
      (sm_UUID sm) (sm_transmitDecodedRecords sm) = (rcd, err, logs)"
    using prod_cases3 by blast
  have "err = None \<and> r = rcd \<and> routed (DispatchRules ts) p r"
  proof (cases err)
    case None
    then have "Produce p r \<in> set (accepted_actions fb ts sm rcd)"
      using assms(1) n by (simp add: message_actions_outcome outcome_def)
    with None show ?thesis
      by (cases "DispatchRules ts (rec_TxType rcd)") (auto simp: accepted_actions_def routed_def split: if_splits)
  next
    case (Some e)
    then show ?thesis
      using assms n NewRecord_unknown_type [of fb pb "in_Panicked i" "in_Now1 i" "in_Now2 i" ts "in_Message i"]
      by (cases e) (auto simp: message_actions_outcome outcome_def accepted_actions_def split: if_splits)
  qed
  with n show ?thesis by (auto intro: accepted_byI)
qed

lemma telemetry_produces:
  assumes "Produce p r \<in> set (telemetry_actions fb pb ts con sm)" and "DispatchRules ts [] = None"
  shows "accepted_by fb pb ts sm r \<and> routed (DispatchRules ts) p r"
proof -
  obtain i where "Produce p r \<in> set (message_actions fb pb ts sm i)"
    using assms(1) ProcessTelemetry_same [of fb pb ts "con_inputs con" "con_closeErr con" "con_end con" sm]
    by (auto simp: telemetry_actions_def simp del: mem_actions)
  from message_produces [OF this assms(2)] show ?thesis .
qed

section \<open>Properties\<close>

text \<open>
  C7: Every record that reaches a producer through a connection carries, in the record and in its
  decoded message, the vehicle number of the verified client certificate of that connection, and
  goes to a producer of its type, or of connectivity events. Nothing is produced for a connection without a verified
  certificate that denotes an identity. (No dispatch rule may be configured for the empty type.)
\<close>

theorem produced_records_authenticated:
  assumes "ServeBinaryWs fb pb uuid_Parse rules c con reg = Some (reg', es)"
    and "SocketAction p r \<in> set (actions es)" and "rules [] = None"
  shows "\<exists>cert chain chains clientType vin.
           con_tls con = Some ((cert # chain) # chains) \<and> CreateIdentityFromCert cert = Inr (clientType, vin) \<and>
           rec_Vin r = vin \<and> (case rec_protoMessage r of Some m \<Rightarrow> message_vin m = vin | None \<Rightarrow> True) \<and>
           (\<exists>t ds. (t = rec_TxType r \<or> t = ''connectivity'') \<and> rules t = Some ds \<and> p \<in> set ds)"
proof -
  have up: "con_upgrade con = None"
    using serve_refused(1) [of con fb pb uuid_Parse rules c reg] assms(1,2) by (fastforce simp del: mem_actions)
  then obtain identity where i: "extractIdentityFromConnection (con_tls con) (con_request con) = Inr identity"
    using serve_refused(2) [of con _ fb pb uuid_Parse rules c reg] assms(1,2)
    by (cases "extractIdentityFromConnection (con_tls con) (con_request con)") (auto simp del: mem_actions)
  define sm where "sm = NewSocketManager uuid_Parse (con_fresh con) (con_start con) (Some (con_request con)) identity c"
  define ts where "ts = NewBinarySerializer (Some identity) rules"
  obtain ni where ni: "GetNetworkInterface sm = Some ni"
    using network_interface [OF same_socket_refl] sm_def by blast
  have ts': "DispatchRules ts = rules" "RequestIdentity ts = Some identity"
    by (simp_all add: ts_def NewBinarySerializer_def)
  have "Produce p r \<in> set (event_actions fb pb (con_connected con) rules sm ts ConnectivityEvent_CONNECTED @
      telemetry_actions fb pb ts con sm @ event_actions fb pb (con_disconnected con) rules sm ts ConnectivityEvent_DISCONNECTED)"
    using serve_accepted [OF up i sm_def ts_def, of fb pb reg] assms(1,2)
    by (auto simp del: mem_actions split: socket_action.splits)
  then have "accepted_by fb pb ts sm r \<and> routed rules p r"
    unfolding set_append Un_iff
  proof (elim disjE)
    assume "Produce p r \<in> set (telemetry_actions fb pb ts con sm)"
    then show ?thesis using telemetry_produces [of p r fb pb ts con sm] ts'(1) assms(3) by simp
  qed (rule event_produces [OF _ ni]; assumption)+
  then have a: "accepted_by fb pb ts sm r" "routed rules p r" by simp_all
  obtain cert chain chains t where "con_tls con = Some ((cert # chain) # chains)" "CreateIdentityFromCert cert = Inr (t, DeviceID identity)"
    using i by (auto simp: extractIdentityFromConnection_def extractCertFromHeaders_def split: option.splits list.splits sum.splits)
  then show ?thesis
    using accepted_by_vin [OF a(1) ts'(2)] a(2) by (auto simp: routed_def connectivityTopic_def split: option.split)
qed

definition example_rules :: "string \<rightharpoonup> dispatcher list" where
  "example_rules = [''V'' \<mapsto> [Kafka, Logger]]"

definition example_times :: event_times where
  "example_times = \<lparr>ev_Now = 0, ev_Now1 = 0, ev_Now2 = 0, ev_Panicked = []\<rparr>"

definition example_connection :: connection where
  "example_connection = \<lparr>con_request = \<lparr>req_Method = ''GET'', req_URLPath = ''/'', req_RemoteAddr = [], req_Header = (\<lambda>_. None)\<rparr>,
     con_tls = Some [[example_cert]], con_upgrade = None, con_addr = 7, con_fresh = ''s'', con_start = 0,
     con_inputs = [\<lparr>in_MsgType = 2, in_Message = example_buf, in_Try = True, in_Now = 0, in_Since = 0, in_Now1 = 0,
        in_Now2 = 0, in_Panicked = []\<rparr>],
     con_closeErr = None, con_end = 0, con_connected = example_times, con_disconnected = example_times\<rparr>"

definition example_identity :: request_identity where
  "example_identity = \<lparr>DeviceID = ''5YJ-42'', SenderID = ''energy_device.5YJ-42'', DeviceClientVersion = []\<rparr>"

lemma example_connection_identity:
  "extractIdentityFromConnection (con_tls example_connection) (con_request example_connection) = Inr example_identity"
  by (simp add: extractIdentityFromConnection_def extractCertFromHeaders_def example_connection_def example_cert_identity
      Header_Get_def example_identity_def)

definition example_socket :: socket_manager where
  "example_socket = NewSocketManager (\<lambda>_. None) ''s'' 0 (Some (con_request example_connection)) example_identity empty_config"

lemma example_socket_fields:
  "sm_UUID example_socket = ''s''" "sm_transmitDecodedRecords example_socket = False" "sm_MsgType example_socket = 2"
  "cfg_ReliableAckSources (sm_config example_socket) = []"
  by (simp_all add: example_socket_def NewSocketManager_def buildRequestContext_def empty_config_def BinaryMessage_def)

lemma example_connection_actions:
  obtains reg' es r where "ServeBinaryWs tfb tpb (\<lambda>_. None) example_rules empty_config example_connection reg = Some (reg', es)"
    and "actions es = [SocketAction Kafka r, SocketAction Logger r, SendTo 7 (ack_response tfb example_socket r)]"
proof -
  let ?sm = example_socket
  let ?ts = "NewBinarySerializer (Some example_identity) example_rules"
  have ts: "RequestIdentity ?ts = Some example_identity" "DispatchRules ?ts ''V'' = Some [Kafka, Logger]"
    by (simp_all add: NewBinarySerializer_def example_rules_def)
  obtain r where r: "NewRecord tfb tpb [] 0 0 ?ts example_buf ''s'' False = (r, None, [])" "rec_TxType r = ''V''"
    using example_accepted [OF ts(1)] ts(2) by (metis option.distinct(1))
  have c: "con_upgrade example_connection = None" "con_fresh example_connection = ''s''" "con_start example_connection = 0"
    "con_addr example_connection = 7"
    by (simp_all add: example_connection_def)
  have ev: "event_actions tfb tpb t example_rules ?sm ?ts event = []" for t event
    by (simp add: event_actions_def dispatchConnectivityEvent_def connectivityTopic_def example_rules_def)
  have "message_actions tfb tpb ?ts ?sm (hd (con_inputs example_connection)) =
      [Produce Kafka r, Produce Logger r, Respond (ack_response tfb ?sm r)]"
    using r ts(2)
    by (simp add: message_actions_outcome example_connection_def example_socket_fields outcome_def accepted_actions_def)
  then have "telemetry_actions tfb tpb ?ts example_connection ?sm = [Produce Kafka r, Produce Logger r, Respond (ack_response tfb ?sm r)]"
    using ProcessTelemetry_same [of tfb tpb ?ts "con_inputs example_connection" "con_closeErr example_connection" "con_end example_connection" ?sm]
    by (auto simp: telemetry_actions_def example_connection_def example_socket_fields limited_def)
  then show thesis
    using serve_accepted [OF c(1) example_connection_identity refl refl, of tfb tpb "\<lambda>_. None" example_rules empty_config reg] that
    by (auto simp: c ev example_socket_def [symmetric])
qed

theorem produced_records_authenticated_witness:
  "\<exists>reg' es r. ServeBinaryWs tfb tpb (\<lambda>_. None) example_rules empty_config example_connection NewSocketRegistry = Some (reg', es) \<and>
     SocketAction Kafka r \<in> set (actions es) \<and> rec_Vin r = ''5YJ-42''"
proof -
  obtain reg' es r where e: "ServeBinaryWs tfb tpb (\<lambda>_. None) example_rules empty_config example_connection NewSocketRegistry = Some (reg', es)"
    "SocketAction Kafka r \<in> set (actions es)"
    by (rule example_connection_actions [of NewSocketRegistry]) (auto simp del: mem_actions)
  have "example_rules [] = None" by (simp add: example_rules_def)
  from produced_records_authenticated [OF e this] have "rec_Vin r = ''5YJ-42''"
    by (auto simp: example_connection_def example_cert_identity)
  with e show ?thesis by blast
qed



text \<open>
  A connectivity event is a record of type connectivity for every producer of that type: it
  names the vehicle of the certificate, and its message holds the UUID of the connection, the
  network interface, the time and the event, as long as the protobuf runtime carries this message and
  its encoding fits the size limit.
\<close>

theorem connectivity_event_record:
  assumes "fb_laws fb" and "GetNetworkInterface sm = Some ni" and "rules ''connectivity'' = Some ds"
    and "ts = NewBinarySerializer (Some (sm_requestIdentity sm)) rules"
    and "message = \<lparr>Connectivity_Vin = DeviceID (sm_requestIdentity sm), Connectivity_ConnectionId = sm_UUID sm,
      Connectivity_Status = event, Connectivity_CreatedAt = Some (timestamp_New now), Connectivity_NetworkInterface = ni\<rparr>"
    and "Marshal pb (ConnectivityMessage message) = (payload, None)" and "Unmarshal_Connectivity pb payload = Inr message"
    and "snd (protojson_Marshal pb (Some (ConnectivityMessage message))) = None"
    and "message_size (connectivity_stream_message sm payload now) + 14000 \<le> fb_limit"
    and "StreamMessage_ToBytes fb (connectivity_stream_message sm payload now) = Some buf" and "length buf \<le> SizeLimit"
  shows "\<exists>es record. dispatchConnectivityEvent fb pb panicked now now1 now2 rules sm ts event = Some (None, es) \<and>
           actions es = map (\<lambda>d. Produce d record) ds \<and> rec_TxType record = ''connectivity'' \<and>
           rec_Vin record = DeviceID (sm_requestIdentity sm) \<and> rec_SocketID record = sm_UUID sm \<and>
           rec_protoMessage record = Some (ConnectivityMessage message)"
proof -
  let ?m = "connectivity_stream_message sm payload now"
  have h: "msg_fsm ?m = None" "RequestIdentity ts = Some (sm_requestIdentity sm)"
    "DispatchRules ts (msg_MessageTopic ?m) \<noteq> None"
    using assms(3,4) by (simp_all add: connectivity_stream_message_def NewBinarySerializer_def connectivityTopic_def)
  obtain raw where d: "Deserialize fb panicked now1 now2 ts buf (sm_UUID sm) =
       ((blank_record ts)\<lparr>rec_RawBytes := Some raw, rec_SocketID := sm_UUID sm,
          rec_TxType := msg_MessageTopic ?m, rec_Txid := msg_TXID ?m, rec_Vin := DeviceID (sm_requestIdentity sm),
          rec_PayloadBytes := msg_Payload ?m, rec_ReceivedTimestamp := now2 div 10 ^ 6,
          rec_DeviceClientVersion := DeviceClientVersion (sm_requestIdentity sm)\<rparr>, None, [])"
    using deserialize_lemma [OF assms(1) h(1) assms(9) h(2,3)] assms(10) by (metis option.inject)
  obtain json where j: "protojson_Marshal pb (Some (ConnectivityMessage message)) = (json, None)"
    using assms(8) by (metis prod.collapse)
  have "message\<lparr>Connectivity_Vin := DeviceID (sm_requestIdentity sm)\<rparr> = message" using assms(5) by simp
  then have "\<exists>rcd. NewRecord fb pb panicked now1 now2 ts buf (sm_UUID sm) (sm_transmitDecodedRecords sm) = (rcd, None, []) \<and>
      rec_TxType rcd = ''connectivity'' \<and> rec_Vin rcd = DeviceID (sm_requestIdentity sm) \<and>
      rec_SocketID rcd = sm_UUID sm \<and> rec_protoMessage rcd = Some (ConnectivityMessage message)"
    using d j assms(6,7,11)
    by (simp add: NewRecord_def applyRecordTransforms_def applyProtoRecordTransforms_def store_message_def toJSON_def
        connectivity_stream_message_def connectivityTopic_def)
  then obtain rcd where n: "NewRecord fb pb panicked now1 now2 ts buf (sm_UUID sm) (sm_transmitDecodedRecords sm) = (rcd, None, [])"
    and r: "rec_TxType rcd = ''connectivity''" "rec_Vin rcd = DeviceID (sm_requestIdentity sm)"
      "rec_SocketID rcd = sm_UUID sm" "rec_protoMessage rcd = Some (ConnectivityMessage message)"
    by blast
  have "connectivity_message sm ni now event = message" using assms(5) by (simp add: connectivity_message_def)
  with n assms(2,3,6,10) have "dispatchConnectivityEvent fb pb panicked now now1 now2 rules sm ts event =
      Some (None, map (\<lambda>d. Act (Produce d rcd)) ds)"
    by (simp add: dispatchConnectivityEvent_def connectivityTopic_def)
  then show ?thesis using r by auto
qed

definition connected_message :: vehicle_connectivity where
  "connected_message = \<lparr>Connectivity_Vin = ''5YJ-42'', Connectivity_ConnectionId = ''s'',
     Connectivity_Status = ConnectivityEvent_CONNECTED, Connectivity_CreatedAt = Some (timestamp_New 0),
     Connectivity_NetworkInterface = []\<rparr>"

definition connectivity_pb :: protobuf where
  "connectivity_pb = tpb\<lparr>Marshal := (\<lambda>_. (''c'', None)), Unmarshal_Connectivity := (\<lambda>_. Inr connected_message)\<rparr>"

lemma connected_table:
  "FlatbuffersStreamTable tfb (NewBuilder tfb) ''energy_device.5YJ-42'' ''c'' 0 ''vehicle_device'' ''5YJ-42'' 0 =
     (\<lparr>tb_objs = [TVec ''energy_device.5YJ-42'', TVec ''c'', TVec ''vehicle_device'', TVec ''5YJ-42'',
        TTab [(4, FOff 1024), (3, FOff 768), (2, FOff 512), (1, FOff 256)]],
       tb_open = None, tb_root = 0\<rparr>, 1280)"
  unfolding FlatbuffersStreamTable_def builder_defs
  by (simp add: tfb_steps tfb_slots toff_def)

lemma connected_buf:
  "\<exists>buf. StreamMessage_ToBytes tfb (connectivity_stream_message example_socket ''c'' 0) = Some buf \<and> length buf \<le> SizeLimit"
proof -
  have f: "sm_requestIdentity example_socket = example_identity"
    by (simp add: example_socket_def NewSocketManager_def buildRequestContext_def Let_def split: prod.split)
  have "StreamMessage_ToBytes tfb (connectivity_stream_message example_socket ''c'' 0) =
     Some (FlatbuffersEnvelopeToBytes tfb \<lparr>tb_objs = [TVec ''energy_device.5YJ-42'', TVec ''c'', TVec ''vehicle_device'',
        TVec ''5YJ-42'', TTab [(4, FOff 1024), (3, FOff 768), (2, FOff 512), (1, FOff 256)]],
       tb_open = None, tb_root = 0\<rparr> ''s'' ''connectivity'' 1280 [] 4)"
    by (simp add: StreamMessage_ToBytes_def connectivity_stream_message_def f example_socket_fields FlatbuffersStreamToBytes_def
        example_identity_def connected_table MessageFlatbuffersStream_def connectivityTopic_def AsTime_Unix_def timestamp_New_def)
  also have "FlatbuffersEnvelopeToBytes tfb \<lparr>tb_objs = [TVec ''energy_device.5YJ-42'', TVec ''c'', TVec ''vehicle_device'',
        TVec ''5YJ-42'', TTab [(4, FOff 1024), (3, FOff 768), (2, FOff 512), (1, FOff 256)]],
       tb_open = None, tb_root = 0\<rparr> ''s'' ''connectivity'' 1280 [] 4 =
     enc_buf 2304 [TVec ''energy_device.5YJ-42'', TVec ''c'', TVec ''vehicle_device'', TVec ''5YJ-42'',
        TTab [(4, FOff 1024), (3, FOff 768), (2, FOff 512), (1, FOff 256)],
        TVec ''s'', TVec ''connectivity'', TVec [],
        TTab [(4, FOff 2048), (3, FOff 1280), (2, FByte 4), (1, FOff 1792), (0, FOff 1536)]]"
    unfolding FlatbuffersEnvelopeToBytes_def builder_defs
    by (simp add: tfb_steps tfb_slots toff_def)
  finally show ?thesis by (simp add: enc_buf_def length_enc_list SizeLimit_def)
qed

theorem connectivity_event_record_witness:
  "\<exists>es record. dispatchConnectivityEvent tfb connectivity_pb [] 0 0 0 [''connectivity'' \<mapsto> [Kafka]] example_socket
     (NewBinarySerializer (Some example_identity) [''connectivity'' \<mapsto> [Kafka]]) ConnectivityEvent_CONNECTED = Some (None, es) \<and>
     actions es = [Produce Kafka record] \<and> rec_protoMessage record = Some (ConnectivityMessage connected_message)"
proof -
  have f: "sm_requestIdentity example_socket = example_identity"
    by (simp add: example_socket_def NewSocketManager_def buildRequestContext_def Let_def split: prod.split)
  have g: "GetNetworkInterface example_socket = Some []"
    by (simp add: GetNetworkInterface_def example_socket_def NewSocketManager_def buildRequestContext_def Header_Get_def
        Header_Add_def example_connection_def)
  obtain buf where b: "StreamMessage_ToBytes tfb (connectivity_stream_message example_socket ''c'' 0) = Some buf" "length buf \<le> SizeLimit"
    using connected_buf by blast
  have m: "message_size (connectivity_stream_message example_socket ''c'' 0) + 14000 \<le> fb_limit"
    by (simp add: message_size_def connectivity_stream_message_def f example_identity_def example_socket_fields
        connectivityTopic_def fb_limit_def)
  have p: "Marshal connectivity_pb (ConnectivityMessage connected_message) = (''c'', None)"
    "Unmarshal_Connectivity connectivity_pb ''c'' = Inr connected_message"
    "snd (protojson_Marshal connectivity_pb (Some (ConnectivityMessage connected_message))) = None"
    by (simp_all add: connectivity_pb_def tpb_def)
  have "connected_message = \<lparr>Connectivity_Vin = DeviceID (sm_requestIdentity example_socket),
      Connectivity_ConnectionId = sm_UUID example_socket, Connectivity_Status = ConnectivityEvent_CONNECTED,
      Connectivity_CreatedAt = Some (timestamp_New 0), Connectivity_NetworkInterface = []\<rparr>"
    by (simp add: connected_message_def f example_identity_def example_socket_fields)
  from connectivity_event_record [OF fb_laws_tfb g _ refl this p m b, of "[''connectivity'' \<mapsto> [Kafka]]" "[Kafka]" "[]" 0 0]
  show ?thesis by (auto simp: f)
qed

text \<open>
  A record that comes back from a datastore is answered with exactly one ack, on the socket that
  is registered under the UUID the record was read from, and counted; when that socket has gone,
  nothing is sent and a miss is counted. The other sockets get nothing.
\<close>

theorem reliable_ack_delivered:
  assumes "rec_Serializer record \<noteq> None"
  shows "\<exists>es. handleAck fb sources sockets reg record = Some es \<and>
           actions es = (case GetSocket (rec_SocketID record) reg of
                           Some addr \<Rightarrow> [SendTo addr (ack_response fb (sockets addr) record)]
                         | None \<Rightarrow> []) \<and>
           updates es = [Inc (if GetSocket (rec_SocketID record) reg = None then ''reliable_ack_miss'' else ''reliable_ack'')
             [(''record_type'', rec_TxType record),
              (''dispatcher'', case map_of sources (rec_TxType record) of Some d \<Rightarrow> d | None \<Rightarrow> [])]]"
proof (cases "GetSocket (rec_SocketID record) reg")
  case None
  then show ?thesis using assms by (auto simp: handleAck_def Let_def)
next
  case (Some addr)
  obtain es where es: "respondToVehicle fb (sockets addr) record None = Some es"
    "actions es = [Respond (ack_response fb (sockets addr) record)]" "updates es = []"
    using assms by (auto simp: respondToVehicle_def Record_Ack_def ack_response_def)
  have "updates (on_socket addr es) = updates es"
    unfolding on_socket_def by (induction es rule: updates.induct) auto
  then show ?thesis using assms Some es by (auto simp: handleAck_def Let_def actions_on_socket)
qed

theorem reliable_ack_delivered_witness:
  "\<exists>es. handleAck tfb [(''V'', ''kafka'')] (\<lambda>_. example_socket) (RegisterSocket ''s'' 7 NewSocketRegistry)
      ((blank_record example_serializer)\<lparr>rec_SocketID := ''s''\<rparr>) = Some es \<and>
     (\<exists>m. actions es = [SendTo 7 m])"
proof -
  have "rec_Serializer ((blank_record example_serializer)\<lparr>rec_SocketID := ''s''\<rparr>) \<noteq> None"
    by (simp add: blank_record_def)
  from reliable_ack_delivered [OF this, of tfb "[(''V'', ''kafka'')]" "\<lambda>_. example_socket" "RegisterSocket ''s'' 7 NewSocketRegistry"]
  show ?thesis by (auto simp: sockets.lookup_register)
qed

end
