(* ===== verification/Datastores.thy ===== *)
theory Datastores
  imports Telemetry
begin

text \<open>
  The producers of the streaming datastores: \<^verbatim>\<open>datastore/kafka\<close>, \<^verbatim>\<open>kinesis\<close>, \<^verbatim>\<open>googlepubsub\<close>, \<^verbatim>\<open>zmq\<close> and
  \<^verbatim>\<open>redis\<close>. A producer is the settings it was built with; its client is a third-party library, and
  the results of the calls to it are arguments. The effects of a call are log lines, metric updates
  and actions: what is handed to the store, what is sent to the acknowledgement channel, what is
  reported to Airbrake. The locale states the contract of reliable acknowledgements, which the
  acknowledgement loop of the server relies on.
\<close>

section \<open>What all producers share\<close>

datatype ('s, 'p) store_action =
    Store 's
  | AckChan "'p telemetry_record"
  | ReportLogMessage log_type string "string option" log_info

text \<open>\<^verbatim>\<open>ReportError\<close>, the same in every datastore: to Airbrake, then to the log.\<close>

definition Producer_ReportError :: "string \<Rightarrow> string option \<Rightarrow> log_info \<Rightarrow> ('s, 'p) store_action effect list" where
  "Producer_ReportError message err logInfo =
     [Act (ReportLogMessage ERROR message err logInfo), Log (ErrorLog message err logInfo)]"

text \<open>\<^verbatim>\<open>ProcessReliableAck\<close>, with the record types of the producer and the name of its counter.\<close>

definition ProcessReliableAck ::
    "string set \<Rightarrow> string \<Rightarrow> 'p telemetry_record \<Rightarrow> ('s, 'p) store_action effect list" where
  "ProcessReliableAck reliableAckTxTypes reliableAckCount entry =
     (if rec_TxType entry \<in> reliableAckTxTypes
      then [Act (AckChan entry), Metric (Inc reliableAckCount [(''record_type'', rec_TxType entry)])]
      else [])"

abbreviation count_record :: "string \<Rightarrow> 'p telemetry_record \<Rightarrow> ('s, 'p) store_action effect" where
  "count_record name entry \<equiv> Metric (Inc name [(''record_type'', rec_TxType entry)])"

abbreviation add_bytes :: "string \<Rightarrow> nat \<Rightarrow> 'p telemetry_record \<Rightarrow> ('s, 'p) store_action effect" where
  "add_bytes name n entry \<equiv> Metric (Add name (int n) [(''record_type'', rec_TxType entry)])"

section \<open>Kafka\<close>

record kafka_producer =
  kafka_namespace :: string
  kafka_prometheusEnabled :: bool
  kafka_reliableAckTxTypes :: "string set"

record 'p kafka_message =
  km_Topic :: string
  km_Value :: bytes
  km_Key :: bytes
  km_Headers :: "(string \<times> bytes) list"
  km_Timestamp :: int
  km_Opaque :: "'p telemetry_record"

definition kafka_NewProducer ::
    "('c \<Rightarrow> string option) \<Rightarrow> 'c \<Rightarrow> string \<Rightarrow> bool \<Rightarrow> string set \<Rightarrow> string + kafka_producer \<times> log_entry list" where
  "kafka_NewProducer newClient config namespace prometheusEnabled reliableAckTxTypes =
     (case newClient config of
        Some err \<Rightarrow> Inl err
      | None \<Rightarrow> Inr (\<lparr>kafka_namespace = namespace, kafka_prometheusEnabled = prometheusEnabled,
                     kafka_reliableAckTxTypes = reliableAckTxTypes\<rparr>,
                   [ActivityLog ''kafka_registered'' [(''namespace'', GStr namespace)]]))"

definition kafka_logError :: "string \<Rightarrow> ('s, 'p) store_action effect list" where
  "kafka_logError err = Producer_ReportError ''kafka_err'' (Some err) [] @ [Metric (Inc ''kafka_err'' [])]"

text \<open>The metadata is a Go map; \<^verbatim>\<open>order\<close> is the order of the iteration over it.\<close>

definition headersFromRecord ::
    "((string \<times> string) list \<Rightarrow> (string \<times> string) list) \<Rightarrow> 'p telemetry_record \<Rightarrow> (string \<times> bytes) list" where
  "headersFromRecord order record = map (\<lambda>(key, val). (key, val)) (order (Metadata record))"

text \<open>
  The client accepts a message or not; delivery is reported later as an event. The opaque pointer
  of the message shares the record, whose produce time is set before the client gets it.
\<close>

definition kafka_Produce ::
    "((string \<times> string) list \<Rightarrow> (string \<times> string) list) \<Rightarrow> ('p kafka_message \<Rightarrow> string option) \<Rightarrow> int \<Rightarrow> int \<Rightarrow> kafka_producer \<Rightarrow>
     'p telemetry_record \<Rightarrow> ('p kafka_message, 'p) store_action effect list" where
  "kafka_Produce order client now1 now2 p entry =
     (let entry = entry\<lparr>rec_ProduceTime := now2\<rparr>;
          msg = \<lparr>km_Topic = BuildTopicName (kafka_namespace p) (rec_TxType entry), km_Value = rec_PayloadBytes entry,
                 km_Key = rec_Vin entry, km_Headers = headersFromRecord order entry, km_Timestamp = now1, km_Opaque = entry\<rparr>
      in case client msg of
           Some err \<Rightarrow> kafka_logError err
         | None \<Rightarrow> [Act (Store msg), count_record ''kafka_produce_total'' entry,
                    add_bytes ''kafka_produce_total_bytes'' (Length entry) entry])"

text \<open>
  An event: an error, a message with its delivery error, its opaque value if that is a record, and its
  text, or something else.
\<close>

datatype 'p kafka_event =
    KafkaError string
  | KafkaMessage "string option" "'p telemetry_record option" string
  | OtherEvent string

fun handleProducerEvent :: "kafka_producer \<Rightarrow> 'p kafka_event \<Rightarrow> ('s, 'p) store_action effect list" where
  "handleProducerEvent p (KafkaError ev) = kafka_logError (''producer_error '' @ ev)"
| "handleProducerEvent p (KafkaMessage (Some _) _ ev) = kafka_logError (''topic_partition_error '' @ ev)"
| "handleProducerEvent p (KafkaMessage None None ev) = kafka_logError (''opaque_record_missing '' @ ev)"
| "handleProducerEvent p (KafkaMessage None (Some entry) ev) =
     ProcessReliableAck (kafka_reliableAckTxTypes p) ''kafka_reliable_ack_total'' entry @
     [count_record ''kafka_produce_ack_total'' entry, add_bytes ''kafka_produce_ack_total_bytes'' (Length entry) entry]"
| "handleProducerEvent p (OtherEvent ev) = [Log (ActivityLog ''kafka_event_ignored'' [(''event'', GStr ev)])]"

definition handleProducerEvents :: "kafka_producer \<Rightarrow> 'p kafka_event list \<Rightarrow> ('s, 'p) store_action effect list" where
  "handleProducerEvents p events = concat (map (handleProducerEvent p) events)"

definition reportProducerMetrics :: "int \<Rightarrow> int \<Rightarrow> metric_update list" where
  "reportProducerMetrics len eventsCount =
     [Set ''kafka_produce_queue_size'' len [(''type'', ''total'')],
      Set ''kafka_produce_queue_size'' eventsCount [(''type'', ''events'')],
      Set ''kafka_produce_queue_size'' (len - eventsCount) [(''type'', ''buffer'')]]"

section \<open>Kinesis\<close>

record kinesis_producer =
  kinesis_prometheusEnabled :: bool
  kinesis_streams :: "string \<rightharpoonup> string"
  kinesis_reliableAckTxTypes :: "string set"

record put_record_input =
  pr_Data :: bytes
  pr_StreamName :: string
  pr_PartitionKey :: string

text \<open>The session and the listing of one stream are the two calls that can fail.\<close>

definition kinesis_NewProducer ::
    "string option \<Rightarrow> string option \<Rightarrow> (string \<rightharpoonup> string) \<Rightarrow> bool \<Rightarrow> string set \<Rightarrow> string + kinesis_producer" where
  "kinesis_NewProducer sessionErr listErr streams prometheusEnabled reliableAckTxTypes =
     (case sessionErr of
        Some err \<Rightarrow> Inl err
      | None \<Rightarrow>
          (case listErr of
             Some err \<Rightarrow> Inl (''failed to list streams (test connection): '' @ err)
           | None \<Rightarrow> Inr \<lparr>kinesis_prometheusEnabled = prometheusEnabled, kinesis_streams = streams,
                         kinesis_reliableAckTxTypes = reliableAckTxTypes\<rparr>))"

text \<open>\<^verbatim>\<open>PutRecord\<close> gives an error, or the shard and the sequence number.\<close>

definition kinesis_Produce ::
    "(put_record_input \<Rightarrow> string + string \<times> string) \<Rightarrow> int \<Rightarrow> kinesis_producer \<Rightarrow> 'p telemetry_record \<Rightarrow>
     (put_record_input, 'p) store_action effect list" where
  "kinesis_Produce putRecord now p entry =
     (let entry = entry\<lparr>rec_ProduceTime := now\<rparr>
      in case kinesis_streams p (rec_TxType entry) of
           None \<Rightarrow> Producer_ReportError ''kinesis_produce_stream_not_configured'' None [(''record_type'', GStr (rec_TxType entry))]
         | Some stream \<Rightarrow>
             (let kinesisRecord = \<lparr>pr_Data = rec_PayloadBytes entry, pr_StreamName = stream, pr_PartitionKey = rec_Vin entry\<rparr>
              in case putRecord kinesisRecord of
                   Inl err \<Rightarrow> Producer_ReportError ''kinesis_err'' (Some err) [] @ [count_record ''kinesis_err'' entry]
                 | Inr (shard, sequenceNumber) \<Rightarrow>
                     [Act (Store kinesisRecord)] @
                     ProcessReliableAck (kinesis_reliableAckTxTypes p) ''kinesis_reliable_ack_total'' entry @
                     [Log (LogLine DEBUG ''kinesis_message_dispatched''
                        [(''vin'', GStr (rec_Vin entry)), (''record_type'', GStr (rec_TxType entry)), (''txid'', GStr (rec_Txid entry)),
                         (''shard_id'', GStr shard), (''sequence_number'', GStr sequenceNumber)]),
                      count_record ''kinesis_publish_total'' entry,
                      add_bytes ''kinesis_publish_total_bytes'' (Length entry) entry]))"

section \<open>Google Pub/Sub\<close>

record pubsub_producer =
  pubsub_projectID :: string
  pubsub_namespace :: string
  pubsub_prometheusEnabled :: bool
  pubsub_reliableAckTxTypes :: "string set"

text \<open>Whether the two variables are set; \<^verbatim>\<open>newClient\<close> is the error of the client library, if any.\<close>

definition configurePubsub :: "bool \<Rightarrow> bool \<Rightarrow> (string \<Rightarrow> string option) \<Rightarrow> string \<Rightarrow> string option" where
  "configurePubsub useEmulator useGcpPubsub newClient projectID =
     (if projectID = [] then Some ''GCP Project ID cannot be empty''
      else if useEmulator \<and> useGcpPubsub then Some ''pubsub cannot initialize with both emulator and GCP resource''
      else newClient projectID)"

definition pubsub_NewProducer ::
    "bool \<Rightarrow> bool \<Rightarrow> (string \<Rightarrow> string option) \<Rightarrow> bool \<Rightarrow> string \<Rightarrow> string \<Rightarrow> string set \<Rightarrow> string + pubsub_producer \<times> log_entry list" where
  "pubsub_NewProducer useEmulator useGcpPubsub newClient prometheusEnabled projectID namespace reliableAckTxTypes =
     (case configurePubsub useEmulator useGcpPubsub newClient projectID of
        Some err \<Rightarrow> Inl (''pubsub_connect_error '' @ err)
      | None \<Rightarrow> Inr (\<lparr>pubsub_projectID = projectID, pubsub_namespace = namespace, pubsub_prometheusEnabled = prometheusEnabled,
                     pubsub_reliableAckTxTypes = reliableAckTxTypes\<rparr>,
                   [ActivityLog ''pubsub_registered'' [(''project'', GStr projectID), (''namespace'', GStr namespace)]]))"

text \<open>The topics of the project: whether one exists, and the creation of one; both can fail.\<close>

record topic_admin =
  Topic_Exists :: "string \<Rightarrow> string + bool"
  CreateTopic :: "string \<Rightarrow> string option"

definition createTopicIfNotExists :: "topic_admin \<Rightarrow> string \<Rightarrow> string option" where
  "createTopicIfNotExists admin topic =
     (case Topic_Exists admin topic of
        Inl err \<Rightarrow> Some err
      | Inr True \<Rightarrow> None
      | Inr False \<Rightarrow> CreateTopic admin topic)"

fun ProvisionTopics ::
    "topic_admin \<Rightarrow> pubsub_producer \<Rightarrow> string list \<Rightarrow> string option \<times> ('s, 'p) store_action effect list" where
  "ProvisionTopics admin p [] = (None, [])"
| "ProvisionTopics admin p (txType # txTypes) =
     (let topicName = BuildTopicName (pubsub_namespace p) txType;
          logInfo = [(''topic_name'', GStr topicName), (''txType'', GStr txType)]
      in case createTopicIfNotExists admin topicName of
           Some err \<Rightarrow> (Some err, Producer_ReportError ''pubsub_topic_creation_error'' (Some err) logInfo @
                                 [Metric (Inc ''pubsub_not_connected_total'' [(''record_type'', txType)])])
         | None \<Rightarrow> (let (err, es) = ProvisionTopics admin p txTypes
                   in (err, Log (ActivityLog ''pubsub_topic_created'' logInfo) # es)))"

record pubsub_message =
  ps_Topic :: string
  ps_Data :: bytes
  ps_Attributes :: "(string \<times> string) list"

definition pubsub_Produce ::
    "(pubsub_message \<Rightarrow> string option) \<Rightarrow> int \<Rightarrow> pubsub_producer \<Rightarrow> 'p telemetry_record \<Rightarrow>
     (pubsub_message, 'p) store_action effect list" where
  "pubsub_Produce publish now p entry =
     (let topicName = BuildTopicName (pubsub_namespace p) (rec_TxType entry);
          logInfo = [(''topic_name'', GStr topicName), (''txid'', GStr (rec_Txid entry))];
          entry = entry\<lparr>rec_ProduceTime := now\<rparr>;
          msg = \<lparr>ps_Topic = topicName, ps_Data = rec_PayloadBytes entry, ps_Attributes = Metadata entry\<rparr>
      in case publish msg of
           Some err \<Rightarrow> Producer_ReportError ''pubsub_err'' (Some err) logInfo @ [count_record ''pubsub_err'' entry]
         | None \<Rightarrow> [Act (Store msg)] @
                   ProcessReliableAck (pubsub_reliableAckTxTypes p) ''pubsub_reliable_ack_total'' entry @
                   [add_bytes ''pubsub_publish_total_bytes'' (Length entry) entry, count_record ''pubsub_publish_total'' entry])"

section \<open>ZMQ\<close>

text \<open>\<^verbatim>\<open>zmq_ctxErr\<close> tells whether the context of the producer was cancelled.\<close>

record zmq_producer =
  zmq_namespace :: string
  zmq_sock :: bool
  zmq_reliableAckTxTypes :: "string set"

text \<open>
  The calls that \<^verbatim>\<open>NewProducer\<close> makes, each with its error; reading a key file includes opening and
  decoding it.
\<close>

record zmq_calls =
  zmq_NewSocket :: "string option"
  zmq_Monitor :: "string option"
  zmq_NewMonitor :: "string option"
  zmq_ConnectMonitor :: "string option"
  zmq_ServerKey :: "string \<Rightarrow> string + string"
  zmq_PublicKeys :: "string \<Rightarrow> string + string list"
  zmq_AuthStart :: "string option"
  zmq_ServerAuthCurve :: "string \<Rightarrow> string option"
  zmq_Bind :: "string \<Rightarrow> string option"

datatype zmq_setup =
    AuthCurveAdd string "string list"
  | ServerAuthCurve string string
  | Bind string

text \<open>The first error of a list of calls.\<close>

fun first_error :: "string option list \<Rightarrow> string option" where
  "first_error [] = None"
| "first_error (None # rs) = first_error rs"
| "first_error (Some e # rs) = Some e"

definition logSocketInBackground :: "zmq_calls \<Rightarrow> string option" where
  "logSocketInBackground z = first_error [zmq_Monitor z, zmq_NewMonitor z, zmq_ConnectMonitor z]"

text \<open>The authentication steps, or the error; without a server key there are none.\<close>

definition zmq_auth :: "zmq_calls \<Rightarrow> string \<Rightarrow> string \<Rightarrow> string + zmq_setup list" where
  "zmq_auth z serverKeyPath allowedKeysPath =
     (if serverKeyPath = [] then Inr []
      else case zmq_ServerKey z serverKeyPath of
             Inl err \<Rightarrow> Inl err
           | Inr secret \<Rightarrow>
               (case (if length allowedKeysPath > 0
                      then (case zmq_PublicKeys z allowedKeysPath of Inl err \<Rightarrow> Inl err | Inr keys \<Rightarrow> Inr [AuthCurveAdd ''*'' keys])
                      else Inr []) of
                  Inl err \<Rightarrow> Inl err
                | Inr curves \<Rightarrow>
                    (case first_error [zmq_AuthStart z, zmq_ServerAuthCurve z secret] of
                       Some err \<Rightarrow> Inl err
                     | None \<Rightarrow> Inr (curves @ [ServerAuthCurve ''*'' secret]))))"

definition zmq_NewProducer ::
    "zmq_calls \<Rightarrow> bool \<Rightarrow> string \<Rightarrow> string \<Rightarrow> string \<Rightarrow> string \<Rightarrow> string set \<Rightarrow> string + zmq_producer \<times> zmq_setup list" where
  "zmq_NewProducer z verbose serverKeyPath allowedKeysPath addr namespace reliableAckTxTypes =
     (case zmq_NewSocket z of
        Some err \<Rightarrow> Inl err
      | None \<Rightarrow>
          (case (if verbose then logSocketInBackground z else None) of
             Some err \<Rightarrow> Inl err
           | None \<Rightarrow>
               (case zmq_auth z serverKeyPath allowedKeysPath of
                  Inl err \<Rightarrow> Inl err
                | Inr steps \<Rightarrow>
                    (case zmq_Bind z addr of
                       Some err \<Rightarrow> Inl err
                     | None \<Rightarrow> Inr (\<lparr>zmq_namespace = namespace, zmq_sock = True, zmq_reliableAckTxTypes = reliableAckTxTypes\<rparr>,
                                  steps @ [Bind addr])))))"

text \<open>Sending gives an error, or the number of bytes; \<^verbatim>\<open>cancelled\<close> is the state of the context.\<close>

definition zmq_Produce ::
    "bool \<Rightarrow> (string \<Rightarrow> bytes \<Rightarrow> string + nat) \<Rightarrow> zmq_producer \<Rightarrow> 'p telemetry_record \<Rightarrow> (string \<times> bytes, 'p) store_action effect list" where
  "zmq_Produce cancelled sendMessage p rcd =
     (if cancelled then []
      else let topic = BuildTopicName (zmq_namespace p) (rec_TxType rcd)
           in case sendMessage topic (rec_PayloadBytes rcd) of
                Inl err \<Rightarrow> count_record ''zmq_err'' rcd # Producer_ReportError ''zmq_dispatch_error'' (Some err) []
              | Inr nBytes \<Rightarrow>
                  [Act (Store (topic, rec_PayloadBytes rcd))] @
                  ProcessReliableAck (zmq_reliableAckTxTypes p) ''zmq_reliable_ack_total'' rcd @
                  [add_bytes ''zmq_publish_total_bytes'' nBytes rcd, count_record ''zmq_publish_total'' rcd])"

text \<open>Closing: the error of the socket, if it is there; the producer keeps its socket on an error.\<close>

definition zmq_Close :: "string option \<Rightarrow> zmq_producer \<Rightarrow> zmq_producer \<times> string option" where
  "zmq_Close closeErr p =
     (if zmq_sock p \<and> closeErr \<noteq> None then (p, closeErr) else (p\<lparr>zmq_sock := False\<rparr>, None))"

section \<open>Redis\<close>

record redis_producer =
  redis_timeout :: int
  redis_namespace :: string
  redis_publishVINTopics :: bool
  redis_subscriberSetPrefix :: string
  redis_prometheusEnabled :: bool
  redis_reliableAckTxTypes :: "string set"

definition redis_defaultTimeout :: int where "redis_defaultTimeout = 5 * 10 ^ 9"

text \<open>The options are nil or have addresses; the server is asked twice whether it is there.\<close>

definition redis_NewProducer ::
    "string list option \<Rightarrow> string option \<Rightarrow> string option \<Rightarrow> int \<Rightarrow> bool \<Rightarrow> string \<Rightarrow> string \<Rightarrow> bool \<Rightarrow> string set \<Rightarrow>
     string + redis_producer \<times> log_entry list" where
  "redis_NewProducer addrs ping1 ping2 publishTimeout publishVINTopics subscriberSetPrefix namespace prometheusEnabled reliableAckTxTypes =
     (if addrs = None \<or> addrs = Some [] then Inl ''redis addrs cannot be empty''
      else if \<not> publishVINTopics \<and> subscriberSetPrefix = [] then
        Inl ''redis requires publish_vin_topics or subscriber_set_prefix to be set, otherwise no records are published''
      else case first_error [ping1, ping2] of
             Some err \<Rightarrow> Inl (''redis_connect_error '' @ err)
           | None \<Rightarrow>
               Inr (\<lparr>redis_timeout = (if publishTimeout \<noteq> 0 then publishTimeout else redis_defaultTimeout),
                     redis_namespace = namespace, redis_publishVINTopics = publishVINTopics,
                     redis_subscriberSetPrefix = subscriberSetPrefix, redis_prometheusEnabled = prometheusEnabled,
                     redis_reliableAckTxTypes = reliableAckTxTypes\<rparr>,
                    [ActivityLog ''redis_registered''
                       [(''namespace'', GStr namespace), (''publish_vin_topics'', GBool publishVINTopics),
                        (''subscriber_set_prefix'', GStr subscriberSetPrefix)]]))"

definition vinChannel :: "redis_producer \<Rightarrow> 'p telemetry_record \<Rightarrow> string" where
  "vinChannel p entry = BuildTopicName (redis_namespace p) (rec_TxType entry) @ ''_{'' @ rec_Vin entry @ ''}''"

text \<open>
  The server: sorted sets of channels with their expiry (epoch seconds), as lists in the order of
  their scores. A command can fail; removing the expired entries of a set changes it.
\<close>

record redis_server =
  rs_sets :: "string \<Rightarrow> (string \<times> int) list"
  rs_remErr :: "string option"
  rs_rangeErr :: "string option"
  rs_publishErr :: "string \<Rightarrow> string option"

definition ZRemRangeByScore :: "string \<Rightarrow> int \<Rightarrow> redis_server \<Rightarrow> redis_server" where
  "ZRemRangeByScore key now srv =
     srv\<lparr>rs_sets := (rs_sets srv)(key := filter (\<lambda>(_, score). \<not> score < now) (rs_sets srv key))\<rparr>"

definition subscriberChannels ::
    "int \<Rightarrow> redis_producer \<Rightarrow> 'p telemetry_record \<Rightarrow> redis_server \<Rightarrow> (string + string list) \<times> redis_server" where
  "subscriberChannels now p entry srv =
     (let setKey = redis_subscriberSetPrefix p @ ''_'' @ vinChannel p entry
      in case rs_remErr srv of
           Some err \<Rightarrow> (Inl err, srv)
         | None \<Rightarrow>
             (let srv = ZRemRangeByScore setKey now srv
              in case rs_rangeErr srv of
                   Some err \<Rightarrow> (Inl err, srv)
                 | None \<Rightarrow> (Inr (map fst (rs_sets srv setKey)), srv)))"

definition channelsForRecord ::
    "int \<Rightarrow> redis_producer \<Rightarrow> 'p telemetry_record \<Rightarrow> redis_server \<Rightarrow> (string + string list) \<times> redis_server" where
  "channelsForRecord now p entry srv =
     (let (members, srv) = (if redis_subscriberSetPrefix p \<noteq> [] then subscriberChannels now p entry srv else (Inr [], srv))
      in case members of
           Inl err \<Rightarrow> (Inl err, srv)
         | Inr channels \<Rightarrow> (Inr (channels @ (if redis_publishVINTopics p then [vinChannel p entry] else [])), srv))"

fun redis_publish ::
    "(string \<Rightarrow> string option) \<Rightarrow> 'p telemetry_record \<Rightarrow> string list \<Rightarrow> bool \<times> (string \<times> bytes, 'p) store_action effect list" where
  "redis_publish publishErr entry [] = (True, [])"
| "redis_publish publishErr entry (channel # channels) =
     (case publishErr channel of
        Some err \<Rightarrow>
          (False, Producer_ReportError ''redis_err'' (Some err)
                    [(''channel'', GStr channel), (''vin'', GStr (rec_Vin entry)), (''tx_type'', GStr (rec_TxType entry)),
                     (''txid'', GStr (rec_Txid entry))] @ [count_record ''redis_err'' entry])
      | None \<Rightarrow>
          (let (ok, es) = redis_publish publishErr entry channels
           in (ok, [Act (Store (channel, rec_PayloadBytes entry)), count_record ''redis_publish_total'' entry,
                    add_bytes ''redis_publish_total_bytes'' (Length entry) entry] @ es)))"

definition redis_Produce ::
    "int \<Rightarrow> int \<Rightarrow> redis_producer \<Rightarrow> 'p telemetry_record \<Rightarrow> redis_server \<Rightarrow>
     (string \<times> bytes, 'p) store_action effect list \<times> redis_server" where
  "redis_Produce now1 now2 p entry srv =
     (let entry = entry\<lparr>rec_ProduceTime := now1\<rparr>
      in case channelsForRecord now2 p entry srv of
           (Inl err, srv) \<Rightarrow>
             (Producer_ReportError ''redis_err'' (Some err)
                [(''vin'', GStr (rec_Vin entry)), (''tx_type'', GStr (rec_TxType entry)), (''txid'', GStr (rec_Txid entry))] @
              [count_record ''redis_err'' entry], srv)
         | (Inr channels, srv) \<Rightarrow>
             (let (ok, es) = redis_publish (rs_publishErr srv) entry channels
              in (es @ (if ok then ProcessReliableAck (redis_reliableAckTxTypes p) ''redis_reliable_ack_total'' entry else []), srv)))"

section \<open>The contract of reliable acknowledgements\<close>

definition acked :: "('s, 'p) store_action effect list \<Rightarrow> 'p telemetry_record list" where
  "acked es = List.map_filter (\<lambda>a. case a of AckChan r \<Rightarrow> Some r | _ \<Rightarrow> None) (actions es)"

definition stored :: "('s, 'p) store_action effect list \<Rightarrow> 's list" where
  "stored es = List.map_filter (\<lambda>a. case a of Store x \<Rightarrow> Some x | _ \<Rightarrow> None) (actions es)"

lemma acked_simps [simp]:
  "acked [] = []" "acked (Act (AckChan r) # es) = r # acked es" "acked (Act (Store x) # es) = acked es"
  "acked (Act (ReportLogMessage t m e l) # es) = acked es" "acked (Log g # es) = acked es" "acked (Metric u # es) = acked es"
  by (simp_all add: acked_def List.map_filter_simps)

lemma stored_simps [simp]:
  "stored [] = []" "stored (Act (AckChan r) # es) = stored es" "stored (Act (Store x) # es) = x # stored es"
  "stored (Act (ReportLogMessage t m e l) # es) = stored es" "stored (Log g # es) = stored es" "stored (Metric u # es) = stored es"
  by (simp_all add: stored_def List.map_filter_simps)

lemma acked_append [simp]: "acked (xs @ ys) = acked xs @ acked ys"
  by (simp add: acked_def List.map_filter_def)

lemma stored_append [simp]: "stored (xs @ ys) = stored xs @ stored ys"
  by (simp add: stored_def List.map_filter_def)

lemma ReportError_quiet [simp]:
  "acked (Producer_ReportError m e l) = []" "stored (Producer_ReportError m e l) = []"
  "acked (kafka_logError e') = []" "stored (kafka_logError e') = []"
  by (simp_all add: Producer_ReportError_def kafka_logError_def)

lemma ProcessReliableAck_simps [simp]:
  "acked (ProcessReliableAck ts n r) = (if rec_TxType r \<in> ts then [r] else [])" "stored (ProcessReliableAck ts n r) = []"
  by (simp_all add: ProcessReliableAck_def)

text \<open>A record but for the time at which it was produced.\<close>

definition unstamped :: "'p telemetry_record \<Rightarrow> 'p telemetry_record" where
  "unstamped r = r\<lparr>rec_ProduceTime := 0\<rparr>"

lemma unstamped_stamp [simp]: "unstamped (r\<lparr>rec_ProduceTime := t\<rparr>) = unstamped r"
  by (simp add: unstamped_def)

text \<open>
  The contract: what a producer does with a record, given the answers \<open>w\<close> of the store, acknowledges
  that record once when the store took it and its type is one the producer acknowledges, and
  nothing otherwise.
\<close>

locale reliable_producer =
  fixes handle :: "'c \<Rightarrow> 'w \<Rightarrow> 'p telemetry_record \<Rightarrow> ('s, 'p) store_action effect list"
    and ack_types :: "'c \<Rightarrow> string set"
    and delivered :: "'c \<Rightarrow> 'w \<Rightarrow> 'p telemetry_record \<Rightarrow> bool"
  assumes acks: "map unstamped (acked (handle c w r)) =
      (if delivered c w r \<and> rec_TxType r \<in> ack_types c then [unstamped r] else [])"
begin

lemma at_most_once: "length (acked (handle c w r)) \<le> 1"
  using acks [of c w r] by (metis length_map list.size(3,4) add_0 le_numeral_extra(3,4) One_nat_def zero_le_one)

lemma acks_sequence:
  "map unstamped (acked (concat (map (\<lambda>(w, r). handle c w r) rs))) =
     map (unstamped \<circ> snd) (filter (\<lambda>(w, r). delivered c w r \<and> rec_TxType r \<in> ack_types c) rs)"
proof (induction rs)
  case (Cons wr rs)
  obtain w r where "wr = (w, r)" by force
  with Cons acks [of c w r] show ?case by simp
qed simp

lemma no_ack_type: "rec_TxType r \<notin> ack_types c \<Longrightarrow> acked (handle c w r) = []"
  using acks [of c w r] by simp

end

text \<open>Kafka in two halves: handing the record to the client, and the event that tells of its delivery.\<close>

definition kafka_deliver ::
    "kafka_producer \<Rightarrow>
     ((string \<times> string) list \<Rightarrow> (string \<times> string) list) \<times> ('p kafka_message \<Rightarrow> string option) \<times> int \<times> int \<times> string option \<times> string \<Rightarrow>
     'p telemetry_record \<Rightarrow> ('p kafka_message, 'p) store_action effect list" where
  "kafka_deliver p w r =
     (let (order, client, now1, now2, err, ev) = w; es = kafka_Produce order client now1 now2 p r
      in es @ concat (map (\<lambda>msg. handleProducerEvent p (KafkaMessage err (Some (km_Opaque msg)) ev)) (stored es)))"

lemma kafka_Produce_acked [simp]: "acked (kafka_Produce order client now1 now2 p r) = []"
  by (simp add: kafka_Produce_def Let_def split: option.split)

lemma handle_delivery_stored [simp]: "stored (handleProducerEvent p ev) = []"
  by (cases "(p, ev)" rule: handleProducerEvent.cases) simp_all

lemma kafka_delivery_acked [simp]:
  "acked (handleProducerEvent p (KafkaMessage err (Some r) ev)) =
     (if err = None \<and> rec_TxType r \<in> kafka_reliableAckTxTypes p then [r] else [])"
  by (cases err) simp_all

lemma kafka_acks:
  "map unstamped (acked (kafka_deliver p (order, client, now1, now2, err, ev) r)) =
     (if (stored (kafka_Produce order client now1 now2 p r) \<noteq> [] \<and> err = None) \<and> rec_TxType r \<in> kafka_reliableAckTxTypes p
      then [unstamped r] else [])"
proof -
  have "stored (kafka_Produce order client now1 now2 p r) = [] \<or>
      (\<exists>m. stored (kafka_Produce order client now1 now2 p r) = [m] \<and> km_Opaque m = r\<lparr>rec_ProduceTime := now2\<rparr>)"
    by (simp add: kafka_Produce_def Let_def split: option.split)
  then show ?thesis by (auto simp: kafka_deliver_def)
qed

lemma kinesis_acks:
  "map unstamped (acked (kinesis_Produce putRecord now p r)) =
     (if stored (kinesis_Produce putRecord now p r) \<noteq> [] \<and> rec_TxType r \<in> kinesis_reliableAckTxTypes p then [unstamped r] else [])"
  by (simp add: kinesis_Produce_def Let_def split: option.split sum.split prod.split)

lemma pubsub_acks:
  "map unstamped (acked (pubsub_Produce publish now p r)) =
     (if stored (pubsub_Produce publish now p r) \<noteq> [] \<and> rec_TxType r \<in> pubsub_reliableAckTxTypes p then [unstamped r] else [])"
  by (simp add: pubsub_Produce_def Let_def split: option.split)

lemma zmq_acks:
  "map unstamped (acked (zmq_Produce cancelled send p r)) =
     (if stored (zmq_Produce cancelled send p r) \<noteq> [] \<and> rec_TxType r \<in> zmq_reliableAckTxTypes p then [unstamped r] else [])"
  by (simp add: zmq_Produce_def Let_def split: sum.split)

interpretation kafka: reliable_producer kafka_deliver kafka_reliableAckTxTypes
  "\<lambda>p (order, client, now1, now2, err, ev) r. stored (kafka_Produce order client now1 now2 p r) \<noteq> [] \<and> err = None"
  by unfold_locales (simp only: split_paired_all prod.case kafka_acks)

interpretation kinesis: reliable_producer "\<lambda>p (putRecord, now). kinesis_Produce putRecord now p" kinesis_reliableAckTxTypes
  "\<lambda>p (putRecord, now) r. stored (kinesis_Produce putRecord now p r) \<noteq> []"
  by unfold_locales (simp only: split_paired_all prod.case kinesis_acks)

interpretation pubsub: reliable_producer "\<lambda>p (publish, now). pubsub_Produce publish now p" pubsub_reliableAckTxTypes
  "\<lambda>p (publish, now) r. stored (pubsub_Produce publish now p r) \<noteq> []"
  by unfold_locales (simp only: split_paired_all prod.case pubsub_acks)

interpretation zmq: reliable_producer "\<lambda>p (cancelled, send). zmq_Produce cancelled send p" zmq_reliableAckTxTypes
  "\<lambda>p (cancelled, send) r. stored (zmq_Produce cancelled send p r) \<noteq> []"
  by unfold_locales (simp only: split_paired_all prod.case zmq_acks)

lemma redis_publish_props:
  "fst (redis_publish publishErr r chs) = list_all (\<lambda>ch. publishErr ch = None) chs \<and>
   acked (snd (redis_publish publishErr r chs)) = [] \<and>
   stored (snd (redis_publish publishErr r chs)) = map (\<lambda>ch. (ch, rec_PayloadBytes r)) (takeWhile (\<lambda>ch. publishErr ch = None) chs)"
  by (induction publishErr r chs rule: redis_publish.induct) (auto split: option.splits prod.splits)

definition redis_delivered :: "redis_producer \<Rightarrow> int \<Rightarrow> 'p telemetry_record \<Rightarrow> redis_server \<Rightarrow> bool" where
  "redis_delivered p now r srv =
     (case channelsForRecord now p r srv of
        (Inl _, _) \<Rightarrow> False
      | (Inr chs, srv') \<Rightarrow> list_all (\<lambda>ch. rs_publishErr srv' ch = None) chs)"

lemma channelsForRecord_stamp [simp]: "channelsForRecord now p (r\<lparr>rec_ProduceTime := t\<rparr>) = channelsForRecord now p r"
proof -
  have v: "vinChannel p (r\<lparr>rec_ProduceTime := t\<rparr>) = vinChannel p r" by (simp add: vinChannel_def)
  show ?thesis unfolding fun_eq_iff channelsForRecord_def subscriberChannels_def v by simp
qed

lemma redis_acks:
  "map unstamped (acked (fst (redis_Produce now1 now2 p r srv))) =
     (if redis_delivered p now2 r srv \<and> rec_TxType r \<in> redis_reliableAckTxTypes p then [unstamped r] else [])"
proof -
  obtain res srv' where c: "channelsForRecord now2 p r srv = (res, srv')" by force
  show ?thesis
  proof (cases res)
    case (Inl err)
    then show ?thesis by (simp add: c redis_Produce_def redis_delivered_def Let_def)
  next
    case (Inr chs)
    obtain ok es where "redis_publish (rs_publishErr srv') (r\<lparr>rec_ProduceTime := now1\<rparr>) chs = (ok, es)" by force
    with Inr redis_publish_props [of "rs_publishErr srv'" "r\<lparr>rec_ProduceTime := now1\<rparr>" chs] show ?thesis
      by (simp add: c redis_Produce_def redis_delivered_def Let_def)
  qed
qed

interpretation redis: reliable_producer "\<lambda>p (now1, now2, srv) r. fst (redis_Produce now1 now2 p r srv)" redis_reliableAckTxTypes
  "\<lambda>p (now1, now2, srv) r. redis_delivered p now2 r srv"
  by unfold_locales (simp only: split_paired_all prod.case redis_acks)

section \<open>Properties\<close>

text \<open>
  C14: A datastore acknowledges a record exactly when the store has taken it and the record type is
  one that it acknowledges, and then once. Kafka waits for the delivery event; Kinesis, Pub/Sub and
  ZMQ for the answer to the call; Redis for the publication on all channels of the record.
\<close>

theorem acks_exactly_after_delivery:
  "acked (kafka_Produce order client now1 now2 kp r) = [] \<and>
   acked (handleProducerEvent kp (KafkaMessage err (Some r) ev)) =
     (if err = None \<and> rec_TxType r \<in> kafka_reliableAckTxTypes kp then [r] else []) \<and>
   map unstamped (acked (kinesis_Produce putRecord now np r)) =
     (if stored (kinesis_Produce putRecord now np r) \<noteq> [] \<and> rec_TxType r \<in> kinesis_reliableAckTxTypes np then [unstamped r] else []) \<and>
   map unstamped (acked (pubsub_Produce publish now pp r)) =
     (if stored (pubsub_Produce publish now pp r) \<noteq> [] \<and> rec_TxType r \<in> pubsub_reliableAckTxTypes pp then [unstamped r] else []) \<and>
   map unstamped (acked (zmq_Produce cancelled send zp r)) =
     (if stored (zmq_Produce cancelled send zp r) \<noteq> [] \<and> rec_TxType r \<in> zmq_reliableAckTxTypes zp then [unstamped r] else []) \<and>
   map unstamped (acked (fst (redis_Produce now1 now2 rp r srv))) =
     (if (case channelsForRecord now2 rp r srv of
            (Inl _, _) \<Rightarrow> False
          | (Inr chs, srv') \<Rightarrow> list_all (\<lambda>ch. rs_publishErr srv' ch = None) chs) \<and>
         rec_TxType r \<in> redis_reliableAckTxTypes rp then [unstamped r] else [])"
  using kinesis.acks [of np "(putRecord, now)" r] pubsub.acks [of pp "(publish, now)" r] zmq.acks [of zp "(cancelled, send)" r]
    redis.acks [of rp "(now1, now2, srv)" r]
  by (simp add: redis_delivered_def)

text \<open>
  Redis gets a record on the channels of the subscribers of its vehicle and type whose lease has
  not expired, in their order, and on the channel of the vehicle if that is configured; expired
  subscribers are removed and get nothing. Publishing stops at the first failure.
\<close>

theorem redis_channels:
  assumes "rs_remErr srv = None" and "rs_rangeErr srv = None"
  shows "stored (fst (redis_Produce now1 now2 p r srv)) =
           map (\<lambda>ch. (ch, rec_PayloadBytes r))
             (takeWhile (\<lambda>ch. rs_publishErr srv ch = None)
               ((if redis_subscriberSetPrefix p = [] then []
                 else map fst (filter (\<lambda>(_, expiry). expiry \<ge> now2)
                        (rs_sets srv (redis_subscriberSetPrefix p @ ''_'' @ vinChannel p r)))) @
                (if redis_publishVINTopics p
                 then [redis_namespace p @ ''_'' @ rec_TxType r @ ''_{'' @ rec_Vin r @ ''}''] else [])))"
proof -
  define chs where chs: "chs = (if redis_subscriberSetPrefix p = [] then []
                 else map fst (filter (\<lambda>(_, expiry). expiry \<ge> now2)
                        (rs_sets srv (redis_subscriberSetPrefix p @ ''_'' @ vinChannel p r)))) @
                (if redis_publishVINTopics p
                 then [redis_namespace p @ ''_'' @ rec_TxType r @ ''_{'' @ rec_Vin r @ ''}''] else [])"
  have "\<exists>srv'. channelsForRecord now2 p r srv = (Inr chs, srv') \<and> rs_publishErr srv' = rs_publishErr srv"
    using assms by (cases "redis_subscriberSetPrefix p = []")
      (auto simp: chs channelsForRecord_def subscriberChannels_def ZRemRangeByScore_def Let_def vinChannel_def
        BuildTopicName_def not_less)
  then obtain srv' where c: "channelsForRecord now2 p r srv = (Inr chs, srv')" and e: "rs_publishErr srv' = rs_publishErr srv"
    by blast
  obtain ok es where "redis_publish (rs_publishErr srv') (r\<lparr>rec_ProduceTime := now1\<rparr>) chs = (ok, es)" by force
  with redis_publish_props [of "rs_publishErr srv'" "r\<lparr>rec_ProduceTime := now1\<rparr>" chs] show ?thesis
    unfolding chs [symmetric] by (simp add: c redis_Produce_def Let_def e)
qed

theorem redis_channels_witness:
  "stored (fst (redis_Produce 0 100
      \<lparr>redis_timeout = 5, redis_namespace = ''n'', redis_publishVINTopics = False, redis_subscriberSetPrefix = ''p'',
       redis_prometheusEnabled = False, redis_reliableAckTxTypes = {}\<rparr>
      ((blank_record example_serializer)\<lparr>rec_TxType := ''V'', rec_Vin := ''42'', rec_PayloadBytes := ''x''\<rparr>)
      \<lparr>rs_sets = (\<lambda>_. [(''old'', 99), (''new'', 200)]), rs_remErr = None, rs_rangeErr = None, rs_publishErr = (\<lambda>_. None)\<rparr>)) =
     [(''new'', ''x'')]"
  by (subst redis_channels) simp_all

end
