(* ===== verification/Proto_Fields.thy ===== *)
theory Proto_Fields
  imports Proto_Enums
begin

text \<open>
  The enumeration of the telemetry fields as an instance of the enumeration interface. It stands in
  a theory of its own because its table is long.
\<close>

section \<open>The field enumeration\<close>

text \<open>
  The fields are too many for a pairwise comparison of numbers and of names: the numbers
  increase, and the names are compared with those that have the same first letter.
\<close>

fun increasing :: "int list \<Rightarrow> bool" where
  "increasing (x # y # zs) = (x < y \<and> increasing (y # zs))"
| "increasing _ = True"

fun split_distinct :: "string \<Rightarrow> string list \<Rightarrow> bool" where
  "split_distinct [] xs = distinct xs"
| "split_distinct (c # cs) xs =
     (distinct (filter (\<lambda>s. hd s = c) xs) \<and> split_distinct cs (filter (\<lambda>s. hd s \<noteq> c) xs))"

lemma increasing_distinct: "increasing xs \<Longrightarrow> distinct xs \<and> (\<forall>y \<in> set (tl xs). hd xs < y)"
  by (induction xs rule: increasing.induct) auto

lemma split_distinct_distinct: "split_distinct cs xs \<Longrightarrow> distinct xs"
proof (induction cs xs rule: split_distinct.induct)
  case (2 c cs xs)
  then have "distinct (filter (\<lambda>s. hd s = c) xs)" and "distinct (filter (\<lambda>s. hd s \<noteq> c) xs)" by auto
  then show ?case by (induction xs) (auto split: if_splits)
qed simp

lemma Field_numbers: "distinct (map fst Field_name)"
proof -
  have "increasing (map fst Field_name)" by (simp add: Field_name_def)
  then show ?thesis by (simp add: increasing_distinct)
qed

lemma Field_names: "distinct (map snd Field_name)"
proof -
  have "split_distinct ''DSCEMTLPRHB'' (map snd Field_name)" by code_simp
  then show ?thesis by (rule split_distinct_distinct)
qed

lemma Field_not_numeral: "names_ok (map snd Field_name)"
  by (simp add: Field_name_def names_ok_def is_digit_def)

interpretation Field: proto_enum Field_name
  by unfold_locales (fact Field_numbers Field_names Field_not_numeral)+

end
