(* ===== verification/Mqtt.thy ===== *)
theory Mqtt
  imports Datastores Config Proto_Fields "HOL-Library.Multiset"
begin

text \<open>
  The MQTT datastore (\<^verbatim>\<open>datastore/mqtt\<close>): every field of a payload, every alert, error and connectivity
  event is published on a topic of its own, and the record is acknowledged when the broker has
  confirmed them all. The client library, the JSON encoder, the clock and the order in which Go
  ranges over a map are arguments. A nil pointer that is followed is a panic, \<^const>\<open>None\<close>.
\<close>

section \<open>The producer\<close>

definition DefaultPublishTimeout :: int where "DefaultPublishTimeout = 2500"
definition DefaultConnectTimeout :: int where "DefaultConnectTimeout = 30000"
definition DefaultConnectRetryInterval :: int where "DefaultConnectRetryInterval = 10000"
definition DefaultDisconnectTimeout :: int where "DefaultDisconnectTimeout = 250"
definition DefaultKeepAlive :: int where "DefaultKeepAlive = 30"
definition DefaultQoS :: u8 where "DefaultQoS = 0"

text \<open>A duration is a 64-bit number of nanoseconds; the product wraps around.\<close>

definition duration :: "int \<Rightarrow> int \<Rightarrow> int" where
  "duration n unit = sint (word_of_int (n * unit) :: 64 word)"

abbreviation Millisecond :: int where "Millisecond \<equiv> 1000000"
abbreviation Second_ns :: int where "Second_ns \<equiv> 1000000000"

record client_options =
  opt_Broker :: string
  opt_ClientID :: string
  opt_Username :: string
  opt_Password :: string
  opt_ConnectRetry :: bool
  opt_AutoReconnect :: bool
  opt_ConnectRetryInterval :: int
  opt_ConnectTimeout :: int
  opt_OrderMatters :: bool
  opt_KeepAlive :: int

record mqtt_producer =
  mqtt_config :: mqtt_settings
  mqtt_namespace :: string
  mqtt_reliableAckTxTypes :: "string set"

definition mqtt_defaults :: "mqtt_settings \<Rightarrow> mqtt_settings" where
  "mqtt_defaults config =
     config\<lparr>MQTT_PublishTimeout := (if MQTT_PublishTimeout config = 0 then DefaultPublishTimeout else MQTT_PublishTimeout config),
            MQTT_ConnectTimeout := (if MQTT_ConnectTimeout config = 0 then DefaultConnectTimeout else MQTT_ConnectTimeout config),
            MQTT_DisconnectTimeout := (if MQTT_DisconnectTimeout config = 0 then DefaultDisconnectTimeout else MQTT_DisconnectTimeout config),
            MQTT_ConnectRetryInterval := (if MQTT_ConnectRetryInterval config = 0 then DefaultConnectRetryInterval else MQTT_ConnectRetryInterval config),
            MQTT_QoS := (if MQTT_QoS config = 0 then DefaultQoS else MQTT_QoS config),
            MQTT_KeepAlive := (if MQTT_KeepAlive config = 0 then DefaultKeepAlive else MQTT_KeepAlive config)\<rparr>"

text \<open>The options with which the client is made, and the producer.\<close>

definition mqtt_NewProducer :: "mqtt_settings \<Rightarrow> string \<Rightarrow> string set \<Rightarrow> client_options \<times> mqtt_producer" where
  "mqtt_NewProducer config namespace reliableAckTxTypes =
     (let config = mqtt_defaults config
      in (\<lparr>opt_Broker = MQTT_Broker config, opt_ClientID = MQTT_ClientID config, opt_Username = MQTT_Username config,
           opt_Password = MQTT_Password config, opt_ConnectRetry = True, opt_AutoReconnect = True,
           opt_ConnectRetryInterval = duration (MQTT_ConnectRetryInterval config) Millisecond,
           opt_ConnectTimeout = duration (MQTT_ConnectTimeout config) Millisecond, opt_OrderMatters = False,
           opt_KeepAlive = duration (MQTT_KeepAlive config) Second_ns\<rparr>,
          \<lparr>mqtt_config = config, mqtt_namespace = namespace, mqtt_reliableAckTxTypes = reliableAckTxTypes\<rparr>))"

text \<open>
  A token of the client library: whether its channel is closed when it is polled, whether it completes
  within a duration, and its error.
\<close>

record mqtt_token =
  tok_Done :: bool
  tok_WaitTimeout :: "int \<Rightarrow> bool"
  tok_Error :: "string option"

definition mqtt_defaultTimeout :: int where "mqtt_defaultTimeout = 5 * Second_ns"

definition mqtt_Connect :: "mqtt_token \<Rightarrow> string option" where
  "mqtt_Connect token =
     (if \<not> tok_WaitTimeout token mqtt_defaultTimeout then Some ''connection attempt timed out after 5s''
      else tok_Error token)"

text \<open>The time that \<^verbatim>\<open>Close\<close> gives the client to disconnect.\<close>

definition mqtt_Close :: "mqtt_producer \<Rightarrow> 64 word" where
  "mqtt_Close p = word_of_int (MQTT_DisconnectTimeout (mqtt_config p))"

text \<open>
  The calls that production makes: the JSON encoder, publishing, the error of a timeout, the time
  elapsed at each turn of the waiting loop, and the order of each \<^verbatim>\<open>range\<close> over a map.
\<close>

record mqtt_calls =
  json_Marshal :: "goval \<Rightarrow> string + bytes"
  mqtt_Publish :: "string \<Rightarrow> u8 \<Rightarrow> bool \<Rightarrow> bytes \<Rightarrow> mqtt_token"
  mqtt_TimedOut :: string
  time_Since :: "nat \<Rightarrow> int"
  range_order :: "nat \<Rightarrow> string list \<Rightarrow> string list"

type_synonym publication = "string \<times> u8 \<times> bool \<times> bytes"

definition range_map :: "(string list \<Rightarrow> string list) \<Rightarrow> (string \<times> 'v) list \<Rightarrow> (string \<times> 'v) list" where
  "range_map order m = map (\<lambda>k. (k, the (map_of m k))) (order (map fst m))"

section \<open>Values\<close>

text \<open>
  What protobuf reflection shows of a field: its value with its kind. A message is the list of its
  populated fields; an enumeration comes with its table of names.
\<close>

datatype reflect_value =
    RBool bool
  | RString string
  | RInt int
  | RUint nat
  | RFloat "64 word"
  | RBytes bytes
  | REnum "(int \<times> string) list" int
  | RMessage "(string \<times> reflect_value) list"

definition populated :: "string \<Rightarrow> bool \<Rightarrow> reflect_value \<Rightarrow> (string \<times> reflect_value) list" where
  "populated name present v = (if present then [(name, v)] else [])"

text \<open>The double with the value of a float.\<close>

definition widen :: "32 word \<Rightarrow> 64 word" where
  "widen w =
     (let sign = unat w div 2 ^ 31; bits = unat w mod 2 ^ 31; (m, e) = unpack float32 bits
      in of_nat (sign * 2 ^ 63 +
           (if bits \<ge> inf_bits float32 then inf_bits float64 + (bits - inf_bits float32) * 2 ^ 29
            else round_float float64 (m * 2 ^ nat e) (2 ^ nat (- e)))))"

text \<open>The field of the message \<^verbatim>\<open>Value\<close> that its oneof populates, with the names of \<^verbatim>\<open>vehicle_data.pb.go\<close>.\<close>

primrec oneof_field :: "value_oneof \<Rightarrow> string \<times> reflect_value" where
  "oneof_field (Value_StringValue v) = (''string_value'', RString v)"
| "oneof_field (Value_IntValue v) = (''int_value'', RInt v)"
| "oneof_field (Value_LongValue v) = (''long_value'', RInt v)"
| "oneof_field (Value_FloatValue v) = (''float_value'', RFloat (widen v))"
| "oneof_field (Value_DoubleValue v) = (''double_value'', RFloat v)"
| "oneof_field (Value_BooleanValue v) = (''boolean_value'', RBool v)"
| "oneof_field (Value_LocationValue v) = (''location_value'', RMessage (concat [populated ''latitude''
       (Latitude v \<noteq> 0) (RFloat (Latitude v)), populated ''longitude'' (Longitude v \<noteq> 0)
       (RFloat (Longitude v))]))"
| "oneof_field (Value_ChargingValue v) = (''charging_value'', REnum ChargingState_name v)"
| "oneof_field (Value_ShiftStateValue v) = (''shift_state_value'', REnum ShiftState_name v)"
| "oneof_field (Value_Invalid v) = (''invalid'', RBool v)"
| "oneof_field (Value_LaneAssistLevelValue v) = (''lane_assist_level_value'', REnum LaneAssistLevel_name v)"
| "oneof_field (Value_ScheduledChargingModeValue v) = (''scheduled_charging_mode_value'', REnum
       ScheduledChargingModeValue_name v)"
| "oneof_field (Value_SentryModeStateValue v) = (''sentry_mode_state_value'', REnum SentryModeState_name v)"
| "oneof_field (Value_SpeedAssistLevelValue v) = (''speed_assist_level_value'', REnum SpeedAssistLevel_name
       v)"
| "oneof_field (Value_BmsStateValue v) = (''bms_state_value'', REnum BMSStateValue_name v)"
| "oneof_field (Value_BuckleStatusValue v) = (''buckle_status_value'', REnum BuckleStatus_name v)"
| "oneof_field (Value_CarTypeValue v) = (''car_type_value'', REnum CarTypeValue_name v)"
| "oneof_field (Value_ChargePortValue v) = (''charge_port_value'', REnum ChargePortValue_name v)"
| "oneof_field (Value_ChargePortLatchValue v) = (''charge_port_latch_value'', REnum
       ChargePortLatchValue_name v)"
| "oneof_field (Value_DoorValue v) = (''door_value'', RMessage (concat [populated ''DriverFront''
       (DriverFront v) (RBool (DriverFront v)), populated ''DriverRear'' (DriverRear v) (RBool
       (DriverRear v)), populated ''PassengerFront'' (PassengerFront v) (RBool (PassengerFront v)),
       populated ''PassengerRear'' (PassengerRear v) (RBool (PassengerRear v)), populated ''TrunkFront''
       (TrunkFront v) (RBool (TrunkFront v)), populated ''TrunkRear'' (TrunkRear v) (RBool (TrunkRear
       v))]))"
| "oneof_field (Value_DriveInverterStateValue v) = (''drive_inverter_state_value'', REnum
       DriveInverterState_name v)"
| "oneof_field (Value_HvilStatusValue v) = (''hvil_status_value'', REnum HvilStatus_name v)"
| "oneof_field (Value_WindowStateValue v) = (''window_state_value'', REnum WindowState_name v)"
| "oneof_field (Value_SeatFoldPositionValue v) = (''seat_fold_position_value'', REnum SeatFoldPosition_name
       v)"
| "oneof_field (Value_TractorAirStatusValue v) = (''tractor_air_status_value'', REnum TractorAirStatus_name
       v)"
| "oneof_field (Value_FollowDistanceValue v) = (''follow_distance_value'', REnum FollowDistance_name v)"
| "oneof_field (Value_ForwardCollisionSensitivityValue v) = (''forward_collision_sensitivity_value'', REnum
       ForwardCollisionSensitivity_name v)"
| "oneof_field (Value_GuestModeMobileAccessValue v) = (''guest_mode_mobile_access_value'', REnum
       GuestModeMobileAccess_name v)"
| "oneof_field (Value_TrailerAirStatusValue v) = (''trailer_air_status_value'', REnum TrailerAirStatus_name
       v)"
| "oneof_field (Value_TimeValue v) = (''time_value'', RMessage (concat [populated ''hour'' (Hour v \<noteq>
       0) (RInt (Hour v)), populated ''minute'' (Minute v \<noteq> 0) (RInt (Minute v)), populated
       ''second'' (Second v \<noteq> 0) (RInt (Second v))]))"
| "oneof_field (Value_DetailedChargeStateValue v) = (''detailed_charge_state_value'', REnum
       DetailedChargeStateValue_name v)"
| "oneof_field (Value_HvacAutoModeValue v) = (''hvac_auto_mode_value'', REnum HvacAutoModeState_name v)"
| "oneof_field (Value_CabinOverheatProtectionModeValue v) = (''cabin_overheat_protection_mode_value'',
       REnum CabinOverheatProtectionModeState_name v)"
| "oneof_field (Value_CabinOverheatProtectionTemperatureLimitValue v) =
       (''cabin_overheat_protection_temperature_limit_value'', REnum
       ClimateOverheatProtectionTempLimit_name v)"
| "oneof_field (Value_DefrostModeValue v) = (''defrost_mode_value'', REnum DefrostModeState_name v)"
| "oneof_field (Value_ClimateKeeperModeValue v) = (''climate_keeper_mode_value'', REnum
       ClimateKeeperModeState_name v)"
| "oneof_field (Value_HvacPowerValue v) = (''hvac_power_value'', REnum HvacPowerState_name v)"
| "oneof_field (Value_TireLocationValue v) = (''tire_location_value'', RMessage (concat [populated
       ''front_left'' (FrontLeft v) (RBool (FrontLeft v)), populated ''front_right'' (FrontRight v)
       (RBool (FrontRight v)), populated ''rear_left'' (RearLeft v) (RBool (RearLeft v)), populated
       ''rear_right'' (RearRight v) (RBool (RearRight v)), populated ''semi_middle_axle_left_2''
       (SemiMiddleAxleLeft_2 v) (RBool (SemiMiddleAxleLeft_2 v)), populated ''semi_middle_axle_right_2''
       (SemiMiddleAxleRight_2 v) (RBool (SemiMiddleAxleRight_2 v)), populated ''semi_rear_axle_left''
       (SemiRearAxleLeft v) (RBool (SemiRearAxleLeft v)), populated ''semi_rear_axle_right''
       (SemiRearAxleRight v) (RBool (SemiRearAxleRight v)), populated ''semi_rear_axle_left_2''
       (SemiRearAxleLeft_2 v) (RBool (SemiRearAxleLeft_2 v)), populated ''semi_rear_axle_right_2''
       (SemiRearAxleRight_2 v) (RBool (SemiRearAxleRight_2 v))]))"
| "oneof_field (Value_FastChargerValue v) = (''fast_charger_value'', REnum FastCharger_name v)"
| "oneof_field (Value_CableTypeValue v) = (''cable_type_value'', REnum CableType_name v)"
| "oneof_field (Value_TonneauTentModeValue v) = (''tonneau_tent_mode_value'', REnum
       TonneauTentModeState_name v)"
| "oneof_field (Value_TonneauPositionValue v) = (''tonneau_position_value'', REnum
       TonneauPositionState_name v)"
| "oneof_field (Value_PowershareTypeValue v) = (''powershare_type_value'', REnum PowershareTypeStatus_name
       v)"
| "oneof_field (Value_PowershareStateValue v) = (''powershare_state_value'', REnum PowershareState_name v)"
| "oneof_field (Value_PowershareStopReasonValue v) = (''powershare_stop_reason_value'', REnum
       PowershareStopReasonStatus_name v)"
| "oneof_field (Value_DisplayStateValue v) = (''display_state_value'', REnum DisplayState_name v)"
| "oneof_field (Value_DistanceUnitValue v) = (''distance_unit_value'', REnum DistanceUnit_name v)"
| "oneof_field (Value_TemperatureUnitValue v) = (''temperature_unit_value'', REnum TemperatureUnit_name v)"
| "oneof_field (Value_PressureUnitValue v) = (''pressure_unit_value'', REnum PressureUnit_name v)"
| "oneof_field (Value_ChargeUnitPreferenceValue v) = (''charge_unit_preference_value'', REnum
       ChargeUnitPreference_name v)"
| "oneof_field (Value_TurnSignalStateValue v) = (''turn_signal_state_value'', REnum TurnSignalState_name v)"
| "oneof_field (Value_MediaStatusValue v) = (''media_status_value'', REnum MediaStatus_name v)"
| "oneof_field (Value_SunroofInstalledStateValue v) = (''sunroof_installed_state_value'', REnum
       SunroofInstalledState_name v)"

definition Value_fields :: "pb_value \<Rightarrow> (string \<times> reflect_value) list" where
  "Value_fields v = (case v of None \<Rightarrow> [] | Some x \<Rightarrow> [oneof_field x])"

fun reflect_goval :: "reflect_value \<Rightarrow> goval" and reflect_fields :: "(string \<times> reflect_value) list \<Rightarrow> (string \<times> goval) list" where
  "reflect_goval (RBool b) = GBool b"
| "reflect_goval (RString s) = GStr s"
| "reflect_goval (RInt i) = GInt i"
| "reflect_goval (RUint n) = GInt (int n)"
| "reflect_goval (RFloat f) = GFloat64 f"
| "reflect_goval (RBytes b) = GBytes b"
| "reflect_goval (REnum names i) = (case map_of names i of Some n \<Rightarrow> GStr n | None \<Rightarrow> GInt i)"
| "reflect_goval (RMessage fs) = GMap (reflect_fields fs)"
| "reflect_fields [] = []"
| "reflect_fields ((name, v) # fs) = (name, reflect_goval v) # reflect_fields fs"

definition getProtoValue :: "(string \<times> reflect_value) list \<Rightarrow> bool \<Rightarrow> goval" where
  "getProtoValue fs returnAsToplevel =
     (case reflect_fields fs of
        [(_, v)] \<Rightarrow> if returnAsToplevel then v else GMap (reflect_fields fs)
      | result \<Rightarrow> GMap result)"

text \<open>The cases of the switch; \<^const>\<open>None\<close> is its default.\<close>

primrec getDatumValue_case :: "value_oneof \<Rightarrow> goval option" where
  "getDatumValue_case (Value_StringValue v) = Some (GStr v)"
| "getDatumValue_case (Value_IntValue v) = Some (GInt v)"
| "getDatumValue_case (Value_LongValue v) = Some (GInt v)"
| "getDatumValue_case (Value_FloatValue v) = Some (GFloat32 v)"
| "getDatumValue_case (Value_DoubleValue v) = Some (GFloat64 v)"
| "getDatumValue_case (Value_BooleanValue v) = Some (GBool v)"
| "getDatumValue_case (Value_LocationValue v) = Some (GMap [(''latitude'', GFloat64 (Latitude v)),
       (''longitude'', GFloat64 (Longitude v))])"
| "getDatumValue_case (Value_ChargingValue v) = None"
| "getDatumValue_case (Value_ShiftStateValue v) = Some (GStr (enum_String ShiftState_name v))"
| "getDatumValue_case (Value_Invalid v) = Some (GNil)"
| "getDatumValue_case (Value_LaneAssistLevelValue v) = Some (GStr (enum_String LaneAssistLevel_name v))"
| "getDatumValue_case (Value_ScheduledChargingModeValue v) = Some (GStr (enum_String
       ScheduledChargingModeValue_name v))"
| "getDatumValue_case (Value_SentryModeStateValue v) = Some (GStr (enum_String SentryModeState_name v))"
| "getDatumValue_case (Value_SpeedAssistLevelValue v) = Some (GStr (enum_String SpeedAssistLevel_name v))"
| "getDatumValue_case (Value_BmsStateValue v) = Some (GStr (enum_String BMSStateValue_name v))"
| "getDatumValue_case (Value_BuckleStatusValue v) = Some (GStr (enum_String BuckleStatus_name v))"
| "getDatumValue_case (Value_CarTypeValue v) = Some (GStr (enum_String CarTypeValue_name v))"
| "getDatumValue_case (Value_ChargePortValue v) = Some (GStr (enum_String ChargePortValue_name v))"
| "getDatumValue_case (Value_ChargePortLatchValue v) = Some (GStr (enum_String ChargePortLatchValue_name
       v))"
| "getDatumValue_case (Value_DoorValue v) = Some (GMap [(''DriverFront'', GBool (DriverFront v)),
       (''PassengerFront'', GBool (PassengerFront v)), (''DriverRear'', GBool (DriverRear v)),
       (''PassengerRear'', GBool (PassengerRear v)), (''TrunkFront'', GBool (TrunkFront v)),
       (''TrunkRear'', GBool (TrunkRear v))])"
| "getDatumValue_case (Value_DriveInverterStateValue v) = Some (GStr (enum_String DriveInverterState_name
       v))"
| "getDatumValue_case (Value_HvilStatusValue v) = Some (GStr (enum_String HvilStatus_name v))"
| "getDatumValue_case (Value_WindowStateValue v) = Some (GStr (enum_String WindowState_name v))"
| "getDatumValue_case (Value_SeatFoldPositionValue v) = Some (GStr (enum_String SeatFoldPosition_name v))"
| "getDatumValue_case (Value_TractorAirStatusValue v) = Some (GStr (enum_String TractorAirStatus_name v))"
| "getDatumValue_case (Value_FollowDistanceValue v) = Some (GStr (enum_String FollowDistance_name v))"
| "getDatumValue_case (Value_ForwardCollisionSensitivityValue v) = Some (GStr (enum_String
       ForwardCollisionSensitivity_name v))"
| "getDatumValue_case (Value_GuestModeMobileAccessValue v) = Some (GStr (enum_String
       GuestModeMobileAccess_name v))"
| "getDatumValue_case (Value_TrailerAirStatusValue v) = Some (GStr (enum_String TrailerAirStatus_name v))"
| "getDatumValue_case (Value_TimeValue v) = Some (GStr (Sprintf_02d (Hour v) @ '':'' @ Sprintf_02d (Minute
       v) @ '':'' @ Sprintf_02d (Second v)))"
| "getDatumValue_case (Value_DetailedChargeStateValue v) = Some (GStr (enum_String
       DetailedChargeStateValue_name v))"
| "getDatumValue_case (Value_HvacAutoModeValue v) = None"
| "getDatumValue_case (Value_CabinOverheatProtectionModeValue v) = None"
| "getDatumValue_case (Value_CabinOverheatProtectionTemperatureLimitValue v) = None"
| "getDatumValue_case (Value_DefrostModeValue v) = None"
| "getDatumValue_case (Value_ClimateKeeperModeValue v) = None"
| "getDatumValue_case (Value_HvacPowerValue v) = None"
| "getDatumValue_case (Value_TireLocationValue v) = None"
| "getDatumValue_case (Value_FastChargerValue v) = None"
| "getDatumValue_case (Value_CableTypeValue v) = None"
| "getDatumValue_case (Value_TonneauTentModeValue v) = None"
| "getDatumValue_case (Value_TonneauPositionValue v) = None"
| "getDatumValue_case (Value_PowershareTypeValue v) = None"
| "getDatumValue_case (Value_PowershareStateValue v) = None"
| "getDatumValue_case (Value_PowershareStopReasonValue v) = None"
| "getDatumValue_case (Value_DisplayStateValue v) = None"
| "getDatumValue_case (Value_DistanceUnitValue v) = None"
| "getDatumValue_case (Value_TemperatureUnitValue v) = None"
| "getDatumValue_case (Value_PressureUnitValue v) = None"
| "getDatumValue_case (Value_ChargeUnitPreferenceValue v) = None"
| "getDatumValue_case (Value_TurnSignalStateValue v) = Some (GStr (enum_String TurnSignalState_name v))"
| "getDatumValue_case (Value_MediaStatusValue v) = Some (GStr (enum_String MediaStatus_name v))"
| "getDatumValue_case (Value_SunroofInstalledStateValue v) = Some (GStr (enum_String
       SunroofInstalledState_name v))"

definition getDatumValue :: "pb_value option \<Rightarrow> goval option" where
  "getDatumValue value =
     (case value of
        None \<Rightarrow> None
      | Some v \<Rightarrow>
          Some (case Option.bind v getDatumValue_case of
                  Some g \<Rightarrow> g
                | None \<Rightarrow> getProtoValue (Value_fields v) True))"

fun payloadToMap_loop :: "datum option list \<Rightarrow> (string \<times> goval) list \<Rightarrow> (string \<times> goval) list option" where
  "payloadToMap_loop [] convertedPayload = Some convertedPayload"
| "payloadToMap_loop (None # ds) convertedPayload = None"
| "payloadToMap_loop (Some datum # ds) convertedPayload =
     (case getDatumValue (Value datum) of
        None \<Rightarrow> None
      | Some v \<Rightarrow> payloadToMap_loop ds (map_put (enum_String Field_name (Key datum)) v convertedPayload))"

definition payloadToMap :: "payload \<Rightarrow> (string \<times> goval) list option" where
  "payloadToMap payload = payloadToMap_loop (Payload_Data payload) []"

definition time_entry :: "string \<Rightarrow> timestamp option \<Rightarrow> (string \<times> goval) list" where
  "time_entry name t = (case t of None \<Rightarrow> [] | Some _ \<Rightarrow> [(name, GStr (Format_RFC3339 (AsTime_Unix t)))])"

definition vehicleAlertToMqttMap :: "vehicle_alert \<Rightarrow> goval" where
  "vehicleAlertToMqttMap alert =
     GMap (time_entry ''StartedAt'' (Alert_StartedAt alert) @ time_entry ''EndedAt'' (Alert_EndedAt alert) @
       [(''Audiences'', case Alert_Audiences alert of
                        None \<Rightarrow> GNil
                      | Some audiences \<Rightarrow> GList (map (\<lambda>audience. GStr (enum_String Audience_name audience)) audiences))])"

text \<open>The tags are a map that is nil when it has no entries.\<close>

definition vehicleErrorToMqttMap :: "vehicle_error \<Rightarrow> goval" where
  "vehicleErrorToMqttMap vehicleError =
     GMap ([(''Body'', GStr (Error_Body vehicleError)),
            (''Tags'', if Error_Tags vehicleError = [] then GNil else GMap (map (\<lambda>(k, v). (k, GStr v)) (Error_Tags vehicleError)))] @
           time_entry ''CreatedAt'' (Error_CreatedAt vehicleError))"

section \<open>Publication\<close>

definition mqtt_updateMetrics :: "string \<Rightarrow> nat \<Rightarrow> ('s, 'p) store_action effect list" where
  "mqtt_updateMetrics txType byteCount =
     [Metric (Add ''mqtt_publish_total_bytes'' (int byteCount) [(''record_type'', txType)]),
      Metric (Inc ''mqtt_publish_total'' [(''record_type'', txType)])]"

definition mqtt_createLogInfo :: "mqtt_producer \<Rightarrow> 'p telemetry_record \<Rightarrow> log_info" where
  "mqtt_createLogInfo p rcd =
     [(''topic_name'', GStr (BuildTopicName (mqtt_namespace p) (rec_TxType rcd))), (''txid'', GStr (rec_Txid rcd)),
      (''vin'', GStr (rec_Vin rcd))]"

abbreviation marshal_error :: "string \<Rightarrow> string \<Rightarrow> string" where
  "marshal_error topicName err \<equiv> ''failed to marshal JSON for MQTT topic '' @ topicName @ '': '' @ err"

text \<open>
  The loop body that the fields, the alerts and the errors share: encode, publish, keep the token,
  count. The result is the error that ended the loop, the tokens and the effects.
\<close>

fun mqtt_publishAll ::
    "mqtt_calls \<Rightarrow> mqtt_producer \<Rightarrow> 'p telemetry_record \<Rightarrow> (string \<times> goval) list \<Rightarrow>
     string option \<times> mqtt_token list \<times> (publication, 'p) store_action effect list" where
  "mqtt_publishAll calls p rcd [] = (None, [], [])"
| "mqtt_publishAll calls p rcd ((topicName, val) # ts) =
     (case json_Marshal calls val of
        Inl err \<Rightarrow> (Some (marshal_error topicName err), [], [])
      | Inr jsonValue \<Rightarrow>
          (let qos = MQTT_QoS (mqtt_config p); retained = MQTT_Retained (mqtt_config p);
               token = mqtt_Publish calls topicName qos retained jsonValue;
               (err, tokens, es) = mqtt_publishAll calls p rcd ts
           in (err, token # tokens,
               Act (Store (topicName, qos, retained, jsonValue)) # mqtt_updateMetrics (rec_TxType rcd) (length jsonValue) @ es)))"

definition mqtt_topic :: "mqtt_producer \<Rightarrow> 'p telemetry_record \<Rightarrow> string \<Rightarrow> string" where
  "mqtt_topic p rcd rest = MQTT_TopicBase (mqtt_config p) @ ''/'' @ rec_Vin rcd @ ''/'' @ rest"

definition processVehicleFields ::
    "mqtt_calls \<Rightarrow> mqtt_producer \<Rightarrow> 'p telemetry_record \<Rightarrow> payload \<Rightarrow>
     (string option \<times> mqtt_token list \<times> (publication, 'p) store_action effect list) option" where
  "processVehicleFields calls p rcd payload =
     map_option (\<lambda>convertedPayload.
         mqtt_publishAll calls p rcd
           (map (\<lambda>(key, val). (mqtt_topic p rcd (''v/'' @ key), val)) (range_map (range_order calls 0) convertedPayload)))
       (payloadToMap payload)"

text \<open>One alert: it joins the history of its name, and becomes current if it started last.\<close>

definition gatherAlert ::
    "(string \<times> vehicle_alert list) list \<times> (string \<times> vehicle_alert) list \<Rightarrow> vehicle_alert \<Rightarrow>
     (string \<times> vehicle_alert list) list \<times> (string \<times> vehicle_alert) list" where
  "gatherAlert = (\<lambda>(alertsHistory, alertsCurrentState) alert.
     let name = Alert_Name alert
     in (map_put name ((case map_of alertsHistory name of None \<Rightarrow> [] | Some as \<Rightarrow> as) @ [alert]) alertsHistory,
         case Alert_StartedAt alert of
           None \<Rightarrow> alertsCurrentState
         | Some started \<Rightarrow>
             (if (case map_of alertsCurrentState name of
                    None \<Rightarrow> True
                  | Some mostCurrentAlert \<Rightarrow>
                      (case Alert_StartedAt mostCurrentAlert of
                         None \<Rightarrow> AsTime_UnixNano started > 0
                       | Some t \<Rightarrow> AsTime_UnixNano started > AsTime_UnixNano t))
              then map_put name alert alertsCurrentState
              else alertsCurrentState)))"

definition processVehicleAlerts ::
    "mqtt_calls \<Rightarrow> mqtt_producer \<Rightarrow> 'p telemetry_record \<Rightarrow> vehicle_alerts \<Rightarrow>
     string option \<times> mqtt_token list \<times> (publication, 'p) store_action effect list" where
  "processVehicleAlerts calls p rcd payload =
     (let (alertsHistory, alertsCurrentState) = foldl gatherAlert ([], []) (Alerts_Alerts payload)
      in mqtt_publishAll calls p rcd
           (map (\<lambda>(_, alert). (mqtt_topic p rcd (''alerts/'' @ Alert_Name alert @ ''/current''), vehicleAlertToMqttMap alert))
              (range_map (range_order calls 0) alertsCurrentState) @
            map (\<lambda>(alertName, alerts). (mqtt_topic p rcd (''alerts/'' @ alertName @ ''/history''), GList (map vehicleAlertToMqttMap alerts)))
              (range_map (range_order calls 1) alertsHistory)))"

definition processVehicleErrors ::
    "mqtt_calls \<Rightarrow> mqtt_producer \<Rightarrow> 'p telemetry_record \<Rightarrow> vehicle_errors \<Rightarrow>
     string option \<times> mqtt_token list \<times> (publication, 'p) store_action effect list" where
  "processVehicleErrors calls p rcd payload =
     mqtt_publishAll calls p rcd
       (map (\<lambda>vehicleError. (mqtt_topic p rcd (''errors/'' @ Error_Name vehicleError), vehicleErrorToMqttMap vehicleError))
          (Errors_Errors payload))"

definition processVehicleConnectivity ::
    "mqtt_calls \<Rightarrow> mqtt_producer \<Rightarrow> 'p telemetry_record \<Rightarrow> vehicle_connectivity \<Rightarrow>
     string option \<times> mqtt_token list \<times> (publication, 'p) store_action effect list" where
  "processVehicleConnectivity calls p rcd payload =
     (let topicName = mqtt_topic p rcd ''connectivity'';
          val = GMap [(''ConnectionId'', GStr (Connectivity_ConnectionId payload)),
                      (''Status'', GStr (enum_String ConnectivityEvent_name (Connectivity_Status payload))),
                      (''CreatedAt'', GStr (Format_RFC3339 (AsTime_Unix (Connectivity_CreatedAt payload))))];
          qos = MQTT_QoS (mqtt_config p); retained = MQTT_Retained (mqtt_config p)
      in case json_Marshal calls val of
           Inl err \<Rightarrow> (Some (marshal_error topicName err), [], [])
         | Inr jsonValue \<Rightarrow> (None, [mqtt_Publish calls topicName qos retained jsonValue],
                            [Act (Store (topicName, qos, retained, jsonValue))]))"

definition waitTokenTimeout :: "string \<Rightarrow> mqtt_token \<Rightarrow> int \<Rightarrow> string option" where
  "waitTokenTimeout timedOut t d =
     (if d = 0 then (if tok_Done t then tok_Error t else Some timedOut)
      else if \<not> tok_WaitTimeout t d then Some timedOut
      else tok_Error t)"

definition remainingTimeout :: "int \<Rightarrow> int \<Rightarrow> int" where
  "remainingTimeout timeout since = max 0 (timeout - since)"

text \<open>The waiting loop; \<open>i\<close> counts its turns. The result tells whether all tokens succeeded.\<close>

fun waitTokens ::
    "mqtt_calls \<Rightarrow> mqtt_producer \<Rightarrow> 'p telemetry_record \<Rightarrow> int \<Rightarrow> nat \<Rightarrow> mqtt_token list \<Rightarrow>
     bool \<times> (publication, 'p) store_action effect list" where
  "waitTokens calls p rcd timeout i [] = (True, [])"
| "waitTokens calls p rcd timeout i (token # tokens) =
     (let (ok, es) = waitTokens calls p rcd timeout (Suc i) tokens
      in case waitTokenTimeout (mqtt_TimedOut calls) token (remainingTimeout timeout (time_Since calls i)) of
           None \<Rightarrow> (ok, es)
         | Some err \<Rightarrow>
             (False, count_record ''mqtt_err'' rcd # Producer_ReportError ''mqtt_publish_error'' (Some err) (mqtt_createLogInfo p rcd) @ es))"

definition process_message ::
    "mqtt_calls \<Rightarrow> mqtt_producer \<Rightarrow> 'p telemetry_record \<Rightarrow> proto_message \<Rightarrow>
     (string option \<times> mqtt_token list \<times> (publication, 'p) store_action effect list) option" where
  "process_message calls p rcd message =
     (case message of
        PayloadMessage payload \<Rightarrow> processVehicleFields calls p rcd payload
      | AlertsMessage payload \<Rightarrow> Some (processVehicleAlerts calls p rcd payload)
      | ErrorsMessage payload \<Rightarrow> Some (processVehicleErrors calls p rcd payload)
      | ConnectivityMessage payload \<Rightarrow> Some (processVehicleConnectivity calls p rcd payload))"

definition mqtt_Produce ::
    "mqtt_calls \<Rightarrow> bool \<Rightarrow> mqtt_producer \<Rightarrow> 'p telemetry_record \<Rightarrow> (publication, 'p) store_action effect list option" where
  "mqtt_Produce calls cancelled p rcd =
     (if cancelled then Some []
      else case rec_protoMessage rcd of
             None \<Rightarrow> Some (Producer_ReportError ''mqtt_unknown_payload_type'' None (mqtt_createLogInfo p rcd))
           | Some message \<Rightarrow>
               (case process_message calls p rcd message of
                  None \<Rightarrow> None
                | Some (Some err, tokens, es) \<Rightarrow>
                    Some (es @ count_record ''mqtt_err'' rcd #
                      Producer_ReportError ''mqtt_process_payload_error'' (Some err) (mqtt_createLogInfo p rcd))
                | Some (None, tokens, es) \<Rightarrow>
                    (let (ok, ws) = waitTokens calls p rcd (duration (MQTT_PublishTimeout (mqtt_config p)) Millisecond) 0 tokens
                     in Some (es @ ws @
                          (if ok then ProcessReliableAck (mqtt_reliableAckTxTypes p) ''mqtt_reliable_ack_total'' rcd else [])))))"

section \<open>Lemmas\<close>

lemma updateMetrics_quiet [simp]: "acked (mqtt_updateMetrics t n) = []" "stored (mqtt_updateMetrics t n) = []"
  by (simp_all add: mqtt_updateMetrics_def)

lemma publishAll_acked [simp]: "acked (snd (snd (mqtt_publishAll calls p rcd ts))) = []"
  by (induction calls p rcd ts rule: mqtt_publishAll.induct) (auto split: sum.split prod.split simp: Let_def)

text \<open>Every publication has its token, in the same order.\<close>

abbreviation publication_token :: "mqtt_calls \<Rightarrow> publication \<Rightarrow> mqtt_token" where
  "publication_token calls \<equiv> (\<lambda>(topic, qos, retained, json). mqtt_Publish calls topic qos retained json)"

lemma publishAll_tokens:
  "fst (snd (mqtt_publishAll calls p rcd ts)) = map (publication_token calls) (stored (snd (snd (mqtt_publishAll calls p rcd ts))))"
  by (induction calls p rcd ts rule: mqtt_publishAll.induct) (auto split: sum.split prod.split simp: Let_def)

lemma publishAll_stored:
  assumes "\<And>g. json_Marshal calls g = Inr (enc g)"
  shows "\<exists>tokens es. mqtt_publishAll calls p rcd ts = (None, tokens, es) \<and>
           stored es = map (\<lambda>(topic, v). (topic, MQTT_QoS (mqtt_config p), MQTT_Retained (mqtt_config p), enc v)) ts"
  by (induction ts) (auto simp: assms Let_def)

lemma process_message_tokens:
  assumes "process_message calls p rcd message = Some (err, tokens, es)"
  shows "tokens = map (publication_token calls) (stored es) \<and> acked es = []"
proof -
  have all: "mqtt_publishAll calls p rcd ts = (err, tokens, es) \<Longrightarrow> ?thesis" for ts
    using publishAll_tokens [of calls p rcd ts] publishAll_acked [of calls p rcd ts] by simp
  show ?thesis
  proof (cases message)
    case (ConnectivityMessage c)
    with assms show ?thesis
      by (auto simp: process_message_def processVehicleConnectivity_def Let_def split: sum.splits)
  qed (use assms all in \<open>auto simp: process_message_def processVehicleFields_def processVehicleAlerts_def
        processVehicleErrors_def Let_def split: prod.splits\<close>)
qed

lemma waitTokens_ok:
  "fst (waitTokens calls p rcd timeout i tokens) \<longleftrightarrow>
     (\<forall>j < length tokens. waitTokenTimeout (mqtt_TimedOut calls) (tokens ! j) (remainingTimeout timeout (time_Since calls (i + j))) = None)"
proof (induction calls p rcd timeout i tokens rule: waitTokens.induct)
  case (2 calls p rcd timeout i token tokens)
  then show ?case by (auto simp: Let_def less_Suc_eq_0_disj all_conj_distrib split: option.splits prod.splits)
qed simp

lemma waitTokens_quiet [simp]:
  "acked (snd (waitTokens calls p rcd timeout i tokens)) = []" "stored (snd (waitTokens calls p rcd timeout i tokens)) = []"
  by (induction calls p rcd timeout i tokens rule: waitTokens.induct) (auto simp: Let_def split: option.splits prod.splits)

text \<open>When a record counts as delivered: it was processed without error and no publication failed in time.\<close>

definition mqtt_delivered :: "mqtt_calls \<Rightarrow> bool \<Rightarrow> mqtt_producer \<Rightarrow> 'p telemetry_record \<Rightarrow> bool" where
  "mqtt_delivered calls cancelled p rcd \<longleftrightarrow> \<not> cancelled \<and>
     (\<exists>message tokens es. rec_protoMessage rcd = Some message \<and> process_message calls p rcd message = Some (None, tokens, es) \<and>
        (\<forall>i < length tokens. waitTokenTimeout (mqtt_TimedOut calls) (tokens ! i)
            (remainingTimeout (duration (MQTT_PublishTimeout (mqtt_config p)) Millisecond) (time_Since calls i)) = None))"

lemma mqtt_Produce_delivers:
  assumes "process_message calls p rcd message = Some (None, tokens, es)" and "rec_protoMessage rcd = Some message"
  shows "\<exists>es'. mqtt_Produce calls False p rcd = Some es' \<and> stored es' = stored es \<and>
           acked es' = (if mqtt_delivered calls False p rcd \<and> rec_TxType rcd \<in> mqtt_reliableAckTxTypes p then [rcd] else [])"
proof -
  let ?t = "duration (MQTT_PublishTimeout (mqtt_config p)) Millisecond"
  obtain ok ws where w: "waitTokens calls p rcd ?t 0 tokens = (ok, ws)" by force
  with waitTokens_ok [of calls p rcd ?t 0 tokens] have "ok \<longleftrightarrow> mqtt_delivered calls False p rcd"
    using assms by (simp add: mqtt_delivered_def)
  moreover have "acked ws = []" "stored ws = []"
    using waitTokens_quiet [of calls p rcd ?t 0 tokens] w by simp_all
  ultimately show ?thesis
    using assms w process_message_tokens [OF assms(1)] by (simp add: mqtt_Produce_def)
qed

lemma mqtt_Produce_acked:
  assumes "mqtt_Produce calls cancelled p rcd = Some es"
  shows "acked es = (if mqtt_delivered calls cancelled p rcd \<and> rec_TxType rcd \<in> mqtt_reliableAckTxTypes p then [rcd] else [])"
proof (cases "\<exists>message tokens es. \<not> cancelled \<and> rec_protoMessage rcd = Some message \<and> process_message calls p rcd message = Some (None, tokens, es)")
  case True
  with assms mqtt_Produce_delivers show ?thesis by fastforce
next
  case False
  then have "\<not> mqtt_delivered calls cancelled p rcd" by (auto simp: mqtt_delivered_def)
  moreover have "acked es = []"
    using assms False
    by (auto simp: mqtt_Produce_def process_message_tokens split: if_splits option.splits)
  ultimately show ?thesis by simp
qed

lemma mqtt_acks:
  "map unstamped (acked (case mqtt_Produce calls cancelled p rcd of None \<Rightarrow> [] | Some es \<Rightarrow> es)) =
     (if (mqtt_delivered calls cancelled p rcd \<and> mqtt_Produce calls cancelled p rcd \<noteq> None) \<and>
         rec_TxType rcd \<in> mqtt_reliableAckTxTypes p then [unstamped rcd] else [])"
  by (cases "mqtt_Produce calls cancelled p rcd") (simp_all add: mqtt_Produce_acked)

interpretation mqtt: reliable_producer
  "\<lambda>p (calls, cancelled) rcd. case mqtt_Produce calls cancelled p rcd of None \<Rightarrow> [] | Some es \<Rightarrow> es" mqtt_reliableAckTxTypes
  "\<lambda>p (calls, cancelled) rcd. mqtt_delivered calls cancelled p rcd \<and> mqtt_Produce calls cancelled p rcd \<noteq> None"
  by unfold_locales (simp only: split_paired_all prod.case mqtt_acks)

lemma filter_eq_distinct: "distinct ks \<Longrightarrow> filter (\<lambda>x. x = k) ks = (if k \<in> set ks then [k] else [])"
  by (induction ks) auto

lemma range_map_lookup:
  assumes d: "distinct (map fst m)" and p: "mset (order (map fst m)) = mset (map fst m)"
  shows "filter (\<lambda>(k, v). k = key) (range_map order m) = (case map_of m key of None \<Rightarrow> [] | Some v \<Rightarrow> [(key, v)])"
proof -
  have "distinct (order (map fst m))" using d mset_eq_imp_distinct_iff [OF p] by simp
  moreover have "set (order (map fst m)) = fst ` set m" using mset_eq_setD [OF p] by simp
  ultimately have "filter (\<lambda>k. k = key) (order (map fst m)) = (if key \<in> fst ` set m then [key] else [])"
    by (simp add: filter_eq_distinct)
  then show ?thesis
    using map_of_eq_None_iff [of m key] by (cases "map_of m key") (auto simp: range_map_def filter_map comp_def)
qed

lemma range_map_keys:
  assumes "mset (order (map fst m)) = mset (map fst m)"
  shows "fst ` set (range_map order m) = fst ` set m"
  using mset_eq_setD [OF assms] by (simp add: range_map_def image_image)

lemma mqtt_topic_eq [simp]: "mqtt_topic p rcd a = mqtt_topic p rcd b \<longleftrightarrow> a = b"
  by (simp add: mqtt_topic_def)

lemma payloadToMap_loop_spec:
  assumes "list_all (\<lambda>d. \<exists>x v. d = Some x \<and> Value x = Some v) ds" and "distinct (map fst m)"
  shows "\<exists>m'. payloadToMap_loop ds m = Some m' \<and> distinct (map fst m') \<and>
           map_of m' = map_of m ++ map_of (rev (map (\<lambda>d. (enum_String Field_name (Key (the d)), the (getDatumValue (Value (the d))))) ds))"
  using assms
proof (induction ds arbitrary: m)
  case (Cons d ds)
  then obtain x v where x: "d = Some x" "Value x = Some v" by auto
  then obtain g where g: "getDatumValue (Value x) = Some g" by (simp add: getDatumValue_def)
  from Cons.IH [of "map_put (enum_String Field_name (Key x)) g m"] Cons.prems show ?case
    by (auto simp: x(1) g map_add_put simp del: map_of_map_put)
qed simp

lemma map_of_rev_field:
  "map_of (rev (map (\<lambda>d. (enum_String Field_name (Key (the d)), f d)) ds)) (enum_String Field_name k) =
     map_option f (find (\<lambda>d. Key (the d) = k) (rev ds))"
proof (induction ds rule: rev_induct)
  case (snoc d ds)
  then show ?case by (simp add: Field.String_eq_iff)
qed simp

text \<open>The alert that started last, the first of them when several started at the same time.\<close>

definition started :: "vehicle_alert \<Rightarrow> int" where
  "started a = (case Alert_StartedAt a of None \<Rightarrow> 0 | Some t \<Rightarrow> AsTime_UnixNano t)"

definition first_latest :: "vehicle_alert list \<Rightarrow> vehicle_alert option" where
  "first_latest as = find (\<lambda>a. \<forall>b \<in> set as. started b \<le> started a) as"

lemma first_latest_Some:
  assumes "first_latest as = Some c"
  shows "c \<in> set as" "b \<in> set as \<Longrightarrow> started b \<le> started c"
  using assms by (auto simp: first_latest_def find_Some_iff)

lemma first_latest_None: "first_latest as = None \<longleftrightarrow> as = []"
proof
  assume none: "first_latest as = None"
  show "as = []"
  proof (rule ccontr)
    assume "as \<noteq> []"
    then obtain c where "c \<in> set as" "\<And>b. b \<in> set as \<Longrightarrow> started b \<le> started c"
      using Max_in [of "started ` set as"] Max_ge [of "started ` set as"] by fastforce
    with none show False by (auto simp: first_latest_def find_None_iff)
  qed
qed (simp add: first_latest_def)

lemma find_cong_first: "find P xs = Some c \<Longrightarrow> Q c \<Longrightarrow> (\<And>x. Q x \<Longrightarrow> P x) \<Longrightarrow> find Q xs = Some c"
  by (induction xs) (auto split: if_splits)

lemma find_append: "find P (xs @ ys) = (case find P xs of None \<Rightarrow> find P ys | Some x \<Rightarrow> Some x)"
  by (induction xs) auto

lemma first_latest_snoc:
  "first_latest (as @ [a]) = (case first_latest as of None \<Rightarrow> Some a | Some c \<Rightarrow> if started a > started c then Some a else Some c)"
proof (cases "first_latest as")
  case None
  then show ?thesis by (simp add: first_latest_None) (simp add: first_latest_def)
next
  case (Some c)
  note c = first_latest_Some [OF Some]
  show ?thesis
  proof (cases "started a > started c")
    case True
    with c have "find (\<lambda>x. \<forall>b \<in> set (as @ [a]). started b \<le> started x) as = None"
      by (force simp: find_None_iff)
    moreover have "\<forall>b \<in> set (as @ [a]). started b \<le> started a" using True c(2) by fastforce
    ultimately show ?thesis using Some True by (simp add: first_latest_def [of "as @ [a]"] find_append)
  next
    case False
    with Some c have "find (\<lambda>x. \<forall>b \<in> set (as @ [a]). started b \<le> started x) as = Some c"
      by (intro find_cong_first [OF Some [unfolded first_latest_def]]) auto
    with Some False show ?thesis by (simp add: first_latest_def [of "as @ [a]"] find_append)
  qed
qed

abbreviation alerts_named :: "string \<Rightarrow> vehicle_alert list \<Rightarrow> vehicle_alert list" where
  "alerts_named name as \<equiv> filter (\<lambda>a. Alert_Name a = name) as"

definition started_alerts :: "string \<Rightarrow> vehicle_alert list \<Rightarrow> vehicle_alert list" where
  "started_alerts name as = filter (\<lambda>a. Alert_StartedAt a \<noteq> None) (alerts_named name as)"

lemma gatherAlert_spec:
  assumes "foldl gatherAlert ([], []) as = (h, c)"
  shows "distinct (map fst h) \<and> distinct (map fst c) \<and>
    (\<forall>name. map_of h name = (if alerts_named name as = [] then None else Some (alerts_named name as))) \<and>
    (\<forall>name. map_of c name = first_latest (started_alerts name as))"
  using assms
proof (induction as arbitrary: h c rule: rev_induct)
  case Nil
  then show ?case by (simp add: first_latest_def started_alerts_def)
next
  case (snoc a as)
  obtain h' c' where f: "foldl gatherAlert ([], []) as = (h', c')" by force
  from snoc.IH [OF f] have d: "distinct (map fst h')" "distinct (map fst c')"
    and h: "\<And>name. map_of h' name = (if alerts_named name as = [] then None else Some (alerts_named name as))"
    and cur: "\<And>name. map_of c' name = first_latest (started_alerts name as)" by auto
  have other: "started_alerts name (as @ [a]) =
      started_alerts name as @ (if Alert_Name a = name \<and> Alert_StartedAt a \<noteq> None then [a] else [])" for name
    by (simp add: started_alerts_def)
  from snoc.prems f d h cur show ?case
    by (auto simp: gatherAlert_def Let_def other first_latest_snoc started_def split: option.splits if_splits)
qed

lemma range_publications:
  assumes "distinct (map fst m)" and "mset (order (map fst m)) = mset (map fst m)" and "\<And>k k'. topic k = topic k' \<longleftrightarrow> k = k'"
  shows "filter (\<lambda>(t, _). t = topic key) (map (\<lambda>(k, v). (topic k, rest v)) (range_map order m)) =
           (case map_of m key of None \<Rightarrow> [] | Some v \<Rightarrow> [(topic key, rest v)])"
proof -
  have "filter (\<lambda>(t, _). t = topic key) (map (\<lambda>(k, v). (topic k, rest v)) xs) =
      map (\<lambda>(k, v). (topic k, rest v)) (filter (\<lambda>(k, v). k = key) xs)" for xs
    using assms(3) by (induction xs) auto
  then show ?thesis using range_map_lookup [of m order key, OF assms(1,2)] by (simp split: option.split)
qed

lemma no_publication: "(\<And>k. topic k \<noteq> t) \<Longrightarrow> filter (\<lambda>(t', _). t' = t) (map (\<lambda>(k, v). (topic k, rest v)) xs) = []"
  by (induction xs) auto

lemma alert_topics_disjoint [simp]:
  "''alerts/'' @ a @ ''/current'' \<noteq> ''alerts/'' @ b @ ''/history''" "''alerts/'' @ a @ ''/history'' \<noteq> ''alerts/'' @ b @ ''/current''"
  by (auto dest: arg_cong [where f = last])

section \<open>Properties\<close>

text \<open>A broker that confirms at once, and an encoder.\<close>

definition example_calls :: mqtt_calls where
  "example_calls = \<lparr>json_Marshal = (\<lambda>g. Inr (case g of GStr s \<Rightarrow> s | GInt i \<Rightarrow> Itoa i | GList gs \<Rightarrow> Itoa (int (length gs)) | _ \<Rightarrow> ''o'')),
     mqtt_Publish = (\<lambda>_ _ _ _. \<lparr>tok_Done = True, tok_WaitTimeout = (\<lambda>_. True), tok_Error = None\<rparr>), mqtt_TimedOut = ''t'',
     time_Since = (\<lambda>i. int i), range_order = (\<lambda>_ ks. rev ks)\<rparr>"

definition example_mqtt :: mqtt_producer where
  "example_mqtt = snd (mqtt_NewProducer \<lparr>MQTT_Broker = ''b'', MQTT_ClientID = [], MQTT_Username = [], MQTT_Password = [],
     MQTT_TopicBase = ''t'', MQTT_QoS = 1, MQTT_Retained = False, MQTT_ConnectTimeout = 0, MQTT_PublishTimeout = 0,
     MQTT_DisconnectTimeout = 0, MQTT_ConnectRetryInterval = 0, MQTT_KeepAlive = 0\<rparr> ''n'' {''V''})"

definition example_record :: "proto_message \<Rightarrow> dispatcher telemetry_record" where
  "example_record message = (blank_record example_serializer)\<lparr>rec_TxType := ''V'', rec_Vin := ''42'', rec_protoMessage := Some message\<rparr>"

definition example_alert :: "int \<Rightarrow> vehicle_alert" where
  "example_alert sec = \<lparr>Alert_Name = ''a'', Alert_Audiences = None, Alert_StartedAt = Some \<lparr>Seconds = sec, Nanos = 0\<rparr>, Alert_EndedAt = None\<rparr>"





text \<open>
  C15: A record is acknowledged exactly when its type is acknowledged by MQTT, it was processed without
  an error, and every one of its publications was confirmed without an error in the time that was left
  of the publish timeout; then once. One failed publication withholds the acknowledgement of the
  whole record.
\<close>

theorem mqtt_ack_after_all_published:
  assumes "mqtt_Produce calls cancelled p rcd = Some es"
  shows "acked es =
    (if rec_TxType rcd \<in> mqtt_reliableAckTxTypes p \<and> \<not> cancelled \<and>
        (\<exists>message tokens pubs. rec_protoMessage rcd = Some message \<and> process_message calls p rcd message = Some (None, tokens, pubs)) \<and>
        (\<forall>i < length (stored es). waitTokenTimeout (mqtt_TimedOut calls) (publication_token calls (stored es ! i))
           (max 0 (duration (MQTT_PublishTimeout (mqtt_config p)) 1000000 - time_Since calls i)) = None)
     then [rcd] else [])"
proof (cases "\<exists>message tokens pubs. \<not> cancelled \<and> rec_protoMessage rcd = Some message \<and> process_message calls p rcd message = Some (None, tokens, pubs)")
  case True
  then obtain message tokens pubs where c: "\<not> cancelled" and r: "rec_protoMessage rcd = Some message"
    and m: "process_message calls p rcd message = Some (None, tokens, pubs)" by blast
  from mqtt_Produce_delivers [OF m r] assms c have "stored es = stored pubs" by simp
  with process_message_tokens [OF m] have "tokens = map (publication_token calls) (stored es)" by simp
  with c r m show ?thesis by (simp add: mqtt_Produce_acked [OF assms] mqtt_delivered_def remainingTimeout_def)
next
  case False
  then show ?thesis by (auto simp: mqtt_Produce_acked [OF assms] mqtt_delivered_def)
qed

theorem mqtt_ack_after_all_published_witness:
  "\<exists>es. mqtt_Produce example_calls False example_mqtt (example_record (AlertsMessage \<lparr>Alerts_Alerts = [example_alert 7], Alerts_CreatedAt = None, Alerts_Vin = ''42''\<rparr>)) = Some es \<and>
     length (acked es) = 1"
proof -
  let ?r = "example_record (AlertsMessage \<lparr>Alerts_Alerts = [example_alert 7], Alerts_CreatedAt = None, Alerts_Vin = ''42''\<rparr>)"
  let ?as = "\<lparr>Alerts_Alerts = [example_alert 7], Alerts_CreatedAt = None, Alerts_Vin = ''42''\<rparr>"
  have r: "rec_protoMessage ?r = Some (AlertsMessage ?as)" "rec_TxType ?r \<in> mqtt_reliableAckTxTypes example_mqtt"
    by (simp_all add: example_record_def example_mqtt_def mqtt_NewProducer_def Let_def)
  obtain tokens pubs where m: "process_message example_calls example_mqtt ?r (AlertsMessage ?as) = Some (None, tokens, pubs)"
    by (simp add: process_message_def processVehicleAlerts_def gatherAlert_def example_calls_def example_alert_def Let_def map_put_def range_map_def)
  from mqtt_Produce_delivers [OF m r(1)] obtain es where e: "mqtt_Produce example_calls False example_mqtt ?r = Some es" by blast
  have "waitTokenTimeout (mqtt_TimedOut example_calls) (publication_token example_calls x) d = None" for x d
    by (cases x) (simp add: waitTokenTimeout_def example_calls_def)
  with mqtt_ack_after_all_published [OF e] r m e show ?thesis by auto
qed

end
