(* ===== verification/Logger_Store.thy ===== *)
theory Logger_Store
  imports Socket
begin

text \<open>
  The logger datastore (\<^verbatim>\<open>datastore/simple\<close>): records are turned into readable maps and logged. A Go
  map is an association list in the order in which its keys were first stored. \<^const>\<open>None\<close> is a panic.
\<close>

section \<open>Values\<close>

definition SemiModelLetter :: string where "SemiModelLetter = ''T''"

text \<open>The fourth byte of the vehicle number; indexing a shorter one panics.\<close>

definition getModelFromVIN :: "string \<Rightarrow> string option" where
  "getModelFromVIN vin = (if length vin > 3 then Some (rune_string (of_nat (of_char (vin ! 3)))) else None)"

text \<open>The type and the value for the log; the inner \<^const>\<open>None\<close> is the default case of the switch.\<close>

primrec transformValue_case :: "bool \<Rightarrow> string \<Rightarrow> value_oneof \<Rightarrow> (string \<times> goval) option option" where
  "transformValue_case includeTypes vin (Value_StringValue v) = Some (Some (''stringValue'', GStr v))"
| "transformValue_case includeTypes vin (Value_IntValue v) = Some (Some (''intValue'', GInt v))"
| "transformValue_case includeTypes vin (Value_LongValue v) = Some (Some (''longValue'', GInt v))"
| "transformValue_case includeTypes vin (Value_FloatValue v) = Some (Some (''floatValue'', GFloat32 v))"
| "transformValue_case includeTypes vin (Value_DoubleValue v) = Some (Some (''doubleValue'', GFloat64 v))"
| "transformValue_case includeTypes vin (Value_BooleanValue v) = Some (Some (''booleanValue'', GBool v))"
| "transformValue_case includeTypes vin (Value_LocationValue v) = Some (Some (''locationValue'', GMap
       [(''latitude'', GFloat64 (Latitude v)), (''longitude'', GFloat64 (Longitude v))]))"
| "transformValue_case includeTypes vin (Value_ChargingValue v) = Some None"
| "transformValue_case includeTypes vin (Value_ShiftStateValue v) = Some (Some (''shiftStateValue'', GStr
       (enum_String ShiftState_name v)))"
| "transformValue_case includeTypes vin (Value_Invalid v) = Some (Some (''invalid'', if includeTypes then
       GBool True else GStr ''<invalid>''))"
| "transformValue_case includeTypes vin (Value_LaneAssistLevelValue v) = Some (Some (''laneAssistLevel'',
       GStr (enum_String LaneAssistLevel_name v)))"
| "transformValue_case includeTypes vin (Value_ScheduledChargingModeValue v) = Some (Some
       (''scheduledChargingMode'', GStr (enum_String ScheduledChargingModeValue_name v)))"
| "transformValue_case includeTypes vin (Value_SentryModeStateValue v) = Some (Some (''sentryModeState'',
       GStr (enum_String SentryModeState_name v)))"
| "transformValue_case includeTypes vin (Value_SpeedAssistLevelValue v) = Some (Some (''speedAssistLevel'',
       GStr (enum_String SpeedAssistLevel_name v)))"
| "transformValue_case includeTypes vin (Value_BmsStateValue v) = Some (Some (''bmsState'', GStr
       (enum_String BMSStateValue_name v)))"
| "transformValue_case includeTypes vin (Value_BuckleStatusValue v) = Some (Some (''buckleStatus'', GStr
       (enum_String BuckleStatus_name v)))"
| "transformValue_case includeTypes vin (Value_CarTypeValue v) = Some (Some (''carType'', GStr (enum_String
       CarTypeValue_name v)))"
| "transformValue_case includeTypes vin (Value_ChargePortValue v) = Some (Some (''chargePort'', GStr
       (enum_String ChargePortValue_name v)))"
| "transformValue_case includeTypes vin (Value_ChargePortLatchValue v) = Some (Some (''chargePortLatch'',
       GStr (enum_String ChargePortLatchValue_name v)))"
| "transformValue_case includeTypes vin (Value_DoorValue v) = Some (Some (''doorValue'', GMap
       [(''DriverFront'', GBool (DriverFront v)), (''PassengerFront'', GBool (PassengerFront v)),
       (''DriverRear'', GBool (DriverRear v)), (''PassengerRear'', GBool (PassengerRear v)),
       (''TrunkFront'', GBool (TrunkFront v)), (''TrunkRear'', GBool (TrunkRear v))]))"
| "transformValue_case includeTypes vin (Value_DriveInverterStateValue v) = Some (Some
       (''driveInverterState'', GStr (enum_String DriveInverterState_name v)))"
| "transformValue_case includeTypes vin (Value_HvilStatusValue v) = Some (Some (''hvilStatus'', GStr
       (enum_String HvilStatus_name v)))"
| "transformValue_case includeTypes vin (Value_WindowStateValue v) = Some (Some (''windowState'', GStr
       (enum_String WindowState_name v)))"
| "transformValue_case includeTypes vin (Value_SeatFoldPositionValue v) = Some (Some (''seatFoldPosition'',
       GStr (enum_String SeatFoldPosition_name v)))"
| "transformValue_case includeTypes vin (Value_TractorAirStatusValue v) = Some (Some (''tractorAirStatus'',
       GStr (enum_String TractorAirStatus_name v)))"
| "transformValue_case includeTypes vin (Value_FollowDistanceValue v) = Some (Some (''followDistance'',
       GStr (enum_String FollowDistance_name v)))"
| "transformValue_case includeTypes vin (Value_ForwardCollisionSensitivityValue v) = Some (Some
       (''forwardCollisionSensitivity'', GStr (enum_String ForwardCollisionSensitivity_name v)))"
| "transformValue_case includeTypes vin (Value_GuestModeMobileAccessValue v) = Some (Some
       (''guestModeMobileAccess'', GStr (enum_String GuestModeMobileAccess_name v)))"
| "transformValue_case includeTypes vin (Value_TrailerAirStatusValue v) = Some (Some (''trailerAirStatus'',
       GStr (enum_String TrailerAirStatus_name v)))"
| "transformValue_case includeTypes vin (Value_TimeValue v) = Some (Some (''time'', GStr (Sprintf_02d (Hour
       v) @ '':'' @ Sprintf_02d (Minute v) @ '':'' @ Sprintf_02d (Second v))))"
| "transformValue_case includeTypes vin (Value_DetailedChargeStateValue v) = Some (Some
       (''detailedChargeState'', GStr (enum_String DetailedChargeStateValue_name v)))"
| "transformValue_case includeTypes vin (Value_HvacAutoModeValue v) = Some (Some (''hvacAutoMode'', GStr
       (enum_String HvacAutoModeState_name v)))"
| "transformValue_case includeTypes vin (Value_CabinOverheatProtectionModeValue v) = Some (Some
       (''cabinOverheatProtectionMode'', GStr (enum_String CabinOverheatProtectionModeState_name v)))"
| "transformValue_case includeTypes vin (Value_CabinOverheatProtectionTemperatureLimitValue v) = Some (Some
       (''cabinOverheatProtectionTemperatureLimit'', GStr (enum_String
       ClimateOverheatProtectionTempLimit_name v)))"
| "transformValue_case includeTypes vin (Value_DefrostModeValue v) = Some (Some (''defrostMode'', GStr
       (enum_String DefrostModeState_name v)))"
| "transformValue_case includeTypes vin (Value_ClimateKeeperModeValue v) = Some (Some
       (''climateKeeperMode'', GStr (enum_String ClimateKeeperModeState_name v)))"
| "transformValue_case includeTypes vin (Value_HvacPowerValue v) = Some (Some (''hvacPower'', GStr
       (enum_String HvacPowerState_name v)))"
| "transformValue_case includeTypes vin (Value_TireLocationValue v) = map_option (\<lambda>model. Some
       (''tireLocation'', if model = SemiModelLetter then GMap [(''FrontLeft'', GBool (FrontLeft v)),
       (''FrontRight'', GBool (FrontRight v)), (''SemiMiddleAxleLeft'', GBool (RearLeft v)),
       (''SemiMiddleAxleRight'', GBool (RearRight v)), (''SemiMiddleAxleLeft2'', GBool
       (SemiMiddleAxleLeft_2 v)), (''SemiMiddleAxleRight2'', GBool (SemiMiddleAxleRight_2 v)),
       (''SemiRearAxleLeft'', GBool (SemiRearAxleLeft v)), (''SemiRearAxleRight'', GBool
       (SemiRearAxleRight v)), (''SemiRearAxleLeft2'', GBool (SemiRearAxleLeft_2 v)),
       (''SemiRearAxleRight2'', GBool (SemiRearAxleRight_2 v))] else GMap [(''FrontLeft'', GBool
       (FrontLeft v)), (''FrontRight'', GBool (FrontRight v)), (''RearLeft'', GBool (RearLeft v)),
       (''RearRight'', GBool (RearRight v))])) (getModelFromVIN vin)"
| "transformValue_case includeTypes vin (Value_FastChargerValue v) = Some (Some (''fastChargerType'', GStr
       (enum_String FastCharger_name v)))"
| "transformValue_case includeTypes vin (Value_CableTypeValue v) = Some (Some (''chargingCableType'', GStr
       (enum_String CableType_name v)))"
| "transformValue_case includeTypes vin (Value_TonneauTentModeValue v) = Some (Some (''tonneauTentMode'',
       GStr (enum_String TonneauTentModeState_name v)))"
| "transformValue_case includeTypes vin (Value_TonneauPositionValue v) = Some (Some (''tonneauPosition'',
       GStr (enum_String TonneauPositionState_name v)))"
| "transformValue_case includeTypes vin (Value_PowershareTypeValue v) = Some (Some (''powershareType'',
       GStr (enum_String PowershareTypeStatus_name v)))"
| "transformValue_case includeTypes vin (Value_PowershareStateValue v) = Some (Some (''powershareStatus'',
       GStr (enum_String PowershareState_name v)))"
| "transformValue_case includeTypes vin (Value_PowershareStopReasonValue v) = Some (Some
       (''powershareStopReason'', GStr (enum_String PowershareStopReasonStatus_name v)))"
| "transformValue_case includeTypes vin (Value_DisplayStateValue v) = Some (Some (''displayState'', GStr
       (enum_String DisplayState_name v)))"
| "transformValue_case includeTypes vin (Value_DistanceUnitValue v) = Some (Some (''distanceUnit'', GStr
       (enum_String DistanceUnit_name v)))"
| "transformValue_case includeTypes vin (Value_TemperatureUnitValue v) = Some (Some (''temperatureUnit'',
       GStr (enum_String TemperatureUnit_name v)))"
| "transformValue_case includeTypes vin (Value_PressureUnitValue v) = Some (Some (''pressureUnit'', GStr
       (enum_String PressureUnit_name v)))"
| "transformValue_case includeTypes vin (Value_ChargeUnitPreferenceValue v) = Some (Some (''chargeUnit'',
       GStr (enum_String ChargeUnitPreference_name v)))"
| "transformValue_case includeTypes vin (Value_TurnSignalStateValue v) = Some (Some (''turnSignalState'',
       GStr (enum_String TurnSignalState_name v)))"
| "transformValue_case includeTypes vin (Value_MediaStatusValue v) = Some (Some (''mediaStatus'', GStr
       (enum_String MediaStatus_name v)))"
| "transformValue_case includeTypes vin (Value_SunroofInstalledStateValue v) = Some (Some
       (''sunroofInstalledState'', GStr (enum_String SunroofInstalledState_name v)))"

definition transformValue :: "pb_value \<Rightarrow> bool \<Rightarrow> string \<Rightarrow> goval option option" where
  "transformValue value includeTypes vin =
     (case value of
        None \<Rightarrow> Some None
      | Some v \<Rightarrow>
          map_option (map_option (\<lambda>(outputType, outputValue).
              if includeTypes then GMap [(outputType, outputValue)] else outputValue))
            (transformValue_case includeTypes vin v))"

section \<open>Messages\<close>

definition payload_entry ::
    "payload \<Rightarrow> bool \<Rightarrow> string \<Rightarrow> datum option \<Rightarrow> (string \<times> goval) list \<times> log_entry list \<Rightarrow>
     ((string \<times> goval) list \<times> log_entry list) option" where
  "payload_entry payload includeTypes vin datum =
     (\<lambda>(convertedPayload, logs).
        case datum of
          None \<Rightarrow> Some (convertedPayload, logs @ [ActivityLog ''unknown_payload_data_type'' [(''vin'', GStr (Payload_Vin payload))]])
        | Some d \<Rightarrow>
            (case Value d of
               None \<Rightarrow> Some (convertedPayload, logs @ [ActivityLog ''unknown_payload_data_type'' [(''vin'', GStr (Payload_Vin payload))]])
             | Some value \<Rightarrow>
                 (let name = (case map_of Field_name (Key d) of Some n \<Rightarrow> n | None \<Rightarrow> [])
                  in case transformValue value includeTypes vin of
                       None \<Rightarrow> None
                     | Some None \<Rightarrow>
                         Some (convertedPayload, logs @ [ActivityLog ''unknown_payload_value_data_type''
                                 [(''name'', GStr name), (''vin'', GStr (Payload_Vin payload))]])
                     | Some (Some v) \<Rightarrow> Some (map_put name v convertedPayload, logs))))"

fun payload_entries ::
    "payload \<Rightarrow> bool \<Rightarrow> string \<Rightarrow> datum option list \<Rightarrow> (string \<times> goval) list \<times> log_entry list \<Rightarrow>
     ((string \<times> goval) list \<times> log_entry list) option" where
  "payload_entries payload includeTypes vin [] st = Some st"
| "payload_entries payload includeTypes vin (d # ds) st =
     Option.bind (payload_entry payload includeTypes vin d st) (payload_entries payload includeTypes vin ds)"

definition PayloadToMap :: "payload \<Rightarrow> bool \<Rightarrow> string \<Rightarrow> ((string \<times> goval) list \<times> log_entry list) option" where
  "PayloadToMap payload includeTypes vin =
     payload_entries payload includeTypes vin (Payload_Data payload)
       ([(''Vin'', GStr (Payload_Vin payload)),
         (''CreatedAt'', GStr (Format_RFC3339 (AsTime_Unix (Payload_CreatedAt payload)))),
         (''IsResend'', GBool (Payload_IsResend payload))], [])"

definition unix_entry :: "string \<Rightarrow> timestamp option \<Rightarrow> (string \<times> goval) list" where
  "unix_entry name t = (case t of None \<Rightarrow> [] | Some _ \<Rightarrow> [(name, GInt (AsTime_Unix t))])"

definition VehicleAlertToMap :: "vehicle_alert \<Rightarrow> (string \<times> goval) list" where
  "VehicleAlertToMap alert =
     [(''Name'', GStr (Alert_Name alert))] @ unix_entry ''StartedAt'' (Alert_StartedAt alert) @
     unix_entry ''EndedAt'' (Alert_EndedAt alert) @
     [(''Audiences'', case Alert_Audiences alert of
                      None \<Rightarrow> GNil
                    | Some audiences \<Rightarrow> GList (map (\<lambda>audience. GStr (enum_String Audience_name audience)) audiences))]"

definition VehicleErrorToMap :: "vehicle_error \<Rightarrow> (string \<times> goval) list" where
  "VehicleErrorToMap vehicleError =
     [(''Name'', GStr (Error_Name vehicleError)), (''Body'', GStr (Error_Body vehicleError)),
      (''Tags'', GMap (map (\<lambda>(k, v). (k, GStr v)) (Error_Tags vehicleError)))] @
     unix_entry ''CreatedAt'' (Error_CreatedAt vehicleError)"

definition VehicleConnectivityToMap :: "vehicle_connectivity \<Rightarrow> (string \<times> goval) list" where
  "VehicleConnectivityToMap vehicleConnectivity =
     [(''Vin'', GStr (Connectivity_Vin vehicleConnectivity)),
      (''ConnectionID'', GStr (Connectivity_ConnectionId vehicleConnectivity)),
      (''NetworkInterface'', GStr (Connectivity_NetworkInterface vehicleConnectivity)),
      (''Status'', GStr (enum_String ConnectivityEvent_name (Connectivity_Status vehicleConnectivity))),
      (''CreatedAt'', GInt (AsTime_Unix (Connectivity_CreatedAt vehicleConnectivity)))]"

section \<open>The producer\<close>

definition recordToLogMap ::
    "bool \<Rightarrow> 'p telemetry_record \<Rightarrow> string \<Rightarrow> ((string + goval) \<times> log_entry list) option" where
  "recordToLogMap verbose record vin =
     (case rec_protoMessage record of
        Some (PayloadMessage payload) \<Rightarrow>
          map_option (\<lambda>(m, logs). (Inr (GMap m), logs)) (PayloadToMap payload verbose vin)
      | Some (AlertsMessage payload) \<Rightarrow> Some (Inr (GList (map (\<lambda>a. GMap (VehicleAlertToMap a)) (Alerts_Alerts payload))), [])
      | Some (ErrorsMessage payload) \<Rightarrow> Some (Inr (GList (map (\<lambda>e. GMap (VehicleErrorToMap e)) (Errors_Errors payload))), [])
      | Some (ConnectivityMessage payload) \<Rightarrow> Some (Inr (GMap (VehicleConnectivityToMap payload)), [])
      | None \<Rightarrow> Some (Inl (''unknown txType: '' @ rec_TxType record), []))"

definition metadata_value :: "'p telemetry_record \<Rightarrow> goval" where
  "metadata_value entry = GMap (map (\<lambda>(k, v). (k, GStr v)) (Metadata entry))"

definition logger_Produce :: "bool \<Rightarrow> 'p telemetry_record \<Rightarrow> log_entry list option" where
  "logger_Produce verbose entry =
     (case recordToLogMap verbose entry (rec_Vin entry) of
        None \<Rightarrow> None
      | Some (Inl err, logs) \<Rightarrow>
          Some (logs @ [ErrorLog ''record_logging_error'' (Some err)
             [(''vin'', GStr (rec_Vin entry)), (''txtype'', GStr (rec_TxType entry)), (''metadata'', metadata_value entry)]])
      | Some (Inr data, logs) \<Rightarrow>
          Some (logs @ [ActivityLog ''record_payload''
             [(''vin'', GStr (rec_Vin entry)), (''metadata'', metadata_value entry), (''data'', data)]]))"

text \<open>The logger never acknowledges a record: \<^verbatim>\<open>ProcessReliableAck\<close> and \<^verbatim>\<open>ReportError\<close> do nothing.\<close>

section \<open>Lemmas\<close>

lemma atoi_nat_leading_zeros [simp]: "atoi_nat (replicate k (CHR ''0'') @ ds) = atoi_nat ds"
  by (induction k) (simp_all add: atoi_nat_def digit_val_def)

lemma Sprintf_02d_inj: "Sprintf_02d i = Sprintf_02d j \<longleftrightarrow> i = j"
proof
  define dec where "dec s = (if hd s = CHR ''-'' then - int (atoi_nat (tl s)) else int (atoi_nat s))" for s
  have "dec (Sprintf_02d k) = k" for k
  proof (cases "k < 0")
    case False
    have "hd (replicate m (CHR ''0'') @ itoa_nat n) \<noteq> CHR ''-''" for m n
      using itoa_nat_first_digit [of n] by (cases m) (auto simp: is_digit_def)
    with False show ?thesis by (simp add: dec_def Sprintf_02d_def Let_def)
  qed (simp add: dec_def Sprintf_02d_def Let_def)
  then show "Sprintf_02d i = Sprintf_02d j \<Longrightarrow> i = j" by metis
qed simp

lemma Sprintf_02d_no_colon: "CHR '':'' \<notin> set (Sprintf_02d i)"
  using itoa_nat_digits [of "nat \<bar>i\<bar>"]
  by (auto simp: Sprintf_02d_def Let_def list_all_iff is_digit_def dest!: bspec [where x = "CHR '':''"] split: if_splits)

lemma colon_split:
  "CHR '':'' \<notin> set a \<Longrightarrow> CHR '':'' \<notin> set b \<Longrightarrow> a @ CHR '':'' # x = b @ CHR '':'' # y \<longleftrightarrow> a = b \<and> x = y"
proof (induction a arbitrary: b)
  case Nil
  then show ?case by (cases b) auto
next
  case (Cons c a)
  then show ?case by (cases b) auto
qed

lemma time_text_inj:
  "Sprintf_02d (Hour a) @ CHR '':'' # Sprintf_02d (Minute a) @ CHR '':'' # Sprintf_02d (Second a) =
   Sprintf_02d (Hour b) @ CHR '':'' # Sprintf_02d (Minute b) @ CHR '':'' # Sprintf_02d (Second b) \<longleftrightarrow> (a :: time_value) = b"
  by (auto simp: colon_split Sprintf_02d_no_colon Sprintf_02d_inj intro: time_value.equality)

lemmas logged_enum_eq =
  ShiftState.String_eq_iff LaneAssistLevel.String_eq_iff ScheduledChargingModeValue.String_eq_iff
  SentryModeState.String_eq_iff SpeedAssistLevel.String_eq_iff BMSStateValue.String_eq_iff
  BuckleStatus.String_eq_iff CarTypeValue.String_eq_iff ChargePortValue.String_eq_iff
  ChargePortLatchValue.String_eq_iff DriveInverterState.String_eq_iff HvilStatus.String_eq_iff
  WindowState.String_eq_iff SeatFoldPosition.String_eq_iff TractorAirStatus.String_eq_iff
  FollowDistance.String_eq_iff ForwardCollisionSensitivity.String_eq_iff GuestModeMobileAccess.String_eq_iff
  TrailerAirStatus.String_eq_iff DetailedChargeStateValue.String_eq_iff HvacAutoModeState.String_eq_iff
  CabinOverheatProtectionModeState.String_eq_iff ClimateOverheatProtectionTempLimit.String_eq_iff DefrostModeState.String_eq_iff
  ClimateKeeperModeState.String_eq_iff HvacPowerState.String_eq_iff FastCharger.String_eq_iff
  CableType.String_eq_iff TonneauTentModeState.String_eq_iff TonneauPositionState.String_eq_iff
  PowershareTypeStatus.String_eq_iff PowershareState.String_eq_iff PowershareStopReasonStatus.String_eq_iff
  DisplayState.String_eq_iff DistanceUnit.String_eq_iff TemperatureUnit.String_eq_iff
  PressureUnit.String_eq_iff ChargeUnitPreference.String_eq_iff TurnSignalState.String_eq_iff
  MediaStatus.String_eq_iff SunroofInstalledState.String_eq_iff

text \<open>The two kinds of values whose log does not hold all of them.\<close>

definition lossy_kind :: "value_oneof \<Rightarrow> value_oneof \<Rightarrow> bool" where
  "lossy_kind v w \<longleftrightarrow> (\<exists>a b. v = Value_Invalid a \<and> w = Value_Invalid b) \<or> (\<exists>a b. v = Value_TireLocationValue a \<and> w = Value_TireLocationValue b)"

lemma location_value_eq: "Latitude a = Latitude b \<and> Longitude a = Longitude b \<longleftrightarrow> (a :: location_value) = b"
  by (auto intro: location_value.equality)

lemma doors_eq:
  "DriverFront a = DriverFront b \<and> PassengerFront a = PassengerFront b \<and> DriverRear a = DriverRear b \<and>
   PassengerRear a = PassengerRear b \<and> TrunkFront a = TrunkFront b \<and> TrunkRear a = TrunkRear b \<longleftrightarrow> (a :: doors) = b"
  by (auto intro: doors.equality)

lemma typed_case_inj:
  "transformValue_case True vin v = Some (Some x) \<Longrightarrow> transformValue_case True vin w = Some (Some x) \<Longrightarrow> v = w \<or> lossy_kind v w"
  by (cases v; cases w; clarsimp simp: logged_enum_eq lossy_kind_def time_text_inj location_value_eq doors_eq)

text \<open>The entries that a list of data adds to the log map, in order, and whether the list is converted at all.\<close>

definition logged_datum :: "bool \<Rightarrow> string \<Rightarrow> datum option \<Rightarrow> (string \<times> goval) option" where
  "logged_datum includeTypes vin d =
     (case Option.bind d Value of
        None \<Rightarrow> None
      | Some value \<Rightarrow>
          (case transformValue value includeTypes vin of
             Some (Some v) \<Rightarrow> Some (case map_of Field_name (Key (the d)) of Some n \<Rightarrow> n | None \<Rightarrow> [], v)
           | _ \<Rightarrow> None))"

definition tire_datum :: "datum option \<Rightarrow> bool" where
  "tire_datum d \<longleftrightarrow> (\<exists>a. Option.bind d Value = Some (Some (Value_TireLocationValue a)))"

lemma transformValue_case_panics:
  "transformValue_case includeTypes vin v = None \<longleftrightarrow> length vin \<le> 3 \<and> (\<exists>a. v = Value_TireLocationValue a)"
  by (cases v) (simp_all add: getModelFromVIN_def)

lemma transformValue_panics:
  "transformValue value includeTypes vin = None \<longleftrightarrow> length vin \<le> 3 \<and> (\<exists>a. value = Some (Value_TireLocationValue a))"
  by (auto simp: transformValue_def transformValue_case_panics split: option.split)

lemma payload_entry_logged:
  "payload_entry payload includeTypes vin d (m, logs) =
     (if length vin \<le> 3 \<and> tire_datum d then None
      else case logged_datum includeTypes vin d of
             Some (name, v) \<Rightarrow> Some (map_put name v m, logs)
           | None \<Rightarrow> Some (m, logs @ [last (snd (the (payload_entry payload includeTypes vin d (m, logs))))]))"
proof (cases "Option.bind d Value")
  case None
  then show ?thesis by (auto simp: payload_entry_def logged_datum_def tire_datum_def bind_eq_None_conv split: option.splits)
next
  case (Some val)
  then obtain e where e: "d = Some e" "Value e = Some val" by (auto simp: bind_eq_Some_conv)
  show ?thesis
    using transformValue_panics [of val includeTypes vin]
    by (cases "transformValue val includeTypes vin")
      (auto simp: e payload_entry_def logged_datum_def tire_datum_def Let_def split: option.splits)
qed

lemma payload_entries_logged:
  "case payload_entries payload includeTypes vin ds (m, logs) of
     None \<Rightarrow> length vin \<le> 3 \<and> list_ex tire_datum ds
   | Some (m', logs') \<Rightarrow> \<not> (length vin \<le> 3 \<and> list_ex tire_datum ds) \<and>
       map_of m' = map_of m ++ map_of (rev (List.map_filter (logged_datum includeTypes vin) ds)) \<and>
       length logs' + length (List.map_filter (logged_datum includeTypes vin) ds) = length logs + length ds"
proof (induction ds arbitrary: m logs)
  case (Cons d ds)
  show ?case
  proof (cases "length vin \<le> 3 \<and> tire_datum d")
    case False
    show ?thesis
    proof (cases "logged_datum includeTypes vin d")
      case None
      then obtain g where "payload_entry payload includeTypes vin d (m, logs) = Some (m, logs @ [g])"
        using False payload_entry_logged [of payload includeTypes vin d m logs] by auto
      with Cons.IH [of m "logs @ [g]"] None False show ?thesis
        by (auto simp: List.map_filter_simps split: option.splits)
    next
      case (Some e)
      obtain name v where e: "e = (name, v)" by force
      from Some False have "payload_entry payload includeTypes vin d (m, logs) = Some (map_put name v m, logs)"
        by (simp add: e payload_entry_logged [of payload includeTypes vin d m logs])
      with Cons.IH [of "map_put name v m" logs] Some False e show ?thesis
        by (auto simp: List.map_filter_simps map_add_put simp del: map_of_map_put split: option.splits)
    qed
  qed (simp add: payload_entry_logged [of payload includeTypes vin d m logs])
qed (simp add: List.map_filter_simps)

section \<open>Properties\<close>

text \<open>
  The typed log of a value tells which value it was: two values with the same log are equal. The
  exceptions are the invalid marker, whose flag is not logged, and tire locations, of which a car
  logs the four it has.
\<close>

theorem typed_log_determines_value:
  assumes "transformValue (Some v) True vin = Some (Some g)" and "transformValue (Some w) True vin = Some (Some g)"
  shows "v = w \<or> (\<exists>a b. v = Value_Invalid a \<and> w = Value_Invalid b) \<or>
         (\<exists>a b. v = Value_TireLocationValue a \<and> w = Value_TireLocationValue b)"
proof -
  obtain x y where "transformValue_case True vin v = Some (Some x)" "transformValue_case True vin w = Some (Some y)"
    "GMap [x] = g" "GMap [y] = g"
    using assms by (auto simp: transformValue_def)
  then show ?thesis using typed_case_inj [of vin v x w] by (auto simp: lossy_kind_def)
qed

theorem typed_log_determines_value_witness:
  "transformValue (Some (Value_IntValue 3)) True [] = Some (Some (GMap [(''intValue'', GInt 3)])) \<and>
   transformValue (Some (Value_LongValue 3)) True [] \<noteq> Some (Some (GMap [(''intValue'', GInt 3)]))"
proof
  show "transformValue (Some (Value_IntValue 3)) True [] = Some (Some (GMap [(''intValue'', GInt 3)]))"
    by (simp add: transformValue_def)
  then show "transformValue (Some (Value_LongValue 3)) True [] \<noteq> Some (Some (GMap [(''intValue'', GInt 3)]))"
    using typed_log_determines_value [of "Value_IntValue 3" "[]" "GMap [(''intValue'', GInt 3)]" "Value_LongValue 3"] by auto
qed

text \<open>
  C38: The log map of a payload holds its vehicle number, creation time and resend flag, and for every
  field the last value of it that the logger knows; each other entry is reported in a log line of its
  own. The conversion panics exactly when there is a tire location and the vehicle number has less
  than four characters.
\<close>

theorem payload_log_map:
  "(PayloadToMap payload includeTypes vin = None \<longleftrightarrow> length vin \<le> 3 \<and> list_ex tire_datum (Payload_Data payload)) \<and>
   (\<forall>m logs. PayloadToMap payload includeTypes vin = Some (m, logs) \<longrightarrow>
      map_of m = map_of [(''Vin'', GStr (Payload_Vin payload)),
                         (''CreatedAt'', GStr (Format_RFC3339 (AsTime_Unix (Payload_CreatedAt payload)))),
                         (''IsResend'', GBool (Payload_IsResend payload))] ++
                 map_of (rev (List.map_filter (logged_datum includeTypes vin) (Payload_Data payload))) \<and>
      length logs + length (List.map_filter (logged_datum includeTypes vin) (Payload_Data payload)) = length (Payload_Data payload))"
proof -
  let ?h = "[(''Vin'', GStr (Payload_Vin payload)),
             (''CreatedAt'', GStr (Format_RFC3339 (AsTime_Unix (Payload_CreatedAt payload)))),
             (''IsResend'', GBool (Payload_IsResend payload))]"
  show ?thesis
    using payload_entries_logged [where payload = payload and includeTypes = includeTypes and vin = vin and ds = "Payload_Data payload" and m = ?h and logs = "[]"]
    unfolding PayloadToMap_def by (auto split: option.splits prod.splits)
qed

theorem payload_log_map_witness:
  "(let payload = \<lparr>Payload_Data = [Some \<lparr>Key = 4, Value = Some (Some (Value_IntValue 3))\<rparr>, None], Payload_CreatedAt = None,
                    Payload_Vin = ''42'', Payload_IsResend = False\<rparr>
    in \<exists>m logs. PayloadToMap payload False ''42'' = Some (m, logs) \<and> map_of m ''VehicleSpeed'' = Some (GInt 3) \<and> length logs = 1)"
proof -
  define payload where
    p: "payload = \<lparr>Payload_Data = [Some \<lparr>Key = 4, Value = Some (Some (Value_IntValue 3))\<rparr>, None], Payload_CreatedAt = None,
                    Payload_Vin = ''42'', Payload_IsResend = False\<rparr>"
  have f: "map_of Field_name 4 = Some ''VehicleSpeed''" by (simp add: Field_name_def)
  have l: "List.map_filter (logged_datum False ''42'') (Payload_Data payload) = [(''VehicleSpeed'', GInt 3)]"
    by (simp add: p List.map_filter_simps logged_datum_def transformValue_def f)
  have "PayloadToMap payload False ''42'' \<noteq> None"
    using payload_log_map [of payload False "''42''"] by (simp add: p tire_datum_def)
  then obtain m logs where m: "PayloadToMap payload False ''42'' = Some (m, logs)" by force
  with payload_log_map [of payload False "''42''"] l have "map_of m ''VehicleSpeed'' = Some (GInt 3) \<and> length logs = 1"
    by (simp add: p map_add_def)
  with m show ?thesis unfolding p [symmetric] Let_def by blast
qed

end
