(* ===== verification/Pipeline.thy ===== *)
theory Pipeline
  imports Server Config_Producers Datastores Mqtt Logger_Store
begin

text \<open>
  The way of a record through the server: from the socket that accepts it to the producers that the
  configuration built, and to the acknowledgement. This theory joins the models of the configuration,
  the socket and the datastores; its theorem says who acknowledges a record.
\<close>

section \<open>The producers of a configuration\<close>

text \<open>The record types that a datastore acknowledges; a dispatcher without an entry gets a nil map.\<close>

definition reliableAckTxTypes :: "ack_sources \<Rightarrow> dispatcher \<Rightarrow> string set" where
  "reliableAckTxTypes m d = (case m (dispatcher_name d) of None \<Rightarrow> {} | Some ts \<Rightarrow> ts)"

record store_producers =
  sp_kafka :: kafka_producer
  sp_kinesis :: kinesis_producer
  sp_pubsub :: pubsub_producer
  sp_zmq :: zmq_producer
  sp_redis :: redis_producer
  sp_mqtt :: mqtt_producer

text \<open>
  The producers that \<^verbatim>\<open>ConfigureProducers\<close> makes when every client starts, with the arguments it passes;
  an absent section of the configuration is read as its zero value here, and the producer is not used.
\<close>

definition started_producers :: "getenv \<Rightarrow> config \<Rightarrow> ack_sources \<Rightarrow> store_producers" where
  "started_producers env c m =
     \<lparr>sp_kafka = \<lparr>kafka_namespace = cfg_Namespace c, kafka_prometheusEnabled = prometheusEnabled c,
                  kafka_reliableAckTxTypes = reliableAckTxTypes m Kafka\<rparr>,
      sp_kinesis = \<lparr>kinesis_prometheusEnabled = prometheusEnabled c,
                    kinesis_streams = CreateKinesisStreamMapping env c (requiredDispatchers c (dispatcher_name Kinesis)),
                    kinesis_reliableAckTxTypes = reliableAckTxTypes m Kinesis\<rparr>,
      sp_pubsub = \<lparr>pubsub_projectID = (case cfg_Pubsub c of Some p \<Rightarrow> p | None \<Rightarrow> []), pubsub_namespace = cfg_Namespace c,
                   pubsub_prometheusEnabled = prometheusEnabled c, pubsub_reliableAckTxTypes = reliableAckTxTypes m Pubsub\<rparr>,
      sp_zmq = \<lparr>zmq_namespace = cfg_Namespace c, zmq_sock = True, zmq_reliableAckTxTypes = reliableAckTxTypes m ZMQ\<rparr>,
      sp_redis = (let r = (case cfg_Redis c of
                             Some r \<Rightarrow> (Redis_PublishTimeout r, Redis_PublishVINTopics r, Redis_SubscriberSetPrefix r)
                           | None \<Rightarrow> (0, False, []))
                  in \<lparr>redis_timeout = (if fst r \<noteq> 0 then fst r else redis_defaultTimeout), redis_namespace = cfg_Namespace c,
                      redis_publishVINTopics = fst (snd r), redis_subscriberSetPrefix = snd (snd r),
                      redis_prometheusEnabled = prometheusEnabled c, redis_reliableAckTxTypes = reliableAckTxTypes m Redis\<rparr>),
      sp_mqtt = snd (mqtt_NewProducer
                  (case cfg_MQTT c of
                     Some mc \<Rightarrow> mc
                   | None \<Rightarrow> \<lparr>MQTT_Broker = [], MQTT_ClientID = [], MQTT_Username = [], MQTT_Password = [], MQTT_TopicBase = [],
                             MQTT_QoS = 0, MQTT_Retained = False, MQTT_ConnectTimeout = 0, MQTT_PublishTimeout = 0,
                             MQTT_DisconnectTimeout = 0, MQTT_ConnectRetryInterval = 0, MQTT_KeepAlive = 0\<rparr>)
                  (cfg_Namespace c) (reliableAckTxTypes m MQTT))\<rparr>"

text \<open>They are what the constructors of the datastores return.\<close>

lemma started_producers_constructed:
  "\<exists>logs. kafka_NewProducer (\<lambda>_. None) kc (cfg_Namespace c) (prometheusEnabled c) (reliableAckTxTypes m Kafka) =
     Inr (sp_kafka (started_producers env c m), logs)"
  "kinesis_NewProducer None None (CreateKinesisStreamMapping env c (requiredDispatchers c (dispatcher_name Kinesis)))
     (prometheusEnabled c) (reliableAckTxTypes m Kinesis) = Inr (sp_kinesis (started_producers env c m))"
  "cfg_Pubsub c = Some projectID \<Longrightarrow> projectID \<noteq> [] \<Longrightarrow> \<not> (em \<and> gcp) \<Longrightarrow>
     \<exists>logs. pubsub_NewProducer em gcp (\<lambda>_. None) (prometheusEnabled c) projectID (cfg_Namespace c) (reliableAckTxTypes m Pubsub) =
       Inr (sp_pubsub (started_producers env c m), logs)"
  "cfg_Redis c = Some r \<Longrightarrow> Redis_Addrs r \<noteq> [] \<Longrightarrow> Redis_PublishVINTopics r \<or> Redis_SubscriberSetPrefix r \<noteq> [] \<Longrightarrow>
     \<exists>logs. redis_NewProducer (Some (Redis_Addrs r)) None None (Redis_PublishTimeout r) (Redis_PublishVINTopics r)
       (Redis_SubscriberSetPrefix r) (cfg_Namespace c) (prometheusEnabled c) (reliableAckTxTypes m Redis) =
       Inr (sp_redis (started_producers env c m), logs)"
  by (auto simp: started_producers_def kafka_NewProducer_def kinesis_NewProducer_def pubsub_NewProducer_def configurePubsub_def
      redis_NewProducer_def Let_def)

section \<open>Production\<close>

text \<open>
  What the stores answer: for Kafka the order of the metadata, the client, the clock and the delivery
  event, for the others the arguments of their \<^verbatim>\<open>Produce\<close>.
\<close>

record 'p store_answers =
  ans_kafka :: "((string \<times> string) list \<Rightarrow> (string \<times> string) list) \<times> ('p kafka_message \<Rightarrow> string option) \<times> int \<times> int \<times> string option \<times> string"
  ans_kinesis :: "(put_record_input \<Rightarrow> string + string \<times> string) \<times> int"
  ans_pubsub :: "(pubsub_message \<Rightarrow> string option) \<times> int"
  ans_zmq :: "bool \<times> (string \<Rightarrow> bytes \<Rightarrow> string + nat)"
  ans_redis :: "int \<times> int \<times> redis_server"
  ans_mqtt :: "mqtt_calls \<times> bool"

text \<open>The records that a producer sends to the acknowledgement channel for a record it is given.\<close>

definition store_acks :: "store_producers \<Rightarrow> 'p store_answers \<Rightarrow> dispatcher \<Rightarrow> 'p telemetry_record \<Rightarrow> 'p telemetry_record list" where
  "store_acks ps w d r =
     (case d of
        Kafka \<Rightarrow> acked (kafka_deliver (sp_kafka ps) (ans_kafka w) r)
      | Kinesis \<Rightarrow> acked (case ans_kinesis w of (putRecord, now) \<Rightarrow> kinesis_Produce putRecord now (sp_kinesis ps) r)
      | Pubsub \<Rightarrow> acked (case ans_pubsub w of (publish, now) \<Rightarrow> pubsub_Produce publish now (sp_pubsub ps) r)
      | ZMQ \<Rightarrow> acked (case ans_zmq w of (cancelled, send) \<Rightarrow> zmq_Produce cancelled send (sp_zmq ps) r)
      | Redis \<Rightarrow> acked (case ans_redis w of (now1, now2, srv) \<Rightarrow> fst (redis_Produce now1 now2 (sp_redis ps) r srv))
      | MQTT \<Rightarrow> acked (case ans_mqtt w of (calls, cancelled) \<Rightarrow>
                          (case mqtt_Produce calls cancelled (sp_mqtt ps) r of None \<Rightarrow> [] | Some es \<Rightarrow> es))
      | Logger \<Rightarrow> [])"

text \<open>Whether the store took the record.\<close>

definition store_delivered :: "store_producers \<Rightarrow> 'p store_answers \<Rightarrow> dispatcher \<Rightarrow> 'p telemetry_record \<Rightarrow> bool" where
  "store_delivered ps w d r =
     (case d of
        Kafka \<Rightarrow> (case ans_kafka w of (order, client, now1, now2, err, ev) \<Rightarrow>
                    stored (kafka_Produce order client now1 now2 (sp_kafka ps) r) \<noteq> [] \<and> err = None)
      | Kinesis \<Rightarrow> (case ans_kinesis w of (putRecord, now) \<Rightarrow> stored (kinesis_Produce putRecord now (sp_kinesis ps) r) \<noteq> [])
      | Pubsub \<Rightarrow> (case ans_pubsub w of (publish, now) \<Rightarrow> stored (pubsub_Produce publish now (sp_pubsub ps) r) \<noteq> [])
      | ZMQ \<Rightarrow> (case ans_zmq w of (cancelled, send) \<Rightarrow> stored (zmq_Produce cancelled send (sp_zmq ps) r) \<noteq> [])
      | Redis \<Rightarrow> (case ans_redis w of (now1, now2, srv) \<Rightarrow> redis_delivered (sp_redis ps) now2 r srv)
      | MQTT \<Rightarrow> (case ans_mqtt w of (calls, cancelled) \<Rightarrow>
                   mqtt_delivered calls cancelled (sp_mqtt ps) r \<and> mqtt_Produce calls cancelled (sp_mqtt ps) r \<noteq> None)
      | Logger \<Rightarrow> False)"

lemma started_ack_types:
  "kafka_reliableAckTxTypes (sp_kafka (started_producers env c m)) = reliableAckTxTypes m Kafka"
  "kinesis_reliableAckTxTypes (sp_kinesis (started_producers env c m)) = reliableAckTxTypes m Kinesis"
  "pubsub_reliableAckTxTypes (sp_pubsub (started_producers env c m)) = reliableAckTxTypes m Pubsub"
  "zmq_reliableAckTxTypes (sp_zmq (started_producers env c m)) = reliableAckTxTypes m ZMQ"
  "redis_reliableAckTxTypes (sp_redis (started_producers env c m)) = reliableAckTxTypes m Redis"
  "mqtt_reliableAckTxTypes (sp_mqtt (started_producers env c m)) = reliableAckTxTypes m MQTT"
  by (simp_all add: started_producers_def mqtt_NewProducer_def Let_def)

text \<open>All producers meet the contract of reliable acknowledgements with the types of the configuration.\<close>

lemma store_acks_contract:
  assumes "ps = started_producers env c m" and "d \<noteq> Logger"
  shows "map unstamped (store_acks ps w d r) =
           (if store_delivered ps w d r \<and> acks m (dispatcher_name d) (rec_TxType r) then [unstamped r] else [])"
proof -
  have t: "acks m (dispatcher_name e) (rec_TxType r) \<longleftrightarrow> rec_TxType r \<in> reliableAckTxTypes m e" for e
    by (simp add: acks_def reliableAckTxTypes_def split: option.split)
  note [simp] = store_acks_def store_delivered_def assms(1) started_ack_types
  show ?thesis
  proof (cases d)
    case Kafka
    then show ?thesis using kafka.acks [of "sp_kafka ps" "ans_kafka w" r] t [of Kafka] by (cases "ans_kafka w") (simp split: prod.splits)
  next
    case Kinesis
    then show ?thesis using kinesis.acks [of "sp_kinesis ps" "ans_kinesis w" r] t [of Kinesis] by (cases "ans_kinesis w") (simp split: prod.splits)
  next
    case Pubsub
    then show ?thesis using pubsub.acks [of "sp_pubsub ps" "ans_pubsub w" r] t [of Pubsub] by (cases "ans_pubsub w") (simp split: prod.splits)
  next
    case ZMQ
    then show ?thesis using zmq.acks [of "sp_zmq ps" "ans_zmq w" r] t [of ZMQ] by (cases "ans_zmq w") (simp split: prod.splits)
  next
    case Redis
    then show ?thesis using redis.acks [of "sp_redis ps" "ans_redis w" r] t [of Redis] by (cases "ans_redis w") (simp split: prod.splits)
  next
    case MQTT
    then show ?thesis using mqtt.acks [of "sp_mqtt ps" "ans_mqtt w" r] t [of MQTT] by (cases "ans_mqtt w") (simp split: prod.splits)
  qed (use assms(2) in simp)
qed

lemma store_acks_Logger [simp]: "store_acks ps w Logger r = []"
  by (simp add: store_acks_def)

text \<open>The producers to which the effects of a socket hand records, and its answers to the vehicle.\<close>

definition produced :: "'p effects \<Rightarrow> ('p \<times> 'p telemetry_record) list" where
  "produced es = List.map_filter (\<lambda>a. case a of Produce p r \<Rightarrow> Some (p, r) | _ \<Rightarrow> None) (actions es)"

definition responses :: "'p effects \<Rightarrow> socket_message list" where
  "responses es = List.map_filter (\<lambda>a. case a of Respond msg \<Rightarrow> Some msg | _ \<Rightarrow> None) (actions es)"

lemma produced_accepted:
  "List.map_filter (\<lambda>a. case a of Produce p r \<Rightarrow> Some (p, r) | _ \<Rightarrow> None) (accepted_actions fb ts sm record) =
     map (\<lambda>p. (p, record)) (case DispatchRules ts (rec_TxType record) of Some ps \<Rightarrow> ps | None \<Rightarrow> [])"
  "List.map_filter (\<lambda>a. case a of Respond msg \<Rightarrow> Some msg | _ \<Rightarrow> None) (accepted_actions fb ts sm record) =
     (if map_of (cfg_ReliableAckSources (sm_config sm)) (rec_TxType record) = None then [ack_response fb sm record] else [])"
  by (simp_all add: accepted_actions_def List.map_filter_def comp_def)

lemma concat_single: "distinct ds \<Longrightarrow> concat (map (\<lambda>d. if d = e \<and> P then [x] else []) ds) = (if e \<in> set ds \<and> P then [x] else [])"
  by (induction ds) auto

lemma ack_sources_exact:
  assumes "configureReliableAckSources c = Inr m" and "distinct (map fst (cfg_ReliableAckSources c))"
  shows "acks m d t \<longleftrightarrow> map_of (cfg_ReliableAckSources c) t = Some d"
    and "map_of (cfg_ReliableAckSources c) t = Some d \<Longrightarrow> d \<noteq> ''logger'' \<and> (\<exists>ds. map_of (cfg_Records c) t = Some ds \<and> d \<in> set ds)"
proof -
  note loop = reliableAckSources_loop_Inr [OF assms(1) [unfolded configureReliableAckSources_def]]
  show "acks m d t \<longleftrightarrow> map_of (cfg_ReliableAckSources c) t = Some d"
    using loop map_of_eq_Some_iff [OF assms(2)] by simp
  show "d \<noteq> ''logger'' \<and> (\<exists>ds. map_of (cfg_Records c) t = Some ds \<and> d \<in> set ds)"
    if "map_of (cfg_ReliableAckSources c) t = Some d"
    using loop map_of_SomeD [OF that] by (auto simp: list_all_iff valid_source_iff)
qed

section \<open>Properties\<close>

text \<open>
  C1: Every accepted record of a type that is dispatched to distinct datastores has one
  acknowledger. If its type has no acknowledgement source, the socket acknowledges it at once and no
  datastore does. If it has one, the socket leaves the acknowledgement to the datastores, the source
  acknowledges the record once when the store has taken it, and the other datastores never do.
\<close>

theorem one_acknowledger:
  assumes config: "configureReliableAckSources c = Inr m" "distinct (map fst (cfg_ReliableAckSources c))" "sm_config sm = c"
    and rules: "rec_Serializer r = Some ts" "DispatchRules ts (rec_TxType r) = Some ds" "distinct ds"
      "map_of (cfg_Records c) (rec_TxType r) = Some (map dispatcher_name ds)"
    and accept: "acceptRecord fb sm r = Some (sm', es)"
  shows "produced es = map (\<lambda>d. (d, r)) ds \<and>
    (case map_of (cfg_ReliableAckSources c) (rec_TxType r) of
       None \<Rightarrow> responses es = [ack_response fb sm r] \<and>
               concat (map (\<lambda>(d, r). store_acks (started_producers env c m) w d r) (produced es)) = []
     | Some name \<Rightarrow> responses es = [] \<and>
         (\<exists>d. name = dispatcher_name d \<and> d \<in> set ds \<and>
            map unstamped (concat (map (\<lambda>(d, r). store_acks (started_producers env c m) w d r) (produced es))) =
              (if store_delivered (started_producers env c m) w d r then [unstamped r] else [])))"
proof -
  let ?ps = "started_producers env c m" and ?src = "map_of (cfg_ReliableAckSources c) (rec_TxType r)"
  have a: "actions es = accepted_actions fb ts sm r" using acceptRecord_actions [OF rules(1), of fb sm] accept by auto
  have p: "produced es = map (\<lambda>d. (d, r)) ds" using rules(2) by (simp add: produced_def a produced_accepted)
  have resp: "responses es = (if ?src = None then [ack_response fb sm r] else [])"
    by (simp add: responses_def a produced_accepted config(3))
  have acks: "map unstamped (store_acks ?ps w d r) =
      (if ?src = Some (dispatcher_name d) \<and> store_delivered ?ps w d r then [unstamped r] else [])" for d
  proof (cases "d = Logger")
    case True
    then show ?thesis using ack_sources_exact(2) [OF config(1,2), of "rec_TxType r" "dispatcher_name d"] by auto
  qed (use store_acks_contract [of ?ps env c m d w r] ack_sources_exact(1) [OF config(1,2)] in auto)
  show ?thesis
  proof (cases ?src)
    case None
    with acks have "store_acks ?ps w d r = []" for d by (metis map_is_Nil_conv option.distinct(1))
    with None p resp show ?thesis by (simp add: comp_def)
  next
    case (Some name)
    from ack_sources_exact(2) [OF config(1,2) Some] rules(4) obtain d where d: "name = dispatcher_name d" "d \<in> set ds" by auto
    have inj: "dispatcher_name d = dispatcher_name e \<longleftrightarrow> e = d" for e by (metis known_name option.inject)
    have "map unstamped (store_acks ?ps w e r) = (if e = d \<and> store_delivered ?ps w d r then [unstamped r] else [])" for e
      unfolding acks Some d(1) option.inject inj by auto
    then have "map unstamped (concat (map (\<lambda>d. store_acks ?ps w d r) ds)) =
        concat (map (\<lambda>e. if e = d \<and> store_delivered ?ps w d r then [unstamped r] else []) ds)"
      by (simp add: map_concat comp_def)
    with Some p resp d rules(3) show ?thesis by (auto simp: comp_def concat_single)
  qed
qed

definition example_answers :: "dispatcher store_answers" where
  "example_answers = \<lparr>ans_kafka = ((\<lambda>x. x), (\<lambda>_. None), 0, 0, None, []), ans_kinesis = ((\<lambda>_. Inl []), 0), ans_pubsub = ((\<lambda>_. None), 0),
     ans_zmq = (False, (\<lambda>_ b. Inr (length b))),
     ans_redis = (0, 0, \<lparr>rs_sets = (\<lambda>_. []), rs_remErr = None, rs_rangeErr = None, rs_publishErr = (\<lambda>_. None)\<rparr>),
     ans_mqtt = (example_calls, False)\<rparr>"

definition routed_record :: "dispatcher telemetry_record" where
  "routed_record = (blank_record (NewBinarySerializer (Some example_identity) example_rules))\<lparr>rec_TxType := ''V''\<rparr>"

theorem one_acknowledger_witness:
  "\<exists>m sm' es. configureReliableAckSources example_config = Inr m \<and>
     acceptRecord tfb (example_socket\<lparr>sm_config := example_config\<rparr>) routed_record = Some (sm', es) \<and> responses es = [] \<and>
     length (concat (map (\<lambda>(d, r). store_acks (started_producers (\<lambda>_. []) example_config m) example_answers d r) (produced es))) = 1"
proof -
  let ?sm = "example_socket\<lparr>sm_config := example_config\<rparr>" and ?r = routed_record
  obtain m where m: "configureReliableAckSources example_config = Inr m"
    by (auto simp: configureReliableAckSources_def example_config_def parseValidDispatchers_def)
  let ?ts = "NewBinarySerializer (Some example_identity) example_rules"
  have r: "rec_Serializer ?r = Some ?ts" "DispatchRules ?ts (rec_TxType ?r) = Some [Kafka, Logger]" "rec_TxType ?r = ''V''"
    by (simp_all add: routed_record_def blank_record_def NewBinarySerializer_def example_rules_def)
  obtain sm' es where a: "acceptRecord tfb ?sm ?r = Some (sm', es)" using acceptRecord_actions [OF r(1)] by blast
  have c: "distinct (map fst (cfg_ReliableAckSources example_config))" "sm_config ?sm = example_config" "distinct [Kafka, Logger]"
    "map_of (cfg_Records example_config) (rec_TxType ?r) = Some (map dispatcher_name [Kafka, Logger])"
    "map_of (cfg_ReliableAckSources example_config) (rec_TxType ?r) = Some ''kafka''"
    by (simp_all add: example_config_def r)
  have d: "store_delivered ps example_answers Kafka ?r" for ps
    by (simp add: store_delivered_def example_answers_def kafka_Produce_def Let_def)
  have k: "''kafka'' = dispatcher_name e \<longleftrightarrow> e = Kafka" for e by (cases e) simp_all
  from one_acknowledger [OF m c(1,2) r(1,2) c(3,4) a, of "\<lambda>_. []" example_answers] c(5) have "responses es = []"
    and "map unstamped (concat (map (\<lambda>(d, r). store_acks (started_producers (\<lambda>_. []) example_config m) example_answers d r) (produced es))) = [unstamped ?r]"
    by (auto simp: k d)
  with m a show ?thesis by (metis length_map length_Cons list.size(3) One_nat_def)
qed

end
