(* ===== verification/Metrics.thy ===== *)
theory Metrics
  imports Server Datastores Mqtt
begin

text \<open>
  The metrics (\<^verbatim>\<open>metrics\<close>, its adapters, and the \<^verbatim>\<open>registerMetrics\<close> functions of all packages). A collector
  is registered with a name and its labels; Prometheus panics when a name is registered twice, when
  an update names other labels than the registration, and when a counter is decreased. The theorems
  show that the updates of the server meet these conditions.
\<close>

section \<open>Registration\<close>

record collector_options =
  Opt_Name :: string
  Opt_Help :: string
  Opt_Labels :: "string list"

datatype collector_kind = Counter | Gauge | Timer

definition socket_registerMetrics :: "(collector_kind \<times> collector_options) list" where
  "socket_registerMetrics =
     [(Counter, \<lparr>Opt_Name = ''rate_limit_exceeded_total'', Opt_Help = ''The number of times a client has been rate limited.'',
        Opt_Labels = [''device_id'', ''txtype'']\<rparr>),
      (Counter, \<lparr>Opt_Name = ''record_too_big_total'', Opt_Help = ''The number of times the record was too large.'',
        Opt_Labels = []\<rparr>),
      (Counter, \<lparr>Opt_Name = ''unauthorized_sender_id_total'', Opt_Help = ''The number of times the sender was not authorized.'',
        Opt_Labels = []\<rparr>),
      (Counter, \<lparr>Opt_Name = ''unknown_message_type_error_total'', Opt_Help = ''The number of times the message type was not known.'',
        Opt_Labels = [''msg_type'']\<rparr>),
      (Counter, \<lparr>Opt_Name = ''dispatch_total'', Opt_Help = ''The number of records dispatched.'',
        Opt_Labels = [''record_type'']\<rparr>),
      (Counter, \<lparr>Opt_Name = ''unexpected_record_err_total'', Opt_Help = ''The number of unexpected records received.'',
        Opt_Labels = []\<rparr>),
      (Counter, \<lparr>Opt_Name = ''socket_err_total'', Opt_Help = ''The number of socket errors.'',
        Opt_Labels = []\<rparr>),
      (Counter, \<lparr>Opt_Name = ''record_size_bytes_total'', Opt_Help = ''The total number of record bytes processed.'',
        Opt_Labels = [''record_type'']\<rparr>),
      (Counter, \<lparr>Opt_Name = ''record_total'', Opt_Help = ''The number of records processed.'',
        Opt_Labels = [''record_type'']\<rparr>),
      (Gauge, \<lparr>Opt_Name = ''signal_count'', Opt_Help = ''Total number of signals received per record type'',
        Opt_Labels = [''record_type'']\<rparr>),
      (Gauge, \<lparr>Opt_Name = ''vin_signal_count'', Opt_Help = ''Total number of signals received per vin per record type'',
        Opt_Labels = [''record_type'', ''vin'']\<rparr>)]"

definition server_registerMetrics :: "(collector_kind \<times> collector_options) list" where
  "server_registerMetrics =
     [(Counter, \<lparr>Opt_Name = ''reliable_ack'', Opt_Help = ''The number of reliable acknowledgements.'',
        Opt_Labels = [''record_type'', ''dispatcher'']\<rparr>),
      (Counter, \<lparr>Opt_Name = ''reliable_ack_miss'', Opt_Help = ''The number of missing reliable acknowledgements.'',
        Opt_Labels = [''record_type'', ''dispatcher'']\<rparr>)]"

definition kafka_registerMetrics :: "(collector_kind \<times> collector_options) list" where
  "kafka_registerMetrics =
     [(Counter, \<lparr>Opt_Name = ''kafka_produce_total'', Opt_Help = ''The number of records produced to Kafka.'',
        Opt_Labels = [''record_type'']\<rparr>),
      (Counter, \<lparr>Opt_Name = ''kafka_produce_total_bytes'', Opt_Help = ''The number of bytes produced to Kafka.'',
        Opt_Labels = [''record_type'']\<rparr>),
      (Counter, \<lparr>Opt_Name = ''kafka_produce_ack_total'', Opt_Help = ''The number of records produced to Kafka for which we got an ACK.'',
        Opt_Labels = [''record_type'']\<rparr>),
      (Counter, \<lparr>Opt_Name = ''kafka_reliable_ack_total'', Opt_Help = ''The number of records produced to Kafka for which we sent a reliable ACK.'',
        Opt_Labels = [''record_type'']\<rparr>),
      (Counter, \<lparr>Opt_Name = ''kafka_produce_ack_total_bytes'', Opt_Help = ''The number of bytes produced to Kafka for which we got an ACK.'',
        Opt_Labels = [''record_type'']\<rparr>),
      (Counter, \<lparr>Opt_Name = ''kafka_err'', Opt_Help = ''The number of errors while producing to Kafka.'',
        Opt_Labels = []\<rparr>),
      (Gauge, \<lparr>Opt_Name = ''kafka_produce_queue_size'', Opt_Help = ''Total pending messages to produce'',
        Opt_Labels = [''type'']\<rparr>)]"

definition kinesis_registerMetrics :: "(collector_kind \<times> collector_options) list" where
  "kinesis_registerMetrics =
     [(Counter, \<lparr>Opt_Name = ''kinesis_err'', Opt_Help = ''The number of errors while producing to Kinesis.'',
        Opt_Labels = [''record_type'']\<rparr>),
      (Counter, \<lparr>Opt_Name = ''kinesis_publish_total'', Opt_Help = ''The number of messages published to Kinesis.'',
        Opt_Labels = [''record_type'']\<rparr>),
      (Counter, \<lparr>Opt_Name = ''kinesis_publish_total_bytes'', Opt_Help = ''The number of bytes published to Kinesis.'',
        Opt_Labels = [''record_type'']\<rparr>),
      (Counter, \<lparr>Opt_Name = ''kinesis_reliable_ack_total'', Opt_Help = ''The number of records produced to Kinesis for which we sent a reliable ACK.'',
        Opt_Labels = [''record_type'']\<rparr>)]"

definition pubsub_registerMetrics :: "(collector_kind \<times> collector_options) list" where
  "pubsub_registerMetrics =
     [(Counter, \<lparr>Opt_Name = ''pubsub_not_connected_total'', Opt_Help = ''The number of times pubsub has not been connected when attempting to produce.'',
        Opt_Labels = [''record_type'']\<rparr>),
      (Counter, \<lparr>Opt_Name = ''pubsub_publish_total'', Opt_Help = ''The number of messages published to pubsub.'',
        Opt_Labels = [''record_type'']\<rparr>),
      (Counter, \<lparr>Opt_Name = ''pubsub_publish_total_bytes'', Opt_Help = ''The number of bytes published to pubsub.'',
        Opt_Labels = [''record_type'']\<rparr>),
      (Counter, \<lparr>Opt_Name = ''pubsub_err'', Opt_Help = ''The number of errors while publishing to pubsub.'',
        Opt_Labels = [''record_type'']\<rparr>),
      (Counter, \<lparr>Opt_Name = ''pubsub_reliable_ack_total'', Opt_Help = ''The number of records produced to pubsub for which we sent a reliable ACK.'',
        Opt_Labels = [''record_type'']\<rparr>)]"

definition zmq_registerMetrics :: "(collector_kind \<times> collector_options) list" where
  "zmq_registerMetrics =
     [(Counter, \<lparr>Opt_Name = ''zmq_err'', Opt_Help = ''The number of errors while producing to ZMQ.'',
        Opt_Labels = [''record_type'']\<rparr>),
      (Counter, \<lparr>Opt_Name = ''zmq_publish_total'', Opt_Help = ''The number of messages published to ZMQ.'',
        Opt_Labels = [''record_type'']\<rparr>),
      (Counter, \<lparr>Opt_Name = ''zmq_publish_total_bytes'', Opt_Help = ''The number of bytes published to ZMQ.'',
        Opt_Labels = [''record_type'']\<rparr>),
      (Counter, \<lparr>Opt_Name = ''zmq_reliable_ack_total'', Opt_Help = ''The number of records produced to ZMQ for which we sent a reliable ACK.'',
        Opt_Labels = [''record_type'']\<rparr>)]"

definition redis_registerMetrics :: "(collector_kind \<times> collector_options) list" where
  "redis_registerMetrics =
     [(Counter, \<lparr>Opt_Name = ''redis_publish_total'', Opt_Help = ''The number of messages published to Redis.'',
        Opt_Labels = [''record_type'']\<rparr>),
      (Counter, \<lparr>Opt_Name = ''redis_publish_total_bytes'', Opt_Help = ''The number of bytes published to Redis.'',
        Opt_Labels = [''record_type'']\<rparr>),
      (Counter, \<lparr>Opt_Name = ''redis_err'', Opt_Help = ''The number of errors while publishing to Redis.'',
        Opt_Labels = [''record_type'']\<rparr>),
      (Counter, \<lparr>Opt_Name = ''redis_reliable_ack_total'', Opt_Help = ''The number of records published to Redis for which we sent a reliable ACK.'',
        Opt_Labels = [''record_type'']\<rparr>)]"

definition mqtt_registerMetrics :: "(collector_kind \<times> collector_options) list" where
  "mqtt_registerMetrics =
     [(Counter, \<lparr>Opt_Name = ''mqtt_err'', Opt_Help = ''The number of errors while publishing to MQTT.'',
        Opt_Labels = [''record_type'']\<rparr>),
      (Counter, \<lparr>Opt_Name = ''mqtt_publish_total'', Opt_Help = ''The number of values published to MQTT.'',
        Opt_Labels = [''record_type'']\<rparr>),
      (Counter, \<lparr>Opt_Name = ''mqtt_publish_total_bytes'', Opt_Help = ''The number of JSON bytes published to MQTT.'',
        Opt_Labels = [''record_type'']\<rparr>),
      (Counter, \<lparr>Opt_Name = ''mqtt_reliable_ack_total'', Opt_Help = ''The number of records published to MQTT topics for which we sent a reliable ACK.'',
        Opt_Labels = [''record_type'']\<rparr>)]"

definition usage_registerMetrics :: "(collector_kind \<times> collector_options) list" where
  "usage_registerMetrics =
     [(Gauge, \<lparr>Opt_Name = ''num_goroutine'', Opt_Help = ''The number of active Go routines.'',
        Opt_Labels = []\<rparr>),
      (Gauge, \<lparr>Opt_Name = ''memory_allocated_bytes'', Opt_Help = ''The number of bytes Go has allocated.'',
        Opt_Labels = []\<rparr>),
      (Gauge, \<lparr>Opt_Name = ''memory_heap'', Opt_Help = ''The number of bytes of heap space Go has allocated.'',
        Opt_Labels = []\<rparr>),
      (Gauge, \<lparr>Opt_Name = ''memory_stack'', Opt_Help = ''The number of bytes of stack space Go has allocated.'',
        Opt_Labels = []\<rparr>),
      (Gauge, \<lparr>Opt_Name = ''gc_total_pause'', Opt_Help = ''The number of ms paused in total for garbage collection.'',
        Opt_Labels = []\<rparr>),
      (Gauge, \<lparr>Opt_Name = ''gc_pause_per_second'', Opt_Help = ''The number of ms paused per second for garbage collection.'',
        Opt_Labels = []\<rparr>),
      (Gauge, \<lparr>Opt_Name = ''gc_per_second'', Opt_Help = ''The number of times the garbage collector runs per second.'',
        Opt_Labels = []\<rparr>)]"

definition monitoring_registerMetrics :: "(collector_kind \<times> collector_options) list" where
  "monitoring_registerMetrics =
     [(Gauge, \<lparr>Opt_Name = ''uptime_sec'', Opt_Help = ''The number of seconds the application has been running.'',
        Opt_Labels = []\<rparr>),
      (Gauge, \<lparr>Opt_Name = ''num_connections'', Opt_Help = ''The number of active websocket connections.'',
        Opt_Labels = []\<rparr>)]"

section \<open>Collectors\<close>

datatype collector = PrometheusCollector | StatsdCollector string string int | NoopCollector

text \<open>The flush period is a 64-bit duration in nanoseconds.\<close>

definition NewCollector :: "monitoring_settings option \<Rightarrow> collector \<times> log_entry list" where
  "NewCollector monitoringConfig =
     (case monitoringConfig of
        None \<Rightarrow> (NoopCollector, [ActivityLog ''config_skipping_empty_metrics_provider'' []])
      | Some mc \<Rightarrow>
          (if PrometheusMetricsPort mc > 0 then (PrometheusCollector, [])
           else case Monitoring_Statsd mc of
                  Some sd \<Rightarrow>
                    (let flushDuration = (if Statsd_FlushPeriod sd > 0 then duration (Statsd_FlushPeriod sd) Millisecond else 100 * Millisecond)
                     in (StatsdCollector (Statsd_HostPort sd) (Statsd_Prefix sd) flushDuration,
                         [ActivityLog ''new_statsd_client'' [(''address'', GStr (Statsd_HostPort sd)), (''flush_period'', GInt flushDuration)]]))
                | None \<Rightarrow> (NoopCollector, [ActivityLog ''config_skipping_empty_metrics_provider'' []])))"

text \<open>
  The Prometheus collector keeps what it registered; closing the stop channel a second time panics.
\<close>

record prometheus_collector =
  prom_collectors :: "(collector_kind \<times> collector_options) list"
  prom_stopped :: bool

definition prom_NewCollector :: prometheus_collector where
  "prom_NewCollector = \<lparr>prom_collectors = [], prom_stopped = False\<rparr>"

text \<open>\<^verbatim>\<open>mustRegister\<close> is the registry of the client library: \<^const>\<open>None\<close> is its panic.\<close>

definition prom_register ::
    "(collector_kind \<times> collector_options \<Rightarrow> 'g \<Rightarrow> 'g option) \<Rightarrow> collector_kind \<times> collector_options \<Rightarrow>
     prometheus_collector \<times> 'g \<Rightarrow> (prometheus_collector \<times> 'g) option" where
  "prom_register mustRegister collector = (\<lambda>(c, registry).
     map_option (\<lambda>registry. (c\<lparr>prom_collectors := prom_collectors c @ [collector]\<rparr>, registry)) (mustRegister collector registry))"

definition prom_Shutdown ::
    "(collector_kind \<times> collector_options \<Rightarrow> 'g \<Rightarrow> 'g) \<Rightarrow> prometheus_collector \<times> 'g \<Rightarrow> (prometheus_collector \<times> 'g) option" where
  "prom_Shutdown unregister = (\<lambda>(c, registry).
     if prom_stopped c then None else Some (c\<lparr>prom_stopped := True\<rparr>, fold unregister (prom_collectors c) registry))"

text \<open>
  StatsD: the tags of an update, \<^const>\<open>None\<close> for a zero tag, and the call of the client.
\<close>

type_synonym sd_tags = "(string \<times> string) option list"

datatype statsd_call = Incr string int sd_tags | GaugeDelta string int sd_tags | GaugeSet string int sd_tags

definition getTags :: "(labels \<Rightarrow> labels) \<Rightarrow> labels \<Rightarrow> sd_tags" where
  "getTags order labels = replicate (length labels) None @ map Some (order labels)"

fun statsd_update :: "(labels \<Rightarrow> labels) \<Rightarrow> collector_kind \<Rightarrow> metric_update \<Rightarrow> statsd_call option" where
  "statsd_update order Counter (Add name n labels) = Some (Incr name n (getTags order labels))"
| "statsd_update order Counter (Inc name labels) = Some (Incr name 1 (getTags order labels))"
| "statsd_update order Gauge (Add name n labels) = Some (GaugeDelta name n (getTags order labels))"
| "statsd_update order Gauge (Inc name labels) = Some (GaugeDelta name 1 (getTags order labels))"
| "statsd_update order Gauge (Set name n labels) = Some (GaugeSet name n (getTags order labels))"
| "statsd_update _ _ _ = None"

section \<open>Server usage\<close>

record mem_stats =
  ms_Alloc :: "64 word"
  ms_HeapAlloc :: "64 word"
  ms_StackInuse :: "64 word"
  ms_PauseTotalNs :: "64 word"
  ms_NumGC :: "32 word"

record usage_state =
  lastPauseNs :: "64 word"
  lastNumGc :: "32 word"
  lastSampleTime :: int

text \<open>
  One turn of \<^verbatim>\<open>ReportServerUsage\<close>. A division of integers by zero panics; the division of floats does not,
  and \<^verbatim>\<open>overflow\<close> is what the machine makes of its result. The clock is monotonic.
\<close>

definition usage_step ::
    "int \<Rightarrow> int \<Rightarrow> int \<Rightarrow> mem_stats \<Rightarrow> metric_update list \<Rightarrow> usage_state \<Rightarrow> (usage_state \<times> metric_update list) option" where
  "usage_step overflow now goroutines memStats customStats st =
     (let secondsSinceLastSample = (now - lastSampleTime st) div 10 ^ 9;
          pause = (ms_PauseTotalNs memStats - lastPauseNs st) div 1000000;
          countGc = uint (ms_NumGC memStats - lastNumGc st)
      in if lastPauseNs st > 0 \<and> secondsSinceLastSample = 0 then None
         else Some (\<lparr>lastPauseNs = ms_PauseTotalNs memStats, lastNumGc = ms_NumGC memStats, lastSampleTime = now\<rparr>,
           [Set ''num_goroutine'' goroutines [], Set ''memory_allocated_bytes'' (sint (ms_Alloc memStats)) [],
            Set ''memory_heap'' (sint (ms_HeapAlloc memStats)) [], Set ''memory_stack'' (sint (ms_StackInuse memStats)) [],
            Set ''gc_total_pause'' (sint (ms_PauseTotalNs memStats div 1000000)) []] @
           (if lastPauseNs st > 0 then [Set ''gc_pause_per_second'' (sint (pause div word_of_int secondsSinceLastSample)) []] else []) @
           (if lastNumGc st > 0
            then [Set ''gc_per_second'' (if secondsSinceLastSample = 0 then overflow else countGc div secondsSinceLastSample) []] else []) @
           customStats))"

definition appMetrics :: "int \<Rightarrow> int \<Rightarrow> socket_registry \<Rightarrow> metric_update list" where
  "appMetrics startTime now registry =
     [Set ''uptime_sec'' (now - startTime) [], Set ''num_connections'' (NumConnectedSockets registry) []]"

datatype profiler_call = TraceStart | TraceStop

text \<open>Whether the profiler changed, whether it is on, and what was called.\<close>

definition EnableProfiler :: "string \<Rightarrow> bool \<Rightarrow> bool \<times> bool \<times> profiler_call list" where
  "EnableProfiler mode profilerOn =
     (let newProfileMode = (mode = ''on'')
      in if newProfileMode = profilerOn then (False, profilerOn, [])
         else (True, newProfileMode, if mode = ''off'' then [TraceStop] else [TraceStart]))"

section \<open>Accepted updates\<close>

text \<open>The conditions under which Prometheus accepts an update.\<close>

definition labels_match :: "string list \<Rightarrow> labels \<Rightarrow> bool" where
  "labels_match names labels \<longleftrightarrow> distinct (map fst labels) \<and> set (map fst labels) = set names"

fun update_ok :: "(collector_kind \<times> collector_options) list \<Rightarrow> metric_update \<Rightarrow> bool" where
  "update_ok reg (Inc name labels) = list_ex (\<lambda>(k, opts). k \<noteq> Timer \<and> Opt_Name opts = name \<and> labels_match (Opt_Labels opts) labels) reg"
| "update_ok reg (Add name n labels) =
     list_ex (\<lambda>(k, opts). k \<noteq> Timer \<and> (k = Counter \<longrightarrow> n \<ge> 0) \<and> Opt_Name opts = name \<and> labels_match (Opt_Labels opts) labels) reg"
| "update_ok reg (Set name n labels) = list_ex (\<lambda>(k, opts). k = Gauge \<and> Opt_Name opts = name \<and> labels_match (Opt_Labels opts) labels) reg"

abbreviation metered :: "(collector_kind \<times> collector_options) list \<Rightarrow> 'a effect list \<Rightarrow> bool" where
  "metered reg es \<equiv> list_all (update_ok reg) (updates es)"

lemmas registrations =
  socket_registerMetrics_def server_registerMetrics_def kafka_registerMetrics_def kinesis_registerMetrics_def
  pubsub_registerMetrics_def zmq_registerMetrics_def redis_registerMetrics_def mqtt_registerMetrics_def
  usage_registerMetrics_def monitoring_registerMetrics_def

lemmas update_ok_simps = registrations labels_match_def

lemma updates_map_effect [simp]: "updates (map (map_effect f) es) = updates es"
  by (induction es rule: updates.induct) simp_all

lemma updates_map_Log [simp]: "updates (map Log ls) = []"
  by (induction ls) simp_all

lemma updates_map_Metric [simp]: "updates (map Metric ms) = ms"
  by (induction ms) simp_all

lemma updates_on_socket [simp]: "updates (on_socket addr es) = updates es"
  by (simp add: on_socket_def)

lemma ReportError_updates [simp]: "updates (Producer_ReportError m e l) = []"
  by (simp add: Producer_ReportError_def)

subsection \<open>The socket\<close>

abbreviation "sock \<equiv> socket_registerMetrics"

lemma respond_metered: "respondToVehicle fb sm record err = Some es \<Longrightarrow> metered sock es"
  by (auto simp: respondToVehicle_def Let_def update_ok_simps split: option.splits)

lemma Dispatch_updates: "Record_Dispatch record = Some es \<Longrightarrow> updates es = []"
  by (auto simp: Record_Dispatch_def Serializer_Dispatch_def Let_def comp_def split: option.splits)

lemma processRecord_metered: "processRecord record = Some es \<Longrightarrow> metered sock es"
  by (auto simp: processRecord_def update_ok_simps dest: Dispatch_updates)

lemma acceptRecord_metered: "acceptRecord fb sm record = Some (sm', es) \<Longrightarrow> metered sock es"
  by (auto simp: acceptRecord_def ReportMetricBytesPerRecords_def bind_eq_Some_conv update_ok_simps
      dest!: processRecord_metered respond_metered split: if_splits)

lemma ParseAndProcessRecord_metered:
  assumes "ParseAndProcessRecord fb pb panicked now1 now2 ts sm message = Some (sm', es)"
  shows "metered sock es"
proof -
  obtain rcd err logs where n: "NewRecord fb pb panicked now1 now2 ts message (sm_UUID sm) (sm_transmitDecodedRecords sm) = (rcd, err, logs)"
    by (cases "NewRecord fb pb panicked now1 now2 ts message (sm_UUID sm) (sm_transmitDecodedRecords sm)")
  show ?thesis
  proof (cases err)
    case None
    with assms n show ?thesis by (auto simp: ParseAndProcessRecord_def dest: acceptRecord_metered)
  next
    case (Some e)
    with assms n show ?thesis
      by (cases e) (auto simp: ParseAndProcessRecord_def bind_eq_Some_conv update_ok_simps dest!: acceptRecord_metered respond_metered)
  qed
qed

lemma handleMessage_metered:
  assumes "handleMessage fb pb ts i ls = Some (ls', es)"
  shows "metered sock es"
proof -
  have limit: "metered sock (snd (limitMessage fb pb ts i ls))" for ls
    by (auto simp: limitMessage_def trackSignalUsage_def Let_def update_ok_simps split: prod.split)
  obtain ls1 es1 where l: "(if in_Try i then (ls, []) else limitMessage fb pb ts i ls) = (ls1, es1)" by force
  with limit [of ls] have "metered sock es1" by (auto split: if_splits)
  moreover obtain ls2 logs where "reportLimit i ls1 = (ls2, logs)" by force
  ultimately show ?thesis
    using assms l by (auto simp: handleMessage_def bind_eq_Some_conv dest!: ParseAndProcessRecord_metered split: if_splits)
qed

lemma read_loop_metered: "read_loop fb pb ts is ls = Some (ls', es) \<Longrightarrow> metered sock es"
proof (induction fb pb ts "is" ls arbitrary: es rule: read_loop.induct)
  case (2 fb pb ts i "is" ls)
  then show ?case by (fastforce simp: bind_eq_Some_conv dest: handleMessage_metered split: if_splits)
qed simp

lemma ProcessTelemetry_metered: "ProcessTelemetry fb pb ts inputs closeErr now sm = Some (sm', es) \<Longrightarrow> metered sock es"
  by (auto simp: ProcessTelemetry_def bind_eq_Some_conv dest!: read_loop_metered)

subsection \<open>The server\<close>

lemma dispatchConnectivityEvent_updates:
  "dispatchConnectivityEvent fb pb panicked now now1 now2 rules sm serializer event = Some (err, es) \<Longrightarrow> updates es = []"
  by (auto simp: dispatchConnectivityEvent_def split: option.splits prod.splits Option.bind_splits)

lemma registration_updates:
  "registerSocket fb pb t rules addr sm serializer reg = Some (reg', es) \<Longrightarrow> updates es = []"
  "deregisterSocket fb pb t rules sm serializer reg = Some (reg', es) \<Longrightarrow> updates es = []"
  by (auto simp: registerSocket_def deregisterSocket_def Let_def bind_eq_Some_conv dest: dispatchConnectivityEvent_updates)

lemma ServeBinaryWs_metered:
  assumes "ServeBinaryWs fb pb uuid_Parse rules c con reg = Some (reg', es)"
  shows "metered sock es"
proof (cases "con_upgrade con")
  case None
  show ?thesis
  proof (cases "extractIdentityFromConnection (con_tls con) (con_request con)")
    case (Inl err)
    with None assms show ?thesis by (auto simp: ServeBinaryWs_def promoteToWebsocket_def)
  next
    case (Inr identity)
    with None assms show ?thesis
      by (auto simp: ServeBinaryWs_def promoteToWebsocket_def Let_def bind_eq_Some_conv
          dest!: registration_updates ProcessTelemetry_metered)
  qed
next
  case (Some e)
  with assms show ?thesis by (auto simp: ServeBinaryWs_def promoteToWebsocket_def split: prod.splits if_splits)
qed

lemma update_ok_append: "update_ok (a @ b) u \<longleftrightarrow> update_ok a u \<or> update_ok b u"
  by (cases u) simp_all

lemma metered_mono: "metered a es \<Longrightarrow> metered (a @ b) es"
  by (auto simp: list_all_iff update_ok_append)

lemma handleAcks_metered:
  "handleAcks fb srcs sockets reg records = Some es \<Longrightarrow> metered (sock @ server_registerMetrics) es"
proof (induction fb srcs sockets reg records arbitrary: es rule: handleAcks.induct)
  case (2 fb srcs sockets reg rcd rcds)
  have "metered (sock @ server_registerMetrics) es'" if h: "handleAck fb srcs sockets reg rcd = Some es'" for es'
  proof (cases "rec_Serializer rcd = None")
    case False
    have ok: "update_ok server_registerMetrics (Inc ''reliable_ack'' [(''record_type'', t), (''dispatcher'', d)])"
      "update_ok server_registerMetrics (Inc ''reliable_ack_miss'' [(''record_type'', t), (''dispatcher'', d)])" for t d
      by (simp_all add: update_ok_simps)
    show ?thesis
    proof (cases "GetSocket (rec_SocketID rcd) reg")
      case None
      with h False ok show ?thesis by (auto simp: handleAck_def Let_def update_ok_append)
    next
      case (Some addr)
      with h False obtain es'' where "respondToVehicle fb (sockets addr) rcd None = Some es''"
        and "updates es' = Inc ''reliable_ack'' [(''record_type'', rec_TxType rcd),
            (''dispatcher'', case map_of srcs (rec_TxType rcd) of Some d \<Rightarrow> d | None \<Rightarrow> [])] # updates es''"
        by (auto simp: handleAck_def Let_def)
      with ok respond_metered metered_mono show ?thesis by (fastforce simp: update_ok_append)
    qed
  qed (use h in \<open>auto simp: handleAck_def Let_def\<close>)
  with 2 show ?case by (auto simp: bind_eq_Some_conv)
qed simp

subsection \<open>The datastores\<close>

lemma kafka_metered:
  "metered kafka_registerMetrics (kafka_Produce order client now1 now2 kp r)"
  "metered kafka_registerMetrics (handleProducerEvents kp events)"
  "list_all (update_ok kafka_registerMetrics) (reportProducerMetrics len eventsCount)"
proof -
  show "metered kafka_registerMetrics (kafka_Produce order client now1 now2 kp r)"
    by (simp add: kafka_Produce_def kafka_logError_def Let_def update_ok_simps split: option.split)
  have "metered kafka_registerMetrics (handleProducerEvent kp e)" for e
    by (cases "(kp, e)" rule: handleProducerEvent.cases) (auto simp: ProcessReliableAck_def kafka_logError_def update_ok_simps)
  then show "metered kafka_registerMetrics (handleProducerEvents kp events)"
    unfolding handleProducerEvents_def by (induction events) auto
  show "list_all (update_ok kafka_registerMetrics) (reportProducerMetrics len eventsCount)"
    by (simp add: reportProducerMetrics_def update_ok_simps)
qed

lemma kinesis_metered: "metered kinesis_registerMetrics (kinesis_Produce putRecord now np r)"
  by (auto simp: kinesis_Produce_def Let_def ProcessReliableAck_def update_ok_simps split: option.split sum.split prod.split)

lemma pubsub_metered:
  "metered pubsub_registerMetrics (pubsub_Produce publish now pp r)" "metered pubsub_registerMetrics (snd (ProvisionTopics admin pp txTypes))"
  subgoal by (auto simp: pubsub_Produce_def Let_def ProcessReliableAck_def update_ok_simps split: option.split)
  subgoal by (induction txTypes) (auto simp: Let_def update_ok_simps split: option.split prod.split)
  done

lemma zmq_metered: "metered zmq_registerMetrics (zmq_Produce cancelled send zp r)"
  by (auto simp: zmq_Produce_def Let_def ProcessReliableAck_def update_ok_simps split: sum.split)

lemma ack_metered:
  "metered redis_registerMetrics (ProcessReliableAck types ''redis_reliable_ack_total'' r)"
  "metered mqtt_registerMetrics (ProcessReliableAck types ''mqtt_reliable_ack_total'' r)"
  by (simp_all add: ProcessReliableAck_def update_ok_simps)

lemma redis_metered:
  fixes r :: "'p telemetry_record"
  shows "metered redis_registerMetrics (fst (redis_Produce now1 now2 rp r srv))"
proof -
  have pub: "metered redis_registerMetrics (snd (redis_publish publishErr r' chs))" for publishErr chs and r' :: "'p telemetry_record"
    by (induction publishErr r' chs rule: redis_publish.induct) (auto simp: Let_def update_ok_simps split: option.splits prod.splits)
  obtain res srv' where c: "channelsForRecord now2 rp r srv = (res, srv')" by force
  show ?thesis
  proof (cases res)
    case (Inr chs)
    obtain ok es where "redis_publish (rs_publishErr srv') (r\<lparr>rec_ProduceTime := now1\<rparr>) chs = (ok, es)" by force
    with Inr ack_metered pub [of "rs_publishErr srv'" "r\<lparr>rec_ProduceTime := now1\<rparr>" chs] show ?thesis
      by (simp add: redis_Produce_def Let_def c ack_metered)
  qed (simp add: redis_Produce_def Let_def c update_ok_simps)
qed

lemma publishAll_metered: "metered mqtt_registerMetrics (snd (snd (mqtt_publishAll calls mp r ts)))"
  by (induction calls mp r ts rule: mqtt_publishAll.induct)
    (auto simp: Let_def mqtt_updateMetrics_def update_ok_simps split: sum.splits prod.splits)

lemma process_message_metered:
  assumes "process_message calls mp r message = Some (err, tokens, es)"
  shows "metered mqtt_registerMetrics es"
proof -
  have all: "mqtt_publishAll calls mp r ts = (err, tokens, es) \<Longrightarrow> ?thesis" for ts
    using publishAll_metered [of calls mp r ts] by simp
  show ?thesis
  proof (cases message)
    case (ConnectivityMessage c)
    with assms show ?thesis
      by (auto simp: process_message_def processVehicleConnectivity_def Let_def split: sum.splits)
  qed (use assms all in \<open>auto simp: process_message_def processVehicleFields_def processVehicleAlerts_def
        processVehicleErrors_def Let_def split: prod.splits\<close>)
qed

lemma mqtt_metered:
  assumes "mqtt_Produce calls cancelled mp r = Some es"
  shows "metered mqtt_registerMetrics es"
proof -
  have err: "update_ok mqtt_registerMetrics (Inc ''mqtt_err'' [(''record_type'', t)])" for t
    by (simp add: update_ok_simps)
  have wait: "metered mqtt_registerMetrics (snd (waitTokens calls mp r timeout i tokens))" for timeout i tokens
    by (induction calls mp r timeout i tokens rule: waitTokens.induct)
      (auto simp: Let_def update_ok_simps split: option.splits prod.splits)
  show ?thesis
  proof (cases "\<not> cancelled \<and> rec_protoMessage r \<noteq> None")
    case True
    then obtain message where c: "\<not> cancelled" "rec_protoMessage r = Some message" by blast
    with assms obtain e tokens ps where m: "process_message calls mp r message = Some (e, tokens, ps)"
      by (auto simp: mqtt_Produce_def split: option.splits)
    obtain ok ws where w: "waitTokens calls mp r (duration (MQTT_PublishTimeout (mqtt_config mp)) Millisecond) 0 tokens = (ok, ws)" by force
    then have "metered mqtt_registerMetrics ws" using wait by (metis snd_conv)
    with assms c m w process_message_metered [OF m] err ack_metered show ?thesis
      by (cases e) (auto simp: mqtt_Produce_def)
  qed (use assms in \<open>auto simp: mqtt_Produce_def split: if_splits\<close>)
qed

subsection \<open>Server usage\<close>

lemma usage_metered:
  assumes "usage_step overflow now goroutines memStats (appMetrics startTime now' registry) st = Some (st', us)"
  shows "list_all (update_ok (usage_registerMetrics @ monitoring_registerMetrics)) us"
  using assms by (auto simp: usage_step_def appMetrics_def Let_def update_ok_append update_ok_simps split: if_splits)

lemma registered_names_distinct:
  "distinct (map (Opt_Name \<circ> snd) (sock @ server_registerMetrics @ kafka_registerMetrics @ kinesis_registerMetrics @
     pubsub_registerMetrics @ zmq_registerMetrics @ redis_registerMetrics @ mqtt_registerMetrics @ usage_registerMetrics @
     monitoring_registerMetrics))"
  by (simp add: registrations)

section \<open>Properties\<close>

text \<open>
  C16: No metric of the program makes the Prometheus client panic: all registered names are distinct,
  and every update that the connections, the acknowledgement loop, the datastores and the usage
  report make is of a registered metric, with exactly its labels, of an operation its kind has, and
  never lowers a counter.
\<close>

theorem metric_updates_registered:
  assumes "ServeBinaryWs fb pb uuid_Parse rules c con reg = Some (reg', served)"
    and "handleAcks fb' srcs sockets reg records = Some ackEffects"
    and "mqtt_Produce calls cancelled mp r = Some published"
    and "usage_step overflow now goroutines memStats (appMetrics startTime now' reg) st = Some (st', usage)"
  shows "distinct (map (Opt_Name \<circ> snd) (socket_registerMetrics @ server_registerMetrics @ kafka_registerMetrics @
             kinesis_registerMetrics @ pubsub_registerMetrics @ zmq_registerMetrics @ redis_registerMetrics @ mqtt_registerMetrics @
             usage_registerMetrics @ monitoring_registerMetrics)) \<and>
    list_all (update_ok socket_registerMetrics) (updates served) \<and>
    list_all (update_ok (socket_registerMetrics @ server_registerMetrics)) (updates ackEffects) \<and>
    list_all (update_ok kafka_registerMetrics)
      (updates (kafka_Produce order client now1 now2 kp r) @ updates (handleProducerEvents kp events) @ reportProducerMetrics len eventsCount) \<and>
    list_all (update_ok kinesis_registerMetrics) (updates (kinesis_Produce putRecord now1 np r)) \<and>
    list_all (update_ok pubsub_registerMetrics) (updates (pubsub_Produce publish now1 pp r) @ updates (snd (ProvisionTopics admin pp txTypes))) \<and>
    list_all (update_ok zmq_registerMetrics) (updates (zmq_Produce cancelled send zp r)) \<and>
    list_all (update_ok redis_registerMetrics) (updates (fst (redis_Produce now1 now2 rp r srv))) \<and>
    list_all (update_ok mqtt_registerMetrics) (updates published) \<and>
    list_all (update_ok (usage_registerMetrics @ monitoring_registerMetrics)) usage"
  by (intro conjI)
    (simp_all add: registered_names_distinct ServeBinaryWs_metered [OF assms(1)] handleAcks_metered [OF assms(2)] mqtt_metered [OF assms(3)]
      usage_metered [OF assms(4)] kafka_metered kinesis_metered pubsub_metered zmq_metered redis_metered del: map_append)

theorem metric_updates_registered_witness:
  "\<exists>reg' served. ServeBinaryWs tfb tpb (\<lambda>_. None) example_rules empty_config example_connection NewSocketRegistry = Some (reg', served) \<and>
     list_all (update_ok socket_registerMetrics) (updates served) \<and>
     list_all (update_ok kafka_registerMetrics) (reportProducerMetrics 3 1)"
proof -
  obtain reg' served where s: "ServeBinaryWs tfb tpb (\<lambda>_. None) example_rules empty_config example_connection NewSocketRegistry = Some (reg', served)"
    by (rule example_connection_actions [of NewSocketRegistry])
  have a: "handleAcks tfb [] (\<lambda>_. example_socket) NewSocketRegistry [] = Some []" by simp
  have m: "mqtt_Produce example_calls True example_mqtt (blank_record example_serializer) = Some []" by (simp add: mqtt_Produce_def)
  obtain st' us where u: "usage_step 0 (60 * 10 ^ 9) 5 \<lparr>ms_Alloc = 1, ms_HeapAlloc = 1, ms_StackInuse = 1, ms_PauseTotalNs = 0, ms_NumGC = 0\<rparr>
      (appMetrics 0 60 NewSocketRegistry) \<lparr>lastPauseNs = 0, lastNumGc = 0, lastSampleTime = 0\<rparr> = Some (st', us)"
    by (simp add: usage_step_def Let_def)
  note ok = metric_updates_registered [OF s a m u, where len = 3 and eventsCount = 1, THEN conjunct2]
  from s ok [THEN conjunct1] ok [THEN conjunct2, THEN conjunct2, THEN conjunct1, unfolded list_all_append, THEN conjunct2, THEN conjunct2] show ?thesis by simp
qed

text \<open>
  The report of the server usage divides by zero, and panics, exactly when a sample is taken less than
  a second after the one before and a garbage collection pause was seen by then.
\<close>

theorem usage_report_panics:
  assumes "lastSampleTime st \<le> now"
  shows "usage_step overflow now goroutines memStats us st = None \<longleftrightarrow> lastPauseNs st \<noteq> 0 \<and> now - lastSampleTime st < 10 ^ 9"
proof -
  have "(now - lastSampleTime st) div 10 ^ 9 = 0 \<longleftrightarrow> now - lastSampleTime st < 10 ^ 9"
    using assms by (auto simp: zdiv_eq_0_iff)
  then show ?thesis by (simp add: usage_step_def Let_def word_gt_0)
qed

end
