(* ===== verification/Go_Net.thy ===== *)
theory Go_Net
  imports Go_Strings
begin

text \<open>
  What the program uses of Go's \<^verbatim>\<open>net\<close> and \<^verbatim>\<open>net/http\<close>: splitting and joining of \<^verbatim>\<open>host:port\<close>, and the
  response of an HTTP handler, which is the list of calls the handler makes on its response writer.
\<close>

section \<open>Addresses\<close>

datatype addr_error = MissingPort | TooManyColons | MissingBracket | UnexpectedOpen | UnexpectedClose

definition IndexByte :: "string \<Rightarrow> char \<Rightarrow> nat option" where
  "IndexByte s c = (let n = length (takeWhile (\<lambda>d. d \<noteq> c) s) in if n < length s then Some n else None)"

definition LastIndexByte :: "string \<Rightarrow> char \<Rightarrow> nat option" where
  "LastIndexByte s c = map_option (\<lambda>n. length s - Suc n) (IndexByte (rev s) c)"

text \<open>
  \<^verbatim>\<open>net.SplitHostPort\<close>: the port follows the last colon; a host in brackets may hold colons, and there
  are no other brackets. The nested function is the common end of its two cases, with the positions
  from which on brackets are refused.
\<close>

definition SplitHostPort :: "string \<Rightarrow> addr_error + string \<times> string" where
  "SplitHostPort hostport =
     (case LastIndexByte hostport CHR '':'' of
        None \<Rightarrow> Inl MissingPort
      | Some i \<Rightarrow>
          (let finish = (\<lambda>host j k.
                 if CHR ''['' \<in> set (drop j hostport) then Inl UnexpectedOpen
                 else if CHR '']'' \<in> set (drop k hostport) then Inl UnexpectedClose
                 else Inr (host, drop (Suc i) hostport))
           in if hostport ! 0 = CHR ''['' then
                (case IndexByte hostport CHR '']'' of
                   None \<Rightarrow> Inl MissingBracket
                 | Some end' \<Rightarrow>
                     if Suc end' = length hostport then Inl MissingPort
                     else if Suc end' = i then finish (drop 1 (take end' hostport)) 1 (Suc end')
                     else if hostport ! Suc end' = CHR '':'' then Inl TooManyColons
                     else Inl MissingPort)
              else if CHR '':'' \<in> set (take i hostport) then Inl TooManyColons
              else finish (take i hostport) 0 0))"

definition JoinHostPort :: "string \<Rightarrow> string \<Rightarrow> string" where
  "JoinHostPort host port =
     (if CHR '':'' \<in> set host then ''['' @ host @ '']:'' @ port else host @ '':'' @ port)"

lemma IndexByte_append: "c \<notin> set a \<Longrightarrow> IndexByte (a @ c # b) c = Some (length a)"
  by (simp add: IndexByte_def takeWhile_append)

lemma IndexByte_None: "IndexByte s c = None \<longleftrightarrow> c \<notin> set s"
proof
  assume "IndexByte s c = None"
  then have "length (takeWhile (\<lambda>d. d \<noteq> c) s) = length s"
    using length_takeWhile_le [of "\<lambda>d. d \<noteq> c" s] by (simp add: IndexByte_def Let_def split: if_splits)
  then have "takeWhile (\<lambda>d. d \<noteq> c) s = s" by (metis takeWhile_eq_take take_all_iff order_refl)
  then show "c \<notin> set s" by (metis (full_types) set_takeWhileD)
next
  assume "c \<notin> set s"
  then have "takeWhile (\<lambda>d. d \<noteq> c) s = s" by (auto simp: takeWhile_eq_all_conv)
  then show "IndexByte s c = None" unfolding IndexByte_def Let_def by (simp only: less_irrefl if_False)
qed

lemma LastIndexByte_append: "c \<notin> set b \<Longrightarrow> LastIndexByte (a @ c # b) c = Some (length a)"
  using IndexByte_append [of c "rev b" "rev a"] by (simp add: LastIndexByte_def)

lemma LastIndexByte_None: "LastIndexByte s c = None \<longleftrightarrow> c \<notin> set s"
  by (simp add: LastIndexByte_def IndexByte_None)

lemma SplitHostPort_no_colon: "CHR '':'' \<notin> set s \<Longrightarrow> SplitHostPort s = Inl MissingPort"
  using LastIndexByte_None [of s "CHR '':''"] by (simp add: SplitHostPort_def)

text \<open>Splitting undoes joining, for hosts and ports without brackets and ports without a colon.\<close>

lemma SplitHostPort_plain:
  assumes "set host \<inter> {CHR '':'', CHR ''['', CHR '']''} = {}" and "set port \<inter> {CHR '':'', CHR ''['', CHR '']''} = {}"
  shows "SplitHostPort (host @ '':'' @ port) = Inr (host, port)"
proof -
  have "LastIndexByte (host @ '':'' @ port) CHR '':'' = Some (length host)"
    using assms LastIndexByte_append [of "CHR '':''" port host] by simp
  moreover have "(host @ '':'' @ port) ! 0 \<noteq> CHR ''[''" using assms(1) by (cases host) auto
  ultimately show ?thesis using assms by (simp add: SplitHostPort_def)
qed

lemma SplitHostPort_brackets:
  assumes "set host \<inter> {CHR ''['', CHR '']''} = {}" and "set port \<inter> {CHR '':'', CHR ''['', CHR '']''} = {}"
  shows "SplitHostPort (''['' @ host @ '']:'' @ port) = Inr (host, port)"
proof -
  let ?s = "''['' @ host @ '']:'' @ port"
  have "LastIndexByte ?s CHR '':'' = Some (length host + 2)"
    using assms LastIndexByte_append [of "CHR '':''" port "''['' @ host @ '']''"] by simp
  moreover have "IndexByte ?s CHR '']'' = Some (Suc (length host))"
    using assms IndexByte_append [of "CHR '']''" "''['' @ host" "'':'' @ port"] by simp
  ultimately show ?thesis using assms by (auto simp: SplitHostPort_def)
qed

lemma SplitHostPort_JoinHostPort:
  assumes "set host \<inter> {CHR ''['', CHR '']''} = {}" and "set port \<inter> {CHR '':'', CHR ''['', CHR '']''} = {}"
  shows "SplitHostPort (JoinHostPort host port) = Inr (host, port)"
proof (cases "CHR '':'' \<in> set host")
  case True
  then show ?thesis using SplitHostPort_brackets [OF assms] by (simp add: JoinHostPort_def)
next
  case False
  then show ?thesis using SplitHostPort_plain [of host port] assms by (simp add: JoinHostPort_def)
qed

section \<open>Responses\<close>

text \<open>
  The calls of a handler on its \<^verbatim>\<open>http.ResponseWriter\<close>, and the response that the server makes of them.
  The first final status is sent with the headers set by then, and \<^verbatim>\<open>Write\<close> sends 200 when there is none
  yet; later statuses and headers have no effect, nor has a body with a status that allows none.
  Status codes are between 100 and 999, other codes panic and no handler uses them.
\<close>

datatype rw_call = HeaderSet string string | WriteHeader int | WriteBody bytes

record response =
  resp_header :: "(string \<times> string) list"
  resp_sent :: "(int \<times> (string \<times> string) list) option"
  resp_body :: bytes

definition new_response :: response where
  "new_response = \<lparr>resp_header = [], resp_sent = None, resp_body = []\<rparr>"

definition send_status :: "int \<Rightarrow> response \<Rightarrow> response" where
  "send_status code r =
     (if resp_sent r \<noteq> None \<or> 100 \<le> code \<and> code \<le> 199 \<and> code \<noteq> 101 then r
      else r\<lparr>resp_sent := Some (code, resp_header r)\<rparr>)"

definition bodyAllowedForStatus :: "int \<Rightarrow> bool" where
  "bodyAllowedForStatus status \<longleftrightarrow> \<not> (100 \<le> status \<and> status \<le> 199 \<or> status = 204 \<or> status = 304)"

fun rw :: "rw_call \<Rightarrow> response \<Rightarrow> response" where
  "rw (HeaderSet k v) r = r\<lparr>resp_header := map_put k v (resp_header r)\<rparr>"
| "rw (WriteHeader code) r = send_status code r"
| "rw (WriteBody p) r =
     (let r = send_status 200 r
      in if bodyAllowedForStatus (fst (the (resp_sent r))) then r\<lparr>resp_body := resp_body r @ p\<rparr> else r)"

text \<open>What the client gets: status, headers and body. A handler that sends nothing answers 200.\<close>

definition answer :: "rw_call list \<Rightarrow> int \<times> (string \<times> string) list \<times> bytes" where
  "answer calls =
     (let r = send_status 200 (foldl (\<lambda>r c. rw c r) new_response calls)
      in (fst (the (resp_sent r)), snd (the (resp_sent r)), resp_body r))"

lemmas answer_simps = answer_def new_response_def send_status_def bodyAllowedForStatus_def map_put_def Let_def

text \<open>A request as a multiplexer sees it.\<close>

record request =
  request_Method :: string
  request_Path :: string

end
