(* ===== verification/Airbrake.thy ===== *)
theory Airbrake
  imports Go_Net Go_Float Logging
begin

text \<open>
  Reporting to Airbrake (\<^verbatim>\<open>server/airbrake/airbrake.go\<close>) and the response writer that records a response
  for it (\<^verbatim>\<open>server/middleware/wrapped_response_writer.go\<close>). The wrapped writer and \<^verbatim>\<open>NewNotice\<close> of the client
  library are arguments. The notices that are sent are a list.
\<close>

section \<open>The wrapped response writer\<close>

record 'w wrapped_response_writer =
  wrw_status :: int
  wrw_size :: int
  wrw_start :: int
  wrw_ResponseWriter :: 'w
  wrw_body :: "bytes list"

definition NewWrappedResponseWriter :: "int \<Rightarrow> 'w \<Rightarrow> 'w wrapped_response_writer" where
  "NewWrappedResponseWriter now res =
     \<lparr>wrw_status = 200, wrw_size = 0, wrw_start = now, wrw_ResponseWriter = res, wrw_body = []\<rparr>"

text \<open>
  The struct embeds the writer and declares neither \<^verbatim>\<open>WriteHeader\<close> nor \<^verbatim>\<open>Write\<close>: both are the methods of
  the embedded writer, and so is \<^verbatim>\<open>Header\<close>.
\<close>

definition wrw_call ::
    "(rw_call \<Rightarrow> 'w \<Rightarrow> 'w) \<Rightarrow> rw_call \<Rightarrow> 'w wrapped_response_writer \<Rightarrow> 'w wrapped_response_writer" where
  "wrw_call call c w = w\<lparr>wrw_ResponseWriter := call c (wrw_ResponseWriter w)\<rparr>"

definition wrw_Body :: "'w wrapped_response_writer \<Rightarrow> bytes" where
  "wrw_Body w = foldl (@) [] (wrw_body w)"

text \<open>
  \<^verbatim>\<open>Duration.Seconds\<close> and the product with 1000, rounded as float64 after each operation, then cut to an
  integer. Durations are nanoseconds; a monotonic clock gives no negative one.
\<close>

definition float64_value :: "nat \<Rightarrow> nat \<times> nat" where
  "float64_value bits = (let (m, e) = unpack float64 bits in (m * 2 ^ nat e, 2 ^ nat (- e)))"

definition Duration_Seconds :: "nat \<Rightarrow> nat" where
  "Duration_Seconds d =
     (let (an, ad) = float64_value (round_float float64 (d div 10 ^ 9) 1);
          (bn, bd) = float64_value (round_float float64 (d mod 10 ^ 9) (10 ^ 9))
      in round_float float64 (an * bd + bn * ad) (ad * bd))"

definition DurationMS :: "int \<Rightarrow> 'w wrapped_response_writer \<Rightarrow> int" where
  "DurationMS now w =
     (let (sn, sd) = float64_value (Duration_Seconds (nat (now - wrw_start w)));
          (mn, md) = float64_value (round_float float64 (sn * 1000) sd)
      in int (mn div md))"

definition ShouldReportOnAirbrake :: "'w wrapped_response_writer \<Rightarrow> bool" where
  "ShouldReportOnAirbrake w \<longleftrightarrow> wrw_status w \<ge> 500 \<and> wrw_status w \<le> 599"

section \<open>The handler\<close>

text \<open>The parameters of a notice; its other fields are those of the library.\<close>

record notice =
  Params :: log_info

record 'n airbrake_handler =
  airbrakeNotifier :: "'n option"

definition NewAirbrakeHandler :: "'n option \<Rightarrow> 'n airbrake_handler" where
  "NewAirbrakeHandler notifier = \<lparr>airbrakeNotifier = notifier\<rparr>"

definition set_param :: "string \<Rightarrow> goval \<Rightarrow> 'z notice_scheme \<Rightarrow> 'z notice_scheme" where
  "set_param k v n = n\<lparr>Params := map_put k v (Params n)\<rparr>"

definition set_params :: "log_info \<Rightarrow> 'z notice_scheme \<Rightarrow> 'z notice_scheme" where
  "set_params ps n = foldl (\<lambda>n (k, v). set_param k v n) n ps"

definition httpAirbrakeMessage ::
    "(string \<Rightarrow> 'r option \<Rightarrow> int \<Rightarrow> 'z notice_scheme) \<Rightarrow> ('w \<Rightarrow> (string \<times> string list) list) \<Rightarrow> int \<Rightarrow>
     'r \<Rightarrow> 'w wrapped_response_writer \<Rightarrow> 'z notice_scheme" where
  "httpAirbrakeMessage NewNotice header now r w =
     (let notice = NewNotice (wrw_Body w) (Some r) 1;
          notice = set_param ''status_code'' (GInt (wrw_status w)) notice;
          notice = set_param ''duration_ms'' (GInt (DurationMS now w)) notice
      in set_params (map (\<lambda>(k, vs). (k, GList (map GStr vs))) (header (wrw_ResponseWriter w))) notice)"

definition ReportError ::
    "(string \<Rightarrow> 'r option \<Rightarrow> int \<Rightarrow> 'z notice_scheme) \<Rightarrow> 'n airbrake_handler \<Rightarrow> 'r option \<Rightarrow> string \<Rightarrow>
     ('n \<times> 'z notice_scheme) list" where
  "ReportError NewNotice a r err =
     (case airbrakeNotifier a of None \<Rightarrow> [] | Some notifier \<Rightarrow> [(notifier, NewNotice err r 1)])"

text \<open>
  The writer after the handler \<^verbatim>\<open>next\<close> has made its calls on the recorder, and the notices that were sent.
\<close>

definition WithReporting ::
    "(string \<Rightarrow> 'r option \<Rightarrow> int \<Rightarrow> 'z notice_scheme) \<Rightarrow> (rw_call \<Rightarrow> 'w \<Rightarrow> 'w) \<Rightarrow> ('w \<Rightarrow> (string \<times> string list) list) \<Rightarrow>
     int \<Rightarrow> int \<Rightarrow> 'n airbrake_handler \<Rightarrow> rw_call list \<Rightarrow> 'w \<Rightarrow> 'r \<Rightarrow> 'w \<times> ('n \<times> 'z notice_scheme) list" where
  "WithReporting NewNotice call header start stop a next w r =
     (let recorder = NewWrappedResponseWriter start w;
          recorder = foldl (\<lambda>rec c. wrw_call call c rec) recorder next
      in (wrw_ResponseWriter recorder,
          if ShouldReportOnAirbrake recorder
          then (case airbrakeNotifier a of
                  None \<Rightarrow> []
                | Some notifier \<Rightarrow> [(notifier, httpAirbrakeMessage NewNotice header stop r recorder)])
          else []))"

definition logMessage ::
    "(string \<Rightarrow> 'r option \<Rightarrow> int \<Rightarrow> 'z notice_scheme) \<Rightarrow> log_type \<Rightarrow> string \<Rightarrow> string option \<Rightarrow> log_info \<Rightarrow>
     'z notice_scheme" where
  "logMessage NewNotice logType message err logInfo =
     (let notice = NewNotice message None 1;
          notice = set_param ''log_type'' (GStr (AllLogType logType)) notice;
          notice = (case err of None \<Rightarrow> notice | Some e \<Rightarrow> set_param ''error'' (GStr e) notice)
      in set_params logInfo notice)"

definition ReportLogMessage ::
    "(string \<Rightarrow> 'r option \<Rightarrow> int \<Rightarrow> 'z notice_scheme) \<Rightarrow> 'n airbrake_handler \<Rightarrow> log_type \<Rightarrow> string \<Rightarrow> string option \<Rightarrow>
     log_info \<Rightarrow> ('n \<times> 'z notice_scheme) list" where
  "ReportLogMessage NewNotice a logType message err logInfo =
     (case airbrakeNotifier a of
        None \<Rightarrow> []
      | Some notifier \<Rightarrow> [(notifier, logMessage NewNotice logType message err logInfo)])"

section \<open>What is reported\<close>

lemma wrw_calls:
  "foldl (\<lambda>rec c. wrw_call call c rec) w calls =
     w\<lparr>wrw_ResponseWriter := foldl (\<lambda>r c. call c r) (wrw_ResponseWriter w) calls\<rparr>"
  by (induction calls arbitrary: w) (simp_all add: wrw_call_def)

text \<open>
  The wrapper leaves the response to the wrapped writer: the client gets what the handler alone
  would have given it. But the recorder never sees a status, so that no response is ever reported, a
  response with status 500 to 599 included.
\<close>

theorem responses_never_reported:
  "WithReporting NewNotice call header start stop a next w r = (foldl (\<lambda>w c. call c w) w next, [])"
  by (simp add: WithReporting_def wrw_calls NewWrappedResponseWriter_def ShouldReportOnAirbrake_def)

lemma map_of_set_params:
  "map_of (Params (set_params ps n)) = map_of (Params n) ++ map_of (rev ps)"
proof (induction ps arbitrary: n)
  case (Cons p ps)
  obtain k v where "p = (k, v)" by force
  with Cons.IH [of "set_param k v n"] show ?case
    by (auto simp: set_params_def set_param_def map_add_def fun_eq_iff split: option.splits)
qed (simp add: set_params_def)

text \<open>
  With a notifier, a reported log message becomes one notice that holds the level, the error if
  there is one, and all fields of the message, which win over the two; without, nothing is sent.
\<close>

theorem reported_log_message:
  assumes "distinct (map fst logInfo)"
  shows "ReportLogMessage NewNotice (NewAirbrakeHandler None) logType message err logInfo = [] \<and>
    (\<exists>n. ReportLogMessage NewNotice (NewAirbrakeHandler (Some notifier)) logType message err logInfo = [(notifier, n)] \<and>
       map_of (Params n) = map_of (Params (NewNotice message None 1)) ++ [''log_type'' \<mapsto> GStr (AllLogType logType)] ++
         (case err of None \<Rightarrow> Map.empty | Some e \<Rightarrow> [''error'' \<mapsto> GStr e]) ++ map_of logInfo)"
  using assms
  by (simp add: ReportLogMessage_def NewAirbrakeHandler_def logMessage_def map_of_set_params map_of_rev set_param_def Let_def
      split: option.split)

end
