(* ===== verification/Config_Clients.thy ===== *)
theory Config_Clients
  imports Config_Producers Metrics Airbrake
begin

text \<open>
  The rest of \<^verbatim>\<open>config/config.go\<close> and the entry point of \<^verbatim>\<open>config/config_initializer.go\<close>: the options of the
  Redis client, the Airbrake notifier, the settings of the logger, the metric collector, and
  \<^verbatim>\<open>LoadApplicationConfiguration\<close>. A notifier is named by its options.
\<close>

section \<open>Redis\<close>

record universal_options =
  RO_Addrs :: "string list"
  RO_Username :: string
  RO_Password :: string
  RO_DB :: int
  RO_TLSConfig :: "tls_config option"
  RO_IsClusterMode :: bool
  RO_PoolSize :: int
  RO_MinIdleConns :: int
  RO_MaxIdleConns :: int
  RO_MaxActiveConns :: int
  RO_PoolTimeout :: int
  RO_ReadTimeout :: int
  RO_WriteTimeout :: int
  RO_ConnMaxIdleTime :: int
  RO_ConnMaxLifetime :: int

text \<open>
  \<^verbatim>\<open>url_Hostname\<close> is \<^verbatim>\<open>url.Parse\<close> followed by \<^verbatim>\<open>Hostname\<close>, \<^const>\<open>None\<close> when the address does not parse. It is an
  argument because the malformed hosts it accepts differ between releases of Go.
\<close>

definition getServerName :: "(string \<Rightarrow> string option) \<Rightarrow> redis_settings \<Rightarrow> string" where
  "getServerName url_Hostname r =
     (case Redis_Addrs r of
        [] \<Rightarrow> []
      | addr # _ \<Rightarrow>
          (case url_Hostname addr of
             Some (c # host) \<Rightarrow> c # host
           | _ \<Rightarrow> (case SplitHostPort addr of Inr (host, _) \<Rightarrow> host | Inl _ \<Rightarrow> addr)))"

definition Redis_options ::
    "file_system \<Rightarrow> (string \<Rightarrow> string option) \<Rightarrow> getenv \<Rightarrow> redis_settings \<Rightarrow> config_error + universal_options" where
  "Redis_options fs url_Hostname env r =
     (case ClientTLSConfig fs (Redis_TLS r) of
        Inl err \<Rightarrow> Inl err
      | Inr tlsConfig \<Rightarrow>
          (let tlsConfig = (if Redis_OverrideTLSServerName r
                            then map_option (\<lambda>t. t\<lparr>ServerName := getServerName url_Hostname r\<rparr>) tlsConfig else tlsConfig);
               envPassword = env ''REDIS_PASSWORD'';
               password = (if envPassword \<noteq> [] then envPassword else Redis_Password r);
               options = \<lparr>RO_Addrs = Redis_Addrs r, RO_Username = Redis_Username r, RO_Password = password, RO_DB = Redis_DB r,
                 RO_TLSConfig = tlsConfig, RO_IsClusterMode = False, RO_PoolSize = 0, RO_MinIdleConns = 0, RO_MaxIdleConns = 0,
                 RO_MaxActiveConns = 0, RO_PoolTimeout = 0, RO_ReadTimeout = 0, RO_WriteTimeout = 0, RO_ConnMaxIdleTime = 0,
                 RO_ConnMaxLifetime = 0\<rparr>;
               options = (if Redis_ClusterMode r then options\<lparr>RO_IsClusterMode := True\<rparr> else options)
           in Inr (case Redis_Pool r of
                None \<Rightarrow> options
              | Some p \<Rightarrow> options\<lparr>RO_PoolSize := Pool_PoolSize p, RO_MinIdleConns := Pool_MinIdleConns p,
                  RO_MaxIdleConns := Pool_MaxIdleConns p, RO_MaxActiveConns := Pool_MaxActiveConns p,
                  RO_PoolTimeout := Pool_PoolTimeout p, RO_ReadTimeout := Pool_ReadTimeout p,
                  RO_WriteTimeout := Pool_WriteTimeout p, RO_ConnMaxIdleTime := Pool_ConnMaxIdleTime p,
                  RO_ConnMaxLifetime := Pool_ConnMaxLifetime p\<rparr>)))"

section \<open>Airbrake\<close>

definition airbrakeProjectKeyEnv :: string where
  "airbrakeProjectKeyEnv = ''AIRBRAKE_PROJECT_KEY''"

text \<open>Without an Airbrake section the code follows a nil pointer: \<^const>\<open>None\<close>.\<close>

definition AirbrakeTLSConfig :: "file_system \<Rightarrow> config \<Rightarrow> (config_error + tls_config option) option" where
  "AirbrakeTLSConfig fs c = map_option (\<lambda>a. ClientTLSConfig fs (Airbrake_TLS a)) (cfg_Airbrake c)"

text \<open>The timeout of the HTTP client is in nanoseconds.\<close>

record notifier_options =
  NO_Host :: string
  NO_RemoteConfigHost :: string
  NO_DisableRemoteConfig :: bool
  NO_APMHost :: string
  NO_DisableAPM :: bool
  NO_ProjectId :: int
  NO_ProjectKey :: string
  NO_Environment :: string
  NO_HTTPClient_TLS :: "tls_config option"
  NO_HTTPClient_Timeout :: int

definition CreateAirbrakeNotifier ::
    "file_system \<Rightarrow> environ \<Rightarrow> config \<Rightarrow> (config_error + notifier_options option) \<times> log_entry list" where
  "CreateAirbrakeNotifier fs environ c =
     (case cfg_Airbrake c of
        None \<Rightarrow> (Inr None, [])
      | Some a \<Rightarrow>
          (case the (AirbrakeTLSConfig fs c) of
             Inl err \<Rightarrow> (Inl err, [])
           | Inr tlsConfig \<Rightarrow>
               (let (projectKey, logInfo) = (case environ airbrakeProjectKeyEnv of
                       Some key \<Rightarrow> (key, [(''source'', GStr ''environment_variable''), (''env_key'', GStr airbrakeProjectKeyEnv)])
                     | None \<Rightarrow> (Airbrake_ProjectKey a, [(''source'', GStr ''config_file'')]))
                in (Inr (Some \<lparr>NO_Host = Airbrake_Host a, NO_RemoteConfigHost = Airbrake_Host a, NO_DisableRemoteConfig = True,
                        NO_APMHost = Airbrake_Host a, NO_DisableAPM = True, NO_ProjectId = Airbrake_ProjectID a,
                        NO_ProjectKey = projectKey, NO_Environment = Airbrake_Environment a, NO_HTTPClient_TLS = tlsConfig,
                        NO_HTTPClient_Timeout = 10 * 10 ^ 9\<rparr>),
                    [ActivityLog ''airbrake_configured'' logInfo]))))"

section \<open>Logger and metrics\<close>

definition configureLogger :: "(string \<Rightarrow> string + 32 word) \<Rightarrow> logger \<Rightarrow> config \<Rightarrow> logrus_action list" where
  "configureLogger ParseLevel l c =
     (case ParseLevel (cfg_LogLevel c) of
        Inl err \<Rightarrow> logger_ErrorLog l ''invalid_level'' (Some err) []
      | Inr level \<Rightarrow> [SetLevel level]) @
     SetJSONFormatter (cfg_JSONLogEnable c)"

definition configureMetricsCollector :: "config \<Rightarrow> collector \<times> log_entry list" where
  "configureMetricsCollector c = NewCollector (cfg_Monitoring c)"

text \<open>
  The configuration with its logger and collector, the calls of logrus, and the collectors that
  were created: \<^verbatim>\<open>loadApplicationConfig\<close> makes one with a logger that discards everything, and it is
  replaced by the one of \<^verbatim>\<open>configureMetricsCollector\<close>.
\<close>

definition LoadApplicationConfiguration ::
    "file_system \<Rightarrow> environ \<Rightarrow> (string \<Rightarrow> string + 32 word) \<Rightarrow> (string \<Rightarrow> config_file) \<Rightarrow> string option \<Rightarrow>
     (config_error + config \<times> logger \<times> collector) \<times> logrus_action list \<times> collector list" where
  "LoadApplicationConfiguration fs environ ParseLevel open_file flag =
     (case NewBasicLogrusLogger environ ''fleet-telemetry'' of
        Inl value \<Rightarrow> (Inl (InvalidEnv ''SUPPRESS_TLS_HANDSHAKE_ERROR_LOGGING'' value), [], [])
      | Inr logger \<Rightarrow>
          (let configFilePath = loadConfigFlags (Getenv environ) flag
           in case loadApplicationConfig fs environ (open_file configFilePath) of
                Inl err \<Rightarrow> (Inl err, [], [])
              | Inr config \<Rightarrow>
                  (let replaced = fst (NewCollector (cfg_Monitoring config));
                       (metricCollector, lines) = configureMetricsCollector config
                   in (Inr (config, logger, metricCollector),
                       configureLogger ParseLevel logger config @
                       logger_ActivityLog logger ''configuration_loaded''
                         [(''config_file'', GStr configFilePath), (''host'', GStr (cfg_Host config)), (''port'', GInt (cfg_Port config)),
                          (''status_port'', GInt (cfg_StatusPort config)), (''namespace'', GStr (cfg_Namespace config))] @
                       concat (map (log_call logger) lines),
                       [replaced, metricCollector]))))"

section \<open>What the clients get\<close>

lemma LoadApplicationConfiguration_Inr:
  assumes "LoadApplicationConfiguration fs environ ParseLevel open_file flag = (Inr (c, l, mc), acts, created)"
  shows "loadApplicationConfig fs environ (open_file (loadConfigFlags (Getenv environ) flag)) = Inr c"
    and "NewBasicLogrusLogger environ ''fleet-telemetry'' = Inr l"
    and "mc = fst (NewCollector (cfg_Monitoring c))" and "created = [mc, mc]"
  using assms by (auto simp: LoadApplicationConfiguration_def configureMetricsCollector_def Let_def split: sum.splits prod.splits)

text \<open>A configuration with a StatsD server opens two clients, and keeps one.\<close>

lemma statsd_client_opened_twice:
  assumes "LoadApplicationConfiguration fs environ ParseLevel open_file flag = (Inr (c, l, mc), acts, created)"
    and "cfg_Monitoring c = Some m" and "PrometheusMetricsPort m \<le> 0" and "Monitoring_Statsd m = Some sd"
  shows "\<exists>flush. created = [StatsdCollector (Statsd_HostPort sd) (Statsd_Prefix sd) flush,
                            StatsdCollector (Statsd_HostPort sd) (Statsd_Prefix sd) flush]"
  using LoadApplicationConfiguration_Inr(3,4) [OF assms(1)] assms(2-) by (simp add: NewCollector_def Let_def)

lemma getServerName_plain:
  assumes "Redis_Addrs r = (host @ '':'' @ port) # addrs"
    and "url_Hostname (host @ '':'' @ port) = None \<or> url_Hostname (host @ '':'' @ port) = Some []"
    and "set host \<inter> {CHR '':'', CHR ''['', CHR '']''} = {}" and "set port \<inter> {CHR '':'', CHR ''['', CHR '']''} = {}"
  shows "getServerName url_Hostname r = host"
  using assms SplitHostPort_plain [OF assms(3,4)] by (auto simp: getServerName_def)

lemma getServerName_url:
  "Redis_Addrs r = addr # addrs \<Longrightarrow> url_Hostname addr = Some host \<Longrightarrow> host \<noteq> [] \<Longrightarrow> getServerName url_Hostname r = host"
  by (cases host) (simp_all add: getServerName_def)

text \<open>
  The options of the Redis client: the addresses, the user and the database of the
  configuration, the password of the environment if it has one, the sizes and timeouts of the pool or
  zero for the defaults. With TLS and the override of the server name, the name checked against the server
  certificate is the host of the first address, given as \<^verbatim>\<open>host:port\<close>, which is no URL with a host
  (\<^verbatim>\<open>bare\<close>), without its port.
\<close>

theorem redis_client_options:
  assumes addr: "Redis_Addrs r = (host @ '':'' @ port) # addrs"
    and bare: "url_Hostname (host @ '':'' @ port) = None \<or> url_Hostname (host @ '':'' @ port) = Some []"
    and host: "set host \<inter> {CHR '':'', CHR ''['', CHR '']''} = {}" and port: "set port \<inter> {CHR '':'', CHR ''['', CHR '']''} = {}"
    and tls: "ClientTLSConfig fs (Redis_TLS r) = Inr t"
  shows "let p = (case Redis_Pool r of Some p \<Rightarrow> p | None \<Rightarrow> \<lparr>Pool_PoolSize = 0, Pool_MinIdleConns = 0, Pool_MaxIdleConns = 0,
        Pool_MaxActiveConns = 0, Pool_ReadTimeout = 0, Pool_WriteTimeout = 0, Pool_PoolTimeout = 0, Pool_ConnMaxIdleTime = 0,
        Pool_ConnMaxLifetime = 0\<rparr>)
    in Redis_options fs url_Hostname env r =
      Inr \<lparr>RO_Addrs = Redis_Addrs r, RO_Username = Redis_Username r,
        RO_Password = (if env ''REDIS_PASSWORD'' = [] then Redis_Password r else env ''REDIS_PASSWORD''), RO_DB = Redis_DB r,
        RO_TLSConfig = (if Redis_OverrideTLSServerName r then map_option (\<lambda>t. t\<lparr>ServerName := host\<rparr>) t else t),
        RO_IsClusterMode = Redis_ClusterMode r, RO_PoolSize = Pool_PoolSize p, RO_MinIdleConns = Pool_MinIdleConns p,
        RO_MaxIdleConns = Pool_MaxIdleConns p, RO_MaxActiveConns = Pool_MaxActiveConns p, RO_PoolTimeout = Pool_PoolTimeout p,
        RO_ReadTimeout = Pool_ReadTimeout p, RO_WriteTimeout = Pool_WriteTimeout p, RO_ConnMaxIdleTime = Pool_ConnMaxIdleTime p,
        RO_ConnMaxLifetime = Pool_ConnMaxLifetime p\<rparr>"
  using tls getServerName_plain [of r host port addrs url_Hostname, OF addr bare host port]
  by (cases "Redis_Pool r") (simp_all add: Redis_options_def Let_def)

definition example_redis :: redis_settings where
  "example_redis = \<lparr>Redis_Addrs = [''cache:6379''], Redis_Username = ''u'', Redis_Password = ''p'', Redis_DB = 0,
     Redis_TLS = Some empty_tls, Redis_OverrideTLSServerName = True, Redis_Pool = None, Redis_PublishTimeout = 0,
     Redis_ClusterMode = False, Redis_PublishVINTopics = True, Redis_SubscriberSetPrefix = []\<rparr>"

theorem redis_client_options_witness:
  "\<exists>options. Redis_options empty_fs (\<lambda>_. None) (\<lambda>_. []) example_redis = Inr options \<and>
     map_option ServerName (RO_TLSConfig options) = Some ''cache''"
proof -
  have "Redis_Addrs example_redis = (''cache'' @ '':'' @ ''6379'') # []" by (simp add: example_redis_def)
  moreover have "ClientTLSConfig empty_fs (Redis_TLS example_redis) = Inr (Some empty_tls_config)"
    by (simp add: example_redis_def ClientTLSConfig_def empty_tls_def)
  ultimately show ?thesis
    using redis_client_options [of example_redis "''cache''" "''6379''" "[]" "\<lambda>_. None" empty_fs "Some empty_tls_config" "\<lambda>_. []"]
    by (simp add: Let_def example_redis_def)
qed

end
