(* ===== verification/Monitoring.thy ===== *)
theory Monitoring
  imports Config_Clients
begin

text \<open>
  The monitoring endpoints (\<^verbatim>\<open>server/monitoring\<close>): the health endpoint, the metrics and profiler servers, the
  live profiler and the statistics of the garbage collector. A handler is the list of calls it makes on its
  response writer. Binding a port and serving are arguments.
\<close>

section \<open>The health endpoint\<close>

definition status_body :: bytes where
  "status_body = [CHR ''{'', CHR 0x22] @ ''status'' @ [CHR 0x22, CHR '':'', CHR 0x22] @ ''healthy'' @ [CHR 0x22, CHR ''}'', CHR 0x0A]"

definition monitoring_Status :: "rw_call list" where
  "monitoring_Status =
     [HeaderSet ''Content-Type'' ''application/json'', WriteHeader 200, WriteBody status_body]"

text \<open>\<^verbatim>\<open>http.NotFound\<close>, with which a multiplexer answers a path that no pattern matches.\<close>

definition http_NotFound :: "rw_call list" where
  "http_NotFound =
     [HeaderSet ''Content-Type'' ''text/plain; charset=utf-8'', HeaderSet ''X-Content-Type-Options'' ''nosniff'', WriteHeader 404,
      WriteBody (''404 page not found'' @ [CHR 0x0A])]"

definition status_paths :: "string list" where
  "status_paths = [''/status'', ''/health'', ''/healthz'']"

text \<open>
  The multiplexer of the status server on a path in its canonical form; the three handlers are
  wrapped for Airbrake. The result is the response and the notices sent.
\<close>

definition status_mux ::
    "(string \<Rightarrow> request option \<Rightarrow> int \<Rightarrow> 'z notice_scheme) \<Rightarrow> (response \<Rightarrow> (string \<times> string list) list) \<Rightarrow> int \<Rightarrow> int \<Rightarrow>
     'n airbrake_handler \<Rightarrow> request \<Rightarrow> response \<times> ('n \<times> 'z notice_scheme) list" where
  "status_mux NewNotice header start stop airbrakeHandler r =
     (if request_Path r \<in> set status_paths
      then WithReporting NewNotice rw header start stop airbrakeHandler monitoring_Status new_response r
      else (foldl (\<lambda>w c. rw c w) new_response http_NotFound, []))"

definition status_address :: "config \<Rightarrow> string" where
  "status_address c = ''0.0.0.0:'' @ Itoa (cfg_StatusPort c)"

datatype status_error = BindHealthListener string string

text \<open>\<^verbatim>\<open>listen\<close> binds a port, \<^const>\<open>None\<close> is success.\<close>

definition StartStatusServer :: "(string \<Rightarrow> string option) \<Rightarrow> config \<Rightarrow> status_error option \<times> log_entry list" where
  "StartStatusServer listen c =
     (let address = status_address c
      in case listen address of
           Some err \<Rightarrow> (Some (BindHealthListener address err), [])
         | None \<Rightarrow> (None, [ActivityLog ''status_server_configured'' [(''address'', GStr address)]]))"

text \<open>How \<^verbatim>\<open>http.Server.Serve\<close> ends: after a shutdown, or with another error.\<close>

datatype serve_error = ErrServerClosed | ServeError string

definition status_served :: "serve_error option \<Rightarrow> log_entry list" where
  "status_served err =
     (case err of
        None \<Rightarrow> [] | Some ErrServerClosed \<Rightarrow> [] | Some (ServeError e) \<Rightarrow> [ErrorLog ''status'' (Some e) []])"

section \<open>Metrics and profiler servers\<close>

datatype monitor_route = PromHandler | PprofIndex | PprofCmdline | PprofProfile | PprofSymbol | PprofTrace | GcStats | LiveProfiler

definition StartProfilerServer ::
    "int \<Rightarrow> (string \<times> monitor_route) list \<Rightarrow> (string \<times> monitor_route) list \<times> log_entry list" where
  "StartProfilerServer profilerPort mux =
     (mux @ [(''/gc_stats'', GcStats), (''/live_profiler'', LiveProfiler)],
      [ActivityLog ''profiler_started'' [(''port'', GInt profilerPort)]])"

text \<open>A goroutine that serves: its address, its routes and its log lines.\<close>

record monitor_server =
  ms_Address :: string
  ms_Routes :: "(string \<times> monitor_route) list"
  ms_Logs :: "log_entry list"

text \<open>
  The servers that \<^verbatim>\<open>StartServerMetrics\<close> starts. \<^verbatim>\<open>ListenAndServe\<close> gives the error with which a server
  ended, \<^const>\<open>None\<close> while it serves. Without a monitoring section the code follows a nil pointer.
\<close>

definition StartServerMetrics :: "(string \<Rightarrow> string option) \<Rightarrow> config \<Rightarrow> monitor_server list option" where
  "StartServerMetrics ListenAndServe c =
     (case cfg_Monitoring c of
        None \<Rightarrow> None
      | Some m \<Rightarrow> Some (
          (if PrometheusMetricsPort m > 0 then
             (let metricsHost = (if PrometheusMetricsHost m = [] then ''127.0.0.1'' else PrometheusMetricsHost m);
                  address = metricsHost @ '':'' @ Itoa (PrometheusMetricsPort m)
              in [\<lparr>ms_Address = address, ms_Routes = [(''/metrics'', PromHandler)],
                   ms_Logs = (case ListenAndServe address of None \<Rightarrow> [] | Some err \<Rightarrow> [ErrorLog ''metrics_server_err'' (Some err) []])\<rparr>])
           else []) @
          (if ProfilerPort m > 0 then
             (let (profilerMux, started) = StartProfilerServer (ProfilerPort m)
                    [(''/debug/pprof/'', PprofIndex), (''/debug/pprof/cmdline'', PprofCmdline), (''/debug/pprof/profile'', PprofProfile),
                     (''/debug/pprof/symbol'', PprofSymbol), (''/debug/pprof/trace'', PprofTrace)];
                  profilerHost = (if ProfilerHost m = [] then ''127.0.0.1'' else ProfilerHost m);
                  address = profilerHost @ '':'' @ Itoa (ProfilerPort m)
              in [\<lparr>ms_Address = address, ms_Routes = profilerMux,
                   ms_Logs = started @ (case ListenAndServe address of None \<Rightarrow> [] | Some err \<Rightarrow> [ErrorLog ''profiler_listen_error'' (Some err) []])\<rparr>])
           else [])))"

section \<open>The profiler endpoints\<close>

definition json_text :: "string \<Rightarrow> string \<Rightarrow> bytes" where
  "json_text key text = [CHR ''{'', CHR 0x22] @ key @ [CHR 0x22, CHR '':'', CHR 0x22] @ text @ [CHR 0x22, CHR ''}'']"

text \<open>
  \<^verbatim>\<open>mode\<close> is the query parameter, empty when absent. The result is the response, whether the profiler is
  on afterwards, and the calls of the tracer.
\<close>

definition liveProfiler :: "config \<Rightarrow> string \<Rightarrow> bool \<Rightarrow> rw_call list \<times> bool \<times> profiler_call list" where
  "liveProfiler c mode profilerOn =
     (if (case cfg_Monitoring c of None \<Rightarrow> True | Some m \<Rightarrow> ProfilingPath m = []) then
        ([WriteHeader 405, WriteBody (json_text ''error'' ''profiler not configured'')], profilerOn, [])
      else if mode = [] then
        ([WriteHeader 400, WriteBody (json_text ''error'' ''mode not specified'')], profilerOn, [])
      else case EnableProfiler mode profilerOn of
             (True, on, calls) \<Rightarrow> ([WriteBody (json_text ''result'' (''mode '' @ mode))], on, calls)
           | (False, on, calls) \<Rightarrow> ([WriteHeader 304, WriteBody (json_text ''result'' (''mode already '' @ mode))], on, calls))"

text \<open>\<^verbatim>\<open>marshalled\<close> is the JSON of the statistics; on an error \<^verbatim>\<open>json\<close> is nil and is written all the same.\<close>

definition gcStats :: "string + bytes \<Rightarrow> rw_call list" where
  "gcStats marshalled =
     (case marshalled of
        Inl err \<Rightarrow> [WriteHeader 500, WriteBody (json_text ''error'' err), WriteBody []]
      | Inr json \<Rightarrow> [WriteBody json])"

section \<open>What the endpoints answer\<close>

lemma answer_Status: "answer monitoring_Status = (200, [(''Content-Type'', ''application/json'')], status_body)"
  by (simp add: monitoring_Status_def answer_simps)

lemma status_mux_eq:
  "status_mux NewNotice header start stop h r =
     (foldl (\<lambda>w c. rw c w) new_response (if request_Path r \<in> set status_paths then monitoring_Status else http_NotFound), [])"
  by (simp add: status_mux_def WithReporting_def wrw_calls NewWrappedResponseWriter_def ShouldReportOnAirbrake_def)

text \<open>
  The status with which the profiler endpoint answers, and that the body that goes with 304 is not sent.
\<close>

lemma liveProfiler_answer:
  assumes "cfg_Monitoring c = Some m" and "ProfilingPath m \<noteq> []" and "mode \<noteq> []"
  shows "answer (fst (liveProfiler c mode on)) =
    (if (mode = ''on'') = on then (304, [], []) else (200, [], json_text ''result'' (''mode '' @ mode)))"
  using assms by (simp add: liveProfiler_def EnableProfiler_def answer_simps)

lemma gcStats_answer: "answer (gcStats (Inl err)) = (500, [], json_text ''error'' err)"
  by (simp add: gcStats_def answer_simps)

text \<open>
  The metrics and the profiler are served on the loopback interface unless a host is configured, the
  profiler endpoints only on the port of the profiler.
\<close>

lemma monitoring_addresses:
  assumes "StartServerMetrics serve c = Some servers" and "cfg_Monitoring c = Some m" and "s \<in> set servers"
  shows "ms_Routes s = [(''/metrics'', PromHandler)] \<and> PrometheusMetricsPort m > 0 \<and>
           ms_Address s = (if PrometheusMetricsHost m = [] then ''127.0.0.1'' else PrometheusMetricsHost m) @ '':'' @ Itoa (PrometheusMetricsPort m) \<or>
         ProfilerPort m > 0 \<and>
           ms_Address s = (if ProfilerHost m = [] then ''127.0.0.1'' else ProfilerHost m) @ '':'' @ Itoa (ProfilerPort m)"
  using assms by (auto simp: StartServerMetrics_def Let_def split: if_splits prod.splits)

end
