(* ===== verification/Acme.thy ===== *)
theory Acme
  imports Config
begin

text \<open>
  Server certificates from an ACME authority (\<^verbatim>\<open>server/certificates/acme.go\<close>): the options in the
  environment, and the set-up of the certmagic library. \<^verbatim>\<open>mail.ParseAddress\<close>, the file system and the library
  are arguments.
\<close>

record acme_options =
  ACME_Domain :: string
  ACME_Email :: string
  ACME_APIToken :: string
  ACME_StoragePath :: string

datatype acme_error =
    MissingVariable string
  | InvalidDomain string
  | InvalidEmail string
  | StoragePathNotAbsolute
  | CreateStorage string
  | ObtainCertificate string string

definition defaultStoragePath :: string where
  "defaultStoragePath = ''/data/certmagic''"

definition no_acme_options :: acme_options where
  "no_acme_options = \<lparr>ACME_Domain = [], ACME_Email = [], ACME_APIToken = [], ACME_StoragePath = []\<rparr>"

text \<open>\<^verbatim>\<open>filepath.IsAbs\<close> on Unix.\<close>

definition IsAbs :: "string \<Rightarrow> bool" where
  "IsAbs path = prefix ''/'' path"

text \<open>\<^verbatim>\<open>ParseAddress\<close> gives the address part of a mailbox, \<^const>\<open>None\<close> is its error.\<close>

definition ACMEOptionsFromEnvironment ::
    "(string \<Rightarrow> string option) \<Rightarrow> getenv \<Rightarrow> acme_options \<times> bool \<times> acme_error option" where
  "ACMEOptionsFromEnvironment ParseAddress env =
     (let options = \<lparr>ACME_Domain = TrimSpace (env ''ACME_DOMAIN''), ACME_Email = TrimSpace (env ''ACME_EMAIL''),
            ACME_APIToken = TrimSpace (env ''CLOUDFLARE_API_TOKEN''), ACME_StoragePath = TrimSpace (env ''ACME_STORAGE_PATH'')\<rparr>;
          requested = (ACME_Domain options \<noteq> [] \<or> ACME_Email options \<noteq> [] \<or> ACME_APIToken options \<noteq> [] \<or>
            ACME_StoragePath options \<noteq> [])
      in if \<not> requested then (no_acme_options, False, None)
         else if ACME_Domain options = [] then (no_acme_options, True, Some (MissingVariable ''ACME_DOMAIN''))
         else if ContainsAny (ACME_Domain options) ''/:'' \<or> \<not> Contains (ACME_Domain options) ''.'' then
           (no_acme_options, True, Some (InvalidDomain (ACME_Domain options)))
         else if ACME_Email options = [] then (no_acme_options, True, Some (MissingVariable ''ACME_EMAIL''))
         else if ParseAddress (ACME_Email options) \<noteq> Some (ACME_Email options) then
           (no_acme_options, True, Some (InvalidEmail (ACME_Email options)))
         else if ACME_APIToken options = [] then
           (no_acme_options, True, Some (MissingVariable ''CLOUDFLARE_API_TOKEN''))
         else
           (let options = (if ACME_StoragePath options = [] then options\<lparr>ACME_StoragePath := defaultStoragePath\<rparr> else options)
            in if \<not> IsAbs (ACME_StoragePath options) then (no_acme_options, True, Some StoragePathNotAbsolute)
               else (options, True, None)))"

text \<open>The settings of the certmagic library that are set before a certificate is obtained.\<close>

record certmagic_settings =
  Default_Storage_Path :: string
  Default_DefaultServerName :: string
  DefaultACME_Email :: string
  DefaultACME_Agreed :: bool
  DefaultACME_DisableHTTPChallenge :: bool
  DefaultACME_DisableTLSALPNChallenge :: bool
  DNS01_APIToken :: string

definition certmagic_of :: "acme_options \<Rightarrow> certmagic_settings" where
  "certmagic_of options =
     \<lparr>Default_Storage_Path = ACME_StoragePath options, Default_DefaultServerName = ACME_Domain options,
      DefaultACME_Email = ACME_Email options, DefaultACME_Agreed = True, DefaultACME_DisableHTTPChallenge = True,
      DefaultACME_DisableTLSALPNChallenge = True, DNS01_APIToken = ACME_APIToken options\<rparr>"

text \<open>The manager is named by the domains it manages.\<close>

definition Manage ::
    "(string \<Rightarrow> string option) \<Rightarrow> (certmagic_settings \<Rightarrow> string list \<Rightarrow> string option) \<Rightarrow> acme_options \<Rightarrow>
     acme_error + string list" where
  "Manage MkdirAll ManageSync options =
     (case MkdirAll (ACME_StoragePath options) of
        Some err \<Rightarrow> Inl (CreateStorage err)
      | None \<Rightarrow>
          (case ManageSync (certmagic_of options) [ACME_Domain options] of
             Some err \<Rightarrow> Inl (ObtainCertificate (ACME_Domain options) err)
           | None \<Rightarrow> Inr [ACME_Domain options]))"

section \<open>Which options are accepted\<close>

lemma Contains_char: "Contains s [c] \<longleftrightarrow> c \<in> set s"
  by (auto simp: Contains_iff sublist_def in_set_conv_decomp)

lemma ContainsAny_two: "ContainsAny s [a, b] \<longleftrightarrow> a \<in> set s \<or> b \<in> set s"
  by (auto simp: ContainsAny_def list_ex_iff)

lemma IsAbs_iff: "IsAbs path \<longleftrightarrow> path \<noteq> [] \<and> hd path = CHR ''/''"
  by (cases path) (auto simp: IsAbs_def)

text \<open>A dotted name without scheme and port.\<close>

definition host_name :: "string \<Rightarrow> bool" where
  "host_name s \<longleftrightarrow> CHR ''.'' \<in> set s \<and> CHR ''/'' \<notin> set s \<and> CHR '':'' \<notin> set s"

lemma acme_domain_ok:
  "\<not> (d = [] \<or> ContainsAny d ''/:'' \<or> \<not> Contains d ''.'') \<longleftrightarrow> host_name d"
  by (auto simp: Contains_char ContainsAny_two host_name_def)

text \<open>
  ACME options are accepted exactly when the domain is a host name, the e-mail address is a bare address,
  there is a token, and the storage path, if set, is absolute; they are the trimmed variables, with the
  default storage path.
\<close>

lemma acme_options_accepted:
  "ACMEOptionsFromEnvironment PA env = (options, True, None) \<longleftrightarrow>
     host_name (TrimSpace (env ''ACME_DOMAIN'')) \<and>
     TrimSpace (env ''ACME_EMAIL'') \<noteq> [] \<and> PA (TrimSpace (env ''ACME_EMAIL'')) = Some (TrimSpace (env ''ACME_EMAIL'')) \<and>
     TrimSpace (env ''CLOUDFLARE_API_TOKEN'') \<noteq> [] \<and>
     (TrimSpace (env ''ACME_STORAGE_PATH'') = [] \<or> IsAbs (TrimSpace (env ''ACME_STORAGE_PATH''))) \<and>
     options = \<lparr>ACME_Domain = TrimSpace (env ''ACME_DOMAIN''), ACME_Email = TrimSpace (env ''ACME_EMAIL''),
       ACME_APIToken = TrimSpace (env ''CLOUDFLARE_API_TOKEN''),
       ACME_StoragePath = (if TrimSpace (env ''ACME_STORAGE_PATH'') = [] then ''/data/certmagic''
                           else TrimSpace (env ''ACME_STORAGE_PATH''))\<rparr>"
proof -
  have d: "IsAbs defaultStoragePath" by (simp add: IsAbs_def defaultStoragePath_def)
  show ?thesis
    using acme_domain_ok [of "TrimSpace (env ''ACME_DOMAIN'')"] d
    by (auto simp: ACMEOptionsFromEnvironment_def Let_def defaultStoragePath_def)
qed

lemma acme_not_requested:
  "fst (snd (ACMEOptionsFromEnvironment PA env)) \<longleftrightarrow>
     list_ex (\<lambda>name. TrimSpace (env name) \<noteq> []) [''ACME_DOMAIN'', ''ACME_EMAIL'', ''CLOUDFLARE_API_TOKEN'', ''ACME_STORAGE_PATH'']"
  by (auto simp: ACMEOptionsFromEnvironment_def Let_def)

lemma acme_domain_of_options:
  "ACMEOptionsFromEnvironment PA env = (options, True, None) \<Longrightarrow>
     ACME_Domain options = TrimSpace (env ''ACME_DOMAIN'') \<and> host_name (ACME_Domain options)"
  by (simp add: acme_options_accepted)

lemma Manage_Inr:
  "Manage mk ms options = Inr domains \<Longrightarrow> domains = [ACME_Domain options]"
  by (auto simp: Manage_def split: option.splits)

end
