(* ===== verification/Startup.thy ===== *)
theory Startup
  imports Monitoring Acme Server
begin

text \<open>
  The server process (\<^verbatim>\<open>cmd/main.go\<close>): loading the configuration, the certificate, the producers, the
  listeners, serving, and shutting down. What the process meets (environment, files, ports, clients,
  certificates, the end of serving) is an argument; what it does is the list of its effects, in order. The
  effects of deferred calls stand where the calls run.
\<close>

section \<open>The world around the process\<close>

text \<open>
  Serving ends by itself with an error, or a signal arrives and the shutdown returns an error or nil.
\<close>

datatype stop = ServeEnds serve_error | Signalled string "serve_error option"

text \<open>
  \<^verbatim>\<open>w_order\<close> is the order in which the map of the producers is iterated over, by their dispatcher names.
\<close>

record world =
  w_environ :: environ
  w_fs :: file_system
  w_flag :: "string option"
  w_open_file :: "string \<Rightarrow> config_file"
  w_ParseLevel :: "string \<Rightarrow> string + 32 word"
  w_Create :: "string \<Rightarrow> string option"
  w_defaultEngCA :: bytes
  w_defaultProdCA :: bytes
  w_parses :: "bytes \<Rightarrow> bool"
  w_ParseAddress :: "string \<Rightarrow> string option"
  w_MkdirAll :: "string \<Rightarrow> string option"
  w_ManageSync :: "certmagic_settings \<Rightarrow> string list \<Rightarrow> string option"
  w_ListenAndServe :: "string \<Rightarrow> string option"
  w_clients :: clients
  w_listen :: "string \<Rightarrow> string option"
  w_stop :: stop
  w_order :: "producer_map \<Rightarrow> string list"
  w_Close :: "string \<Rightarrow> string option"
  w_notifier_Close :: "string option"

datatype startup_action =
    Logrus logrus_action
  | StartMonitoring "monitor_server list"
  | HandleAcks
  | Listen string
  | CloseListener string
  | Serve string tls_config
  | Shutdown
  | CloseProducer string
  | CloseNotifier
  | NotifyOnPanic
  | CloseProfilerFile string
  | ShutdownCollector collector

text \<open>\<^verbatim>\<open>NilPointer\<close> stands for a panic.\<close>

datatype startup_error =
    ConfigurationError config_error
  | ConfigureAirbrake config_error
  | ClientVerification config_error
  | ConfigureACME acme_error
  | ManageACME acme_error
  | LoadCertificate string
  | ProducersFailed producer_error
  | ListenerBind string string
  | StatusServer status_error
  | ListenerFailed string serve_error
  | NilPointer

section \<open>The certificate of the server\<close>

definition staticTLSExplicitlyConfigured :: "getenv \<Rightarrow> bool" where
  "staticTLSExplicitlyConfigured env \<longleftrightarrow>
     TrimSpace (env ''TLS_CERT_PATH'') \<noteq> [] \<or> TrimSpace (env ''TLS_KEY_PATH'') \<noteq> [] \<or>
     env ''TLS_CERT_PEM'' \<noteq> [] \<or> env ''TLS_KEY_PEM'' \<noteq> []"

definition configureServerCertificate ::
    "world \<Rightarrow> config \<Rightarrow> tls_config \<Rightarrow> (startup_error + tls_config) \<times> log_entry list" where
  "configureServerCertificate W c tlsConfig =
     (let env = Getenv (w_environ W)
      in case ACMEOptionsFromEnvironment (w_ParseAddress W) env of
           (_, _, Some err) \<Rightarrow> (Inl (ConfigureACME err), [])
         | (acmeOptions, acmeRequested, None) \<Rightarrow>
             if acmeRequested \<and> \<not> staticTLSExplicitlyConfigured env then
               (let starting = ActivityLog ''acme_certificate_management_starting''
                      [(''domain'', GStr (ACME_Domain acmeOptions)), (''storage_path'', GStr (ACME_StoragePath acmeOptions))]
                in case Manage (w_MkdirAll W) (w_ManageSync W) acmeOptions of
                     Inl manageErr \<Rightarrow> (Inl (ManageACME manageErr), [starting])
                   | Inr manager \<Rightarrow>
                       (Inr (tlsConfig\<lparr>GetCertificate := Some manager\<rparr>),
                        [starting, ActivityLog ''acme_certificate_ready'' [(''domain'', GStr (ACME_Domain acmeOptions))]]))
             else
               (case cfg_TLS c of
                  None \<Rightarrow> (Inl NilPointer, [])
                | Some tls \<Rightarrow>
                    (case LoadX509KeyPair (w_fs W) (ServerCert tls) (ServerKey tls) of
                       Inl err \<Rightarrow> (Inl (LoadCertificate err), [])
                     | Inr serverCertificate \<Rightarrow>
                         (Inr (tlsConfig\<lparr>Certificates := [serverCertificate]\<rparr>), [ActivityLog ''static_tls_certificate_loaded'' []]))))"

section \<open>Serving and shutting down\<close>

text \<open>From the goroutine that serves to the end of \<^verbatim>\<open>startServer\<close>.\<close>

definition closeProducers :: "world \<Rightarrow> producer_map \<Rightarrow> startup_action effect list" where
  "closeProducers W dispatchers =
     concat (map (\<lambda>d. [Log (ActivityLog ''attempting_to_close'' [(''dispatcher'', GStr d)]), Act (CloseProducer d)] @
                      (case w_Close W d of
                         None \<Rightarrow> []
                       | Some err \<Rightarrow> [Log (ErrorLog ''producer_close_error'' (Some err) [(''dispatcher'', GStr d)])]))
       (w_order W dispatchers))"

definition serveUntilStopped ::
    "world \<Rightarrow> string \<Rightarrow> tls_config \<Rightarrow> producer_map \<Rightarrow> startup_action effect list \<times> startup_error option" where
  "serveUntilStopped W addr tls dispatchers =
     (let (err, stopping) = (case w_stop W of
              ServeEnds err \<Rightarrow> (Some err, [])
            | Signalled signal err \<Rightarrow> (err, [Log (ActivityLog ''shutdown_requested'' [(''signal'', GStr signal)]), Act Shutdown]))
      in ([Log (ActivityLog ''telemetry_listener_configured'' [(''address'', GStr addr), (''tls_enabled'', GBool True)]),
           Act (Serve addr tls)] @ stopping @ closeProducers W dispatchers @ [Log (ActivityLog ''stopped_server'' [])],
          case err of None \<Rightarrow> None | Some ErrServerClosed \<Rightarrow> None | Some e \<Rightarrow> Some (ListenerFailed addr e)))"

definition listenAndServe ::
    "world \<Rightarrow> config \<Rightarrow> tls_config \<Rightarrow> producer_map \<Rightarrow> startup_action effect list \<times> startup_error option" where
  "listenAndServe W c tls dispatchers =
     (let addr = InitServer_addr c
      in case w_listen W addr of
           Some err \<Rightarrow> ([], Some (ListenerBind addr err))
         | None \<Rightarrow>
             (case (if cfg_StatusPort c > 0 then StartStatusServer (w_listen W) c else (None, [])) of
                (Some err, logs) \<Rightarrow> ([Act (Listen addr)] @ map Log logs @ [Act (CloseListener addr)], Some (StatusServer err))
              | (None, logs) \<Rightarrow>
                  (let (effects, result) = serveUntilStopped W addr tls dispatchers
                   in ([Act (Listen addr)] @ map Log logs @ effects, result))))"

definition startServer :: "world \<Rightarrow> config \<Rightarrow> startup_action effect list \<times> startup_error option" where
  "startServer W c =
     (let starting = [Log (ActivityLog ''starting_server'' [])] @
            (case StartServerMetrics (w_ListenAndServe W) c of None \<Rightarrow> [] | Some servers \<Rightarrow> [Act (StartMonitoring servers)])
      in case ExtractServiceTLSConfig (w_fs W) (w_defaultEngCA W) (w_defaultProdCA W) (w_parses W) c of
           (Inl err, logs) \<Rightarrow> (starting @ map Log logs, Some (ClientVerification err))
         | (Inr serverTLSConfig, logs) \<Rightarrow>
             (case configureServerCertificate W c serverTLSConfig of
                (Inl err, logs') \<Rightarrow> (starting @ map Log (logs @ logs'), Some err)
              | (Inr serverTLSConfig, logs') \<Rightarrow>
                  (case ConfigureProducers (w_clients W) False c of
                     Inl err \<Rightarrow> (starting @ map Log (logs @ logs'), Some (ProducersFailed err))
                   | Inr (dispatchers, producerRules) \<Rightarrow>
                       (let (effects, result) = listenAndServe W c serverTLSConfig dispatchers
                        in (starting @ map Log (logs @ logs') @ [Act HandleAcks] @ effects, result)))))"

section \<open>The process\<close>

text \<open>The file of the profiler: what happened, the configuration afterwards, and the deferred calls.\<close>

definition openProfilerFile :: "world \<Rightarrow> config \<Rightarrow> startup_action effect list \<times> config \<times> startup_action effect list" where
  "openProfilerFile W c =
     (case cfg_Monitoring c of
        None \<Rightarrow> ([], c, [])
      | Some m \<Rightarrow>
          if ProfilingPath m = [] then ([], c, [])
          else case w_Create W (ProfilingPath m) of
                 Some err \<Rightarrow> ([Log (ErrorLog ''profiling_file_error'' (Some err) [])], c\<lparr>cfg_Monitoring := Some (m\<lparr>ProfilingPath := []\<rparr>)\<rparr>, [])
               | None \<Rightarrow> ([], c, [Act (CloseProfilerFile (ProfilingPath m))]))"

definition closeNotifier :: "world \<Rightarrow> startup_action effect list" where
  "closeNotifier W =
     Act CloseNotifier #
     (case w_notifier_Close W of None \<Rightarrow> [] | Some err \<Rightarrow> [Log (ErrorLog ''airbrake_close_error'' (Some err) [])]) @
     [Act NotifyOnPanic]"

definition run :: "world \<Rightarrow> startup_action effect list \<times> startup_error option" where
  "run W =
     (case LoadApplicationConfiguration (w_fs W) (w_environ W) (w_ParseLevel W) (w_open_file W) (w_flag W) of
        (Inl err, acts, _) \<Rightarrow> (map (\<lambda>a. Act (Logrus a)) acts, Some (ConfigurationError err))
      | (Inr (serviceConfig, logger, metricCollector), acts, _) \<Rightarrow>
          (case ValidateRuntime (Getenv (w_environ W)) serviceConfig of
             Some err \<Rightarrow> (map (\<lambda>a. Act (Logrus a)) acts, Some (ConfigurationError err))
           | None \<Rightarrow>
               (let (opened, serviceConfig, closed) = openProfilerFile W serviceConfig;
                    loaded = map (\<lambda>a. Act (Logrus a)) acts @ opened;
                    deferred = closed @ [Act (ShutdownCollector metricCollector)]
                in case CreateAirbrakeNotifier (w_fs W) (w_environ W) serviceConfig of
                     (Inl err, logs) \<Rightarrow> (loaded @ map Log logs @ deferred, Some (ConfigureAirbrake err))
                   | (Inr notifier, logs) \<Rightarrow>
                       (let (effects, result) = startServer W serviceConfig
                        in (loaded @ map Log logs @ effects @ (if notifier \<noteq> None then closeNotifier W else []) @ deferred, result)))))"

text \<open>The exit code of \<^verbatim>\<open>main\<close>.\<close>

definition main_exit :: "world \<Rightarrow> int" where
  "main_exit W = (case snd (run W) of None \<Rightarrow> 0 | Some _ \<Rightarrow> 1)"

section \<open>Reading a run\<close>

lemma openProfilerFile_config:
  "openProfilerFile W c = (opened, c', closed) \<Longrightarrow> \<exists>m. c' = c\<lparr>cfg_Monitoring := m\<rparr>"
  by (auto simp: openProfilerFile_def split: option.splits if_splits intro: exI [of _ "cfg_Monitoring c"])

lemma openProfilerFile_actions:
  "openProfilerFile W c = (opened, c', closed) \<Longrightarrow>
     actions opened = [] \<and> (\<exists>fs. actions closed = map CloseProfilerFile fs)"
  by (auto simp: openProfilerFile_def split: option.splits if_splits intro: exI [of _ "[]"] exI [of _ "[_]"])

lemma actions_closeProducers [simp]: "actions (closeProducers W ps) = map CloseProducer (w_order W ps)"
proof -
  have "actions (concat (map (\<lambda>d. [Log (f d), Act (CloseProducer d)] @ (case g d of None \<Rightarrow> [] | Some e \<Rightarrow> [Log (h d e)])) ds)) =
      map CloseProducer ds" for f g h ds
    by (induction ds) (auto split: option.split)
  then show ?thesis unfolding closeProducers_def .
qed

text \<open>The actions that serve or close a producer; all others are book-keeping here.\<close>

definition serving :: "startup_action list \<Rightarrow> startup_action list" where
  "serving = filter (\<lambda>a. case a of Serve _ _ \<Rightarrow> True | CloseProducer _ \<Rightarrow> True | _ \<Rightarrow> False)"

lemma serving_simps [simp]:
  "serving [] = []" "serving (xs @ ys) = serving xs @ serving ys"
  "serving (Serve addr tls # xs) = Serve addr tls # serving xs"
  "serving (CloseProducer d # xs) = CloseProducer d # serving xs"
  "serving (map CloseProducer ds) = map CloseProducer ds"
  "serving (map (\<lambda>a. Logrus a) as) = []" "serving (map CloseProfilerFile fs) = []"
  by (simp_all add: serving_def filter_map o_def)

lemma serving_other [simp]:
  "serving (StartMonitoring ms # xs) = serving xs" "serving (HandleAcks # xs) = serving xs"
  "serving (Listen addr # xs) = serving xs" "serving (CloseListener addr # xs) = serving xs"
  "serving (Shutdown # xs) = serving xs" "serving (CloseNotifier # xs) = serving xs"
  "serving (NotifyOnPanic # xs) = serving xs" "serving (ShutdownCollector mc # xs) = serving xs"
  by (simp_all add: serving_def)

definition clean_stop :: "stop \<Rightarrow> bool" where
  "clean_stop s \<longleftrightarrow> (case s of ServeEnds e \<Rightarrow> e = ErrServerClosed | Signalled _ e \<Rightarrow> e = None \<or> e = Some ErrServerClosed)"

lemma serveUntilStopped_outcome:
  assumes "serveUntilStopped W addr tls ps = (effects, result)"
  shows "serving (actions effects) = Serve addr tls # map CloseProducer (w_order W ps)"
    and "result = None \<longleftrightarrow> clean_stop (w_stop W)"
  using assms
  by (auto simp: serveUntilStopped_def clean_stop_def split: stop.splits option.splits serve_error.splits)

text \<open>Either the process serves, with everything configured before, or it fails and serves nothing.\<close>

lemma listenAndServe_outcome:
  assumes "listenAndServe W c tls ps = (effects, result)"
  shows "serving (actions effects) = Serve (InitServer_addr c) tls # map CloseProducer (w_order W ps) \<and>
           (result = None \<longleftrightarrow> clean_stop (w_stop W)) \<or>
         serving (actions effects) = [] \<and> result \<noteq> None"
proof -
  obtain effects' result' where s: "serveUntilStopped W (InitServer_addr c) tls ps = (effects', result')" by force
  from assms serveUntilStopped_outcome [OF s] s show ?thesis
    by (auto simp: listenAndServe_def Let_def split: option.splits prod.splits if_splits)
qed

lemma startServer_outcome:
  assumes "startServer W c = (effects, result)"
  shows "(\<exists>t logs tls logs' ps rules.
            ExtractServiceTLSConfig (w_fs W) (w_defaultEngCA W) (w_defaultProdCA W) (w_parses W) c = (Inr t, logs) \<and>
            configureServerCertificate W c t = (Inr tls, logs') \<and> ConfigureProducers (w_clients W) False c = Inr (ps, rules) \<and>
            serving (actions effects) = Serve (InitServer_addr c) tls # map CloseProducer (w_order W ps) \<and>
            (result = None \<longleftrightarrow> clean_stop (w_stop W))) \<or>
         serving (actions effects) = [] \<and> result \<noteq> None"
proof -
  have start: "serving (actions (case m of None \<Rightarrow> [] | Some servers \<Rightarrow> [Act (StartMonitoring servers)])) = []"
    for m by (simp split: option.split)
  from assms show ?thesis
    by (auto simp: startServer_def Let_def start split: prod.splits sum.splits dest!: listenAndServe_outcome)
qed

lemma closeNotifier_actions [simp]: "serving (actions (closeNotifier W)) = []"
  by (simp add: closeNotifier_def split: option.split)

lemma run_cases:
  obtains (started) c l mc acts created opened c' closed notifier logs effects result where
      "LoadApplicationConfiguration (w_fs W) (w_environ W) (w_ParseLevel W) (w_open_file W) (w_flag W) = (Inr (c, l, mc), acts, created)"
      "ValidateRuntime (Getenv (w_environ W)) c = None"
      "openProfilerFile W c = (opened, c', closed)" "startServer W c' = (effects, result)"
      "run W = (map (\<lambda>a. Act (Logrus a)) acts @ opened @ map Log logs @ effects @
                  (if notifier then closeNotifier W else []) @ closed @ [Act (ShutdownCollector mc)], result)"
  | (failed) "serving (actions (fst (run W))) = []" "snd (run W) \<noteq> None"
proof -
  obtain r acts created where
    load: "LoadApplicationConfiguration (w_fs W) (w_environ W) (w_ParseLevel W) (w_open_file W) (w_flag W) = (r, acts, created)"
    by (metis prod_cases3)
  show thesis
  proof (cases r)
    case (Inl err)
    then show thesis using load by (intro failed) (simp_all add: run_def)
  next
    case (Inr x)
    obtain c l mc where x: "x = (c, l, mc)" by (metis prod_cases3)
    obtain opened c' closed where o: "openProfilerFile W c = (opened, c', closed)" by (metis prod_cases3)
    obtain n logs where a: "CreateAirbrakeNotifier (w_fs W) (w_environ W) c' = (n, logs)" by force
    obtain effects result where s: "startServer W c' = (effects, result)" by force
    note eqs = load Inr x o a s
    show thesis
    proof (cases "ValidateRuntime (Getenv (w_environ W)) c")
      case (Some err)
      then show thesis using eqs by (intro failed) (simp_all add: run_def)
    next
      case None
      show thesis
      proof (cases n)
        case (Inl err)
        with None eqs openProfilerFile_actions [OF o] show thesis by (intro failed) (auto simp: run_def Let_def)
      next
        case (Inr notifier)
        with None eqs show thesis
          by (intro started [of c l mc acts created opened c' closed effects result logs "notifier \<noteq> None"]) (simp_all add: run_def Let_def)
      qed
    qed
  qed
qed

lemma run_outcome:
  obtains (served) c mon t logs tls logs' ps rules where
      "loadApplicationConfig (w_fs W) (w_environ W) (w_open_file W (loadConfigFlags (Getenv (w_environ W)) (w_flag W))) = Inr c"
      "ExtractServiceTLSConfig (w_fs W) (w_defaultEngCA W) (w_defaultProdCA W) (w_parses W) (c\<lparr>cfg_Monitoring := mon\<rparr>) = (Inr t, logs)"
      "configureServerCertificate W (c\<lparr>cfg_Monitoring := mon\<rparr>) t = (Inr tls, logs')"
      "ConfigureProducers (w_clients W) False (c\<lparr>cfg_Monitoring := mon\<rparr>) = Inr (ps, rules)"
      "serving (actions (fst (run W))) = Serve (InitServer_addr c) tls # map CloseProducer (w_order W ps)"
      "snd (run W) = None \<longleftrightarrow> clean_stop (w_stop W)"
  | (failed) "serving (actions (fst (run W))) = []" "snd (run W) \<noteq> None"
proof (cases rule: run_cases [of W])
  case (started c l mc acts created opened c' closed notifier logs effects result)
  obtain mon where c': "c' = c\<lparr>cfg_Monitoring := mon\<rparr>" using openProfilerFile_config [OF started(3)] by blast
  have addr: "InitServer_addr (c\<lparr>cfg_Monitoring := mon\<rparr>) = InitServer_addr c" by (simp add: InitServer_addr_def)
  have eff: "serving (actions (fst (run W))) = serving (actions effects)" "snd (run W) = result"
    using openProfilerFile_actions [OF started(3)] started(5) by auto
  from startServer_outcome [OF started(4)] show thesis
    using served failed LoadApplicationConfiguration_Inr(1) [OF started(1)] unfolding eff c' addr by blast
qed (rule failed)

section \<open>What the process guarantees\<close>

lemma configureServerCertificate_Inr:
  assumes "configureServerCertificate W c t = (Inr tls, logs)"
  shows "(\<exists>d. tls = t\<lparr>GetCertificate := Some [d]\<rparr> \<and> d = TrimSpace (Getenv (w_environ W) ''ACME_DOMAIN'') \<and> host_name d \<and>
            \<not> staticTLSExplicitlyConfigured (Getenv (w_environ W))) \<or>
         (\<exists>f cert. cfg_TLS c = Some f \<and> LoadX509KeyPair (w_fs W) (ServerCert f) (ServerKey f) = Inr cert \<and>
            tls = t\<lparr>Certificates := [cert]\<rparr>)"
  using assms
  by (auto simp: configureServerCertificate_def Let_def split: prod.splits option.splits if_splits sum.splits
      dest!: Manage_Inr dest: acme_domain_of_options)

lemma Serve_in_serving: "Act (Serve addr tls) \<in> set effects \<longleftrightarrow> Serve addr tls \<in> set (serving (actions effects))"
  by (simp add: serving_def)

text \<open>
  C8: The process serves vehicles only on the address of its loaded configuration and only with a TLS
  configuration that demands a client certificate and verifies it against the embedded authority of the
  chosen environment, and further authorities that parsed. The certificate of the server is loaded from the
  configured files, or it is managed for the one ACME domain of the environment, and then no static
  certificate is named there.
\<close>

theorem served_clients_are_authenticated:
  assumes "Act (Serve addr tls) \<in> set (fst (run W))"
  shows "\<exists>c. loadApplicationConfig (w_fs W) (w_environ W) (w_open_file W (loadConfigFlags (Getenv (w_environ W)) (w_flag W))) = Inr c \<and>
    addr = cfg_Host c @ '':'' @ Itoa (cfg_Port c) \<and> ClientAuth tls = RequireAndVerifyClientCert \<and>
    (if cfg_UseDefaultEngCA c then w_defaultEngCA W else w_defaultProdCA W) \<in> set (ClientCAs tls) \<and>
    list_all (w_parses W) (ClientCAs tls) \<and>
    (case GetCertificate tls of
       Some domains \<Rightarrow> domains = [TrimSpace (Getenv (w_environ W) ''ACME_DOMAIN'')] \<and> list_all host_name domains \<and>
         Certificates tls = [] \<and> \<not> staticTLSExplicitlyConfigured (Getenv (w_environ W))
     | None \<Rightarrow> \<exists>f cert. cfg_TLS c = Some f \<and> LoadX509KeyPair (w_fs W) (ServerCert f) (ServerKey f) = Inr cert \<and>
         Certificates tls = [cert])"
proof (cases rule: run_outcome [of W])
  case (served c mon t logs tls' logs' ps rules)
  have e: "tls' = tls" "addr = InitServer_addr c" using assms served(5) by (auto simp: Serve_in_serving)
  from ExtractServiceTLSConfig_Inr [OF served(2)] configureServerCertificate_Inr [OF served(3)] served(1) show ?thesis
    by (intro exI [of _ c]) (auto simp: e InitServer_addr_def empty_tls_config_def)
next
  case failed
  then show ?thesis using assms by (simp add: Serve_in_serving)
qed

lemma dom_producers:
  assumes "ConfigureProducers cl test c = Inr (ps, rules)"
  shows "d \<in> dom ps \<longleftrightarrow> d = ''logger'' \<or> known d \<noteq> None \<and> (\<exists>(t, ds) \<in> set (cfg_Records c). d \<in> set ds)"
proof -
  have "createProducers cl c = Inr ps"
    using assms by (auto simp: ConfigureProducers_def then_do_Inr split: sum.splits)
  from createProducers_Inr [OF this, of d] have "d \<in> dom ps \<longleftrightarrow> (\<exists>k. known d = Some k \<and> (k = Logger \<or> requiredDispatchers c d \<noteq> []))"
    by (auto split: option.splits if_splits)
  moreover have "requiredDispatchers c d \<noteq> [] \<longleftrightarrow> (\<exists>(t, ds) \<in> set (cfg_Records c). d \<in> set ds)"
    by (force simp: requiredDispatchers_def filter_empty_conv)
  moreover have "known d = Some Logger \<longleftrightarrow> d = ''logger''"
    using known_Some [of d Logger] known_name [of Logger] by auto
  ultimately show ?thesis by auto
qed

lemma producers_known: "ConfigureProducers cl test c = Inr (ps, rules) \<Longrightarrow> dom ps \<subseteq> range dispatcher_name"
proof
  fix d assume "ConfigureProducers cl test c = Inr (ps, rules)" and "d \<in> dom ps"
  then have "d = ''logger'' \<or> known d \<noteq> None" using dom_producers by blast
  then have "\<exists>k. d = dispatcher_name k" using known_Some by (auto intro: exI [of _ Logger])
  then show "d \<in> range dispatcher_name" by auto
qed

lemma UNIV_dispatcher: "UNIV = {Pubsub, Kafka, Kinesis, Logger, ZMQ, MQTT, Redis}"
proof -
  have "d \<in> {Pubsub, Kafka, Kinesis, Logger, ZMQ, MQTT, Redis}" for d by (cases d) simp_all
  then show ?thesis by blast
qed

text \<open>A process with an inline certificate, the default configuration, and a shutdown by a signal.\<close>

definition example_world :: world where
  "example_world = \<lparr>w_environ = pem_env, w_fs = empty_fs\<lparr>LoadX509KeyPair := \<lambda>_ _. Inr ''cert''\<rparr>, w_flag = None,
     w_open_file = (\<lambda>_. NotExist), w_ParseLevel = (\<lambda>_. Inr 4), w_Create = (\<lambda>_. None), w_defaultEngCA = ''eng'',
     w_defaultProdCA = ''prod'', w_parses = (\<lambda>_. True), w_ParseAddress = Some, w_MkdirAll = (\<lambda>_. None),
     w_ManageSync = (\<lambda>_ _. None), w_ListenAndServe = (\<lambda>_. None), w_clients = ready, w_listen = (\<lambda>_. None),
     w_stop = Signalled ''terminated'' None,
     w_order = (\<lambda>ps. filter (\<lambda>d. ps d \<noteq> None) (map dispatcher_name [Pubsub, Kafka, Kinesis, Logger, ZMQ, MQTT, Redis])),
     w_Close = (\<lambda>_. None), w_notifier_Close = None\<rparr>"

definition example_tls :: tls_config where
  "example_tls = empty_tls_config\<lparr>ClientCAs := [''prod''], ClientAuth := RequireAndVerifyClientCert, Certificates := [''cert'']\<rparr>"

definition example_served :: config where
  "example_served = (applySafeDefaults empty_config)\<lparr>cfg_TLS := Some \<lparr>CAFile = [], ServerCert = ''/tmp/x/tls.crt'',
     ServerKey = ''/tmp/x/tls.key''\<rparr>\<rparr>"

lemma example_load: "loadApplicationConfig (w_fs example_world) pem_env NotExist = Inr example_served"
proof -
  have fields: "MkdirTemp (w_fs example_world) = MkdirTemp empty_fs" "WriteFile (w_fs example_world) = WriteFile empty_fs"
    by (simp_all add: example_world_def)
  have "materializeInlineTLSSecrets (w_fs example_world) = materializeInlineTLSSecrets empty_fs"
    by (rule ext, rule ext) (simp only: materializeInlineTLSSecrets_def fields)
  then have "loadApplicationConfig (w_fs example_world) pem_env NotExist = loadApplicationConfig empty_fs pem_env NotExist"
    by (simp only: loadApplicationConfig_def)
  then show ?thesis by (simp only: load_pem_example example_served_def)
qed

lemma example_served_fields:
  "cfg_Monitoring example_served = None" "cfg_Airbrake example_served = None" "cfg_UseDefaultEngCA example_served = False"
  "cfg_TLS example_served = Some \<lparr>CAFile = [], ServerCert = ''/tmp/x/tls.crt'', ServerKey = ''/tmp/x/tls.key''\<rparr>"
  "cfg_Records example_served = defaultRecords" "cfg_ReliableAckSources example_served = []"
  "cfg_Host example_served = ''0.0.0.0''" "cfg_Port example_served = 443"
  by (simp_all add: example_served_def applySafeDefaults_def empty_config_def defaultHost_def defaultPort_def)

lemma example_producers: "\<exists>rules. ConfigureProducers ready False example_served = Inr ([''logger'' \<mapsto> Logger], rules)"
  by (simp add: ConfigureProducers_def configureReliableAckSources_def createProducers_def requireProducer_def
      requiredDispatchers_def example_served_fields defaultRecords_def pubsubTxTypes_def)

lemma example_certificate:
  "\<exists>logs. configureServerCertificate example_world example_served t = (Inr (t\<lparr>Certificates := [''cert'']\<rparr>), logs)"
proof -
  have "Getenv pem_env v = []" if "v \<notin> {''TLS_CERT_PEM'', ''TLS_KEY_PEM''}" for v
    using that by (simp add: Getenv_def pem_env_def)
  then have "ACMEOptionsFromEnvironment pa (Getenv pem_env) = (no_acme_options, False, None)" for pa
    by (simp add: ACMEOptionsFromEnvironment_def)
  then show ?thesis by (simp add: configureServerCertificate_def example_world_def example_served_fields)
qed

lemma example_serves:
  "serving (actions (fst (run example_world))) = [Serve ''0.0.0.0:443'' example_tls, CloseProducer ''logger'']"
  "main_exit example_world = 0"
proof -
  obtain rules where ps: "ConfigureProducers ready False example_served = Inr ([''logger'' \<mapsto> Logger], rules)"
    using example_producers by blast
  obtain logs where cert: "configureServerCertificate example_world example_served
      (empty_tls_config\<lparr>ClientCAs := [''prod''], ClientAuth := RequireAndVerifyClientCert\<rparr>) = (Inr example_tls, logs)"
    using example_certificate [of "empty_tls_config\<lparr>ClientCAs := [''prod''], ClientAuth := RequireAndVerifyClientCert\<rparr>"]
    by (auto simp: example_tls_def)
  have w: "w_clients example_world = ready" "w_environ example_world = pem_env" "w_open_file example_world f = NotExist"
    "w_listen example_world a = None" "w_stop example_world = Signalled ''terminated'' None"
    "w_order example_world [''logger'' \<mapsto> Logger] = [''logger'']" for f a
    by (simp_all add: example_world_def)
  have tls: "ExtractServiceTLSConfig (w_fs example_world) (w_defaultEngCA example_world) (w_defaultProdCA example_world)
      (w_parses example_world) example_served = (Inr (empty_tls_config\<lparr>ClientCAs := [''prod''], ClientAuth := RequireAndVerifyClientCert\<rparr>), [])"
    by (simp add: ExtractServiceTLSConfig_def example_served_fields) (simp add: example_world_def)
  have addr: "InitServer_addr example_served = ''0.0.0.0:443''"
    by (simp add: InitServer_addr_def example_served_fields itoa_eval)
  obtain l where l: "NewBasicLogrusLogger pem_env ''fleet-telemetry'' = Inr l"
    by (simp add: NewBasicLogrusLogger_def NewLogrusLogger_def pem_env_def)
  obtain acts created where load: "LoadApplicationConfiguration (w_fs example_world) (w_environ example_world) (w_ParseLevel example_world)
      (w_open_file example_world) (w_flag example_world) = (Inr (example_served, l, NoopCollector), acts, created)"
    by (simp add: LoadApplicationConfiguration_def w l example_load configureMetricsCollector_def NewCollector_def example_served_fields)
  have "TrimSpace ''/tmp/x/tls.crt'' \<noteq> []" "TrimSpace ''/tmp/x/tls.key'' \<noteq> []"
    by (rule TrimSpace_ne [of "CHR ''/''"]; simp)+
  then have valid: "ValidateRuntime (Getenv (w_environ example_world)) example_served = None"
    by (simp add: ValidateRuntime_def example_served_fields)
  have start: "serving (actions (fst (startServer example_world example_served))) =
      [Serve ''0.0.0.0:443'' example_tls, CloseProducer ''logger'']" "snd (startServer example_world example_served) = None"
    by (simp_all add: startServer_def StartServerMetrics_def example_served_fields tls cert w ps listenAndServe_def addr
        serveUntilStopped_def StartStatusServer_def Let_def split: prod.splits)
  obtain effects result where st: "startServer example_world example_served = (effects, result)" by force
  have "run example_world = (map (\<lambda>a. Act (Logrus a)) acts @ effects @ [Act (ShutdownCollector NoopCollector)], result)"
    by (simp add: run_def load valid openProfilerFile_def example_served_fields CreateAirbrakeNotifier_def st)
  with start show "serving (actions (fst (run example_world))) = [Serve ''0.0.0.0:443'' example_tls, CloseProducer ''logger'']"
    "main_exit example_world = 0"
    by (simp_all add: main_exit_def st)
qed

theorem served_clients_are_authenticated_witness:
  "Act (Serve ''0.0.0.0:443'' example_tls) \<in> set (fst (run example_world)) \<and> ClientAuth example_tls = RequireAndVerifyClientCert"
proof -
  have "Act (Serve ''0.0.0.0:443'' example_tls) \<in> set (fst (run example_world))"
    by (simp add: Serve_in_serving example_serves)
  with served_clients_are_authenticated [OF this] show ?thesis by blast
qed

text \<open>
  C20: When the process has served, however serving ended, it closes after it exactly once every producer
  that was created: the logger and every known dispatcher that a record type of the configuration names; it
  exits with 0 if and only if the server was shut down without an error. When it does not come to serve, it
  exits with 1 and closes no producer, not even those it created.
\<close>

theorem producers_closed_after_serving:
  assumes "\<And>ps. dom ps \<subseteq> range dispatcher_name \<Longrightarrow> distinct (w_order W ps) \<and> set (w_order W ps) = dom ps"
  shows "(\<exists>c addr tls ds. loadApplicationConfig (w_fs W) (w_environ W) (w_open_file W (loadConfigFlags (Getenv (w_environ W)) (w_flag W))) = Inr c \<and>
            serving (actions (fst (run W))) = Serve addr tls # map CloseProducer ds \<and> distinct ds \<and>
            (\<forall>d. d \<in> set ds \<longleftrightarrow> d = ''logger'' \<or> known d \<noteq> None \<and> (\<exists>(t, ns) \<in> set (cfg_Records c). d \<in> set ns)) \<and>
            (main_exit W = 0 \<longleftrightarrow> clean_stop (w_stop W))) \<or>
         serving (actions (fst (run W))) = [] \<and> main_exit W = 1"
proof (cases rule: run_outcome [of W])
  case (served c mon t logs tls logs' ps rules)
  have "main_exit W = 0 \<longleftrightarrow> clean_stop (w_stop W)" using served(6) by (auto simp: main_exit_def split: option.splits)
  moreover have "\<forall>d. d \<in> set (w_order W ps) \<longleftrightarrow>
      d = ''logger'' \<or> known d \<noteq> None \<and> (\<exists>(t, ns) \<in> set (cfg_Records c). d \<in> set ns)"
    using dom_producers [OF served(4)] assms [OF producers_known [OF served(4)]] by simp
  ultimately show ?thesis using served(1,5) assms [OF producers_known [OF served(4)]] by blast
next
  case failed
  then show ?thesis by (auto simp: main_exit_def)
qed

theorem producers_closed_after_serving_witness:
  "\<exists>addr tls. serving (actions (fst (run example_world))) = Serve addr tls # map CloseProducer [''logger''] \<and> clean_stop (w_stop example_world)"
proof -
  have "distinct (w_order example_world ps) \<and> set (w_order example_world ps) = dom ps" if ps: "dom ps \<subseteq> range dispatcher_name" for ps
  proof -
    have all: "range dispatcher_name = set (map dispatcher_name [Pubsub, Kafka, Kinesis, Logger, ZMQ, MQTT, Redis])"
      unfolding UNIV_dispatcher by simp
    have o: "w_order example_world ps = filter (\<lambda>d. ps d \<noteq> None) (map dispatcher_name [Pubsub, Kafka, Kinesis, Logger, ZMQ, MQTT, Redis])"
      by (simp only: example_world_def world.simps)
    have "distinct (map dispatcher_name [Pubsub, Kafka, Kinesis, Logger, ZMQ, MQTT, Redis])" by simp
    moreover have "set (w_order example_world ps) = dom ps" using ps unfolding o all set_filter by (auto simp only: dom_def)
    ultimately show ?thesis unfolding o using distinct_filter by blast
  qed
  from producers_closed_after_serving [OF this] example_serves show ?thesis by auto
qed

end
