(* ===== verification/Fleet.thy ===== *)
theory Fleet
  imports Pipeline Startup
begin

text \<open>
  The whole server as one system: any number of connections, the producers and the acknowledgement loop, in any
  interleaving. A connection is cut into the steps of its handler \<^verbatim>\<open>ServeBinaryWs\<close>: it registers, it handles one message
  after the other, it leaves. A record that was handed to a producer waits there until the producer deals with
  it, in any order; the records that producers send to the unbuffered acknowledgement channel wait in a queue for
  \<^verbatim>\<open>handleAcks\<close>.

  Section two ties the steps to the code: alone, they do exactly what \<^const>\<open>ServeBinaryWs\<close> does.
\<close>

section \<open>State and steps\<close>

record live_socket =
  lv_loop :: loop_state
  lv_serializer :: "dispatcher serializer"

record fleet =
  fl_registry :: socket_registry
  fl_sockets :: "nat \<rightharpoonup> live_socket"
  fl_pending :: "(dispatcher \<times> dispatcher telemetry_record) list"
  fl_acks :: "dispatcher telemetry_record list"

definition fleet_start :: fleet where
  "fleet_start = \<lparr>fl_registry = NewSocketRegistry, fl_sockets = (\<lambda>_. None), fl_pending = [], fl_acks = []\<rparr>"

text \<open>What is fixed while the server runs: the libraries, the configuration, the dispatch rules, the producers.\<close>

record 'b deployment =
  dp_fb :: "'b flatbuffers"
  dp_pb :: protobuf
  dp_uuid_Parse :: "string \<Rightarrow> string option"
  dp_config :: config
  dp_rules :: "string \<rightharpoonup> dispatcher list"
  dp_producers :: store_producers

datatype fleet_event =
    Connect connection
  | ReceiveMessage nat ws_input
  | Disconnect nat event_times "string option" int
  | Deliver nat "dispatcher store_answers"
  | Acknowledge

abbreviation lv_sm :: "live_socket \<Rightarrow> socket_manager" where
  "lv_sm v \<equiv> ls_sm (lv_loop v)"

definition hand_over :: "dispatcher effects \<Rightarrow> fleet \<Rightarrow> fleet" where
  "hand_over es s = s\<lparr>fl_pending := fl_pending s @ produced es\<rparr>"

fun fleet_step :: "'b deployment \<Rightarrow> fleet_event \<Rightarrow> fleet \<Rightarrow> (fleet \<times> dispatcher server_effect effect list) option" where
  "fleet_step D (Connect con) s =
     (if fl_sockets s (con_addr con) \<noteq> None then None
      else case promoteToWebsocket con of
        (False, es) \<Rightarrow> Some (s, es)
      | (True, es) \<Rightarrow>
          (case extractIdentityFromConnection (con_tls con) (con_request con) of
             Inl err \<Rightarrow>
               Some (s, es @ [Log (ErrorLog ''extract_sender_id_err'' (Some (identity_error_text err)) []), Act CloseWs])
           | Inr identity \<Rightarrow>
               (let ts = NewBinarySerializer (Some identity) (dp_rules D);
                    sm = NewSocketManager (dp_uuid_Parse D) (con_fresh con) (con_start con) (Some (con_request con)) identity (dp_config D)
                in do { (reg, es1) \<leftarrow> registerSocket (dp_fb D) (dp_pb D) (con_connected con) (dp_rules D) (con_addr con) sm ts (fl_registry s);
                        Some (hand_over es1 (s\<lparr>fl_registry := reg,
                                fl_sockets := (fl_sockets s)(con_addr con \<mapsto>
                                  \<lparr>lv_loop = \<lparr>ls_sm = sm, ls_limited = 0, ls_limitStart = 0\<rparr>, lv_serializer = ts\<rparr>)\<rparr>),
                              es @ on_socket (con_addr con) (es1 @ [Log (ActivityLog ''socket_connected'' (sm_requestInfo sm))])) })))"
| "fleet_step D (ReceiveMessage addr i) s =
     (case fl_sockets s addr of
        None \<Rightarrow> None
      | Some v \<Rightarrow>
          if in_MsgType i \<noteq> sm_MsgType (lv_sm v) then None
          else do { (ls, es) \<leftarrow> handleMessage (dp_fb D) (dp_pb D) (lv_serializer v) i (lv_loop v);
                    Some (hand_over es (s\<lparr>fl_sockets := (fl_sockets s)(addr \<mapsto> v\<lparr>lv_loop := ls\<rparr>)\<rparr>), on_socket addr es) })"
| "fleet_step D (Disconnect addr t closeErr now) s =
     (case fl_sockets s addr of
        None \<Rightarrow> None
      | Some v \<Rightarrow>
          do { (reg, es) \<leftarrow> deregisterSocket (dp_fb D) (dp_pb D) t (dp_rules D) (lv_sm v) (lv_serializer v) (fl_registry s);
               Some (hand_over es (s\<lparr>fl_registry := reg, fl_sockets := (fl_sockets s)(addr := None)\<rparr>),
                     on_socket addr (map Log (Socket_Close closeErr now (lv_sm v)) @ es)) })"
| "fleet_step D (Deliver k w) s =
     (if k < length (fl_pending s)
      then (let (d, r) = fl_pending s ! k
            in Some (s\<lparr>fl_pending := take k (fl_pending s) @ drop (Suc k) (fl_pending s),
                       fl_acks := fl_acks s @ store_acks (dp_producers D) w d r\<rparr>, []))
      else None)"
| "fleet_step D Acknowledge s =
     (case fl_acks s of
        [] \<Rightarrow> None
      | r # rs \<Rightarrow>
          do { es \<leftarrow> handleAck (dp_fb D) (cfg_ReliableAckSources (dp_config D)) (\<lambda>addr. lv_sm (the (fl_sockets s addr)))
                       (fl_registry s) r;
               Some (s\<lparr>fl_acks := rs\<rparr>, es) })"

fun fleet_run ::
    "'b deployment \<Rightarrow> fleet_event list \<Rightarrow> fleet \<Rightarrow> (fleet \<times> dispatcher server_effect effect list) option" where
  "fleet_run D [] s = Some (s, [])"
| "fleet_run D (e # events) s =
     do { (s, es) \<leftarrow> fleet_step D e s; (s, es') \<leftarrow> fleet_run D events s; Some (s, es @ es') }"

section \<open>The steps of one connection are its handler\<close>

text \<open>The events of a connection that is served on its own.\<close>

definition connection_events :: "connection \<Rightarrow> fleet_event list" where
  "connection_events con =
     Connect con #
     (if con_upgrade con = None \<and> isl (extractIdentityFromConnection (con_tls con) (con_request con)) = False
      then map (ReceiveMessage (con_addr con)) (takeWhile (\<lambda>i. in_MsgType i = BinaryMessage) (con_inputs con)) @
           [Disconnect (con_addr con) (con_disconnected con) (con_closeErr con) (con_end con)]
      else [])"

lemma on_socket_append [simp]: "on_socket addr (es @ es') = on_socket addr es @ on_socket addr es'"
  by (simp add: on_socket_def)

lemma fleet_run_append:
  "fleet_run D (xs @ ys) s = do { (s, es) \<leftarrow> fleet_run D xs s; (s, es') \<leftarrow> fleet_run D ys s; Some (s, es @ es') }"
  by (induction xs arbitrary: s) (auto simp: bind_eq_None_conv split: Option.bind_splits prod.splits)

lemma hand_over_simps [simp]:
  "fl_registry (hand_over es s) = fl_registry s" "fl_sockets (hand_over es s) = fl_sockets s"
  "fl_acks (hand_over es s) = fl_acks s" "fl_pending (hand_over es s) = fl_pending s @ produced es"
  by (simp_all add: hand_over_def)

lemma receive_run:
  assumes "fl_sockets s addr = Some v" and "sm_MsgType (lv_sm v) = BinaryMessage"
  shows "\<exists>s' ls es. read_loop (dp_fb D) (dp_pb D) (lv_serializer v) inputs (lv_loop v) = Some (ls, es) \<and>
     fleet_run D (map (ReceiveMessage addr) (takeWhile (\<lambda>i. in_MsgType i = BinaryMessage) inputs)) s = Some (s', on_socket addr es) \<and>
     fl_registry s' = fl_registry s \<and> fl_sockets s' = (fl_sockets s)(addr \<mapsto> v\<lparr>lv_loop := ls\<rparr>)"
  using assms
proof (induction inputs arbitrary: s v)
  case Nil
  then show ?case by (auto simp: on_socket_def fun_upd_idem)
next
  case (Cons i inputs)
  show ?case
  proof (cases "in_MsgType i = BinaryMessage")
    case False
    with Cons.prems show ?thesis by (auto simp: on_socket_def fun_upd_idem)
  next
    case True
    obtain ls es where h: "handleMessage (dp_fb D) (dp_pb D) (lv_serializer v) i (lv_loop v) = Some (ls, es)"
      and same: "same_socket (lv_sm v) (ls_sm ls)"
      using handleMessage_actions by blast
    let ?v = "v\<lparr>lv_loop := ls\<rparr>" and ?s = "hand_over es (s\<lparr>fl_sockets := (fl_sockets s)(addr \<mapsto> v\<lparr>lv_loop := ls\<rparr>)\<rparr>)"
    have "fl_sockets ?s addr = Some ?v" and "sm_MsgType (lv_sm ?v) = BinaryMessage"
      using same_socket_fields(1) [OF same] Cons.prems(2) by simp_all
    from Cons.IH [OF this] obtain s' ls' es' where
      r: "read_loop (dp_fb D) (dp_pb D) (lv_serializer ?v) inputs (lv_loop ?v) = Some (ls', es')"
      "fleet_run D (map (ReceiveMessage addr) (takeWhile (\<lambda>i. in_MsgType i = BinaryMessage) inputs)) ?s = Some (s', on_socket addr es')"
      "fl_registry s' = fl_registry ?s" and u: "fl_sockets s' = (fl_sockets ?s)(addr \<mapsto> ?v\<lparr>lv_loop := ls'\<rparr>)" by blast
    have "fl_sockets s' = (fl_sockets s)(addr \<mapsto> v\<lparr>lv_loop := ls'\<rparr>)" using u by (simp add: fun_eq_iff)
    with True Cons.prems h r show ?thesis by auto
  qed
qed

lemma refused_handler:
  assumes "fl_sockets s (con_addr con) = None"
    and "con_upgrade con \<noteq> None \<or> isl (extractIdentityFromConnection (con_tls con) (con_request con))"
  shows "\<exists>s' es. fleet_run D (connection_events con) s = Some (s', es) \<and>
     ServeBinaryWs (dp_fb D) (dp_pb D) (dp_uuid_Parse D) (dp_rules D) (dp_config D) con (fl_registry s) = Some (fl_registry s', es) \<and>
     fl_sockets s' = fl_sockets s"
proof (cases "con_upgrade con")
  case None
  with assms(2) obtain err where "extractIdentityFromConnection (con_tls con) (con_request con) = Inl err" by (auto simp: isl_def)
  then show ?thesis using assms(1) None by (auto simp: connection_events_def ServeBinaryWs_def promoteToWebsocket_def)
qed (use assms(1) in \<open>auto simp: connection_events_def ServeBinaryWs_def promoteToWebsocket_def split: prod.split\<close>)

lemma accepted_handler:
  assumes "fl_sockets s (con_addr con) = None" and "con_upgrade con = None"
    and "extractIdentityFromConnection (con_tls con) (con_request con) = Inr identity"
  shows "\<exists>s' es. fleet_run D (connection_events con) s = Some (s', es) \<and>
     ServeBinaryWs (dp_fb D) (dp_pb D) (dp_uuid_Parse D) (dp_rules D) (dp_config D) con (fl_registry s) = Some (fl_registry s', es) \<and>
     fl_sockets s' = fl_sockets s"
proof -
  define ts where "ts = NewBinarySerializer (Some identity) (dp_rules D)"
  define sm where "sm = NewSocketManager (dp_uuid_Parse D) (con_fresh con) (con_start con) (Some (con_request con)) identity (dp_config D)"
  let ?fb = "dp_fb D" and ?pb = "dp_pb D" and ?addr = "con_addr con"
  let ?v = "\<lparr>lv_loop = \<lparr>ls_sm = sm, ls_limited = 0, ls_limitStart = 0\<rparr>, lv_serializer = ts\<rparr>"
  obtain ni where ni: "GetNetworkInterface sm = Some ni" using network_interface [OF same_socket_refl] sm_def by blast
  obtain reg1 es1 where c: "registerSocket ?fb ?pb (con_connected con) (dp_rules D) ?addr sm ts (fl_registry s) = Some (reg1, es1)"
    using registerSocket_actions(1) [OF ni] by blast
  let ?s1 = "hand_over es1 (s\<lparr>fl_registry := reg1, fl_sockets := (fl_sockets s)(?addr \<mapsto> ?v)\<rparr>)"
  have "fl_sockets ?s1 ?addr = Some ?v" and "sm_MsgType (lv_sm ?v) = BinaryMessage"
    by (simp_all add: sm_def NewSocketManager_def split: prod.split)
  from receive_run [OF this, of D "con_inputs con"] obtain s2 ls es2 where
    r: "read_loop ?fb ?pb ts (con_inputs con) \<lparr>ls_sm = sm, ls_limited = 0, ls_limitStart = 0\<rparr> = Some (ls, es2)"
    and run: "fleet_run D (map (ReceiveMessage ?addr) (takeWhile (\<lambda>i. in_MsgType i = BinaryMessage) (con_inputs con))) ?s1 =
      Some (s2, on_socket ?addr es2)"
    and s2: "fl_registry s2 = reg1" "fl_sockets s2 = (fl_sockets ?s1)(?addr \<mapsto> ?v\<lparr>lv_loop := ls\<rparr>)"
    by auto
  have "same_socket sm (ls_sm ls)"
    using read_loop_actions [of ?fb ?pb ts "con_inputs con" "\<lparr>ls_sm = sm, ls_limited = 0, ls_limitStart = 0\<rparr>"] r by auto
  then obtain ni' where "GetNetworkInterface (ls_sm ls) = Some ni'" using network_interface unfolding sm_def by blast
  from registerSocket_actions(2) [OF this] obtain reg3 es3 where
    d: "deregisterSocket ?fb ?pb (con_disconnected con) (dp_rules D) (ls_sm ls) ts reg1 = Some (reg3, es3)" by blast
  have "fl_sockets s2 ?addr = Some (?v\<lparr>lv_loop := ls\<rparr>)" "(fl_sockets s2)(?addr := None) = fl_sockets s"
    using s2(2) assms by (simp_all add: fun_eq_iff)
  then show ?thesis
    using assms c r run s2(1) d
    by (simp add: connection_events_def ServeBinaryWs_def promoteToWebsocket_def ProcessTelemetry_def fleet_run_append
        flip: ts_def sm_def) (simp add: on_socket_def)
qed

text \<open>
  C11: The steps of a connection are its handler: run one after the other from a state in which its address is
  free, they have the effects of \<^const>\<open>ServeBinaryWs\<close>, in the same order, and leave the registry as it does and no
  socket behind. So the interleavings of the steps are interleavings of the handlers of the connections.
\<close>

theorem serve_as_steps:
  assumes "fl_sockets s (con_addr con) = None"
  shows "\<exists>s' es. fleet_run D (connection_events con) s = Some (s', es) \<and>
     ServeBinaryWs (dp_fb D) (dp_pb D) (dp_uuid_Parse D) (dp_rules D) (dp_config D) con (fl_registry s) = Some (fl_registry s', es) \<and>
     fl_sockets s' = fl_sockets s"
  using refused_handler [OF assms, of D] accepted_handler [OF assms, of _ D]
  by (cases "extractIdentityFromConnection (con_tls con) (con_request con)"; cases "con_upgrade con") auto

section \<open>The invariant\<close>

text \<open>
  What holds of every live socket and of every record in the system, for a relation \<open>good\<close> between the UUIDs of
  sockets and the device ids of clients that holds for all connections.
\<close>

definition socket_ok :: "(string \<Rightarrow> string \<Rightarrow> bool) \<Rightarrow> 'b deployment \<Rightarrow> live_socket \<Rightarrow> bool" where
  "socket_ok good D v \<longleftrightarrow>
     RequestIdentity (lv_serializer v) = Some (sm_requestIdentity (lv_sm v)) \<and> DispatchRules (lv_serializer v) = dp_rules D \<and>
     GetNetworkInterface (lv_sm v) \<noteq> None \<and> good (sm_UUID (lv_sm v)) (DeviceID (sm_requestIdentity (lv_sm v)))"

definition record_ok :: "(string \<Rightarrow> string \<Rightarrow> bool) \<Rightarrow> dispatcher telemetry_record \<Rightarrow> bool" where
  "record_ok good r \<longleftrightarrow>
     rec_Serializer r \<noteq> None \<and> good (rec_SocketID r) (rec_Vin r) \<and>
     (\<forall>m. rec_protoMessage r = Some m \<longrightarrow> message_vin m = rec_Vin r)"

definition fleet_inv :: "(string \<Rightarrow> string \<Rightarrow> bool) \<Rightarrow> 'b deployment \<Rightarrow> fleet \<Rightarrow> bool" where
  "fleet_inv good D s \<longleftrightarrow>
     (\<forall>u a. GetSocket u (fl_registry s) = Some a \<longrightarrow> (\<exists>v. fl_sockets s a = Some v \<and> sm_UUID (lv_sm v) = u)) \<and>
     (\<forall>a v. fl_sockets s a = Some v \<longrightarrow> socket_ok good D v) \<and>
     (\<forall>(d, r) \<in> set (fl_pending s). record_ok good r) \<and> (\<forall>r \<in> set (fl_acks s). record_ok good r)"

lemma fleet_inv_start: "fleet_inv good D fleet_start"
  by (simp add: fleet_inv_def fleet_start_def sockets.lookup_empty)

lemma mem_produced [simp]: "(p, r) \<in> set (produced es) \<longleftrightarrow> Produce p r \<in> set (actions es)"
  by (auto simp: produced_def List.map_filter_def simp del: mem_actions split: socket_action.splits intro: image_eqI [of _ _ "Produce p r"])

lemma mem_on_socket: "SocketAction p r \<in> set (actions (on_socket addr es)) \<longleftrightarrow> Produce p r \<in> set (actions es)"
  by (force simp: actions_on_socket simp del: mem_actions split: socket_action.splits)

text \<open>The records that a good socket hands to producers, in its events and for its messages.\<close>

lemma socket_produces:
  assumes "socket_ok good D v" and "accepted_by fb pb (lv_serializer v) (lv_sm v) r"
  shows "record_ok good r"
  using assms accepted_by_vin [OF assms(2)] by (auto simp: socket_ok_def record_ok_def)

lemma same_socket_interface: "same_socket sm sm' \<Longrightarrow> GetNetworkInterface sm' = GetNetworkInterface sm"
  by (cases sm; cases sm') (simp add: same_socket_def GetNetworkInterface_def)

lemma store_acks_unstamped:
  assumes "r' \<in> set (store_acks (started_producers env c m) w d r)"
  shows "unstamped r' = unstamped r"
proof -
  have "d \<noteq> Logger" using assms by auto
  from store_acks_contract [OF refl this, of env c m w r] assms show ?thesis
    by (metis (no_types, lifting) empty_iff empty_set list.set_map image_eqI set_ConsD)
qed

lemma record_ok_unstamped: "record_ok good (unstamped r) \<longleftrightarrow> record_ok good r"
  by (simp add: record_ok_def unstamped_def)

lemma handed_ok:
  assumes "fleet_inv good D s" and "\<And>p r. Produce p r \<in> set (actions es) \<Longrightarrow> record_ok good r"
  shows "fleet_inv good D (hand_over es s)"
  using assms unfolding fleet_inv_def hand_over_simps by (auto simp del: mem_actions)

text \<open>Each step keeps the invariant, and hands only such records to producers of their types.\<close>

definition handed :: "(string \<Rightarrow> string \<Rightarrow> bool) \<Rightarrow> 'b deployment \<Rightarrow> dispatcher server_effect effect list \<Rightarrow> bool" where
  "handed good D es \<longleftrightarrow> (\<forall>p r. SocketAction p r \<in> set (actions es) \<longrightarrow> record_ok good r \<and> routed (dp_rules D) p r)"

lemma handed_simps [simp]:
  "handed good D []" "handed good D (es @ es') \<longleftrightarrow> handed good D es \<and> handed good D es'"
  "handed good D (on_socket addr fs) \<longleftrightarrow> (\<forall>p r. Produce p r \<in> set (actions fs) \<longrightarrow> record_ok good r \<and> routed (dp_rules D) p r)"
  by (auto simp: handed_def mem_on_socket simp del: mem_actions)

lemma message_step:
  assumes I: "fleet_inv good D s" and E: "dp_rules D [] = None"
    and S: "fleet_step D (ReceiveMessage addr i) s = Some (s', es)"
  shows "fleet_inv good D s' \<and> handed good D es"
proof -
  obtain v ls es1 where v: "fl_sockets s addr = Some v"
    and h: "handleMessage (dp_fb D) (dp_pb D) (lv_serializer v) i (lv_loop v) = Some (ls, es1)"
    and s': "s' = hand_over es1 (s\<lparr>fl_sockets := (fl_sockets s)(addr \<mapsto> v\<lparr>lv_loop := ls\<rparr>)\<rparr>)" "es = on_socket addr es1"
    using S by (auto split: option.splits if_splits simp: bind_eq_Some_conv)
  have ok: "socket_ok good D v" using I v by (auto simp: fleet_inv_def)
  have a: "same_socket (lv_sm v) (ls_sm ls)"
      "actions es1 = (if limited (lv_sm v) i then [] else message_actions (dp_fb D) (dp_pb D) (lv_serializer v) (lv_sm v) i)"
    using handleMessage_actions [of "dp_fb D" "dp_pb D" "lv_serializer v" i "lv_loop v"] h by auto
  have p: "record_ok good r \<and> routed (dp_rules D) p r" if "Produce p r \<in> set (actions es1)" for p r
  proof -
    have "Produce p r \<in> set (message_actions (dp_fb D) (dp_pb D) (lv_serializer v) (lv_sm v) i)"
      using that a(2) by (simp del: mem_actions split: if_splits)
    from message_produces [OF this] ok E socket_produces [OF ok] show ?thesis by (auto simp: socket_ok_def)
  qed
  have "socket_ok good D (v\<lparr>lv_loop := ls\<rparr>)" and "sm_UUID (ls_sm ls) = sm_UUID (lv_sm v)"
    using ok same_socket_fields [OF a(1)] same_socket_interface [OF a(1)] by (simp_all add: socket_ok_def)
  then have "fleet_inv good D (s\<lparr>fl_sockets := (fl_sockets s)(addr \<mapsto> v\<lparr>lv_loop := ls\<rparr>)\<rparr>)"
    using I v by (fastforce simp: fleet_inv_def)
  with p show ?thesis unfolding s' by (auto intro!: handed_ok simp del: mem_actions)
qed

text \<open>The socket of a connection.\<close>

definition connection_uuid :: "'b deployment \<Rightarrow> connection \<Rightarrow> request_identity \<Rightarrow> string" where
  "connection_uuid D con identity =
     sm_UUID (NewSocketManager (dp_uuid_Parse D) (con_fresh con) (con_start con) (Some (con_request con)) identity (dp_config D))"

lemma refused_step:
  assumes "fleet_step D (Connect con) s = Some (s', es)"
    and "con_upgrade con \<noteq> None \<or> extractIdentityFromConnection (con_tls con) (con_request con) = Inl err"
  shows "s' = s \<and> handed good D es"
  using assms
  by (cases "con_upgrade con")
    (auto simp: promoteToWebsocket_def handed_def simp del: mem_actions split: if_splits)

lemma connect_step:
  assumes I: "fleet_inv good D s" and S: "fleet_step D (Connect con) s = Some (s', es)"
    and G: "\<And>identity. extractIdentityFromConnection (con_tls con) (con_request con) = Inr identity \<Longrightarrow>
              good (connection_uuid D con identity) (DeviceID identity)"
  shows "fleet_inv good D s' \<and> handed good D es"
proof (cases "con_upgrade con = None \<and> (\<exists>identity. extractIdentityFromConnection (con_tls con) (con_request con) = Inr identity)")
  case False
  then have "con_upgrade con \<noteq> None \<or> (\<exists>err. extractIdentityFromConnection (con_tls con) (con_request con) = Inl err)"
    by (cases "extractIdentityFromConnection (con_tls con) (con_request con)") auto
  then show ?thesis using refused_step [OF S, of _ good] I by blast
next
  case True
  then obtain identity where i: "extractIdentityFromConnection (con_tls con) (con_request con) = Inr identity" by blast
  define ts where "ts = NewBinarySerializer (Some identity) (dp_rules D)"
  define sm where "sm = NewSocketManager (dp_uuid_Parse D) (con_fresh con) (con_start con) (Some (con_request con)) identity (dp_config D)"
  define v where "v = \<lparr>lv_loop = \<lparr>ls_sm = sm, ls_limited = 0, ls_limitStart = 0\<rparr>, lv_serializer = ts\<rparr>"
  obtain ni where ni: "GetNetworkInterface sm = Some ni" using network_interface [OF same_socket_refl] sm_def by blast
  obtain es1 where r: "registerSocket (dp_fb D) (dp_pb D) (con_connected con) (dp_rules D) (con_addr con) sm ts (fl_registry s) =
      Some (RegisterSocket (sm_UUID sm) (con_addr con) (fl_registry s), es1)"
    and ev: "actions es1 = event_actions (dp_fb D) (dp_pb D) (con_connected con) (dp_rules D) sm ts ConnectivityEvent_CONNECTED"
    using registerSocket_actions(1) [OF ni] by blast
  let ?s = "s\<lparr>fl_registry := RegisterSocket (sm_UUID sm) (con_addr con) (fl_registry s), fl_sockets := (fl_sockets s)(con_addr con \<mapsto> v)\<rparr>"
  have s': "s' = hand_over es1 ?s" "fl_sockets s (con_addr con) = None"
      "es = on_socket (con_addr con) (es1 @ [Log (ActivityLog ''socket_connected'' (sm_requestInfo sm))])"
    using S True i r by (auto simp: promoteToWebsocket_def v_def ts_def sm_def Let_def split: if_splits)
  have id: "sm_requestIdentity sm = identity" by (simp add: sm_def NewSocketManager_def split: prod.split)
  have ok: "socket_ok good D v"
    using G [OF i] ni id by (simp add: socket_ok_def v_def ts_def NewBinarySerializer_def connection_uuid_def sm_def)
  have "record_ok good r \<and> routed (dp_rules D) p r" if "Produce p r \<in> set (actions es1)" for p r
    using event_produces [OF that [unfolded ev] ni] socket_produces [OF ok, of "dp_fb D" "dp_pb D" r] by (simp add: v_def)
  moreover have "fleet_inv good D ?s"
    using I ok s'(2) by (fastforce simp: fleet_inv_def sockets.lookup_register v_def)
  ultimately show ?thesis unfolding s' by (auto intro!: handed_ok simp del: mem_actions)
qed

lemma disconnect_step:
  assumes I: "fleet_inv good D s" and S: "fleet_step D (Disconnect addr t closeErr now) s = Some (s', es)"
  shows "fleet_inv good D s' \<and> handed good D es"
proof -
  obtain v where v: "fl_sockets s addr = Some v" using S by (auto split: option.splits)
  then have ok: "socket_ok good D v" using I by (auto simp: fleet_inv_def)
  then obtain ni where ni: "GetNetworkInterface (lv_sm v) = Some ni" by (auto simp: socket_ok_def)
  obtain es1 where r: "deregisterSocket (dp_fb D) (dp_pb D) t (dp_rules D) (lv_sm v) (lv_serializer v) (fl_registry s) =
      Some (DeregisterSocket (sm_UUID (lv_sm v)) (fl_registry s), es1)"
    and ev: "actions es1 = event_actions (dp_fb D) (dp_pb D) t (dp_rules D) (lv_sm v) (lv_serializer v) ConnectivityEvent_DISCONNECTED"
    using registerSocket_actions(2) [OF ni] by blast
  let ?s = "s\<lparr>fl_registry := DeregisterSocket (sm_UUID (lv_sm v)) (fl_registry s), fl_sockets := (fl_sockets s)(addr := None)\<rparr>"
  have s': "s' = hand_over es1 ?s" "es = on_socket addr (map Log (Socket_Close closeErr now (lv_sm v)) @ es1)"
    using S v r by auto
  have "record_ok good r \<and> routed (dp_rules D) p r" if "Produce p r \<in> set (actions es1)" for p r
    using event_produces [OF that [unfolded ev] ni] socket_produces [OF ok, of "dp_fb D" "dp_pb D" r] by simp
  moreover have "fleet_inv good D ?s"
    using I v by (fastforce simp: fleet_inv_def sockets.lookup_deregister)
  ultimately show ?thesis unfolding s' by (auto intro!: handed_ok simp del: mem_actions)
qed

lemma deliver_step:
  assumes I: "fleet_inv good D s" and S: "fleet_step D (Deliver k w) s = Some (s', es)"
    and P: "dp_producers D = started_producers env c m"
  shows "fleet_inv good D s' \<and> handed good D es"
proof -
  obtain d r where k: "k < length (fl_pending s)" "fl_pending s ! k = (d, r)"
    and s': "s' = s\<lparr>fl_pending := take k (fl_pending s) @ drop (Suc k) (fl_pending s),
        fl_acks := fl_acks s @ store_acks (dp_producers D) w d r\<rparr>" "es = []"
    using S by (auto split: if_splits prod.splits)
  have "(d, r) \<in> set (fl_pending s)" using k nth_mem by metis
  then have "record_ok good r" using I by (auto simp: fleet_inv_def)
  then have "record_ok good r'" if "r' \<in> set (store_acks (dp_producers D) w d r)" for r'
    using store_acks_unstamped [OF that [unfolded P]] record_ok_unstamped by metis
  then show ?thesis using I unfolding s' by (auto simp: fleet_inv_def dest: in_set_takeD in_set_dropD)
qed

lemma handleAck_actions:
  assumes "rec_Serializer r \<noteq> None" and "handleAck fb srcs sockets reg r = Some es"
  shows "actions es = (case GetSocket (rec_SocketID r) reg of
           Some addr \<Rightarrow> [SendTo addr (ack_response fb (sockets addr) r)] | None \<Rightarrow> [])"
proof (cases "GetSocket (rec_SocketID r) reg")
  case None
  then show ?thesis using assms by (auto simp: handleAck_def Let_def)
next
  case (Some addr)
  obtain es1 where "respondToVehicle fb (sockets addr) r None = Some es1"
    "actions es1 = [Respond (ack_response fb (sockets addr) r)]"
    using respond_ack [OF assms(1)] by blast
  with Some assms show ?thesis by (auto simp: handleAck_def Let_def actions_on_socket)
qed

lemma acknowledge_step:
  assumes I: "fleet_inv good D s" and S: "fleet_step D Acknowledge s = Some (s', es)"
  obtains r where "fl_acks s = r # fl_acks s'" and "fleet_inv good D s'" and "record_ok good r"
    and "actions es = (case GetSocket (rec_SocketID r) (fl_registry s) of
           Some addr \<Rightarrow> [SendTo addr (ack_response (dp_fb D) (lv_sm (the (fl_sockets s addr))) r)]
         | None \<Rightarrow> [])"
proof -
  obtain r rs where r: "fl_acks s = r # rs"
    and h: "handleAck (dp_fb D) (cfg_ReliableAckSources (dp_config D)) (\<lambda>addr. lv_sm (the (fl_sockets s addr))) (fl_registry s) r = Some es"
    and s': "s' = s\<lparr>fl_acks := rs\<rparr>"
    using S by (auto split: list.splits simp: bind_eq_Some_conv)
  have ok: "record_ok good r" "fleet_inv good D s'" using I r by (auto simp: fleet_inv_def s')
  then have "rec_Serializer r \<noteq> None" by (simp add: record_ok_def)
  then have "actions es = (case GetSocket (rec_SocketID r) (fl_registry s) of
      Some addr \<Rightarrow> [SendTo addr (ack_response (dp_fb D) (lv_sm (the (fl_sockets s addr))) r)] | None \<Rightarrow> [])"
    by (rule handleAck_actions [OF _ h])
  with that r s' ok show thesis by simp
qed

lemma fleet_step_inv:
  assumes "fleet_inv good D s" and "fleet_step D e s = Some (s', es)"
    and "dp_rules D [] = None" and "dp_producers D = started_producers env c m"
    and "\<And>con identity. e = Connect con \<Longrightarrow> extractIdentityFromConnection (con_tls con) (con_request con) = Inr identity \<Longrightarrow>
           good (connection_uuid D con identity) (DeviceID identity)"
  shows "fleet_inv good D s' \<and> handed good D es"
proof (cases e)
  case (Connect con)
  then show ?thesis using connect_step [OF assms(1)] assms(2,5) by blast
next
  case (ReceiveMessage addr i)
  then show ?thesis using message_step [OF assms(1,3)] assms(2) by blast
next
  case (Disconnect addr t closeErr now)
  then show ?thesis using disconnect_step [OF assms(1)] assms(2) by blast
next
  case (Deliver k w)
  then show ?thesis using deliver_step [OF assms(1)] assms(2,4) by blast
next
  case Acknowledge
  obtain r where "fl_acks s = r # fl_acks s'" "fleet_inv good D s'" "actions es = (case GetSocket (rec_SocketID r) (fl_registry s) of
      Some addr \<Rightarrow> [SendTo addr (ack_response (dp_fb D) (lv_sm (the (fl_sockets s addr))) r)] | None \<Rightarrow> [])"
    by (rule acknowledge_step [OF assms(1) assms(2) [unfolded Acknowledge]]) (rule that)
  then show ?thesis by (auto simp: handed_def simp del: mem_actions split: option.splits)
qed

lemma fleet_run_inv:
  assumes "fleet_run D events s = Some (s', es)" and "fleet_inv good D s"
    and "dp_rules D [] = None" and "dp_producers D = started_producers env c m"
    and "\<And>con identity. Connect con \<in> set events \<Longrightarrow> extractIdentityFromConnection (con_tls con) (con_request con) = Inr identity \<Longrightarrow>
           good (connection_uuid D con identity) (DeviceID identity)"
  shows "fleet_inv good D s' \<and> handed good D es"
  using assms(1,2,5)
proof (induction events arbitrary: s es)
  case (Cons e events)
  then obtain s1 es1 es2 where 1: "fleet_step D e s = Some (s1, es1)" "fleet_run D events s1 = Some (s', es2)" "es = es1 @ es2"
    by (auto simp: bind_eq_Some_conv)
  have "fleet_inv good D s1 \<and> handed good D es1"
    by (rule fleet_step_inv [OF Cons.prems(2) 1(1) assms(3,4)]) (use Cons.prems(3) in simp)
  with Cons.IH [OF 1(2)] Cons.prems(3) 1(3) show ?case by simp
qed simp

section \<open>Properties\<close>

definition example_deployment :: "tbuilder deployment" where
  "example_deployment = \<lparr>dp_fb = tfb, dp_pb = tpb, dp_uuid_Parse = (\<lambda>_. None), dp_config = empty_config, dp_rules = example_rules,
     dp_producers = started_producers (\<lambda>_. []) empty_config (\<lambda>_. None)\<rparr>"

theorem serve_as_steps_witness:
  "\<exists>s es reg. fleet_run example_deployment (connection_events example_connection) fleet_start = Some (s, es) \<and>
     ServeBinaryWs tfb tpb (\<lambda>_. None) example_rules empty_config example_connection NewSocketRegistry = Some (reg, es)"
  using serve_as_steps [of fleet_start example_connection example_deployment]
  by (auto simp: fleet_start_def example_deployment_def)


text \<open>A run in which Kafka acknowledges the record of a vehicle: it connects, sends a message, and Kafka stores it.\<close>

definition acking_deployment :: "ack_sources \<Rightarrow> tbuilder deployment" where
  "acking_deployment m = \<lparr>dp_fb = tfb, dp_pb = tpb, dp_uuid_Parse = (\<lambda>_. None), dp_config = example_config, dp_rules = example_rules,
     dp_producers = started_producers (\<lambda>_. []) example_config m\<rparr>"

definition acking_events :: "fleet_event list" where
  "acking_events = [Connect example_connection, ReceiveMessage 7 (hd (con_inputs example_connection)), Deliver 0 example_answers]"

lemma acking_run:
  assumes m: "configureReliableAckSources example_config = Inr m"
  shows "\<exists>s es s' es'. fleet_run (acking_deployment m) acking_events fleet_start = Some (s, es) \<and>
     fleet_step (acking_deployment m) Acknowledge s = Some (s', es')"
proof -
  let ?D = "acking_deployment m" and ?i = "hd (con_inputs example_connection)"
  define ts where "ts = NewBinarySerializer (Some example_identity) example_rules"
  define sm where "sm = NewSocketManager (\<lambda>_. None) ''s'' 0 (Some (con_request example_connection)) example_identity example_config"
  define v where "v = \<lparr>lv_loop = \<lparr>ls_sm = sm, ls_limited = 0, ls_limitStart = 0\<rparr>, lv_serializer = ts\<rparr>"
  define s1 where "s1 = fleet_start\<lparr>fl_registry := RegisterSocket (sm_UUID sm) 7 NewSocketRegistry, fl_sockets := [7 \<mapsto> v]\<rparr>"
  have D: "dp_fb ?D = tfb" "dp_pb ?D = tpb" "dp_uuid_Parse ?D = (\<lambda>_. None)" "dp_config ?D = example_config"
    "dp_rules ?D = example_rules" "dp_producers ?D = started_producers (\<lambda>_. []) example_config m"
    by (simp_all add: acking_deployment_def)
  have c: "con_upgrade example_connection = None" "con_addr example_connection = 7" "con_fresh example_connection = ''s''"
    "con_start example_connection = 0" by (simp_all add: example_connection_def)
  have "registerSocket tfb tpb t example_rules 7 sm ts NewSocketRegistry = Some (RegisterSocket (sm_UUID sm) 7 NewSocketRegistry, [])" for t
    by (simp add: registerSocket_def dispatchConnectivityEvent_def connectivityTopic_def example_rules_def report_connectivity_def)
  then have 1: "\<exists>es. fleet_step ?D (Connect example_connection) fleet_start = Some (s1, es)"
    by (simp add: D c promoteToWebsocket_def example_connection_identity Let_def s1_def v_def sm_def ts_def hand_over_def
        produced_def List.map_filter_def fleet_start_def)
  have sm: "sm_UUID sm = ''s''" "sm_transmitDecodedRecords sm = False" "sm_MsgType sm = 2" "sm_config sm = example_config"
    by (simp_all add: sm_def NewSocketManager_def buildRequestContext_def BinaryMessage_def example_config_def empty_config_def)
  have "RequestIdentity ts = Some example_identity" "DispatchRules ts ''V'' = Some [Kafka, Logger]"
    by (simp_all add: ts_def NewBinarySerializer_def example_rules_def)
  then obtain r where r: "NewRecord tfb tpb [] 0 0 ts example_buf ''s'' False = (r, None, [])" "rec_TxType r = ''V''"
    using example_accepted by (metis option.distinct(1))
  obtain ls es2 where h: "handleMessage tfb tpb ts ?i \<lparr>ls_sm = sm, ls_limited = 0, ls_limitStart = 0\<rparr> = Some (ls, es2)"
    and "actions es2 = message_actions tfb tpb ts sm ?i"
    using handleMessage_actions [of tfb tpb ts ?i "\<lparr>ls_sm = sm, ls_limited = 0, ls_limitStart = 0\<rparr>"]
    by (auto simp: limited_def example_connection_def)
  then have p: "produced es2 = [(Kafka, r), (Logger, r)]"
    using r \<open>DispatchRules ts ''V'' = _\<close>
    by (simp add: message_actions_outcome example_connection_def sm outcome_def produced_def produced_accepted)
  define s2 where "s2 = hand_over es2 (s1\<lparr>fl_sockets := [7 \<mapsto> v\<lparr>lv_loop := ls\<rparr>]\<rparr>)"
  have 2: "\<exists>es. fleet_step ?D (ReceiveMessage 7 ?i) s1 = Some (s2, es)"
    using h by (simp add: D s1_def s2_def v_def sm example_connection_def)
  have "fl_pending s2 = [(Kafka, r), (Logger, r)]" "fl_acks s2 = []"
    by (simp_all add: s2_def s1_def fleet_start_def p)
  moreover obtain r' where r': "store_acks (dp_producers ?D) example_answers Kafka r = [r']" "unstamped r' = unstamped r"
  proof -
    have "acks m ''kafka'' ''V''" using ack_sources_exact(1) [OF m] by (simp add: example_config_def)
    then have "map unstamped (store_acks (dp_producers ?D) example_answers Kafka r) = [unstamped r]"
      using store_acks_contract [OF D(6), of Kafka example_answers r] r(2)
      by (simp add: store_delivered_def example_answers_def kafka_Produce_def Let_def)
    then show thesis using that by (auto simp: map_eq_Cons_conv)
  qed
  ultimately have 3: "\<exists>s3. fleet_step ?D (Deliver 0 example_answers) s2 = Some (s3, []) \<and> fl_acks s3 = [r']"
    by simp
  then obtain s3 where s3: "fleet_step ?D (Deliver 0 example_answers) s2 = Some (s3, [])" "fl_acks s3 = [r']" by blast
  have "rec_Serializer (unstamped r') = rec_Serializer (unstamped r)" using r'(2) by simp
  then have "rec_Serializer r' \<noteq> None" using NewRecord_identity(1) [OF r(1)] by (simp add: unstamped_def)
  then have "\<exists>es. handleAck tfb srcs sockets reg r' = Some es" for srcs sockets reg
    using respond_ack [of r' tfb] by (auto simp: handleAck_def Let_def split: option.split)
  then obtain es' where "handleAck tfb (cfg_ReliableAckSources example_config) (\<lambda>addr. lv_sm (the (fl_sockets s3 addr))) (fl_registry s3) r' = Some es'"
    by blast
  with s3(2) have "fleet_step ?D Acknowledge s3 = Some (s3\<lparr>fl_acks := []\<rparr>, es')" by (simp add: D)
  moreover have "\<exists>es. fleet_run ?D acking_events fleet_start = Some (s3, es)"
    using 1 2 s3(1) by (auto simp: acking_events_def simp del: fleet_step.simps)
  ultimately show ?thesis by blast
qed


text \<open>
  C12: The UUID of a socket is the client's choice. A client that connects under the UUID of another vehicle's
  socket, with a certificate of its own, gets the acknowledgements that wait for that vehicle.
\<close>

theorem shared_uuid_takes_acks:
  assumes "con_upgrade con = None" and "extractIdentityFromConnection (con_tls con) (con_request con) = Inr identity"
    and "fl_sockets s (con_addr con) = None" and "fl_acks s = r # rs" and "rec_Serializer r \<noteq> None"
    and "connection_uuid D con identity = rec_SocketID r"
  shows "\<exists>s1 es1 s2 es2 v. fleet_step D (Connect con) s = Some (s1, es1) \<and> fleet_step D Acknowledge s1 = Some (s2, es2) \<and>
     fl_sockets s1 (con_addr con) = Some v \<and> sm_requestIdentity (lv_sm v) = identity \<and>
     actions es2 = [SendTo (con_addr con) (ack_response (dp_fb D) (lv_sm v) r)]"
proof -
  define sm where "sm = NewSocketManager (dp_uuid_Parse D) (con_fresh con) (con_start con) (Some (con_request con)) identity (dp_config D)"
  define ts where "ts = NewBinarySerializer (Some identity) (dp_rules D)"
  obtain ni where ni: "GetNetworkInterface sm = Some ni" using network_interface [OF same_socket_refl] sm_def by blast
  obtain es1 where e: "registerSocket (dp_fb D) (dp_pb D) (con_connected con) (dp_rules D) (con_addr con) sm ts (fl_registry s) =
      Some (RegisterSocket (sm_UUID sm) (con_addr con) (fl_registry s), es1)"
    using registerSocket_actions(1) [OF ni] by blast
  define v where "v = \<lparr>lv_loop = \<lparr>ls_sm = sm, ls_limited = 0, ls_limitStart = 0\<rparr>, lv_serializer = ts\<rparr>"
  define s1 where "s1 = hand_over es1 (s\<lparr>fl_registry := RegisterSocket (sm_UUID sm) (con_addr con) (fl_registry s),
    fl_sockets := (fl_sockets s)(con_addr con \<mapsto> v)\<rparr>)"
  have 1: "\<exists>es. fleet_step D (Connect con) s = Some (s1, es)"
    using assms(1-3) e by (simp add: promoteToWebsocket_def s1_def v_def ts_def sm_def Let_def)
  have u: "sm_UUID sm = rec_SocketID r" "sm_requestIdentity sm = identity"
    using assms(6) by (simp_all add: connection_uuid_def sm_def NewSocketManager_def split: prod.split)
  obtain es' where h: "respondToVehicle (dp_fb D) sm r None = Some es'"
    using respond_ack [OF assms(5)] by blast
  have g: "GetSocket (rec_SocketID r) (fl_registry s1) = Some (con_addr con)" "fl_sockets s1 (con_addr con) = Some v" "fl_acks s1 = r # rs"
    using u assms(4) by (simp_all add: s1_def sockets.lookup_register)
  have "\<exists>es2. handleAck (dp_fb D) (cfg_ReliableAckSources (dp_config D)) (\<lambda>addr. lv_sm (the (fl_sockets s1 addr))) (fl_registry s1) r = Some es2"
    using g h assms(5) by (simp add: handleAck_def Let_def v_def)
  then obtain es2 where es2: "handleAck (dp_fb D) (cfg_ReliableAckSources (dp_config D)) (\<lambda>addr. lv_sm (the (fl_sockets s1 addr))) (fl_registry s1) r = Some es2"
    by blast
  have "fleet_step D Acknowledge s1 = Some (s1\<lparr>fl_acks := rs\<rparr>, es2)" using g(3) es2 by simp
  moreover have "actions es2 = [SendTo (con_addr con) (ack_response (dp_fb D) (lv_sm v) r)]"
    using handleAck_actions [OF assms(5) es2] g by simp
  moreover have "sm_requestIdentity (lv_sm v) = identity" using u(2) by (simp add: v_def)
  ultimately show ?thesis using 1 g(2) by blast
qed

theorem shared_uuid_takes_acks_witness:
  "\<exists>s1 es1 s2 es2 v. fleet_step example_deployment (Connect example_connection)
        (fleet_start\<lparr>fl_acks := [(blank_record example_serializer)\<lparr>rec_SocketID := ''s'', rec_Vin := ''42''\<rparr>]\<rparr>) = Some (s1, es1) \<and>
     fleet_step example_deployment Acknowledge s1 = Some (s2, es2) \<and> DeviceID (sm_requestIdentity (lv_sm v)) = ''5YJ-42'' \<and>
     actions es2 = [SendTo 7 (ack_response tfb (lv_sm v) ((blank_record example_serializer)\<lparr>rec_SocketID := ''s'', rec_Vin := ''42''\<rparr>))]"
proof -
  let ?r = "(blank_record example_serializer)\<lparr>rec_SocketID := ''s'', rec_Vin := ''42''\<rparr>"
  have "con_upgrade example_connection = None" "fl_sockets (fleet_start\<lparr>fl_acks := [?r]\<rparr>) (con_addr example_connection) = None"
      "fl_acks (fleet_start\<lparr>fl_acks := [?r]\<rparr>) = ?r # []" "rec_Serializer ?r \<noteq> None"
      "connection_uuid example_deployment example_connection example_identity = rec_SocketID ?r"
    by (simp_all add: example_connection_def fleet_start_def blank_record_def connection_uuid_def example_deployment_def
        NewSocketManager_def buildRequestContext_def)
  note h = this
  have "con_addr example_connection = 7" "dp_fb example_deployment = tfb" "DeviceID example_identity = ''5YJ-42''"
    by (simp_all add: example_connection_def example_deployment_def example_identity_def)
  with shared_uuid_takes_acks [OF h(1) example_connection_identity h(2-5)] show ?thesis by metis
qed

section \<open>From the configuration to the datastores\<close>

text \<open>
  What the server relies on of \<^verbatim>\<open>crypto/tls\<close>: when client certificates are required and verified, an accepted
  handshake has at least one verified chain, and all its chains lead from the client's certificate to one of
  the authorities of the configuration. \<open>verifies\<close> is the verification of \<^verbatim>\<open>crypto/x509\<close>.
\<close>

definition tls_handshake_law ::
    "(bytes list \<Rightarrow> x509_certificate list \<Rightarrow> bool) \<Rightarrow> (tls_config \<Rightarrow> x509_certificate list list option \<Rightarrow> bool) \<Rightarrow> bool" where
  "tls_handshake_law verifies handshake \<longleftrightarrow>
     (\<forall>tls state. handshake tls state \<longrightarrow> ClientAuth tls = RequireAndVerifyClientCert \<longrightarrow>
        (\<exists>chains. state = Some chains \<and> chains \<noteq> [] \<and> (\<forall>chain \<in> set chains. chain \<noteq> [] \<and> verifies (ClientCAs tls) chain)))"

lemma identity_certificate:
  assumes "extractIdentityFromConnection tls request = Inr identity"
  obtains cert chain chains clientType where "tls = Some ((cert # chain) # chains)"
    "CreateIdentityFromCert cert = Inr (clientType, DeviceID identity)"
  using assms
  by (auto simp: extractIdentityFromConnection_def extractCertFromHeaders_def split: option.splits list.splits sum.splits)

text \<open>
  C5: From end to end. When the process serves, every record that reaches a producer, through any of its
  connections and in any interleaving, comes from a client whose certificate was verified against the authorities
  of the TLS configuration, among them the embedded one of the chosen environment; its vehicle number, in the
  record and in the decoded message, is the one that the certificate denotes; and the producer is one that the
  loaded configuration names for the type of the record, or for connectivity events.
\<close>

theorem telemetry_end_to_end:
  assumes served: "Act (Serve addr tls) \<in> set (fst (run W))"
    and load: "loadApplicationConfig (w_fs W) (w_environ W) (w_open_file W (loadConfigFlags (Getenv (w_environ W)) (w_flag W))) = Inr c"
    and producers: "ConfigureProducers (w_clients W) False c = Inr (ps, rules)" "\<And>t. rules t = map_option (map Some) (dp_rules D t)"
      "dp_producers D = started_producers env c m"
    and records: "distinct (map fst (cfg_Records c))" "map_of (cfg_Records c) [] = None"
    and law: "tls_handshake_law verifies handshake"
    and accepted: "\<And>con. Connect con \<in> set events \<Longrightarrow> handshake tls (con_tls con)"
    and run: "fleet_run D events fleet_start = Some (s, es)" and produced: "SocketAction p r \<in> set (actions es)"
  shows "(\<exists>con cert chain chains clientType. Connect con \<in> set events \<and> con_tls con = Some ((cert # chain) # chains) \<and>
            verifies (ClientCAs tls) (cert # chain) \<and> CreateIdentityFromCert cert = Inr (clientType, rec_Vin r)) \<and>
         (if cfg_UseDefaultEngCA c then w_defaultEngCA W else w_defaultProdCA W) \<in> set (ClientCAs tls) \<and>
         (\<forall>msg. rec_protoMessage r = Some msg \<longrightarrow> message_vin msg = rec_Vin r) \<and>
         (\<exists>t names. (t = rec_TxType r \<or> t = ''connectivity'') \<and> map_of (cfg_Records c) t = Some names \<and> dispatcher_name p \<in> set names)"
proof -
  have auth: "ClientAuth tls = RequireAndVerifyClientCert \<and>
    (if cfg_UseDefaultEngCA c then w_defaultEngCA W else w_defaultProdCA W) \<in> set (ClientCAs tls)"
  proof (cases rule: run_outcome [of W])
    case (served c' mon t logs tls' logs' ps rules)
    have "tls' = tls" "c' = c" using assms(1) served(1,5) load by (auto simp: Serve_in_serving)
    with ExtractServiceTLSConfig_Inr [OF served(2)] configureServerCertificate_Inr [OF served(3)]
    show ?thesis by (auto simp: empty_tls_config_def)
  qed (use served in \<open>simp_all add: Serve_in_serving\<close>)
  define good where "good = (\<lambda>(u :: string) d. \<exists>con cert chain chains clientType. Connect con \<in> set events \<and>
      con_tls con = Some ((cert # chain) # chains) \<and> verifies (ClientCAs tls) (cert # chain) \<and>
      CreateIdentityFromCert cert = Inr (clientType, d))"
  have rls: "map_option (map Some) (dp_rules D t) = map_option (map known) (map_of (cfg_Records c) t)" for t
    using configured_rules [OF producers(1) records(1), of t] producers(2) [of t] by simp
  have "dp_rules D [] = None" using rls [of "[]"] records(2) by simp
  moreover have "good u (DeviceID identity)" if c: "Connect con \<in> set events"
    and i: "extractIdentityFromConnection (con_tls con) (con_request con) = Inr identity" for con identity u
  proof -
    obtain cert chain chains clientType where t: "con_tls con = Some ((cert # chain) # chains)"
      "CreateIdentityFromCert cert = Inr (clientType, DeviceID identity)"
      by (rule identity_certificate [OF i])
    have "verifies (ClientCAs tls) (cert # chain)"
      using law accepted [OF c] auth t(1) unfolding tls_handshake_law_def by fastforce
    with t c show ?thesis unfolding good_def by blast
  qed
  ultimately have "handed good D es"
    using fleet_run_inv [OF run fleet_inv_start [where good = good]] producers(3) by blast
  then have r: "record_ok good r" "routed (dp_rules D) p r" using produced unfolding handed_def by blast+
  from r(2) obtain t ds where t: "t = rec_TxType r \<or> t = ''connectivity''" "dp_rules D t = Some ds" "p \<in> set ds"
    by (auto simp: routed_def connectivityTopic_def)
  then obtain names where names: "map_of (cfg_Records c) t = Some names" "map Some ds = map known names"
    using rls [of t] by (cases "map_of (cfg_Records c) t") auto
  then have "Some p \<in> known ` set names" using t(3) by (metis image_eqI list.set_map)
  then have "dispatcher_name p \<in> set names" using known_Some by force
  with t(1) names(1) r(1) auth show ?thesis unfolding record_ok_def good_def by blast
qed

text \<open>The example connection sends one telemetry message, whatever the configuration.\<close>

lemma example_telemetry:
  assumes "rules ''V'' = Some ds" and "p \<in> set ds"
  shows "\<exists>reg' es r. ServeBinaryWs tfb tpb (\<lambda>_. None) rules c example_connection reg = Some (reg', es) \<and> SocketAction p r \<in> set (actions es)"
proof -
  define ts where "ts = NewBinarySerializer (Some example_identity) rules"
  define sm where "sm = NewSocketManager (\<lambda>_. None) (con_fresh example_connection) (con_start example_connection)
    (Some (con_request example_connection)) example_identity c"
  have ts: "RequestIdentity ts = Some example_identity" "DispatchRules ts ''V'' = Some ds"
    using assms(1) by (simp_all add: ts_def NewBinarySerializer_def)
  obtain r where r: "NewRecord tfb tpb [] 0 0 ts example_buf (sm_UUID sm) (sm_transmitDecodedRecords sm) = (r, None, [])" "rec_TxType r = ''V''"
    using example_accepted [OF ts(1)] ts(2) by (metis option.distinct(1))
  have "Produce p r \<in> set (message_actions tfb tpb ts sm (hd (con_inputs example_connection)))"
    using r ts(2) assms(2) by (simp add: message_actions_outcome example_connection_def outcome_def accepted_actions_def)
  then have "Produce p r \<in> set (telemetry_actions tfb tpb ts example_connection sm)"
    using ProcessTelemetry_same [of tfb tpb ts "con_inputs example_connection" "con_closeErr example_connection" "con_end example_connection" sm]
    by (auto simp: telemetry_actions_def example_connection_def limited_def sm_def NewSocketManager_def BinaryMessage_def
        simp del: mem_actions split: prod.splits)
  moreover have "con_upgrade example_connection = None" by (simp add: example_connection_def)
  ultimately show ?thesis
    using serve_accepted [OF _ example_connection_identity sm_def ts_def, of tfb tpb reg] by (force simp del: mem_actions)
qed

definition served_rules :: "string \<rightharpoonup> dispatcher list" where
  "served_rules = [''alerts'' \<mapsto> [Logger], ''errors'' \<mapsto> [Logger], ''V'' \<mapsto> [Logger], ''connectivity'' \<mapsto> [Logger]]"

definition served_deployment :: "tbuilder deployment" where
  "served_deployment = \<lparr>dp_fb = tfb, dp_pb = tpb, dp_uuid_Parse = (\<lambda>_. None), dp_config = example_served, dp_rules = served_rules,
     dp_producers = started_producers (\<lambda>_. []) example_served (\<lambda>_. None)\<rparr>"

theorem telemetry_end_to_end_witness:
  "Act (Serve ''0.0.0.0:443'' example_tls) \<in> set (fst (run example_world)) \<and>
   (\<exists>s es r. fleet_run served_deployment (connection_events example_connection) fleet_start = Some (s, es) \<and>
      SocketAction Logger r \<in> set (actions es) \<and> (\<exists>clientType. CreateIdentityFromCert example_cert = Inr (clientType, rec_Vin r)))"
proof -
  have serve: "Act (Serve ''0.0.0.0:443'' example_tls) \<in> set (fst (run example_world))"
    by (simp add: Serve_in_serving example_serves)
  have load: "loadApplicationConfig (w_fs example_world) (w_environ example_world)
      (w_open_file example_world (loadConfigFlags (Getenv (w_environ example_world)) (w_flag example_world))) = Inr example_served"
    using example_load by (simp add: example_world_def)
  obtain rules where ps: "ConfigureProducers (w_clients example_world) False example_served = Inr ([''logger'' \<mapsto> Logger], rules)"
    using example_producers by (auto simp: example_world_def)
  have rec: "distinct (map fst (cfg_Records example_served))" "map_of (cfg_Records example_served) [] = None"
    by (simp_all add: example_served_fields defaultRecords_def)
  have rls: "rules t = map_option (map Some) (dp_rules served_deployment t)" for t
    using configured_rules [OF ps rec(1), of t]
    by (simp add: served_deployment_def served_rules_def example_served_fields defaultRecords_def known_def)
  have law: "tls_handshake_law (\<lambda>cas chain. chain = [example_cert]) (\<lambda>tls st. st = Some [[example_cert]])"
    by (simp add: tls_handshake_law_def)
  have acc: "con_tls con = Some [[example_cert]]" if "Connect con \<in> set (connection_events example_connection)" for con
    using that by (auto simp: connection_events_def example_connection_def split: if_splits)
  have free: "fl_sockets fleet_start (con_addr example_connection) = None" "con_upgrade example_connection = None"
    by (simp_all add: fleet_start_def example_connection_def)
  obtain s es where run: "fleet_run served_deployment (connection_events example_connection) fleet_start = Some (s, es)"
    and w: "ServeBinaryWs tfb tpb (\<lambda>_. None) served_rules example_served example_connection (fl_registry fleet_start) = Some (fl_registry s, es)"
    using accepted_handler [OF free example_connection_identity, of served_deployment] by (auto simp: served_deployment_def)
  have "served_rules ''V'' = Some [Logger]" "Logger \<in> set [Logger]" by (simp_all add: served_rules_def)
  from example_telemetry [where rules = served_rules, OF this, of example_served "fl_registry fleet_start"] w
  obtain r where r: "SocketAction Logger r \<in> set (actions es)" by auto
  have d: "dp_producers served_deployment = started_producers (\<lambda>_. []) example_served (\<lambda>_. None)" by (simp add: served_deployment_def)
  have "\<exists>cert clientType. cert = example_cert \<and> CreateIdentityFromCert cert = Inr (clientType, rec_Vin r)"
    using telemetry_end_to_end [OF serve load ps rls d rec law acc run r] by blast
  with serve run r show ?thesis by blast
qed

end
