(* ===== verification/Go_Chan.thy ===== *)
theory Go_Chan
  imports Go_Prelude
begin

text \<open>
  Buffered Go channels. A send on a full channel and a receive on an empty one block: \<^const>\<open>None\<close>. The
  locale states what the goroutines rely on; its lemmas are about any sequence of sends and
  receives.
\<close>

section \<open>Channels\<close>

record 'a go_chan =
  ch_items :: "'a list"
  ch_cap :: nat

definition make_chan :: "nat \<Rightarrow> 'a go_chan" where
  "make_chan n = \<lparr>ch_items = [], ch_cap = n\<rparr>"

definition chan_send :: "'a \<Rightarrow> 'a go_chan \<Rightarrow> 'a go_chan option" where
  "chan_send x c = (if length (ch_items c) < ch_cap c then Some (c\<lparr>ch_items := ch_items c @ [x]\<rparr>) else None)"

definition chan_recv :: "'a go_chan \<Rightarrow> ('a \<times> 'a go_chan) option" where
  "chan_recv c = (case ch_items c of [] \<Rightarrow> None | x # xs \<Rightarrow> Some (x, c\<lparr>ch_items := xs\<rparr>))"

section \<open>The interface\<close>

text \<open>Sends and receives in any order: what was sent and received so far, and the channel.\<close>

inductive transfers ::
    "'q \<Rightarrow> ('a \<Rightarrow> 'q \<Rightarrow> 'q option) \<Rightarrow> ('q \<Rightarrow> ('a \<times> 'q) option) \<Rightarrow> 'a list \<Rightarrow> 'a list \<Rightarrow> 'q \<Rightarrow> bool"
  for q0 put get where
  none: "transfers q0 put get [] [] q0"
| sent: "transfers q0 put get xs ys q \<Longrightarrow> put x q = Some q' \<Longrightarrow> transfers q0 put get (xs @ [x]) ys q'"
| received: "transfers q0 put get xs ys q \<Longrightarrow> get q = Some (y, q') \<Longrightarrow> transfers q0 put get xs (ys @ [y]) q'"

locale bounded_queue =
  fixes items :: "'q \<Rightarrow> 'a list"
    and cap :: "'q \<Rightarrow> nat"
    and put :: "'a \<Rightarrow> 'q \<Rightarrow> 'q option"
    and get :: "'q \<Rightarrow> ('a \<times> 'q) option"
  assumes put_Some: "put x q = Some q' \<Longrightarrow> items q' = items q @ [x] \<and> cap q' = cap q \<and> length (items q) < cap q"
    and put_None: "put x q = None \<Longrightarrow> cap q \<le> length (items q)"
    and get_Some: "get q = Some (y, q') \<Longrightarrow> items q = y # items q' \<and> cap q' = cap q"
    and get_None: "get q = None \<Longrightarrow> items q = []"
begin

lemma fifo:
  "transfers q0 put get xs ys q \<Longrightarrow> items q0 = [] \<Longrightarrow>
     xs = ys @ items q \<and> cap q = cap q0 \<and> length (items q) \<le> cap q0"
  by (induction rule: transfers.induct) (fastforce dest: put_Some get_Some)+

lemma put_enabled: "length (items q) < cap q \<Longrightarrow> \<exists>q'. put x q = Some q'"
  using put_None [of x q] by (cases "put x q") auto

lemma get_enabled: "items q \<noteq> [] \<Longrightarrow> \<exists>y q'. get q = Some (y, q')"
  using get_None [of q] by (cases "get q") auto

end

interpretation chan: bounded_queue ch_items ch_cap chan_send chan_recv
  by unfold_locales (auto simp: chan_send_def chan_recv_def split: if_splits list.splits)

lemma chan_send_iff:
  "chan_send x c = Some c' \<longleftrightarrow> length (ch_items c) < ch_cap c \<and> c' = c\<lparr>ch_items := ch_items c @ [x]\<rparr>"
  by (auto simp: chan_send_def)

lemma chan_recv_iff:
  "chan_recv c = Some (x, c') \<longleftrightarrow> ch_items c = x # ch_items c' \<and> ch_cap c' = ch_cap c"
  by (cases c; cases c') (auto simp: chan_recv_def split: list.splits)

lemma items_make_chan [simp]: "ch_items (make_chan n) = []" "ch_cap (make_chan n) = n"
  by (simp_all add: make_chan_def)

end
