(* ===== verification/Write_Channel.thy ===== *)
theory Write_Channel
  imports Server Go_Chan "HOL-Library.Sublist"
begin

text \<open>
  The goroutines of a connection (\<^verbatim>\<open>server/streaming/socket.go\<close>: \<^verbatim>\<open>ProcessTelemetry\<close>, \<^verbatim>\<open>writer\<close>,
  \<^verbatim>\<open>respondToVehicle\<close>; \<^verbatim>\<open>server.go\<close>: \<^verbatim>\<open>handleAcks\<close>). The reader handles one message at a time and sends its
  responses to the write channel; the acknowledgement loop of the server sends to the same channel;
  the writer takes them out and writes them to the connection. A step of one of them is an event;
  an event that is not possible, or that blocks, gives \<^const>\<open>None\<close>. Any interleaving of the goroutines is a
  sequence of events.
\<close>

section \<open>Steps\<close>

datatype reader_state = Reading | Sending "socket_message list" | Closed
datatype writer_state = Selecting | Writing socket_message | Done

text \<open>
  Beside the state of the program: \<^verbatim>\<open>cs_inputs\<close>, what the client still sends; \<^verbatim>\<open>cs_acks\<close>, the
  acknowledgements that the loop of the server still has for this socket; \<^verbatim>\<open>cs_wire\<close>, what the client got.
\<close>

record conn_state =
  cs_ls :: loop_state
  cs_inputs :: "ws_input list"
  cs_reader :: reader_state
  cs_acks :: "socket_message list"
  cs_writeChan :: "socket_message go_chan"
  cs_stopChan :: bool
  cs_writer :: writer_state
  cs_wire :: "socket_message list"

datatype conn_event =
    ReadMessage | ReadFails | SendResponse | NextMessage | SendAck | Receive | StopWriter | WriteOk | WriteFails

definition responds :: "'p socket_action list \<Rightarrow> socket_message list" where
  "responds as = List.map_filter (\<lambda>a. case a of Respond m \<Rightarrow> Some m | Produce _ _ \<Rightarrow> None) as"

definition closed :: "conn_state \<Rightarrow> conn_state" where
  "closed s = s\<lparr>cs_reader := Closed, cs_stopChan := True\<rparr>"

text \<open>
  The reader: a message of another type, or a failed read, closes the connection and the stop
  channel. Everything else it does is \<^const>\<open>handleMessage\<close>, whose responses are sent one by one.
\<close>

definition reader_step ::
    "'b flatbuffers \<Rightarrow> protobuf \<Rightarrow> 'p serializer \<Rightarrow> conn_event \<Rightarrow> conn_state \<Rightarrow> conn_state option" where
  "reader_step fb pb ts e s =
     (case (e, cs_reader s, cs_inputs s) of
        (ReadFails, Reading, _) \<Rightarrow> Some (closed s)
      | (ReadMessage, Reading, i # is) \<Rightarrow>
          if in_MsgType i \<noteq> sm_MsgType (ls_sm (cs_ls s)) then Some (closed (s\<lparr>cs_inputs := is\<rparr>))
          else map_option (\<lambda>(ls, es). s\<lparr>cs_ls := ls, cs_inputs := is, cs_reader := Sending (responds (actions es))\<rparr>)
                 (handleMessage fb pb ts i (cs_ls s))
      | (SendResponse, Sending (m # ms), _) \<Rightarrow>
          map_option (\<lambda>ch. s\<lparr>cs_reader := Sending ms, cs_writeChan := ch\<rparr>) (chan_send m (cs_writeChan s))
      | (NextMessage, Sending [], _) \<Rightarrow> Some (s\<lparr>cs_reader := Reading\<rparr>)
      | _ \<Rightarrow> None)"

text \<open>\<^verbatim>\<open>handleAcks\<close> for this socket: the next acknowledgement goes into the channel.\<close>

definition ack_step :: "conn_event \<Rightarrow> conn_state \<Rightarrow> conn_state option" where
  "ack_step e s =
     (case (e, cs_acks s) of
        (SendAck, m # ms) \<Rightarrow> map_option (\<lambda>ch. s\<lparr>cs_acks := ms, cs_writeChan := ch\<rparr>) (chan_send m (cs_writeChan s))
      | _ \<Rightarrow> None)"

text \<open>
  The writer: the select takes the stop signal or a message, whichever is there; it ends at the
  first failed write. A write succeeds only on an open connection.
\<close>

definition writer_step :: "conn_event \<Rightarrow> conn_state \<Rightarrow> conn_state option" where
  "writer_step e s =
     (case (e, cs_writer s) of
        (StopWriter, Selecting) \<Rightarrow> if cs_stopChan s then Some (s\<lparr>cs_writer := Done\<rparr>) else None
      | (Receive, Selecting) \<Rightarrow>
          map_option (\<lambda>(m, ch). s\<lparr>cs_writer := Writing m, cs_writeChan := ch\<rparr>) (chan_recv (cs_writeChan s))
      | (WriteOk, Writing m) \<Rightarrow>
          if cs_reader s = Closed then None else Some (s\<lparr>cs_writer := Selecting, cs_wire := cs_wire s @ [m]\<rparr>)
      | (WriteFails, Writing m) \<Rightarrow> Some (s\<lparr>cs_writer := Done\<rparr>)
      | _ \<Rightarrow> None)"

definition conn_step ::
    "'b flatbuffers \<Rightarrow> protobuf \<Rightarrow> 'p serializer \<Rightarrow> conn_event \<Rightarrow> conn_state \<Rightarrow> conn_state option" where
  "conn_step fb pb ts e s =
     (if e \<in> {ReadMessage, ReadFails, SendResponse, NextMessage} then reader_step fb pb ts e s
      else if e = SendAck then ack_step e s
      else writer_step e s)"

fun conn_run ::
    "'b flatbuffers \<Rightarrow> protobuf \<Rightarrow> 'p serializer \<Rightarrow> conn_event list \<Rightarrow> conn_state \<Rightarrow> conn_state option" where
  "conn_run fb pb ts [] s = Some s"
| "conn_run fb pb ts (e # es) s = Option.bind (conn_step fb pb ts e s) (conn_run fb pb ts es)"

definition writeChan_capacity :: nat where "writeChan_capacity = 1000"

definition conn_start :: "socket_manager \<Rightarrow> ws_input list \<Rightarrow> socket_message list \<Rightarrow> conn_state" where
  "conn_start sm inputs ackMsgs =
     \<lparr>cs_ls = \<lparr>ls_sm = sm, ls_limited = 0, ls_limitStart = 0\<rparr>, cs_inputs = inputs, cs_reader = Reading, cs_acks = ackMsgs,
      cs_writeChan = make_chan writeChan_capacity, cs_stopChan = False, cs_writer = Selecting, cs_wire = []\<rparr>"

section \<open>The specification\<close>

text \<open>
  What the client may rely on: its responses, each in its turn, merged with the acknowledgements,
  each in its turn, until the connection breaks. The queue of the specification has no bound.
\<close>

record merge_state =
  mg_responses :: "socket_message list"
  mg_acks :: "socket_message list"
  mg_queue :: "socket_message list"
  mg_open :: bool
  mg_wire :: "socket_message list"

inductive merge_step :: "merge_state \<Rightarrow> merge_state \<Rightarrow> bool" where
  respond: "mg_responses s = m # ms \<Longrightarrow> merge_step s (s\<lparr>mg_responses := ms, mg_queue := mg_queue s @ [m]\<rparr>)"
| ack: "mg_acks s = m # ms \<Longrightarrow> merge_step s (s\<lparr>mg_acks := ms, mg_queue := mg_queue s @ [m]\<rparr>)"
| deliver: "mg_open s \<Longrightarrow> mg_queue s = m # ms \<Longrightarrow> merge_step s (s\<lparr>mg_queue := ms, mg_wire := mg_wire s @ [m]\<rparr>)"
| leave: "merge_step s (s\<lparr>mg_open := False, mg_responses := []\<rparr>)"
| lose: "mg_queue s = m # ms \<Longrightarrow> merge_step s (s\<lparr>mg_open := False, mg_queue := ms\<rparr>)"

inductive_cases merge_stepE: "merge_step s s'"

text \<open>The responses that the reader has still to send, were all input to be read.\<close>

definition todo :: "'b flatbuffers \<Rightarrow> protobuf \<Rightarrow> 'p serializer \<Rightarrow> conn_state \<Rightarrow> socket_message list" where
  "todo fb pb ts s =
     (case cs_reader s of Closed \<Rightarrow> [] | Reading \<Rightarrow> [] | Sending ms \<Rightarrow> ms) @
     (if cs_reader s = Closed then []
      else case read_loop fb pb ts (cs_inputs s) (cs_ls s) of Some (_, es) \<Rightarrow> responds (actions es) | None \<Rightarrow> [])"

definition in_flight :: "conn_state \<Rightarrow> socket_message list" where
  "in_flight s = (case cs_writer s of Writing m \<Rightarrow> [m] | _ \<Rightarrow> []) @ ch_items (cs_writeChan s)"

definition abs_conn :: "'b flatbuffers \<Rightarrow> protobuf \<Rightarrow> 'p serializer \<Rightarrow> conn_state \<Rightarrow> merge_state" where
  "abs_conn fb pb ts s =
     \<lparr>mg_responses = todo fb pb ts s, mg_acks = cs_acks s, mg_queue = in_flight s,
      mg_open = (cs_writer s \<noteq> Done \<and> cs_reader s \<noteq> Closed), mg_wire = cs_wire s\<rparr>"

section \<open>Refinement\<close>

lemma responds_append [simp]: "responds (xs @ ys) = responds xs @ responds ys"
  by (simp add: responds_def List.map_filter_def)

lemma responds_simps [simp]:
  "responds [] = []" "responds (Respond m # as) = m # responds as" "responds (Produce p r # as) = responds as"
  by (simp_all add: responds_def List.map_filter_simps)

text \<open>Every event is a step of one goroutine; the shape of the states it leads from and to.\<close>

lemma conn_step_reader:
  "conn_step fb pb ts ReadFails s = (if cs_reader s = Reading then Some (closed s) else None)"
  "conn_step fb pb ts ReadMessage s =
     (case cs_inputs s of
        [] \<Rightarrow> None
      | i # is \<Rightarrow>
          if cs_reader s \<noteq> Reading then None
          else if in_MsgType i \<noteq> sm_MsgType (ls_sm (cs_ls s)) then Some (closed (s\<lparr>cs_inputs := is\<rparr>))
          else map_option (\<lambda>(ls, es). s\<lparr>cs_ls := ls, cs_inputs := is, cs_reader := Sending (responds (actions es))\<rparr>)
                 (handleMessage fb pb ts i (cs_ls s)))"
  "conn_step fb pb ts SendResponse s =
     (case cs_reader s of
        Sending (m # ms) \<Rightarrow> map_option (\<lambda>ch. s\<lparr>cs_reader := Sending ms, cs_writeChan := ch\<rparr>) (chan_send m (cs_writeChan s))
      | _ \<Rightarrow> None)"
  "conn_step fb pb ts NextMessage s = (if cs_reader s = Sending [] then Some (s\<lparr>cs_reader := Reading\<rparr>) else None)"
  by (auto simp: conn_step_def reader_step_def split: reader_state.split list.split)

lemma conn_step_writer:
  "conn_step fb pb ts SendAck s =
     (case cs_acks s of
        [] \<Rightarrow> None
      | m # ms \<Rightarrow> map_option (\<lambda>ch. s\<lparr>cs_acks := ms, cs_writeChan := ch\<rparr>) (chan_send m (cs_writeChan s)))"
  "conn_step fb pb ts StopWriter s =
     (if cs_writer s = Selecting \<and> cs_stopChan s then Some (s\<lparr>cs_writer := Done\<rparr>) else None)"
  "conn_step fb pb ts Receive s =
     (if cs_writer s = Selecting
      then map_option (\<lambda>(m, ch). s\<lparr>cs_writer := Writing m, cs_writeChan := ch\<rparr>) (chan_recv (cs_writeChan s)) else None)"
  "conn_step fb pb ts WriteOk s =
     (case cs_writer s of
        Writing m \<Rightarrow> if cs_reader s = Closed then None else Some (s\<lparr>cs_writer := Selecting, cs_wire := cs_wire s @ [m]\<rparr>)
      | _ \<Rightarrow> None)"
  "conn_step fb pb ts WriteFails s = (case cs_writer s of Writing m \<Rightarrow> Some (s\<lparr>cs_writer := Done\<rparr>) | _ \<Rightarrow> None)"
  by (auto simp: conn_step_def ack_step_def writer_step_def split: writer_state.split list.split)

lemmas conn_step_simps = conn_step_reader conn_step_writer

lemma conn_step_cases [consumes 1]:
  assumes "conn_step fb pb ts e s = Some s'"
  obtains "e = ReadFails" "cs_reader s = Reading" "s' = closed s"
  | i "is" where "e = ReadMessage" "cs_reader s = Reading" "cs_inputs s = i # is"
      "in_MsgType i \<noteq> sm_MsgType (ls_sm (cs_ls s))" "s' = closed (s\<lparr>cs_inputs := is\<rparr>)"
  | i "is" ls es where "e = ReadMessage" "cs_reader s = Reading" "cs_inputs s = i # is"
      "in_MsgType i = sm_MsgType (ls_sm (cs_ls s))" "handleMessage fb pb ts i (cs_ls s) = Some (ls, es)"
      "s' = s\<lparr>cs_ls := ls, cs_inputs := is, cs_reader := Sending (responds (actions es))\<rparr>"
  | m ms ch where "e = SendResponse" "cs_reader s = Sending (m # ms)" "chan_send m (cs_writeChan s) = Some ch"
      "s' = s\<lparr>cs_reader := Sending ms, cs_writeChan := ch\<rparr>"
  | "e = NextMessage" "cs_reader s = Sending []" "s' = s\<lparr>cs_reader := Reading\<rparr>"
  | m ms ch where "e = SendAck" "cs_acks s = m # ms" "chan_send m (cs_writeChan s) = Some ch"
      "s' = s\<lparr>cs_acks := ms, cs_writeChan := ch\<rparr>"
  | "e = StopWriter" "cs_writer s = Selecting" "cs_stopChan s" "s' = s\<lparr>cs_writer := Done\<rparr>"
  | m ch where "e = Receive" "cs_writer s = Selecting" "chan_recv (cs_writeChan s) = Some (m, ch)"
      "s' = s\<lparr>cs_writer := Writing m, cs_writeChan := ch\<rparr>"
  | m where "e = WriteOk" "cs_writer s = Writing m" "cs_reader s \<noteq> Closed"
      "s' = s\<lparr>cs_writer := Selecting, cs_wire := cs_wire s @ [m]\<rparr>"
  | m where "e = WriteFails" "cs_writer s = Writing m" "s' = s\<lparr>cs_writer := Done\<rparr>"
proof (cases e)
  case ReadFails
  then show thesis using assms that(1) by (auto simp: conn_step_simps split: if_splits)
next
  case ReadMessage
  then show thesis using assms that(2,3) by (auto simp: conn_step_simps split: if_splits list.splits)
next
  case SendResponse
  then show thesis using assms that(4) by (auto simp: conn_step_simps split: reader_state.splits list.splits)
next
  case NextMessage
  then show thesis using assms that(5) by (auto simp: conn_step_simps split: if_splits)
next
  case SendAck
  then show thesis using assms that(6) by (auto simp: conn_step_simps split: list.splits)
next
  case StopWriter
  then show thesis using assms that(7) by (auto simp: conn_step_simps split: if_splits)
next
  case Receive
  then show thesis using assms that(8) by (auto simp: conn_step_simps split: if_splits)
next
  case WriteOk
  then show thesis using assms that(9) by (auto simp: conn_step_simps split: if_splits writer_state.splits)
next
  case WriteFails
  then show thesis using assms that(10) by (auto simp: conn_step_simps split: writer_state.splits)
qed

text \<open>The channel keeps its bound, and the stop channel is closed exactly when the reader is done.\<close>

definition conn_inv :: "conn_state \<Rightarrow> bool" where
  "conn_inv s \<longleftrightarrow> ch_cap (cs_writeChan s) = writeChan_capacity \<and>
     length (ch_items (cs_writeChan s)) \<le> writeChan_capacity \<and> (cs_stopChan s \<longleftrightarrow> cs_reader s = Closed)"

lemma conn_step_inv:
  assumes "conn_step fb pb ts e s = Some s'" and "conn_inv s"
  shows "conn_inv s'"
  using assms(1)
  by (cases rule: conn_step_cases) (use assms(2) in \<open>auto simp: conn_inv_def closed_def chan_send_iff chan_recv_iff\<close>)

lemma todo_read:
  assumes "cs_reader s = Reading" and "cs_inputs s = i # is" and "in_MsgType i = sm_MsgType (ls_sm (cs_ls s))"
    and "handleMessage fb pb ts i (cs_ls s) = Some (ls, es)"
  shows "todo fb pb ts (s\<lparr>cs_ls := ls, cs_inputs := is, cs_reader := Sending (responds (actions es))\<rparr>) = todo fb pb ts s"
proof -
  obtain ls' es' where "read_loop fb pb ts is ls = Some (ls', es')" using read_loop_actions by blast
  then show ?thesis using assms by (simp add: todo_def)
qed

lemma conn_step_refines:
  assumes "conn_step fb pb ts e s = Some s'" and "conn_inv s"
  shows "abs_conn fb pb ts s' = abs_conn fb pb ts s \<or> merge_step (abs_conn fb pb ts s) (abs_conn fb pb ts s')"
  using assms(1)
proof (cases rule: conn_step_cases)
  case 1
  then have "abs_conn fb pb ts s' = (abs_conn fb pb ts s)\<lparr>mg_open := False, mg_responses := []\<rparr>"
    by (simp add: abs_conn_def closed_def todo_def in_flight_def)
  then show ?thesis by (simp add: merge_step.leave)
next
  case (2 i "is")
  then have "abs_conn fb pb ts s' = (abs_conn fb pb ts s)\<lparr>mg_open := False, mg_responses := []\<rparr>"
    by (simp add: abs_conn_def closed_def todo_def in_flight_def)
  then show ?thesis by (simp add: merge_step.leave)
next
  case (3 i "is" ls es)
  then show ?thesis using todo_read [OF 3(2-5)] by (simp add: abs_conn_def in_flight_def)
next
  case (4 m ms ch)
  then have "mg_responses (abs_conn fb pb ts s) = m # mg_responses (abs_conn fb pb ts s')"
    "abs_conn fb pb ts s' = (abs_conn fb pb ts s)\<lparr>mg_responses := mg_responses (abs_conn fb pb ts s'),
       mg_queue := mg_queue (abs_conn fb pb ts s) @ [m]\<rparr>"
    by (simp_all add: abs_conn_def todo_def in_flight_def chan_send_iff)
  then show ?thesis by (metis merge_step.respond)
next
  case 5
  then show ?thesis by (simp add: abs_conn_def todo_def in_flight_def)
next
  case (6 m ms ch)
  then have "mg_acks (abs_conn fb pb ts s) = m # ms"
    "abs_conn fb pb ts s' = (abs_conn fb pb ts s)\<lparr>mg_acks := ms, mg_queue := mg_queue (abs_conn fb pb ts s) @ [m]\<rparr>"
    by (simp_all add: abs_conn_def todo_def in_flight_def chan_send_iff)
  then show ?thesis by (metis merge_step.ack)
next
  case 7
  then show ?thesis using assms(2) by (simp add: abs_conn_def todo_def in_flight_def conn_inv_def)
next
  case (8 m ch)
  then show ?thesis by (simp add: abs_conn_def todo_def in_flight_def chan_recv_iff)
next
  case (9 m)
  then have "mg_open (abs_conn fb pb ts s)" "mg_queue (abs_conn fb pb ts s) = m # ch_items (cs_writeChan s)"
    "abs_conn fb pb ts s' = (abs_conn fb pb ts s)\<lparr>mg_queue := ch_items (cs_writeChan s), mg_wire := mg_wire (abs_conn fb pb ts s) @ [m]\<rparr>"
    by (simp_all add: abs_conn_def todo_def in_flight_def)
  then show ?thesis by (metis merge_step.deliver)
next
  case (10 m)
  then have "mg_queue (abs_conn fb pb ts s) = m # ch_items (cs_writeChan s)"
    "abs_conn fb pb ts s' = (abs_conn fb pb ts s)\<lparr>mg_open := False, mg_queue := ch_items (cs_writeChan s)\<rparr>"
    by (simp_all add: abs_conn_def todo_def in_flight_def)
  then show ?thesis by (metis merge_step.lose)
qed

lemma conn_run_append:
  "conn_run fb pb ts (xs @ ys) s = Option.bind (conn_run fb pb ts xs s) (conn_run fb pb ts ys)"
  by (induction xs arbitrary: s) (auto split: bind_splits)

lemma conn_run_refines:
  assumes "conn_run fb pb ts es s = Some s'" and "conn_inv s"
  shows "conn_inv s' \<and> merge_step\<^sup>*\<^sup>* (abs_conn fb pb ts s) (abs_conn fb pb ts s')"
  using assms
proof (induction es arbitrary: s)
  case (Cons e es)
  then obtain s1 where 1: "conn_step fb pb ts e s = Some s1" "conn_run fb pb ts es s1 = Some s'"
    by (auto split: bind_splits)
  have "conn_inv s'" "merge_step\<^sup>*\<^sup>* (abs_conn fb pb ts s1) (abs_conn fb pb ts s')"
    using Cons.IH [OF 1(2) conn_step_inv [OF 1(1) Cons.prems(2)]] by auto
  then show ?case
    using conn_step_refines [OF 1(1) Cons.prems(2)] by (metis converse_rtranclp_into_rtranclp)
qed auto

section \<open>What the client sees\<close>

lemma snoc_shuffles_left: "zs \<in> shuffles xs ys \<Longrightarrow> zs @ [z] \<in> shuffles (xs @ [z]) ys"
proof (induction xs ys arbitrary: zs rule: shuffles.induct)
  case (1 ys)
  then show ?case by (induction ys arbitrary: zs) auto
next
  case (3 x xs y ys)
  then show ?case by fastforce
qed auto

lemma snoc_shuffles_right: "zs \<in> shuffles xs ys \<Longrightarrow> zs @ [z] \<in> shuffles xs (ys @ [z])"
  using snoc_shuffles_left shuffles_commutes by metis

lemma shuffles_prefix:
  "zs @ q \<in> shuffles xs ys \<Longrightarrow> \<exists>xs' ys'. zs \<in> shuffles xs' ys' \<and> prefix xs' xs \<and> prefix ys' ys"
proof (induction zs arbitrary: xs ys)
  case Nil
  then show ?case by (intro exI [of _ "[]"]) simp
next
  case (Cons z zs)
  then consider xs1 where "xs = z # xs1" "zs @ q \<in> shuffles xs1 ys" | ys1 where "ys = z # ys1" "zs @ q \<in> shuffles xs ys1"
    by (auto simp: Cons_in_shuffles_iff neq_Nil_conv)
  then show ?case
  proof cases
    case 1
    from Cons.IH [OF 1(2)] obtain xs' ys' where "zs \<in> shuffles xs' ys'" "prefix xs' xs1" "prefix ys' ys" by blast
    with 1(1) show ?thesis
      by (intro exI [of _ "z # xs'"] exI [of _ ys']) (auto intro: Cons_in_shuffles_leftI)
  next
    case 2
    from Cons.IH [OF 2(2)] obtain xs' ys' where "zs \<in> shuffles xs' ys'" "prefix xs' xs" "prefix ys' ys1" by blast
    with 2(1) show ?thesis
      by (intro exI [of _ xs'] exI [of _ "z # ys'"]) (auto intro: Cons_in_shuffles_rightI)
  qed
qed

text \<open>
  The invariant of the specification: what was written, and while the connection is open what is
  queued after it, is a merge of the first responses and the first acknowledgements.
\<close>

definition merged :: "socket_message list \<Rightarrow> socket_message list \<Rightarrow> merge_state \<Rightarrow> bool" where
  "merged R A s \<longleftrightarrow>
     (\<exists>rs as q. mg_wire s @ q \<in> shuffles rs as \<and> prefix rs R \<and> prefix as A \<and>
        (mg_open s \<longrightarrow> q = mg_queue s \<and> R = rs @ mg_responses s \<and> A = as @ mg_acks s))"

lemma mergedI:
  "mg_wire s @ mg_queue s \<in> shuffles rs as \<Longrightarrow> R = rs @ mg_responses s \<Longrightarrow> A = as @ mg_acks s \<Longrightarrow> merged R A s"
  unfolding merged_def by (intro exI [of _ rs] exI [of _ as] exI [of _ "mg_queue s"]) simp

lemma merge_step_merged:
  assumes "merge_step s s'" and "merged R A s"
  shows "merged R A s'"
proof -
  obtain rs as q where i: "mg_wire s @ q \<in> shuffles rs as" "prefix rs R" "prefix as A"
    "mg_open s \<Longrightarrow> q = mg_queue s \<and> R = rs @ mg_responses s \<and> A = as @ mg_acks s"
    using assms(2) by (auto simp: merged_def)
  show ?thesis
  proof (cases "mg_open s'")
    case False
    with assms(1) have "mg_wire s' = mg_wire s" by (auto elim: merge_stepE)
    then show ?thesis using i False by (auto simp: merged_def)
  next
    case True
    with assms(1) have open_s: "mg_open s" by (auto elim: merge_stepE)
    note o = i(4) [OF open_s]
    from assms(1) show ?thesis
    proof cases
      case (respond m ms)
      with o snoc_shuffles_left [OF i(1), of m] show ?thesis by (intro mergedI [of _ "rs @ [m]" as]) auto
    next
      case (ack m ms)
      with o snoc_shuffles_right [OF i(1), of m] show ?thesis by (intro mergedI [of _ rs "as @ [m]"]) auto
    next
      case (deliver m ms)
      with o i(1) show ?thesis by (intro mergedI [of _ rs as]) auto
    next
      case leave
      then show ?thesis using True by simp
    next
      case (lose m ms)
      then show ?thesis using True by simp
    qed
  qed
qed

lemma merge_steps_merged: "merge_step\<^sup>*\<^sup>* s s' \<Longrightarrow> merged R A s \<Longrightarrow> merged R A s'"
  by (induction rule: rtranclp_induct) (auto intro: merge_step_merged)

lemma abs_conn_start:
  assumes "ProcessTelemetry fb pb ts inputs closeErr now sm = Some (sm', es)"
  shows "abs_conn fb pb ts (conn_start sm inputs ackMsgs) =
     \<lparr>mg_responses = responds (actions es), mg_acks = ackMsgs, mg_queue = [], mg_open = True, mg_wire = []\<rparr>"
  using assms by (auto simp: ProcessTelemetry_def abs_conn_def conn_start_def todo_def in_flight_def split: bind_splits)

lemma conn_inv_start: "conn_inv (conn_start sm inputs ackMsgs)"
  by (simp add: conn_inv_def conn_start_def)

lemma conn_run_merged:
  assumes "conn_run fb pb ts evs (conn_start sm inputs ackMsgs) = Some s"
    and "ProcessTelemetry fb pb ts inputs closeErr now sm = Some (sm', es)"
  shows "merged (responds (actions es)) ackMsgs (abs_conn fb pb ts s)"
proof -
  have "merged (responds (actions es)) ackMsgs (abs_conn fb pb ts (conn_start sm inputs ackMsgs))"
    by (simp add: abs_conn_start [OF assms(2)] merged_def)
  then show ?thesis using conn_run_refines [OF assms(1) conn_inv_start] merge_steps_merged by blast
qed

section \<open>Progress\<close>

definition progress :: "conn_event set" where
  "progress = {ReadMessage, SendResponse, NextMessage, SendAck, Receive, WriteOk}"

text \<open>Every step of the program brings a message closer to the client.\<close>

definition work :: "'b flatbuffers \<Rightarrow> protobuf \<Rightarrow> 'p serializer \<Rightarrow> conn_state \<Rightarrow> nat" where
  "work fb pb ts s =
     3 * length (todo fb pb ts s) + 3 * length (cs_acks s) + 2 * length (ch_items (cs_writeChan s)) +
     (case cs_writer s of Writing _ \<Rightarrow> 1 | _ \<Rightarrow> 0) + 2 * length (cs_inputs s) +
     (case cs_reader s of Sending _ \<Rightarrow> 1 | _ \<Rightarrow> 0)"

definition working :: "conn_state \<Rightarrow> bool" where
  "working s \<longleftrightarrow> conn_inv s \<and> cs_reader s \<noteq> Closed \<and> cs_writer s \<noteq> Done \<and>
     list_all (\<lambda>i. in_MsgType i = sm_MsgType (ls_sm (cs_ls s))) (cs_inputs s)"

lemma handleMessage_same:
  assumes "handleMessage fb pb ts i ls = Some (ls', es)"
  shows "sm_MsgType (ls_sm ls') = sm_MsgType (ls_sm ls)"
  using handleMessage_actions [of fb pb ts i ls] assms same_socket_fields(1) by fastforce

lemma progress_step:
  assumes "conn_step fb pb ts e s = Some s'" and "e \<in> progress" and "working s"
  shows "working s' \<and> work fb pb ts s' < work fb pb ts s"
  using assms(1)
proof (cases rule: conn_step_cases)
  case (3 i "is" ls es)
  then show ?thesis
    using assms(3) todo_read [OF 3(2-5)] conn_step_inv [OF assms(1)] handleMessage_same [OF 3(5)]
    by (auto simp: working_def work_def)
qed (use assms(2,3) conn_step_inv [OF assms(1)] in
      \<open>auto simp: progress_def working_def work_def todo_def chan_send_iff chan_recv_iff\<close>)

lemma progress_run:
  assumes "conn_run fb pb ts evs s = Some s'" and "set evs \<subseteq> progress" and "working s"
  shows "working s' \<and> length evs + work fb pb ts s' \<le> work fb pb ts s"
  using assms
proof (induction evs arbitrary: s)
  case (Cons e evs)
  then obtain s1 where 1: "conn_step fb pb ts e s = Some s1" "conn_run fb pb ts evs s1 = Some s'"
    by (auto split: bind_splits)
  from Cons.prems progress_step [OF 1(1)] have "working s1 \<and> work fb pb ts s1 < work fb pb ts s" by simp
  with Cons.IH [OF 1(2)] Cons.prems show ?case by simp
qed simp

text \<open>Failures end a goroutine, so that together with them the steps are bounded too.\<close>

definition budget :: "'b flatbuffers \<Rightarrow> protobuf \<Rightarrow> 'p serializer \<Rightarrow> conn_state \<Rightarrow> nat" where
  "budget fb pb ts s = work fb pb ts s + (if cs_reader s = Closed then 0 else 1) + (if cs_writer s = Done then 0 else 1)"

lemma budget_step:
  assumes "conn_step fb pb ts e s = Some s'"
  shows "budget fb pb ts s' < budget fb pb ts s"
  using assms
proof (cases rule: conn_step_cases)
  case (3 i "is" ls es)
  then show ?thesis using todo_read [OF 3(2-5)] by (simp add: budget_def work_def)
qed (auto simp: budget_def work_def todo_def closed_def chan_send_iff chan_recv_iff)

lemma budget_run: "conn_run fb pb ts evs s = Some s' \<Longrightarrow> length evs + budget fb pb ts s' \<le> budget fb pb ts s"
proof (induction evs arbitrary: s)
  case (Cons e evs)
  then obtain s1 where "conn_step fb pb ts e s = Some s1" "conn_run fb pb ts evs s1 = Some s'"
    by (auto split: bind_splits)
  with Cons.IH budget_step show ?case by fastforce
qed simp

lemma stuck_done:
  assumes "working s" and "\<And>e. e \<in> progress \<Longrightarrow> conn_step fb pb ts e s = None"
  shows "cs_reader s = Reading \<and> cs_inputs s = [] \<and> cs_acks s = [] \<and> in_flight s = []"
proof -
  note none = assms(2) [unfolded progress_def, simplified]
  have w: "cs_writer s = Selecting"
    using assms(1) none [of WriteOk] by (auto simp: working_def conn_step_simps split: writer_state.splits if_splits)
  have items: "ch_items (cs_writeChan s) = []"
    using w none [of Receive] chan.get_enabled [of "cs_writeChan s"] by (auto simp: conn_step_simps)
  have send: "chan_send m (cs_writeChan s) \<noteq> None" for m
    using assms(1) items by (simp add: chan_send_def working_def conn_inv_def writeChan_capacity_def)
  have r: "cs_reader s = Reading"
    using assms(1) none [of SendResponse] none [of NextMessage]
    by (auto simp: working_def conn_step_simps send split: reader_state.splits list.splits if_splits)
  have "cs_acks s = []" using none [of SendAck] by (auto simp: conn_step_simps send split: list.splits)
  moreover have "cs_inputs s = []"
  proof (cases "cs_inputs s")
    case (Cons i "is")
    obtain ls es where "handleMessage fb pb ts i (cs_ls s) = Some (ls, es)" using handleMessage_actions by blast
    then show ?thesis using none [of ReadMessage] r assms(1) Cons by (simp add: working_def conn_step_simps)
  qed simp
  ultimately show ?thesis using r w items by (simp add: in_flight_def)
qed

section \<open>A connection that never ends\<close>

lemma fill_channel:
  "length (ch_items (cs_writeChan s)) + n \<le> ch_cap (cs_writeChan s) \<Longrightarrow> n \<le> length (cs_acks s) \<Longrightarrow>
     conn_run fb pb ts (replicate n SendAck) s =
       Some (s\<lparr>cs_acks := drop n (cs_acks s),
               cs_writeChan := (cs_writeChan s)\<lparr>ch_items := ch_items (cs_writeChan s) @ take n (cs_acks s)\<rparr>\<rparr>)"
proof (induction n arbitrary: s)
  case (Suc n)
  then obtain m ms where "cs_acks s = m # ms" by (cases "cs_acks s") auto
  with Suc show ?case by (simp add: conn_step_simps chan_send_def)
qed simp

definition blocking_run :: "conn_event list" where
  "blocking_run = [SendAck, Receive, WriteFails] @ replicate 1000 SendAck @ [ReadMessage]"

lemma blocking_run_state:
  assumes "handleMessage fb pb ts i \<lparr>ls_sm = sm, ls_limited = 0, ls_limitStart = 0\<rparr> = Some (ls, es)"
    and "in_MsgType i = sm_MsgType sm" and "length ackMsgs \<ge> 1001"
  shows "conn_run fb pb ts blocking_run (conn_start sm (i # is) ackMsgs) =
     Some \<lparr>cs_ls = ls, cs_inputs = is, cs_reader = Sending (responds (actions es)), cs_acks = drop 1001 ackMsgs,
       cs_writeChan = \<lparr>ch_items = take 1000 (tl ackMsgs), ch_cap = 1000\<rparr>, cs_stopChan = False, cs_writer = Done, cs_wire = []\<rparr>"
proof -
  obtain a as where as: "ackMsgs = a # as" "1000 \<le> length as" using assms(3) by (cases ackMsgs) auto
  let ?s = "\<lparr>cs_ls = \<lparr>ls_sm = sm, ls_limited = 0, ls_limitStart = 0\<rparr>, cs_inputs = i # is, cs_reader = Reading, cs_acks = as,
      cs_writeChan = make_chan 1000, cs_stopChan = False, cs_writer = Done, cs_wire = []\<rparr>"
  have 1: "conn_run fb pb ts [SendAck, Receive, WriteFails] (conn_start sm (i # is) ackMsgs) = Some ?s"
    by (simp add: conn_start_def as conn_step_simps chan_send_def chan_recv_def make_chan_def writeChan_capacity_def)
  let ?t = "?s\<lparr>cs_acks := drop 1000 as, cs_writeChan := \<lparr>ch_items = take 1000 as, ch_cap = 1000\<rparr>\<rparr>"
  have 2: "conn_run fb pb ts (replicate 1000 SendAck) ?s = Some ?t"
    using fill_channel [of ?s 1000 fb pb ts] as(2) by (simp add: make_chan_def)
  have 3: "conn_run fb pb ts [ReadMessage] ?t = Some (?t\<lparr>cs_ls := ls, cs_inputs := is, cs_reader := Sending (responds (actions es))\<rparr>)"
    using assms(1,2) by (simp add: conn_step_simps)
  show ?thesis unfolding blocking_run_def conn_run_append 1 bind.simps 2 3 using as by simp
qed

section \<open>Properties\<close>

text \<open>
  C9: Refinement. However the reader, the writer and the acknowledgement loop are interleaved, the
  connection with its bounded write channel implements the specification of an ordered merge, whose
  queue has no bound; the channel never holds more than a thousand responses.
\<close>

theorem connection_refines_merge:
  assumes "conn_run fb pb ts evs (conn_start sm inputs ackMsgs) = Some s"
  shows "merge_step\<^sup>*\<^sup>* (abs_conn fb pb ts (conn_start sm inputs ackMsgs)) (abs_conn fb pb ts s) \<and>
         length (ch_items (cs_writeChan s)) \<le> 1000"
  using conn_run_refines [OF assms conn_inv_start] by (simp add: conn_inv_def writeChan_capacity_def)

definition example_ack :: socket_message where
  "example_ack = \<lparr>sock_MsgType = 2, sock_Txid = ''t'', sock_Msg = ''a''\<rparr>"

theorem connection_refines_merge_witness:
  "\<exists>s. conn_run tfb tpb example_serializer [SendAck, Receive, WriteOk] (conn_start example_sm [] [example_ack]) = Some s \<and>
     merge_step\<^sup>*\<^sup>* (abs_conn tfb tpb example_serializer (conn_start example_sm [] [example_ack])) (abs_conn tfb tpb example_serializer s)"
proof -
  have "\<exists>s. conn_run tfb tpb example_serializer [SendAck, Receive, WriteOk] (conn_start example_sm [] [example_ack]) = Some s"
    by (simp add: conn_start_def conn_step_simps chan_send_def chan_recv_def make_chan_def writeChan_capacity_def)
  then show ?thesis using connection_refines_merge by blast
qed

text \<open>
  C4: What the client gets, at any moment of any interleaving, is a merge of a prefix of the responses
  to its messages, in their order, and of a prefix of the acknowledgements, in theirs: no response
  is lost, repeated or overtaken before the connection breaks.
\<close>

theorem client_gets_ordered_merge:
  assumes "conn_run fb pb ts evs (conn_start sm inputs ackMsgs) = Some s"
    and "ProcessTelemetry fb pb ts inputs closeErr now sm = Some (sm', es)"
  shows "\<exists>rs as. cs_wire s \<in> shuffles rs as \<and> prefix rs (responds (actions es)) \<and> prefix as ackMsgs"
proof -
  obtain rs as q where "cs_wire s @ q \<in> shuffles rs as" "prefix rs (responds (actions es))" "prefix as ackMsgs"
    using conn_run_merged [OF assms] by (auto simp: merged_def abs_conn_def)
  then show ?thesis using shuffles_prefix [of "cs_wire s" q rs as] by (meson prefix_order.trans)
qed

theorem client_gets_ordered_merge_witness:
  "\<exists>s rs as. conn_run tfb tpb example_serializer [SendAck, Receive, WriteOk] (conn_start example_sm [] [example_ack]) = Some s \<and>
     cs_wire s = [example_ack] \<and> cs_wire s \<in> shuffles rs as \<and> prefix as [example_ack]"
proof -
  obtain s where s: "conn_run tfb tpb example_serializer [SendAck, Receive, WriteOk] (conn_start example_sm [] [example_ack]) = Some s"
    "cs_wire s = [example_ack]"
    by (simp add: conn_start_def conn_step_simps chan_send_def chan_recv_def make_chan_def writeChan_capacity_def)
  obtain sm' es where "ProcessTelemetry tfb tpb example_serializer [] None 0 example_sm = Some (sm', es)"
    using ProcessTelemetry_same by blast
  from client_gets_ordered_merge [OF s(1) this] s show ?thesis by blast
qed

text \<open>
  C10: Liveness. As long as reads and writes succeed, the goroutines make at most a fixed number of
  steps, whatever the schedule, and when none of them can make a step every response and every
  acknowledgement has reached the client: nobody waits for the channel for ever.
\<close>

theorem responses_delivered:
  assumes "conn_run fb pb ts evs (conn_start sm inputs ackMsgs) = Some s" and "set evs \<subseteq> progress"
    and "ProcessTelemetry fb pb ts inputs closeErr now sm = Some (sm', es)"
    and "list_all (\<lambda>i. in_MsgType i = sm_MsgType sm) inputs"
  shows "length evs \<le> 3 * length (responds (actions es)) + 3 * length ackMsgs + 2 * length inputs \<and>
         ((\<forall>e\<in>progress. conn_step fb pb ts e s = None) \<longrightarrow> cs_wire s \<in> shuffles (responds (actions es)) ackMsgs)"
proof
  let ?s = "conn_start sm inputs ackMsgs"
  have start: "working ?s"
    using assms(4) conn_inv_start by (simp add: working_def) (simp add: conn_start_def)
  have todo: "todo fb pb ts ?s = responds (actions es)"
    using abs_conn_start [OF assms(3), of ackMsgs] by (simp add: abs_conn_def)
  note run = progress_run [OF assms(1,2) start]
  then show "length evs \<le> 3 * length (responds (actions es)) + 3 * length ackMsgs + 2 * length inputs"
    by (simp add: work_def todo) (simp add: conn_start_def)
  show "(\<forall>e\<in>progress. conn_step fb pb ts e s = None) \<longrightarrow> cs_wire s \<in> shuffles (responds (actions es)) ackMsgs"
  proof
    assume "\<forall>e\<in>progress. conn_step fb pb ts e s = None"
    with stuck_done run have d: "cs_reader s = Reading" "cs_inputs s = []" "cs_acks s = []" "in_flight s = []"
      and w: "cs_writer s \<noteq> Done"
      by (metis working_def)+
    then have "todo fb pb ts s = []" by (simp add: todo_def)
    with d w conn_run_merged [OF assms(1,3)] show "cs_wire s \<in> shuffles (responds (actions es)) ackMsgs"
      by (auto simp: merged_def abs_conn_def)
  qed
qed

theorem responses_delivered_witness:
  "\<exists>s. conn_run tfb tpb example_serializer [SendAck, Receive, WriteOk] (conn_start example_sm [] [example_ack]) = Some s \<and>
     (\<forall>e\<in>progress. conn_step tfb tpb example_serializer e s = None) \<and> cs_wire s \<in> shuffles [] [example_ack]"
proof -
  obtain s where s: "conn_run tfb tpb example_serializer [SendAck, Receive, WriteOk] (conn_start example_sm [] [example_ack]) = Some s"
    and none: "\<forall>e\<in>progress. conn_step tfb tpb example_serializer e s = None"
    by (simp add: progress_def conn_start_def conn_step_simps chan_send_def chan_recv_def make_chan_def writeChan_capacity_def)
  have "ProcessTelemetry tfb tpb example_serializer [] None 0 example_sm =
      Some (example_sm, Log (ActivityLog ''socket_connected'' (sm_requestInfo example_sm)) # map Log (Socket_Close None 0 example_sm))"
    by (simp add: ProcessTelemetry_def)
  from responses_delivered [OF s _ this] none s show ?thesis by (auto simp: progress_def)
qed

text \<open>
  C18: Termination. However the goroutines are scheduled and whatever fails, a connection that gets a
  finite input makes a bounded number of steps: there is no schedule in which they run for ever.
\<close>

theorem connection_terminates:
  assumes "ProcessTelemetry fb pb ts inputs closeErr now sm = Some (sm', es)"
    and "conn_run fb pb ts evs (conn_start sm inputs ackMsgs) = Some s"
  shows "length evs \<le> 3 * length (responds (actions es)) + 3 * length ackMsgs + 2 * length inputs + 2"
proof -
  have "todo fb pb ts (conn_start sm inputs ackMsgs) = responds (actions es)"
    using abs_conn_start [OF assms(1), of ackMsgs] by (simp add: abs_conn_def)
  then have "budget fb pb ts (conn_start sm inputs ackMsgs) =
      3 * length (responds (actions es)) + 3 * length ackMsgs + 2 * length inputs + 2"
    by (simp add: budget_def work_def) (simp add: conn_start_def)
  with budget_run [OF assms(2)] show ?thesis by simp
qed

theorem connection_terminates_witness:
  "conn_run tfb tpb example_serializer [SendAck, Receive, WriteFails, ReadFails] (conn_start example_sm [] [example_ack]) \<noteq> None \<and>
   (\<forall>e. conn_run tfb tpb example_serializer [SendAck, Receive, WriteFails, ReadFails, e, e] (conn_start example_sm [] [example_ack]) = None)"
proof
  show "conn_run tfb tpb example_serializer [SendAck, Receive, WriteFails, ReadFails] (conn_start example_sm [] [example_ack]) \<noteq> None"
    by (simp add: conn_start_def conn_step_simps chan_send_def chan_recv_def make_chan_def writeChan_capacity_def)
  have p: "ProcessTelemetry tfb tpb example_serializer [] None 0 example_sm =
      Some (example_sm, Log (ActivityLog ''socket_connected'' (sm_requestInfo example_sm)) # map Log (Socket_Close None 0 example_sm))"
    by (simp add: ProcessTelemetry_def)
  show "\<forall>e. conn_run tfb tpb example_serializer [SendAck, Receive, WriteFails, ReadFails, e, e] (conn_start example_sm [] [example_ack]) = None"
    using connection_terminates [OF p, of "[SendAck, Receive, WriteFails, ReadFails, _, _]" "[example_ack]"]
    by (fastforce intro: ccontr)
qed

text \<open>
  C19: A connection can block for ever. When the writer gives up after a failed write and the channel
  fills up, the reader waits for a place in the channel that nobody will make: no goroutine of the
  connection can make a step, so it is never closed and its socket is never deregistered, and the
  acknowledgement loop, which serves all connections, waits with it.
\<close>

theorem failed_writer_blocks_connection:
  assumes "in_MsgType i = sm_MsgType sm" and "in_Try i" and "responds (message_actions fb pb ts sm i) \<noteq> []"
    and "length ackMsgs > 1001"
  shows "\<exists>evs s. conn_run fb pb ts evs (conn_start sm (i # is) ackMsgs) = Some s \<and>
           (\<forall>e. conn_step fb pb ts e s = None) \<and> cs_reader s \<noteq> Closed \<and> cs_acks s \<noteq> []"
proof -
  obtain ls es where h: "handleMessage fb pb ts i \<lparr>ls_sm = sm, ls_limited = 0, ls_limitStart = 0\<rparr> = Some (ls, es)"
    "actions es = message_actions fb pb ts sm i"
    using handleMessage_actions [of fb pb ts i "\<lparr>ls_sm = sm, ls_limited = 0, ls_limitStart = 0\<rparr>"] assms(2)
    by (auto simp: limited_def)
  let ?s = "\<lparr>cs_ls = ls, cs_inputs = is, cs_reader = Sending (responds (actions es)), cs_acks = drop 1001 ackMsgs,
       cs_writeChan = \<lparr>ch_items = take 1000 (tl ackMsgs), ch_cap = 1000\<rparr>, cs_stopChan = False, cs_writer = Done, cs_wire = []\<rparr>"
  have "conn_run fb pb ts blocking_run (conn_start sm (i # is) ackMsgs) = Some ?s"
    using blocking_run_state [OF h(1) assms(1)] assms(4) by simp
  moreover have "conn_step fb pb ts e ?s = None" for e
    using assms(3,4) h(2)
    by (cases e) (auto simp: conn_step_simps chan_send_def split: list.splits)
  ultimately show ?thesis using assms(4) by (intro exI [of _ blocking_run] exI [of _ ?s]) simp
qed

theorem failed_writer_blocks_connection_witness:
  "\<exists>i evs s. conn_run tfb tpb example_serializer evs (conn_start example_sm [i] (replicate 1002 example_ack)) = Some s \<and>
     (\<forall>e. conn_step tfb tpb example_serializer e s = None)"
proof -
  let ?i = "\<lparr>in_MsgType = 2, in_Message = example_buf, in_Try = True, in_Now = 0, in_Since = 0, in_Now1 = 0, in_Now2 = 0,
     in_Panicked = ''p''\<rparr>"
  have sm: "sm_UUID example_sm = ''s''" "sm_transmitDecodedRecords example_sm = False" "sm_MsgType example_sm = 2"
    "cfg_ReliableAckSources (sm_config example_sm) = []"
    by (simp_all add: example_sm_def NewSocketManager_def buildRequestContext_def empty_config_def BinaryMessage_def)
  obtain r where n: "NewRecord tfb tpb ''p'' 0 0 example_serializer example_buf ''s'' False = (r, None, [])"
    using example_new_record .
  then have "responds (message_actions tfb tpb example_serializer example_sm ?i) \<noteq> []"
    by (simp add: message_actions_outcome sm outcome_def accepted_actions_def)
  from failed_writer_blocks_connection [OF _ _ this, of "replicate 1002 example_ack" "[]"] show ?thesis
    by (auto simp: sm(3))
qed

end
