(* ===== verification/Store_Ops.thy ===== *)
theory Store_Ops
  imports Pipeline Startup
begin

text \<open>
  The other methods of the producers, those of the interface \<^verbatim>\<open>telemetry.Producer\<close> that are not \<^verbatim>\<open>Produce\<close>: the
  acknowledgement of a record, the report of an error and closing, for every datastore; and the goroutine that logs the
  events of a ZMQ socket. The locale states what the interface promises of the first two; all stores are
  instances of it.
\<close>

section \<open>Acknowledging and reporting\<close>

definition kafka_ProcessReliableAck :: "kafka_producer \<Rightarrow> 'p telemetry_record \<Rightarrow> ('s, 'p) store_action effect list" where
  "kafka_ProcessReliableAck p = ProcessReliableAck (kafka_reliableAckTxTypes p) ''kafka_reliable_ack_total''"
definition kinesis_ProcessReliableAck :: "kinesis_producer \<Rightarrow> 'p telemetry_record \<Rightarrow> ('s, 'p) store_action effect list" where
  "kinesis_ProcessReliableAck p = ProcessReliableAck (kinesis_reliableAckTxTypes p) ''kinesis_reliable_ack_total''"
definition pubsub_ProcessReliableAck :: "pubsub_producer \<Rightarrow> 'p telemetry_record \<Rightarrow> ('s, 'p) store_action effect list" where
  "pubsub_ProcessReliableAck p = ProcessReliableAck (pubsub_reliableAckTxTypes p) ''pubsub_reliable_ack_total''"
definition zmq_ProcessReliableAck :: "zmq_producer \<Rightarrow> 'p telemetry_record \<Rightarrow> ('s, 'p) store_action effect list" where
  "zmq_ProcessReliableAck p = ProcessReliableAck (zmq_reliableAckTxTypes p) ''zmq_reliable_ack_total''"
definition redis_ProcessReliableAck :: "redis_producer \<Rightarrow> 'p telemetry_record \<Rightarrow> ('s, 'p) store_action effect list" where
  "redis_ProcessReliableAck p = ProcessReliableAck (redis_reliableAckTxTypes p) ''redis_reliable_ack_total''"
definition mqtt_ProcessReliableAck :: "mqtt_producer \<Rightarrow> 'p telemetry_record \<Rightarrow> ('s, 'p) store_action effect list" where
  "mqtt_ProcessReliableAck p = ProcessReliableAck (mqtt_reliableAckTxTypes p) ''mqtt_reliable_ack_total''"
definition logger_ProcessReliableAck :: "unit \<Rightarrow> 'p telemetry_record \<Rightarrow> ('s, 'p) store_action effect list" where
  "logger_ProcessReliableAck p entry = []"

type_synonym 'e report = "string \<Rightarrow> string option \<Rightarrow> log_info \<Rightarrow> 'e effect list"

definition kinesis_ReportError :: "('s, 'p) store_action report" where
  "kinesis_ReportError message err logInfo = Producer_ReportError message err logInfo"
definition pubsub_ReportError :: "('s, 'p) store_action report" where
  "pubsub_ReportError message err logInfo = Producer_ReportError message err logInfo"
definition zmq_ReportError :: "('s, 'p) store_action report" where
  "zmq_ReportError message err logInfo = Producer_ReportError message err logInfo"
definition redis_ReportError :: "('s, 'p) store_action report" where
  "redis_ReportError message err logInfo = Producer_ReportError message err logInfo"
definition mqtt_ReportError :: "('s, 'p) store_action report" where
  "mqtt_ReportError message err logInfo = Producer_ReportError message err logInfo"
definition logger_ReportError :: "('s, 'p) store_action report" where
  "logger_ReportError message err logInfo = []"

text \<open>The interface: what is acknowledged, and that reporting an error acknowledges and stores nothing.\<close>

locale producer_interface =
  fixes process_ack :: "'c \<Rightarrow> 'p telemetry_record \<Rightarrow> ('s, 'p) store_action effect list"
    and ack_types :: "'c \<Rightarrow> string set"
    and report :: "('s, 'p) store_action report"
  assumes process_acks: "acked (process_ack c r) = (if rec_TxType r \<in> ack_types c then [r] else [])"
    and process_stores: "stored (process_ack c r) = []"
    and report_acks: "acked (report m e l) = []"
    and report_stores: "stored (report m e l) = []"
begin

text \<open>A client that reports errors between its acknowledgements acknowledges what it would without them.\<close>

lemma acks_of_sequence:
  "acked (concat (map (\<lambda>r. process_ack c r @ report m e l) rs)) = filter (\<lambda>r. rec_TxType r \<in> ack_types c) rs"
  by (induction rs) (simp_all add: process_acks report_acks)

lemma sequence_stores_nothing: "stored (concat (map (\<lambda>r. process_ack c r @ report m e l) rs)) = []"
  by (induction rs) (simp_all add: process_stores report_stores)

end

lemmas process_ack_defs = kafka_ProcessReliableAck_def kinesis_ProcessReliableAck_def pubsub_ProcessReliableAck_def
  zmq_ProcessReliableAck_def redis_ProcessReliableAck_def mqtt_ProcessReliableAck_def logger_ProcessReliableAck_def

lemmas report_defs = kinesis_ReportError_def pubsub_ReportError_def zmq_ReportError_def redis_ReportError_def mqtt_ReportError_def
  logger_ReportError_def

interpretation kafka_ops: producer_interface kafka_ProcessReliableAck kafka_reliableAckTxTypes Producer_ReportError
  by unfold_locales (simp_all add: process_ack_defs)
interpretation kinesis_ops: producer_interface kinesis_ProcessReliableAck kinesis_reliableAckTxTypes kinesis_ReportError
  by unfold_locales (simp_all add: process_ack_defs report_defs)
interpretation pubsub_ops: producer_interface pubsub_ProcessReliableAck pubsub_reliableAckTxTypes pubsub_ReportError
  by unfold_locales (simp_all add: process_ack_defs report_defs)
interpretation zmq_ops: producer_interface zmq_ProcessReliableAck zmq_reliableAckTxTypes zmq_ReportError
  by unfold_locales (simp_all add: process_ack_defs report_defs)
interpretation redis_ops: producer_interface redis_ProcessReliableAck redis_reliableAckTxTypes redis_ReportError
  by unfold_locales (simp_all add: process_ack_defs report_defs)
interpretation mqtt_ops: producer_interface mqtt_ProcessReliableAck mqtt_reliableAckTxTypes mqtt_ReportError
  by unfold_locales (simp_all add: process_ack_defs report_defs)
interpretation logger_ops: producer_interface logger_ProcessReliableAck "\<lambda>_. {}" logger_ReportError
  by unfold_locales (simp_all add: process_ack_defs report_defs)

section \<open>Closing\<close>

text \<open>What \<^verbatim>\<open>Close\<close> returns, from what closing the client returned.\<close>

definition kafka_Close :: "string option" where "kafka_Close = None"
definition kinesis_Close :: "string option" where "kinesis_Close = None"
definition pubsub_Close :: "string option \<Rightarrow> string option" where "pubsub_Close clientErr = clientErr"
definition redis_Close :: "string option \<Rightarrow> string option" where "redis_Close clientErr = clientErr"
definition logger_Close :: "string option" where "logger_Close = None"

definition producer_Close :: "store_producers \<Rightarrow> (dispatcher \<Rightarrow> string option) \<Rightarrow> dispatcher \<Rightarrow> string option" where
  "producer_Close ps clientErr d =
     (case d of
        Kafka \<Rightarrow> kafka_Close
      | Kinesis \<Rightarrow> kinesis_Close
      | Pubsub \<Rightarrow> pubsub_Close (clientErr Pubsub)
      | ZMQ \<Rightarrow> snd (zmq_Close (clientErr ZMQ) (sp_zmq ps))
      | Redis \<Rightarrow> redis_Close (clientErr Redis)
      | MQTT \<Rightarrow> None
      | Logger \<Rightarrow> logger_Close)"

lemma producer_Close_error:
  "producer_Close ps clientErr d = Some err \<Longrightarrow> d \<in> {Pubsub, ZMQ, Redis} \<and> clientErr d = Some err"
  by (cases d) (auto simp: producer_Close_def kafka_Close_def kinesis_Close_def logger_Close_def pubsub_Close_def redis_Close_def
      zmq_Close_def split: if_splits)

text \<open>At shutdown an error is logged exactly for the producers whose client failed to close.\<close>

lemma logged_close_errors:
  assumes "\<And>d. w_Close W (dispatcher_name d) = producer_Close ps clientErr d"
    and "Log (ErrorLog ''producer_close_error'' (Some err) info) \<in> set (closeProducers W dispatchers)"
    and "set (w_order W dispatchers) \<subseteq> range dispatcher_name"
  shows "\<exists>d \<in> {Pubsub, ZMQ, Redis}. clientErr d = Some err \<and> info = [(''dispatcher'', GStr (dispatcher_name d))]"
proof -
  obtain n where n: "n \<in> set (w_order W dispatchers)" "w_Close W n = Some err" "info = [(''dispatcher'', GStr n)]"
    using assms(2) by (auto simp: closeProducers_def split: option.splits)
  then obtain d where "n = dispatcher_name d" using assms(3) by auto
  with n assms(1) producer_Close_error [of ps clientErr d err] show ?thesis by auto
qed

section \<open>The monitor of a ZMQ socket\<close>

text \<open>
  One turn of the loop: whether the context is done, and otherwise the result of receiving: an error, or the type,
  the address and the value of an event. The list ends when receiving blocks.
\<close>

record zmq_turn =
  zt_done :: bool
  zt_event :: "string + string \<times> string \<times> int"

text \<open>The log, and whether the goroutine has returned.\<close>

fun zmq_monitor :: "string option \<Rightarrow> zmq_turn list \<Rightarrow> log_entry list \<times> bool" where
  "zmq_monitor closeErr [] = ([], False)"
| "zmq_monitor closeErr (t # ts) =
     (if zt_done t
      then (case closeErr of None \<Rightarrow> [] | Some err \<Rightarrow> [ErrorLog ''zmq_monitor_close_error'' (Some err) []], True)
      else let (logs, returned) = zmq_monitor closeErr ts
           in ((case zt_event t of
                  Inl err \<Rightarrow> ErrorLog ''zmq_event_receive_error'' (Some err) []
                | Inr (eventType, addr, v) \<Rightarrow>
                    LogLine DEBUG ''zmq_socket_event'' [(''event_type'', GStr eventType), (''addr'', GStr addr), (''value'', GInt v)]) # logs,
               returned))"

text \<open>
  The goroutine returns exactly when its context is done, so that with the background context that the
  configuration passes it never does: every failing receive is logged, and the loop goes on at once.
\<close>

lemma zmq_monitor_returns: "snd (zmq_monitor closeErr ts) \<longleftrightarrow> (\<exists>t \<in> set ts. zt_done t)"
  by (induction ts) (auto split: prod.split)

lemma zmq_monitor_spins:
  "zmq_monitor closeErr (replicate n \<lparr>zt_done = False, zt_event = Inl err\<rparr>) =
     (replicate n (ErrorLog ''zmq_event_receive_error'' (Some err) []), False)"
  by (induction n) auto

lemma zmq_monitor_logs_events:
  assumes "\<not> (\<exists>t \<in> set ts. zt_done t)"
  shows "length (fst (zmq_monitor closeErr ts)) = length ts"
  using assms by (induction ts) (auto split: prod.split)

end
