(* ===== verification/Metric_Adapters.thy ===== *)
theory Metric_Adapters
  imports Metrics
begin

text \<open>
  The adapters behind the interface of the metrics (\<^verbatim>\<open>metrics/adapter\<close>): Prometheus, StatsD and no-op. Each
  turns a method of a counter, gauge or timer into a call of its client library; the calls are values.
\<close>

section \<open>The methods\<close>

datatype adapter_call =
    Adapter_Add int labels
  | Adapter_Sub int labels
  | Adapter_Inc labels
  | Adapter_Set int labels
  | Adapter_Observe int labels

text \<open>The methods of the three interfaces.\<close>

fun has_method :: "collector_kind \<Rightarrow> adapter_call \<Rightarrow> bool" where
  "has_method Counter (Adapter_Add n l) = True"
| "has_method Counter (Adapter_Inc l) = True"
| "has_method Gauge (Adapter_Add n l) = True"
| "has_method Gauge (Adapter_Sub n l) = True"
| "has_method Gauge (Adapter_Inc l) = True"
| "has_method Gauge (Adapter_Set n l) = True"
| "has_method Timer (Adapter_Observe n l) = True"
| "has_method _ _ = False"

section \<open>Prometheus\<close>

text \<open>\<^verbatim>\<open>float64(n)\<close> of a 64-bit integer, as its bit pattern.\<close>

definition float64_of_int :: "int \<Rightarrow> nat" where
  "float64_of_int n = sign_bit float64 (n < 0) + round_float float64 (nat \<bar>n\<bar>) 1"

text \<open>A vector selected by its labels (\<^verbatim>\<open>With\<close>), and the method called on the metric.\<close>

datatype prom_call =
    With_Add labels nat
  | With_Sub labels nat
  | With_Inc labels
  | With_Set labels nat
  | With_Observe labels nat

fun prom_counter :: "adapter_call \<Rightarrow> prom_call option" where
  "prom_counter (Adapter_Add n labels) = Some (With_Add labels (float64_of_int n))"
| "prom_counter (Adapter_Inc labels) = Some (With_Inc labels)"
| "prom_counter _ = None"

fun prom_gauge :: "adapter_call \<Rightarrow> prom_call option" where
  "prom_gauge (Adapter_Add n labels) = Some (With_Add labels (float64_of_int n))"
| "prom_gauge (Adapter_Sub n labels) = Some (With_Sub labels (float64_of_int n))"
| "prom_gauge (Adapter_Inc labels) = Some (With_Inc labels)"
| "prom_gauge (Adapter_Set n labels) = Some (With_Set labels (float64_of_int n))"
| "prom_gauge _ = None"

fun prom_timer :: "adapter_call \<Rightarrow> prom_call option" where
  "prom_timer (Adapter_Observe n labels) = Some (With_Observe labels (float64_of_int n))"
| "prom_timer _ = None"

definition prom_method :: "collector_kind \<Rightarrow> adapter_call \<Rightarrow> prom_call option" where
  "prom_method k = (case k of Counter \<Rightarrow> prom_counter | Gauge \<Rightarrow> prom_gauge | Timer \<Rightarrow> prom_timer)"

definition prom_RegisterCounter ::
    "(collector_kind \<times> collector_options \<Rightarrow> 'g \<Rightarrow> 'g option) \<Rightarrow> collector_options \<Rightarrow> prometheus_collector \<times> 'g \<Rightarrow> (prometheus_collector \<times> 'g) option" where
  "prom_RegisterCounter mustRegister options = prom_register mustRegister (Counter, options)"

definition prom_RegisterGauge ::
    "(collector_kind \<times> collector_options \<Rightarrow> 'g \<Rightarrow> 'g option) \<Rightarrow> collector_options \<Rightarrow> prometheus_collector \<times> 'g \<Rightarrow> (prometheus_collector \<times> 'g) option" where
  "prom_RegisterGauge mustRegister options = prom_register mustRegister (Gauge, options)"

definition prom_RegisterTimer ::
    "(collector_kind \<times> collector_options \<Rightarrow> 'g \<Rightarrow> 'g option) \<Rightarrow> collector_options \<Rightarrow> prometheus_collector \<times> 'g \<Rightarrow> (prometheus_collector \<times> 'g) option" where
  "prom_RegisterTimer mustRegister options = prom_register mustRegister (Timer, options)"

section \<open>StatsD\<close>

text \<open>A registered metric keeps its name; the labels go into the tags of every call.\<close>

datatype statsd_metric = Statsd_Counter string | Statsd_Gauge string | Statsd_Timer string

definition statsd_RegisterCounter :: "collector_options \<Rightarrow> statsd_metric" where
  "statsd_RegisterCounter options = Statsd_Counter (Opt_Name options)"

definition statsd_RegisterGauge :: "collector_options \<Rightarrow> statsd_metric" where
  "statsd_RegisterGauge options = Statsd_Gauge (Opt_Name options)"

definition statsd_RegisterTimer :: "collector_options \<Rightarrow> statsd_metric" where
  "statsd_RegisterTimer options = Statsd_Timer (Opt_Name options)"

definition statsd_timing :: "(labels \<Rightarrow> labels) \<Rightarrow> string \<Rightarrow> int \<Rightarrow> labels \<Rightarrow> string \<times> int \<times> sd_tags" where
  "statsd_timing order name n labels = (name, n, getTags order labels)"

text \<open>The negation of a 64-bit integer wraps around.\<close>

fun statsd_gauge :: "(labels \<Rightarrow> labels) \<Rightarrow> string \<Rightarrow> adapter_call \<Rightarrow> statsd_call option" where
  "statsd_gauge order name (Adapter_Add n labels) = Some (GaugeDelta name n (getTags order labels))"
| "statsd_gauge order name (Adapter_Sub n labels) = Some (GaugeDelta name (sint (- word_of_int n :: 64 word)) (getTags order labels))"
| "statsd_gauge order name (Adapter_Inc labels) = Some (GaugeDelta name 1 (getTags order labels))"
| "statsd_gauge order name (Adapter_Set n labels) = Some (GaugeSet name n (getTags order labels))"
| "statsd_gauge order name _ = None"

fun statsd_counter :: "(labels \<Rightarrow> labels) \<Rightarrow> string \<Rightarrow> adapter_call \<Rightarrow> statsd_call option" where
  "statsd_counter order name (Adapter_Add n labels) = Some (Incr name n (getTags order labels))"
| "statsd_counter order name (Adapter_Inc labels) = Some (Incr name 1 (getTags order labels))"
| "statsd_counter order name _ = None"

definition statsd_method ::
    "(labels \<Rightarrow> labels) \<Rightarrow> string \<Rightarrow> collector_kind \<Rightarrow> adapter_call \<Rightarrow> (statsd_call + string \<times> int \<times> sd_tags) option" where
  "statsd_method order name k c =
     (case k of
        Counter \<Rightarrow> map_option Inl (statsd_counter order name c)
      | Gauge \<Rightarrow> map_option Inl (statsd_gauge order name c)
      | Timer \<Rightarrow> (case c of Adapter_Observe n labels \<Rightarrow> Some (Inr (statsd_timing order name n labels)) | _ \<Rightarrow> None))"

section \<open>No-op\<close>

text \<open>The methods of the no-op adapter make no call.\<close>

definition noop_method :: "collector_kind \<Rightarrow> adapter_call \<Rightarrow> prom_call list option" where
  "noop_method k c = (if has_method k c then Some [] else None)"

section \<open>The adapters and the updates of the program\<close>

text \<open>The updates that the components of the program make, as calls of an adapter.\<close>

fun update_call :: "metric_update \<Rightarrow> adapter_call" where
  "update_call (Inc name labels) = Adapter_Inc labels"
| "update_call (Add name n labels) = Adapter_Add n labels"
| "update_call (Set name n labels) = Adapter_Set n labels"

fun call_labels :: "prom_call \<Rightarrow> labels" where
  "call_labels (With_Add l n) = l"
| "call_labels (With_Sub l n) = l"
| "call_labels (With_Inc l) = l"
| "call_labels (With_Set l n) = l"
| "call_labels (With_Observe l n) = l"

text \<open>
  The contract of the interface: an adapter has a call for every method of a kind of metric. Then every
  update that meets the conditions of its registration reaches the client library.
\<close>

locale metric_adapter =
  fixes adapter_method :: "collector_kind \<Rightarrow> adapter_call \<Rightarrow> 'r option"
  assumes has_call: "has_method k c \<Longrightarrow> adapter_method k c \<noteq> None"
begin

lemma ok_update_has_call:
  assumes "update_ok reg u"
  shows "\<exists>k opts r. (k, opts) \<in> set reg \<and> adapter_method k (update_call u) = Some r"
proof -
  obtain k opts where "(k, opts) \<in> set reg" "has_method k (update_call u)"
    using assms by (cases u) (auto simp: list_ex_iff elim: has_method.elims(3) intro: collector_kind.exhaust)
  with has_call [of k "update_call u"] show ?thesis by blast
qed

end

interpretation prometheus_adapter: metric_adapter prom_method
proof
  show "has_method k c \<Longrightarrow> prom_method k c \<noteq> None" for k c by (cases k; cases c) (simp_all add: prom_method_def)
qed

interpretation statsd_adapter: metric_adapter "statsd_method order name" for order name
proof
  show "has_method k c \<Longrightarrow> statsd_method order name k c \<noteq> None" for k c by (cases k; cases c) (simp_all add: statsd_method_def)
qed

interpretation noop_adapter: metric_adapter noop_method
proof
  show "has_method k c \<Longrightarrow> noop_method k c \<noteq> None" for k c by (simp add: noop_method_def)
qed

text \<open>The calls keep the labels, and a counter is only asked to add the float of a number that is not negative.\<close>

lemma prom_method_labels:
  assumes "prom_method k (update_call u) = Some c" and "update_ok [(k, opts)] u"
  shows "labels_match (Opt_Labels opts) (call_labels c)"
    and "k = Counter \<Longrightarrow> c = With_Add l x \<Longrightarrow> \<exists>n. x = round_float float64 n 1"
  using assms by (cases u; cases k; auto simp: prom_method_def float64_of_int_def sign_bit_def)+

lemma statsd_counter_update:
  assumes "has_method Counter (update_call u)"
  shows "statsd_counter order (case u of Inc n l \<Rightarrow> n | Add n x l \<Rightarrow> n | Set n x l \<Rightarrow> n) (update_call u) = statsd_update order Counter u"
  using assms by (cases u) simp_all

lemma statsd_gauge_update:
  "statsd_gauge order (case u of Inc n l \<Rightarrow> n | Add n x l \<Rightarrow> n | Set n x l \<Rightarrow> n) (update_call u) = statsd_update order Gauge u"
  by (cases u) simp_all

end
