(* ===== verification/Registration.thy ===== *)
theory Registration
  imports Metric_Adapters
begin

text \<open>
  When metrics are registered: the packages register theirs from their constructors, through a \<^verbatim>\<open>sync.Once\<close> per
  package, so that a constructor can run any number of times. The Prometheus registry of the process is a
  parameter of which the code relies on one thing: registering a new name succeeds, registering a known name panics.
  And the loop of \<^verbatim>\<open>ReportServerUsage\<close>.
\<close>

section \<open>Registration through a once\<close>

datatype package = SocketPackage | ServerPackage | KafkaPackage | KinesisPackage | PubsubPackage | ZmqPackage
  | RedisPackage | MqttPackage | UsagePackage | MonitoringPackage

fun package_metrics :: "package \<Rightarrow> (collector_kind \<times> collector_options) list" where
  "package_metrics SocketPackage = socket_registerMetrics"
| "package_metrics ServerPackage = server_registerMetrics"
| "package_metrics KafkaPackage = kafka_registerMetrics"
| "package_metrics KinesisPackage = kinesis_registerMetrics"
| "package_metrics PubsubPackage = pubsub_registerMetrics"
| "package_metrics ZmqPackage = zmq_registerMetrics"
| "package_metrics RedisPackage = redis_registerMetrics"
| "package_metrics MqttPackage = mqtt_registerMetrics"
| "package_metrics UsagePackage = usage_registerMetrics"
| "package_metrics MonitoringPackage = monitoring_registerMetrics"

text \<open>The global variables \<^verbatim>\<open>metricsOnce\<close> of the packages, the collector and the registry of the process.\<close>

record 'g metrics_state =
  ms_done :: "package set"
  ms_collector :: prometheus_collector
  ms_registry :: 'g

definition metrics_start :: "'g \<Rightarrow> 'g metrics_state" where
  "metrics_start g = \<lparr>ms_done = {}, ms_collector = prom_NewCollector, ms_registry = g\<rparr>"

type_synonym 'g must_register = "collector_kind \<times> collector_options \<Rightarrow> 'g \<Rightarrow> 'g option"

fun register_list :: "'g must_register \<Rightarrow> (collector_kind \<times> collector_options) list \<Rightarrow> prometheus_collector \<times> 'g \<Rightarrow>
    (prometheus_collector \<times> 'g) option" where
  "register_list mustRegister [] s = Some s"
| "register_list mustRegister (m # ms) s =
     do { s \<leftarrow> (case m of
              (Counter, options) \<Rightarrow> prom_RegisterCounter mustRegister options s
            | (Gauge, options) \<Rightarrow> prom_RegisterGauge mustRegister options s
            | (Timer, options) \<Rightarrow> prom_RegisterTimer mustRegister options s);
          register_list mustRegister ms s }"

definition once_Do :: "'g must_register \<Rightarrow> package \<Rightarrow> 'g metrics_state \<Rightarrow> 'g metrics_state option" where
  "once_Do mustRegister p st =
     (if p \<in> ms_done st then Some st
      else do { (c, g) \<leftarrow> register_list mustRegister (package_metrics p) (ms_collector st, ms_registry st);
                Some (st\<lparr>ms_done := insert p (ms_done st), ms_collector := c, ms_registry := g\<rparr>) })"

definition socket_registerMetricsOnce :: "'g must_register \<Rightarrow> 'g metrics_state \<Rightarrow> 'g metrics_state option" where
  "socket_registerMetricsOnce mustRegister = once_Do mustRegister SocketPackage"
definition registerServerMetricsOnce :: "'g must_register \<Rightarrow> 'g metrics_state \<Rightarrow> 'g metrics_state option" where
  "registerServerMetricsOnce mustRegister = once_Do mustRegister ServerPackage"
definition kafka_registerMetricsOnce :: "'g must_register \<Rightarrow> 'g metrics_state \<Rightarrow> 'g metrics_state option" where
  "kafka_registerMetricsOnce mustRegister = once_Do mustRegister KafkaPackage"
definition kinesis_registerMetricsOnce :: "'g must_register \<Rightarrow> 'g metrics_state \<Rightarrow> 'g metrics_state option" where
  "kinesis_registerMetricsOnce mustRegister = once_Do mustRegister KinesisPackage"
definition pubsub_registerMetricsOnce :: "'g must_register \<Rightarrow> 'g metrics_state \<Rightarrow> 'g metrics_state option" where
  "pubsub_registerMetricsOnce mustRegister = once_Do mustRegister PubsubPackage"
definition zmq_registerMetricsOnce :: "'g must_register \<Rightarrow> 'g metrics_state \<Rightarrow> 'g metrics_state option" where
  "zmq_registerMetricsOnce mustRegister = once_Do mustRegister ZmqPackage"
definition redis_registerMetricsOnce :: "'g must_register \<Rightarrow> 'g metrics_state \<Rightarrow> 'g metrics_state option" where
  "redis_registerMetricsOnce mustRegister = once_Do mustRegister RedisPackage"
definition mqtt_registerMetricsOnce :: "'g must_register \<Rightarrow> 'g metrics_state \<Rightarrow> 'g metrics_state option" where
  "mqtt_registerMetricsOnce mustRegister = once_Do mustRegister MqttPackage"
definition usage_registerMetricsOnce :: "'g must_register \<Rightarrow> 'g metrics_state \<Rightarrow> 'g metrics_state option" where
  "usage_registerMetricsOnce mustRegister = once_Do mustRegister UsagePackage"
definition monitoring_registerMetricsOnce :: "'g must_register \<Rightarrow> 'g metrics_state \<Rightarrow> 'g metrics_state option" where
  "monitoring_registerMetricsOnce mustRegister = once_Do mustRegister MonitoringPackage"

text \<open>What the constructor of a package calls.\<close>

fun registerMetricsOnce :: "'g must_register \<Rightarrow> package \<Rightarrow> 'g metrics_state \<Rightarrow> 'g metrics_state option" where
  "registerMetricsOnce mustRegister SocketPackage = socket_registerMetricsOnce mustRegister"
| "registerMetricsOnce mustRegister ServerPackage = registerServerMetricsOnce mustRegister"
| "registerMetricsOnce mustRegister KafkaPackage = kafka_registerMetricsOnce mustRegister"
| "registerMetricsOnce mustRegister KinesisPackage = kinesis_registerMetricsOnce mustRegister"
| "registerMetricsOnce mustRegister PubsubPackage = pubsub_registerMetricsOnce mustRegister"
| "registerMetricsOnce mustRegister ZmqPackage = zmq_registerMetricsOnce mustRegister"
| "registerMetricsOnce mustRegister RedisPackage = redis_registerMetricsOnce mustRegister"
| "registerMetricsOnce mustRegister MqttPackage = mqtt_registerMetricsOnce mustRegister"
| "registerMetricsOnce mustRegister UsagePackage = usage_registerMetricsOnce mustRegister"
| "registerMetricsOnce mustRegister MonitoringPackage = monitoring_registerMetricsOnce mustRegister"

fun construct :: "'g must_register \<Rightarrow> package list \<Rightarrow> 'g metrics_state \<Rightarrow> 'g metrics_state option" where
  "construct mustRegister [] st = Some st"
| "construct mustRegister (p # ps) st = do { st \<leftarrow> registerMetricsOnce mustRegister p st; construct mustRegister ps st }"

section \<open>The report of the usage\<close>

text \<open>A tick: the clock, the number of goroutines, the memory statistics, and the updates of the custom report.\<close>

record tick =
  tk_Now :: int
  tk_Goroutines :: int
  tk_MemStats :: mem_stats
  tk_Custom :: "metric_update list"

fun usage_loop :: "int \<Rightarrow> tick list \<Rightarrow> usage_state \<Rightarrow> (usage_state \<times> metric_update list) option" where
  "usage_loop overflow [] st = Some (st, [])"
| "usage_loop overflow (t # ts) st =
     do { (st, us) \<leftarrow> usage_step overflow (tk_Now t) (tk_Goroutines t) (tk_MemStats t) (tk_Custom t) st;
          (st, us') \<leftarrow> usage_loop overflow ts st;
          Some (st, us @ us') }"

definition ReportServerUsage ::
    "'g must_register \<Rightarrow> int \<Rightarrow> int \<Rightarrow> tick list \<Rightarrow> 'g metrics_state \<Rightarrow> ('g metrics_state \<times> metric_update list) option" where
  "ReportServerUsage mustRegister overflow now ticks ms =
     do { ms \<leftarrow> usage_registerMetricsOnce mustRegister ms;
          (_, us) \<leftarrow> usage_loop overflow ticks \<lparr>lastPauseNs = 0, lastNumGc = 0, lastSampleTime = now\<rparr>;
          Some (ms, us) }"

section \<open>No registration panics\<close>

definition registry_law :: "'g must_register \<Rightarrow> ('g \<Rightarrow> string set) \<Rightarrow> bool" where
  "registry_law mustRegister names \<longleftrightarrow>
     (\<forall>m g. if Opt_Name (snd m) \<in> names g then mustRegister m g = None
            else \<exists>g'. mustRegister m g = Some g' \<and> names g' = insert (Opt_Name (snd m)) (names g))"

abbreviation metric_names :: "(collector_kind \<times> collector_options) list \<Rightarrow> string list" where
  "metric_names \<equiv> map (Opt_Name \<circ> snd)"

lemma registerMetricsOnce_Do: "registerMetricsOnce mustRegister p = once_Do mustRegister p"
  by (cases p) (simp_all add: socket_registerMetricsOnce_def registerServerMetricsOnce_def kafka_registerMetricsOnce_def
      kinesis_registerMetricsOnce_def pubsub_registerMetricsOnce_def zmq_registerMetricsOnce_def redis_registerMetricsOnce_def
      mqtt_registerMetricsOnce_def usage_registerMetricsOnce_def monitoring_registerMetricsOnce_def)

lemma register_list_Some:
  assumes "registry_law mustRegister names"
  shows "distinct (metric_names ms) \<Longrightarrow> set (metric_names ms) \<inter> names g = {} \<Longrightarrow>
    \<exists>g'. register_list mustRegister ms (c, g) = Some (c\<lparr>prom_collectors := prom_collectors c @ ms\<rparr>, g') \<and>
      names g' = names g \<union> set (metric_names ms)"
proof (induction ms arbitrary: c g)
  case (Cons m ms)
  obtain g1 where g1: "mustRegister m g = Some g1" "names g1 = insert (Opt_Name (snd m)) (names g)"
    using assms Cons.prems(2) unfolding registry_law_def by (metis comp_apply disjoint_iff list.set_intros(1) list.simps(9))
  have "set (metric_names ms) \<inter> names g1 = {}" using Cons.prems g1(2) by auto
  from Cons.IH [OF _ this, of "c\<lparr>prom_collectors := prom_collectors c @ [m]\<rparr>"] Cons.prems(1) obtain g' where
    "register_list mustRegister ms (c\<lparr>prom_collectors := prom_collectors c @ [m]\<rparr>, g1) =
       Some (c\<lparr>prom_collectors := prom_collectors c @ m # ms\<rparr>, g')"
    "names g' = names g1 \<union> set (metric_names ms)" by auto
  moreover obtain k options where "m = (k, options)" by force
  ultimately show ?case
    using g1 by (cases k) (auto simp: prom_RegisterCounter_def prom_RegisterGauge_def prom_RegisterTimer_def prom_register_def)
qed simp

lemma packages: "p \<in> set [SocketPackage, ServerPackage, KafkaPackage, KinesisPackage, PubsubPackage, ZmqPackage, RedisPackage,
    MqttPackage, UsagePackage, MonitoringPackage]"
  by (cases p) simp_all

text \<open>The names of one package are distinct, and those of two packages disjoint.\<close>

lemma concat_distinct:
  assumes "distinct (concat (map f ps))" "p \<in> set ps"
  shows "distinct (f p)" "q \<in> set ps \<Longrightarrow> p \<noteq> q \<Longrightarrow> set (f p) \<inter> set (f q) = {}"
  using assms by (induction ps) (auto simp: disjoint_iff)

lemma package_names:
  shows "distinct (metric_names (package_metrics p))"
    and "p \<noteq> q \<Longrightarrow> set (metric_names (package_metrics p)) \<inter> set (metric_names (package_metrics q)) = {}"
proof -
  have d: "distinct (concat (map (\<lambda>p. metric_names (package_metrics p)) [SocketPackage, ServerPackage, KafkaPackage, KinesisPackage,
      PubsubPackage, ZmqPackage, RedisPackage, MqttPackage, UsagePackage, MonitoringPackage]))"
    using registered_names_distinct by simp
  show "distinct (metric_names (package_metrics p))" by (rule concat_distinct(1) [OF d packages])
  show "p \<noteq> q \<Longrightarrow> set (metric_names (package_metrics p)) \<inter> set (metric_names (package_metrics q)) = {}"
    by (rule concat_distinct(2) [OF d packages packages])
qed

text \<open>What holds between the calls: exactly the metrics of the packages whose once is done are registered.\<close>

definition registered :: "('g \<Rightarrow> string set) \<Rightarrow> 'g \<Rightarrow> 'g metrics_state \<Rightarrow> bool" where
  "registered names g st \<longleftrightarrow>
     set (prom_collectors (ms_collector st)) = (\<Union>p \<in> ms_done st. set (package_metrics p)) \<and>
     distinct (metric_names (prom_collectors (ms_collector st))) \<and>
     names (ms_registry st) = names g \<union> set (metric_names (prom_collectors (ms_collector st)))"

lemma once_registered:
  assumes L: "registry_law mustRegister names" and F: "\<forall>p. set (metric_names (package_metrics p)) \<inter> names g = {}"
    and R: "registered names g st"
  shows "\<exists>st'. once_Do mustRegister p st = Some st' \<and> registered names g st' \<and> ms_done st' = insert p (ms_done st)"
proof (cases "p \<in> ms_done st")
  case True
  with R show ?thesis by (auto simp: once_Do_def insert_absorb)
next
  case False
  let ?reg = "set (metric_names (prom_collectors (ms_collector st)))"
  have reg: "?reg = (\<Union>q \<in> ms_done st. set (metric_names (package_metrics q)))"
    using R by (auto simp: registered_def)
  have "set (metric_names (package_metrics p)) \<inter> set (metric_names (package_metrics q)) = {}" if "q \<in> ms_done st" for q
    using False that by (intro package_names(2)) blast
  then have d: "set (metric_names (package_metrics p)) \<inter> ?reg = {}"
    unfolding reg Int_UN_distrib by blast
  have "names (ms_registry st) = names g \<union> ?reg" using R by (simp add: registered_def)
  then have "set (metric_names (package_metrics p)) \<inter> names (ms_registry st) = {}"
    using d F [rule_format, of p] by (simp only: Int_Un_distrib) simp
  from register_list_Some [OF L package_names(1) this, of "ms_collector st"] obtain g' where
    g': "register_list mustRegister (package_metrics p) (ms_collector st, ms_registry st) =
       Some ((ms_collector st)\<lparr>prom_collectors := prom_collectors (ms_collector st) @ package_metrics p\<rparr>, g')"
    "names g' = names (ms_registry st) \<union> set (metric_names (package_metrics p))" by blast
  with False R d package_names(1) [of p] show ?thesis
    by (auto simp: once_Do_def registered_def Int_commute)
qed

lemma construct_registered:
  assumes "registry_law mustRegister names" and "\<forall>p. set (metric_names (package_metrics p)) \<inter> names g = {}"
  shows "registered names g st \<Longrightarrow>
    \<exists>st'. construct mustRegister ps st = Some st' \<and> registered names g st' \<and> ms_done st' = set ps \<union> ms_done st"
proof (induction ps arbitrary: st)
  case (Cons p ps)
  obtain st1 where 1: "once_Do mustRegister p st = Some st1" "registered names g st1" "ms_done st1 = insert p (ms_done st)"
    using once_registered [OF assms Cons.prems] by blast
  from Cons.IH [OF 1(2)] 1 show ?case by (auto simp: registerMetricsOnce_Do)
qed simp

lemma update_ok_mono: "set a \<subseteq> set b \<Longrightarrow> update_ok a u \<Longrightarrow> update_ok b u"
  by (cases u) (auto simp: list_ex_iff)

text \<open>Without the once, a package whose constructor runs twice makes the registry panic.\<close>

lemma second_registration_panics:
  assumes "registry_law mustRegister names" and "register_list mustRegister ms (c, g) = Some (c', g')" and "ms \<noteq> []"
    and "distinct (metric_names ms)" "set (metric_names ms) \<inter> names g = {}"
  shows "register_list mustRegister ms (c', g') = None"
proof -
  obtain m rest where m: "ms = m # rest" using assms(3) by (cases ms) auto
  have "names g' = names g \<union> set (metric_names ms)" using register_list_Some [OF assms(1,4,5), of c] assms(2) by auto
  then have "mustRegister m g' = None" using assms(1) m unfolding registry_law_def by (metis UnI2 comp_apply list.set_intros(1) list.simps(9))
  with m show ?thesis
    by (cases m; cases "fst m") (auto simp: prom_RegisterCounter_def prom_RegisterGauge_def prom_RegisterTimer_def prom_register_def)
qed

section \<open>Properties\<close>

text \<open>
  C17: Whatever constructors run, in whatever order and however often, no registration panics: at the
  end exactly the metrics of the packages that were constructed are registered, each once, so that every update
  that is allowed for the metrics of such a package is allowed in the process. (The names must not be taken in the
  registry beforehand.)
\<close>

theorem metrics_registered_once:
  assumes "registry_law mustRegister names" and "\<forall>p. set (metric_names (package_metrics p)) \<inter> names g = {}"
  shows "\<exists>st. construct mustRegister ps (metrics_start g) = Some st \<and>
     distinct (metric_names (prom_collectors (ms_collector st))) \<and>
     set (prom_collectors (ms_collector st)) = (\<Union>p \<in> set ps. set (package_metrics p)) \<and>
     (\<forall>p u. p \<in> set ps \<longrightarrow> update_ok (package_metrics p) u \<longrightarrow> update_ok (prom_collectors (ms_collector st)) u)"
proof -
  have "registered names g (metrics_start g)" by (simp add: registered_def metrics_start_def prom_NewCollector_def)
  from construct_registered [OF assms this, of ps] obtain st where
    st: "construct mustRegister ps (metrics_start g) = Some st" "registered names g st" "ms_done st = set ps"
    by (auto simp: metrics_start_def)
  have "set (package_metrics p) \<subseteq> set (prom_collectors (ms_collector st))" if "p \<in> set ps" for p
    using st(2) that unfolding registered_def st(3) by blast
  then have "update_ok (prom_collectors (ms_collector st)) u" if "p \<in> set ps" "update_ok (package_metrics p) u" for p u
    using that update_ok_mono by blast
  with st show ?thesis unfolding registered_def by (intro exI [of _ st]) simp
qed

theorem metrics_registered_once_witness:
  "\<exists>st. construct (\<lambda>m g. if Opt_Name (snd m) \<in> g then None else Some (insert (Opt_Name (snd m)) g))
      [SocketPackage, KafkaPackage, SocketPackage] (metrics_start {}) = Some st \<and>
     set (prom_collectors (ms_collector st)) = set socket_registerMetrics \<union> set kafka_registerMetrics"
proof -
  have "registry_law (\<lambda>m g. if Opt_Name (snd m) \<in> g then None else Some (insert (Opt_Name (snd m)) g)) id"
    by (simp add: registry_law_def)
  from metrics_registered_once [OF this, of "{}" "[SocketPackage, KafkaPackage, SocketPackage]"] show ?thesis by auto
qed

text \<open>
  The report of the usage runs for ever as long as two ticks are at least a second apart; with the
  interval of a minute they normally are.
\<close>

lemma usage_loop_runs:
  assumes "successively (\<lambda>t t'. t' - t \<ge> 10 ^ 9) (lastSampleTime st # map tk_Now ts)"
  shows "usage_loop overflow ts st \<noteq> None"
  using assms
proof (induction ts arbitrary: st)
  case (Cons t ts)
  have "(tk_Now t - lastSampleTime st) div 10 ^ 9 \<noteq> 0"
    using Cons.prems by (simp add: zdiv_eq_0_iff)
  then obtain st' us where 1: "usage_step overflow (tk_Now t) (tk_Goroutines t) (tk_MemStats t) (tk_Custom t) st = Some (st', us)"
    and l: "lastSampleTime st' = tk_Now t"
    by (auto simp: usage_step_def Let_def)
  have "usage_loop overflow ts st' \<noteq> None" using Cons.prems by (intro Cons.IH) (simp add: l)
  with 1 show ?case by auto
qed simp

end
