(* ===== verification/Http_Server.thy ===== *)
theory Http_Server
  imports Server Airbrake Registration
begin

text \<open>
  The HTTP side of the streaming server (\<^verbatim>\<open>InitServer\<close> and the handlers it installs, \<^verbatim>\<open>server/streaming/server.go\<close>): the
  resources of the server, the metrics it registers, and what a request leads to. Paths are clean: the multiplexer
  redirects any other path before a handler sees it.
\<close>

section \<open>The server\<close>

text \<open>The registry and the channel are shared with the rest of the process; they are state and not resources here.\<close>

record ('p, 'n) server =
  srv_DispatchRules :: "string \<rightharpoonup> 'p list"
  srv_airbrakeHandler :: "'n airbrake_handler"
  srv_reliableAckSources :: "(string \<times> string) list"

text \<open>The address of the HTTP server, the streaming server, and the metrics afterwards; \<^const>\<open>None\<close> is a panic.\<close>

definition InitServer ::
    "'g must_register \<Rightarrow> config \<Rightarrow> 'n airbrake_handler \<Rightarrow> (string \<rightharpoonup> 'p list) \<Rightarrow> 'g metrics_state \<Rightarrow>
     (string \<times> ('p, 'n) server \<times> 'g metrics_state) option" where
  "InitServer mustRegister c airbrakeHandler producerRules ms =
     (let socketServer = \<lparr>srv_DispatchRules = producerRules, srv_airbrakeHandler = airbrakeHandler,
                          srv_reliableAckSources = cfg_ReliableAckSources c\<rparr>
      in do { ms \<leftarrow> registerServerMetricsOnce mustRegister ms; Some (InitServer_addr c, socketServer, ms) })"

text \<open>
  One request: the registry afterwards, the effects, the response that was written, and the notices to Airbrake. On
  a promoted connection nothing more is written to the response.
\<close>

definition server_ServeHTTP ::
    "'b flatbuffers \<Rightarrow> protobuf \<Rightarrow> (string \<Rightarrow> string option) \<Rightarrow> (string \<Rightarrow> http_request option \<Rightarrow> int \<Rightarrow> 'z notice_scheme) \<Rightarrow>
     (response \<Rightarrow> (string \<times> string list) list) \<Rightarrow> config \<Rightarrow> ('p, 'n) server \<Rightarrow> string \<Rightarrow> int \<Rightarrow> int \<Rightarrow> connection \<Rightarrow> socket_registry \<Rightarrow>
     (socket_registry \<times> 'p server_effect effect list \<times> response \<times> ('n \<times> 'z notice_scheme) list) option" where
  "server_ServeHTTP fb pb uuid_Parse NewNotice header c srv uuidStr start stop con reg =
     (case InitServer_route (req_URLPath (con_request con)) of
        StatusRoute \<Rightarrow>
          (let (w, notices) = WithReporting NewNotice rw header start stop (srv_airbrakeHandler srv) [WriteBody Status]
                                new_response (con_request con)
           in Some (reg, serveHTTPWithLogs uuidStr (con_request con) start stop [], w, notices))
      | WebsocketRoute \<Rightarrow>
          do { (reg, es) \<leftarrow> ServeBinaryWs fb pb uuid_Parse (srv_DispatchRules srv) c con reg;
               Some (reg, serveHTTPWithLogs uuidStr (con_request con) start stop es, new_response, []) })"

section \<open>What a request leads to\<close>

lemma actions_serveHTTPWithLogs [simp]: "actions (serveHTTPWithLogs u r start stop es) = actions es"
  by (simp add: serveHTTPWithLogs_def Let_def)

text \<open>
  The status page is answered with 200 and its text; it does not touch the registry, produces nothing and is
  logged by two lines. It takes no websocket and no identity: the handshake alone protects it.
\<close>

lemma status_request:
  assumes "req_URLPath (con_request con) = ''/status''"
  shows "\<exists>w logs. server_ServeHTTP fb pb uuid_Parse NewNotice header c srv uuidStr start stop con reg = Some (reg, map Log logs, w, []) \<and>
     length logs = 2 \<and> resp_sent w = Some (200, []) \<and> resp_body w = ''mtls ok''"
proof -
  have "\<exists>logs. serveHTTPWithLogs uuidStr (con_request con) start stop [] = map Log logs \<and> length logs = 2"
    by (auto simp: serveHTTPWithLogs_def intro: exI [of _ "[_, _]"])
  with assms show ?thesis
    by (auto simp: server_ServeHTTP_def InitServer_route_def WithReporting_def wrw_calls NewWrappedResponseWriter_def
        ShouldReportOnAirbrake_def Status_def answer_simps)
qed

text \<open>Every other request is a telemetry connection; the log lines around it are all that is added.\<close>

lemma websocket_request:
  assumes "req_URLPath (con_request con) \<noteq> ''/status''"
    and "ServeBinaryWs fb pb uuid_Parse (srv_DispatchRules srv) c con reg = Some (reg', es)"
  shows "\<exists>es'. server_ServeHTTP fb pb uuid_Parse NewNotice header c srv uuidStr start stop con reg = Some (reg', es', new_response, []) \<and>
     actions es' = actions es"
  using assms by (simp add: server_ServeHTTP_def InitServer_route_def)

text \<open>The server is made with the rules and the sources of the configuration, and its metrics are registered.\<close>

lemma InitServer_Some:
  assumes "registry_law mustRegister names" and "\<forall>p. set (metric_names (package_metrics p)) \<inter> names g = {}"
    and "registered names g ms"
  shows "\<exists>srv ms'. InitServer mustRegister c airbrakeHandler producerRules ms = Some (InitServer_addr c, srv, ms') \<and>
     srv_DispatchRules srv = producerRules \<and> srv_reliableAckSources srv = cfg_ReliableAckSources c \<and>
     ServerPackage \<in> ms_done ms' \<and> registered names g ms'"
  using once_registered [OF assms, of ServerPackage]
  by (auto simp: InitServer_def registerServerMetricsOnce_def)

end
