(* ===== verification/Control_Plane.thy ===== *)
theory Control_Plane
  imports Startup
begin

text \<open>
  The control plane (\<^verbatim>\<open>cmd/controlplane/main.go\<close>), which reports whether the telemetry endpoint is up by
  verifying its TLS certificate, and the health check of the container (\<^verbatim>\<open>cmd/healthcheck/main.go\<close>). The
  network is an argument.
\<close>

section \<open>Configuration\<close>

record application_config =
  ListenAddress :: string
  TelemetryEndpoint :: string
  TelemetryHost :: string

datatype control_error = InvalidPort string | InvalidEndpoint string | InvalidEndpointPort string

definition control_defaultPort :: int where "control_defaultPort = 8080"

definition defaultTelemetryEndpoint :: string where
  "defaultTelemetryEndpoint = ''telemetry.tlabcontrol.com:37532''"

text \<open>\<^const>\<open>defaultHost\<close> is the same constant in both executables.\<close>

definition loadConfig :: "getenv \<Rightarrow> control_error + application_config" where
  "loadConfig env =
     (let host = TrimSpace (env ''HOST''); host = (if host = [] then defaultHost else host);
          rawPort = TrimSpace (env ''PORT'')
      in case (if rawPort = [] then Inr control_defaultPort
               else case Atoi rawPort of
                      None \<Rightarrow> Inl (InvalidPort rawPort)
                    | Some parsedPort \<Rightarrow>
                        if parsedPort < 1 \<or> parsedPort > 65535 then Inl (InvalidPort rawPort) else Inr parsedPort) of
           Inl err \<Rightarrow> Inl err
         | Inr port \<Rightarrow>
             (let endpoint = TrimSpace (env ''TELEMETRY_ENDPOINT'');
                  endpoint = (if endpoint = [] then defaultTelemetryEndpoint else endpoint)
              in case SplitHostPort endpoint of
                   Inl _ \<Rightarrow> Inl (InvalidEndpoint endpoint)
                 | Inr (telemetryHost, rawPort) \<Rightarrow>
                     if TrimSpace telemetryHost = [] then Inl (InvalidEndpoint endpoint)
                     else case Atoi rawPort of
                            None \<Rightarrow> Inl (InvalidEndpointPort rawPort)
                          | Some telemetryPort \<Rightarrow>
                              if telemetryPort < 1 \<or> telemetryPort > 65535 then Inl (InvalidEndpointPort rawPort)
                              else Inr \<lparr>ListenAddress = JoinHostPort host (Itoa port), TelemetryEndpoint = endpoint,
                                     TelemetryHost = telemetryHost\<rparr>))"

section \<open>The probe\<close>

text \<open>
  The errors of a TLS handshake: the mark that the code returns to stop after the certificate was
  verified, the error of an unverified chain, and all others.
\<close>

datatype handshake_error = CertificateVerified | ChainNotVerified | HandshakeFailed string

definition VerifyConnection :: "string list list \<Rightarrow> handshake_error option" where
  "VerifyConnection verifiedChains =
     (if length verifiedChains = 0 then Some ChainNotVerified else Some CertificateVerified)"

text \<open>
  A client handshake: the peer fails it, or its certificate chains reach the callback, whose error ends
  it; without an error it completes.
\<close>

definition client_handshake ::
    "(string \<Rightarrow> string \<Rightarrow> string + string list list) \<Rightarrow> string \<Rightarrow> string \<Rightarrow> (string list list \<Rightarrow> handshake_error option) \<Rightarrow>
     handshake_error option" where
  "client_handshake peer endpoint serverName callback =
     (case peer endpoint serverName of Inl err \<Rightarrow> Some (HandshakeFailed err) | Inr verified \<Rightarrow> callback verified)"

datatype probe_error = ConnectError string string | VerifyFailed string handshake_error

definition verifyTelemetryTLS ::
    "(string \<Rightarrow> string option) \<Rightarrow> (string \<Rightarrow> string \<Rightarrow> string + string list list) \<Rightarrow> string \<Rightarrow> string \<Rightarrow> probe_error option" where
  "verifyTelemetryTLS dial peer endpoint serverName =
     (case dial endpoint of
        Some err \<Rightarrow> Some (ConnectError endpoint err)
      | None \<Rightarrow>
          (case client_handshake peer endpoint serverName VerifyConnection of
             Some CertificateVerified \<Rightarrow> None
           | Some err \<Rightarrow> Some (VerifyFailed endpoint err)
           | None \<Rightarrow> None))"

section \<open>The handler\<close>

record health_response =
  HR_Status :: string
  HR_Component :: string
  HR_TelemetryEndpoint :: string
  HR_Error :: string

text \<open>\<^verbatim>\<open>encode\<close> is the JSON encoder.\<close>

definition healthHandler ::
    "(health_response \<Rightarrow> bytes) \<Rightarrow> application_config \<Rightarrow> 'e option \<Rightarrow> rw_call list" where
  "healthHandler encode config probed =
     (let response = \<lparr>HR_Status = ''healthy'', HR_Component = ''vercel-control-plane'',
            HR_TelemetryEndpoint = TelemetryEndpoint config, HR_Error = []\<rparr>;
          (statusCode, response) = (case probed of
              None \<Rightarrow> (200, response)
            | Some err \<Rightarrow> (503, response\<lparr>HR_Status := ''unhealthy'',
                HR_Error := ''persistent telemetry TLS endpoint is unavailable''\<rparr>))
      in [HeaderSet ''Content-Type'' ''application/json'', WriteHeader statusCode, WriteBody (encode response)])"

text \<open>
  The patterns \<^verbatim>\<open>GET /\<close>, \<^verbatim>\<open>GET /health\<close> and \<^verbatim>\<open>GET /healthz\<close> have one handler, so that every path has it, for
  \<^verbatim>\<open>GET\<close> and \<^verbatim>\<open>HEAD\<close>; the multiplexer refuses other methods.
\<close>

definition method_not_allowed :: "rw_call list" where
  "method_not_allowed =
     [HeaderSet ''Allow'' ''GET, HEAD'', HeaderSet ''Content-Type'' ''text/plain; charset=utf-8'',
      HeaderSet ''X-Content-Type-Options'' ''nosniff'', WriteHeader 405, WriteBody (''Method Not Allowed'' @ [CHR 0x0A])]"

definition newHandler ::
    "(health_response \<Rightarrow> bytes) \<Rightarrow> application_config \<Rightarrow> 'e option \<Rightarrow> request \<Rightarrow> rw_call list" where
  "newHandler encode config probed r =
     (if request_Method r \<in> {''GET'', ''HEAD''} then healthHandler encode config probed else method_not_allowed)"

text \<open>The process: its log lines and its error.\<close>

datatype control_failure = ControlConfiguration control_error | ControlStopped serve_error

definition control_run :: "getenv \<Rightarrow> stop \<Rightarrow> log_entry list \<times> control_failure option" where
  "control_run env stop =
     (case loadConfig env of
        Inl err \<Rightarrow> ([], Some (ControlConfiguration err))
      | Inr config \<Rightarrow>
          (let started = LogLine INFO ''control_plane_started''
                 [(''address'', GStr (ListenAddress config)), (''telemetry_endpoint'', GStr (TelemetryEndpoint config))]
           in case stop of
                ServeEnds err \<Rightarrow> ([started], if err = ErrServerClosed then None else Some (ControlStopped err))
              | Signalled signal err \<Rightarrow>
                  ([started, LogLine INFO ''control_plane_shutdown_requested'' [(''signal'', GStr signal)]],
                   map_option ControlStopped err)))"

section \<open>The health check of the container\<close>

text \<open>\<^verbatim>\<open>get\<close> is a request with its status or error. The result is the text on stderr and the exit code.\<close>

definition healthcheck_url :: "getenv \<Rightarrow> string" where
  "healthcheck_url env =
     (let port = env ''STATUS_PORT''; port = (if port = [] then ''8080'' else port)
      in ''http://127.0.0.1:'' @ port @ ''/healthz'')"

definition healthcheck_main :: "(string \<Rightarrow> string + int) \<Rightarrow> getenv \<Rightarrow> string \<times> int" where
  "healthcheck_main get env =
     (case get (healthcheck_url env) of
        Inl err \<Rightarrow> (''health check request failed: '' @ err @ [CHR 0x0A], 1)
      | Inr statusCode \<Rightarrow>
          if statusCode \<noteq> 200 then (''health check returned HTTP '' @ Itoa statusCode @ [CHR 0x0A], 1) else ([], 0))"

section \<open>The addresses of the control plane\<close>

lemma itoa_no_brackets: "0 \<le> n \<Longrightarrow> set (Itoa n) \<inter> {CHR '':'', CHR ''['', CHR '']''} = {}"
  using itoa_nat_digits [of "nat n"] by (auto simp: Itoa_def list_all_iff is_digit_def)

lemma TrimSpace_subset: "set (TrimSpace s) \<subseteq> set s"
  using set_mono_suffix [OF trim_with_suffix [of "map rev white_space" "rev (trim_with white_space s)"]]
    set_mono_suffix [OF trim_with_suffix [of white_space s]]
  by (auto simp: TrimSpace_def)

lemma loadConfig_Inr:
  assumes "loadConfig env = Inr c"
  obtains port h p n where
      "ListenAddress c = JoinHostPort (if TrimSpace (env ''HOST'') = [] then ''0.0.0.0'' else TrimSpace (env ''HOST'')) (Itoa port)"
      "if TrimSpace (env ''PORT'') = [] then port = 8080 else Atoi (TrimSpace (env ''PORT'')) = Some port" "1 \<le> port" "port \<le> 65535"
      "TelemetryEndpoint c = (if TrimSpace (env ''TELEMETRY_ENDPOINT'') = [] then defaultTelemetryEndpoint else TrimSpace (env ''TELEMETRY_ENDPOINT''))"
      "SplitHostPort (TelemetryEndpoint c) = Inr (h, p)" "TelemetryHost c = h" "TrimSpace h \<noteq> []"
      "Atoi p = Some n" "1 \<le> n" "n \<le> 65535"
  using assms
  by (auto simp: loadConfig_def Let_def defaultHost_def control_defaultPort_def split: if_splits option.splits sum.splits)

text \<open>
  A control plane that starts listens on the host and port of its environment, or \<^verbatim>\<open>0.0.0.0\<close> and 8080,
  and its listen address splits into these again, also when the host is an IPv6 address; the port is between 1
  and 65535. The telemetry endpoint is a host and a port in that range, and its host is the name under
  which the certificate is checked.
\<close>

theorem control_plane_addresses:
  assumes "loadConfig env = Inr c" and "CHR ''['' \<notin> set (env ''HOST'')" and "CHR '']'' \<notin> set (env ''HOST'')"
  shows "(\<exists>port. SplitHostPort (ListenAddress c) =
             Inr (if TrimSpace (env ''HOST'') = [] then ''0.0.0.0'' else TrimSpace (env ''HOST''), Itoa port) \<and>
           (if TrimSpace (env ''PORT'') = [] then port = 8080 else Atoi (TrimSpace (env ''PORT'')) = Some port) \<and>
           1 \<le> port \<and> port \<le> 65535) \<and>
         (\<exists>p n. SplitHostPort (TelemetryEndpoint c) = Inr (TelemetryHost c, p) \<and> Atoi p = Some n \<and> 1 \<le> n \<and> n \<le> 65535)"
proof -
  let ?host = "if TrimSpace (env ''HOST'') = [] then ''0.0.0.0'' else TrimSpace (env ''HOST'')"
  obtain port h p n where l: "ListenAddress c = JoinHostPort ?host (Itoa port)"
      "if TrimSpace (env ''PORT'') = [] then port = 8080 else Atoi (TrimSpace (env ''PORT'')) = Some port" "1 \<le> port" "port \<le> 65535"
    and t: "SplitHostPort (TelemetryEndpoint c) = Inr (h, p)" "TelemetryHost c = h" "Atoi p = Some n" "1 \<le> n" "n \<le> 65535"
    by (rule loadConfig_Inr [OF assms(1)]) blast
  have "set ?host \<inter> {CHR ''['', CHR '']''} = {}"
    using assms(2,3) TrimSpace_subset [of "env ''HOST''"] by auto
  then have "SplitHostPort (ListenAddress c) = Inr (?host, Itoa port)"
    unfolding l(1) using SplitHostPort_JoinHostPort [OF _ itoa_no_brackets [of port]] l(3) by simp
  with l(2-4) t show ?thesis by (intro conjI exI [of _ port] exI [of _ p] exI [of _ n]) simp_all
qed

lemma loadConfig_default:
  "loadConfig (\<lambda>_. []) = Inr \<lparr>ListenAddress = ''0.0.0.0:8080'', TelemetryEndpoint = ''telemetry.tlabcontrol.com:37532'',
     TelemetryHost = ''telemetry.tlabcontrol.com''\<rparr>"
proof -
  have "SplitHostPort ''telemetry.tlabcontrol.com:37532'' = Inr (''telemetry.tlabcontrol.com'', ''37532'')"
    using SplitHostPort_plain [of "''telemetry.tlabcontrol.com''" "''37532''"] by simp
  moreover have "Atoi ''37532'' = Some 37532" using Atoi_Itoa [of 37532] by (simp add: itoa_eval)
  moreover have "TrimSpace ''telemetry.tlabcontrol.com'' \<noteq> []" by (rule TrimSpace_ne [of "CHR ''t''"]) simp_all
  ultimately show ?thesis
    by (simp add: loadConfig_def defaultTelemetryEndpoint_def defaultHost_def control_defaultPort_def JoinHostPort_def itoa_eval)
qed

theorem control_plane_addresses_witness:
  "\<exists>c port. loadConfig (\<lambda>_. []) = Inr c \<and> SplitHostPort (ListenAddress c) = Inr (''0.0.0.0'', Itoa port) \<and> port = 8080"
  using control_plane_addresses [OF loadConfig_default] loadConfig_default by fastforce

lemma verifyTelemetryTLS_None:
  "verifyTelemetryTLS dial peer endpoint name = None \<longleftrightarrow>
     dial endpoint = None \<and> (\<exists>verified. peer endpoint name = Inr verified \<and> verified \<noteq> [])"
  by (auto simp: verifyTelemetryTLS_def client_handshake_def VerifyConnection_def split: option.splits sum.splits)

lemma healthHandler_answer:
  "answer (healthHandler encode c probed) =
     (if probed = None then 200 else 503, [(''Content-Type'', ''application/json'')],
      encode \<lparr>HR_Status = (if probed = None then ''healthy'' else ''unhealthy''), HR_Component = ''vercel-control-plane'',
        HR_TelemetryEndpoint = TelemetryEndpoint c,
        HR_Error = (if probed = None then [] else ''persistent telemetry TLS endpoint is unavailable'')\<rparr>)"
  by (cases probed) (simp_all add: healthHandler_def answer_simps)

text \<open>
  Whatever the path, a \<^verbatim>\<open>GET\<close> is answered with 200 and healthy if and only if the configured telemetry
  endpoint accepts a connection and presents a certificate chain that is verified for the host of that
  endpoint; otherwise with 503 and unhealthy. The endpoint is not required to accept the connection of
  the control plane, which has no client certificate.
\<close>

theorem control_plane_health:
  assumes "loadConfig env = Inr c" and "request_Method r = ''GET''"
  shows "\<exists>host port. SplitHostPort (TelemetryEndpoint c) = Inr (host, port) \<and>
    (let up = (dial (TelemetryEndpoint c) = None \<and> (\<exists>verified. peer (TelemetryEndpoint c) host = Inr verified \<and> verified \<noteq> []))
     in answer (newHandler encode c (verifyTelemetryTLS dial peer (TelemetryEndpoint c) (TelemetryHost c)) r) =
          (if up then 200 else 503, [(''Content-Type'', ''application/json'')],
           encode \<lparr>HR_Status = (if up then ''healthy'' else ''unhealthy''), HR_Component = ''vercel-control-plane'',
             HR_TelemetryEndpoint = TelemetryEndpoint c,
             HR_Error = (if up then [] else ''persistent telemetry TLS endpoint is unavailable'')\<rparr>))"
proof -
  obtain h p where "SplitHostPort (TelemetryEndpoint c) = Inr (h, p)" "TelemetryHost c = h"
    by (rule loadConfig_Inr [OF assms(1)]) blast
  then show ?thesis using assms(2) by (simp add: newHandler_def healthHandler_answer verifyTelemetryTLS_None)
qed

theorem control_plane_health_witness:
  "\<exists>c body. loadConfig (\<lambda>_. []) = Inr c \<and>
     answer (newHandler (\<lambda>h. HR_Status h) c (verifyTelemetryTLS (\<lambda>_. None) (\<lambda>_ _. Inr [[''leaf'']]) (TelemetryEndpoint c) (TelemetryHost c))
       \<lparr>request_Method = ''GET'', request_Path = ''/''\<rparr>) = (200, [(''Content-Type'', ''application/json'')], ''healthy'')"
proof -
  have "request_Method \<lparr>request_Method = ''GET'', request_Path = ''/''\<rparr> = ''GET''" by simp
  from control_plane_health [OF loadConfig_default this, of "\<lambda>_. None" "\<lambda>_ _. Inr [[''leaf'']]" "\<lambda>h. HR_Status h"] loadConfig_default
  show ?thesis by (auto simp: Let_def)
qed

section \<open>The health check and the status server\<close>

lemma white_space_no_digit: "list_all (\<lambda>w. list_all (\<lambda>c. \<not> is_digit c) w) white_space"
  by code_simp

lemma TrimSpace_digits:
  assumes "list_all is_digit s"
  shows "TrimSpace s = s"
proof -
  have no: "\<not> prefix p t" if p: "p \<in> set white_space \<union> set (map rev white_space)" "p \<noteq> []" and t: "list_all is_digit t" for p t
  proof
    assume "prefix p t"
    moreover have "hd p \<in> set p" using p(2) by simp
    ultimately have "is_digit (hd p)" using t by (auto simp: prefix_def list_all_iff)
    with p(1) \<open>hd p \<in> set p\<close> white_space_no_digit show False by (auto simp: list_all_iff)
  qed
  have "trim_with white_space s = s" by (rule trim_with_id) (use no assms in blast)
  moreover have "trim_with (map rev white_space) (rev s) = rev s"
    by (rule trim_with_id) (use no [of _ "rev s"] assms in \<open>simp add: list_all_iff\<close>)
  ultimately show ?thesis by (simp add: TrimSpace_def)
qed

text \<open>
  The health check of the container asks the status server that the process started: if the status
  port is set in the environment, as a plain positive number, or is the default, then the address of the
  request is the port the server binds and the path one of its three, so that it answers 200 and the
  check succeeds. (A port set in the configuration file only is not seen by the check.)
\<close>

theorem healthcheck_of_status_server:
  assumes "loadApplicationConfig fs environ file = Inr c" and "file = Decoded f \<or> file = NotExist \<and> f = empty_config"
    and "Getenv environ ''STATUS_PORT'' = Itoa n \<and> 0 < n \<and> n \<le> 65535 \<or> Getenv environ ''STATUS_PORT'' = [] \<and> cfg_StatusPort f \<in> {0, 8080}"
    and "\<And>path. get (''http://127.0.0.1:'' @ Itoa (cfg_StatusPort c) @ path) =
           Inr (fst (the (resp_sent (fst (status_mux NewNotice header start stop h \<lparr>request_Method = ''GET'', request_Path = path\<rparr>)))))"
  shows "healthcheck_main get (Getenv environ) = ([], 0) \<and> status_address c = ''0.0.0.0:'' @ Itoa (cfg_StatusPort c) \<and> cfg_StatusPort c > 0"
proof -
  obtain c0 c1 where c0: "file = Decoded c0 \<or> file = NotExist \<and> c0 = empty_config"
    and e: "applyEnvironmentOverrides (Getenv environ) (applySafeDefaults c0) = Inr c1"
    and m: "materializeInlineTLSSecrets fs (Getenv environ) c1 = Inr c"
    by (rule loadApplicationConfig_steps [OF assms(1)])
  have f: "c0 = f" using c0 assms(2) by auto
  have "int_setting (Getenv environ) ''STATUS_PORT'' (cfg_StatusPort f) 8080 = Some (cfg_StatusPort c)"
    using applyEnvironmentOverrides_fields(3) [OF e, unfolded applySafeDefaults_fields f] overrideInt_setting
      no_tls_fields(3) [OF no_tls_materialize [OF m]] by simp
  moreover have "TrimSpace (Itoa n) = Itoa n" "Atoi (Itoa n) = Some n" "Itoa n \<noteq> []" if "0 < n" "n \<le> 65535"
    using that TrimSpace_digits [OF itoa_nat_digits [of "nat n"]] Atoi_Itoa [of n] by (simp_all add: Itoa_def)
  moreover have "Itoa 8080 = ''8080''" by (simp add: itoa_eval)
  ultimately have url: "healthcheck_url (Getenv environ) = ''http://127.0.0.1:'' @ Itoa (cfg_StatusPort c) @ ''/healthz''"
    and "cfg_StatusPort c > 0"
    using assms(3) by (auto simp: int_setting_def healthcheck_url_def Let_def)
  have "get (''http://127.0.0.1:'' @ Itoa (cfg_StatusPort c) @ ''/healthz'') = Inr 200"
    unfolding assms(4) by (simp add: status_mux_eq status_paths_def monitoring_Status_def answer_simps)
  then have "healthcheck_main get (Getenv environ) = ([], 0)" unfolding healthcheck_main_def url by simp
  with \<open>cfg_StatusPort c > 0\<close> show ?thesis by (simp add: status_address_def)
qed

definition example_get :: "string \<Rightarrow> string + int" where
  "example_get url = Inr (fst (the (resp_sent (fst (status_mux (\<lambda>_ _ _. \<lparr>Params = []\<rparr>) (\<lambda>_. []) 0 0 (NewAirbrakeHandler (None :: unit option))
     \<lparr>request_Method = ''GET'', request_Path = drop 21 url\<rparr>)))))"

theorem healthcheck_of_status_server_witness:
  "\<exists>c. loadApplicationConfig empty_fs Map.empty NotExist = Inr c \<and> healthcheck_main example_get (Getenv Map.empty) = ([], 0)"
proof -
  have port: "cfg_StatusPort (applySafeDefaults empty_config) = 8080"
    by (simp add: applySafeDefaults_fields empty_config_def)
  have f: "NotExist = Decoded empty_config \<or> NotExist = NotExist \<and> empty_config = empty_config" by simp
  have env: "Getenv Map.empty ''STATUS_PORT'' = [] \<and> cfg_StatusPort empty_config \<in> {0, 8080}"
    by (simp add: Getenv_def empty_config_def)
  have get: "example_get (''http://127.0.0.1:'' @ Itoa (cfg_StatusPort (applySafeDefaults empty_config)) @ path) =
      Inr (fst (the (resp_sent (fst (status_mux (\<lambda>_ _ _. \<lparr>Params = []\<rparr>) (\<lambda>_. []) 0 0 (NewAirbrakeHandler (None :: unit option))
        \<lparr>request_Method = ''GET'', request_Path = path\<rparr>)))))" for path
    by (simp add: example_get_def port itoa_eval)
  from healthcheck_of_status_server [OF load_example f disjI2 [OF env] get] load_example show ?thesis by blast
qed

end
