(* ===== verification/Cert_Tools.thy ===== *)
theory Cert_Tools
  imports Config_Producers Mqtt
begin

text \<open>
  The generator of test certificates (\<^verbatim>\<open>tools/lib/certs.go\<close>, \<^verbatim>\<open>tools/main.go\<close>): templates, key pairs, files, and
  the names of the files, which come from the identity that the server will see in the certificate. The
  random generator, the x509 library and the failures of the file system are arguments; the files are a
  map. An error that ends the process (\<^verbatim>\<open>log.Fatal\<close>) is its message.
\<close>

section \<open>Templates\<close>

datatype key_usage = KeyUsageKeyEncipherment | KeyUsageDigitalSignature | KeyUsageCertSign
datatype ext_key_usage = ExtKeyUsageServerAuth | ExtKeyUsageClientAuth

text \<open>Times are nanoseconds. An address that does not parse is nil in the list of addresses.\<close>

record cert_template =
  T_SerialNumber :: int
  T_CommonName :: string
  T_Organization :: "string list"
  T_OrganizationalUnit :: "string list"
  T_NotBefore :: int
  T_NotAfter :: int
  T_KeyUsage :: "key_usage list"
  T_ExtKeyUsage :: "ext_key_usage list"
  T_BasicConstraintsValid :: bool
  T_IsCA :: bool
  T_DNSNames :: "string list"
  T_IPAddresses :: "bytes option list"

datatype ('d, 'k) pem_block = CertificatePEM 'd | PrivateKeyPEM 'k

type_synonym ('d, 'k) file_store = "string \<rightharpoonup> ('d, 'k) pem_block"

record 'k test_cert_and_key =
  TC_CertFile :: string
  TC_KeyFile :: string
  TC_Cert :: x509_certificate
  TC_privateKey :: 'k

text \<open>
  The world of the tool. The generated certificates are numbered: the number selects the random key and
  serial number, the readings of the clock and the temporary files. \<^verbatim>\<open>CreateCertificate\<close> gets the template, the common
  name of the subject of the parent, the key and the signing key.
\<close>

record ('d, 'k) tool_world =
  tw_GenerateKey :: "nat \<Rightarrow> string + 'k"
  tw_RandInt :: "nat \<Rightarrow> int \<Rightarrow> string + int"
  tw_Now :: "nat \<Rightarrow> nat \<Rightarrow> int"
  tw_ParseIP :: "string \<Rightarrow> bytes option"
  tw_CreateCertificate :: "cert_template \<Rightarrow> string \<Rightarrow> 'k \<Rightarrow> 'k \<Rightarrow> string + 'd"
  tw_ParseCertificate :: "'d \<Rightarrow> string + x509_certificate"
  tw_CreateTemp :: "nat \<Rightarrow> string \<Rightarrow> string + string"
  tw_Create :: "string \<Rightarrow> string option"
  tw_Remove :: "string \<Rightarrow> string option"

abbreviation Hour_ns :: int where "Hour_ns \<equiv> 3600 * Second_ns"

definition validity :: "int \<Rightarrow> int \<Rightarrow> int" where
  "validity CertValidity notBefore = notBefore + duration CertValidity Hour_ns"

definition GenerateSerialNumber :: "('d, 'k) tool_world \<Rightarrow> nat \<Rightarrow> string + int" where
  "GenerateSerialNumber W i = tw_RandInt W i (2 ^ 128)"

definition GeneratePrivateKeyAndSerialNumber :: "('d, 'k) tool_world \<Rightarrow> nat \<Rightarrow> string + 'k \<times> int" where
  "GeneratePrivateKeyAndSerialNumber W i =
     then_do (tw_GenerateKey W i) (\<lambda>privateKey.
     then_do (GenerateSerialNumber W i) (\<lambda>serialNumber. Inr (privateKey, serialNumber)))"

definition server_template ::
    "('d, 'k) tool_world \<Rightarrow> int \<Rightarrow> int \<Rightarrow> string \<Rightarrow> string list \<Rightarrow> string list \<Rightarrow> int \<Rightarrow> cert_template" where
  "server_template W CertValidity serialNumber commonName sanDomains sanIPs notBefore =
     \<lparr>T_SerialNumber = serialNumber, T_CommonName = commonName, T_Organization = [''Test Co''], T_OrganizationalUnit = [],
      T_NotBefore = notBefore, T_NotAfter = validity CertValidity notBefore,
      T_KeyUsage = [KeyUsageKeyEncipherment, KeyUsageDigitalSignature], T_ExtKeyUsage = [ExtKeyUsageServerAuth],
      T_BasicConstraintsValid = True, T_IsCA = False, T_DNSNames = [commonName] @ sanDomains,
      T_IPAddresses = map (tw_ParseIP W) sanIPs\<rparr>"

text \<open>The clock is read once for each of the two times.\<close>

definition root_template :: "int \<Rightarrow> int \<Rightarrow> string \<Rightarrow> string list \<Rightarrow> int \<Rightarrow> int \<Rightarrow> cert_template" where
  "root_template CertValidity serialNumber commonName organizationalUnit now1 now2 =
     \<lparr>T_SerialNumber = serialNumber, T_CommonName = commonName, T_Organization = [''Test Co''],
      T_OrganizationalUnit = organizationalUnit, T_NotBefore = now1, T_NotAfter = validity CertValidity now2,
      T_KeyUsage = [KeyUsageKeyEncipherment, KeyUsageDigitalSignature, KeyUsageCertSign], T_ExtKeyUsage = [],
      T_BasicConstraintsValid = True, T_IsCA = True, T_DNSNames = [], T_IPAddresses = []\<rparr>"

definition client_template :: "int \<Rightarrow> int \<Rightarrow> string \<Rightarrow> int \<Rightarrow> cert_template" where
  "client_template CertValidity serialNumber commonName notBefore =
     \<lparr>T_SerialNumber = serialNumber, T_CommonName = commonName, T_Organization = [''Test Co''],
      T_OrganizationalUnit = (if prefix ''board'' commonName then [''Tesla Motors SN''] else []),
      T_NotBefore = notBefore, T_NotAfter = validity CertValidity notBefore,
      T_KeyUsage = [KeyUsageKeyEncipherment, KeyUsageDigitalSignature], T_ExtKeyUsage = [ExtKeyUsageClientAuth],
      T_BasicConstraintsValid = False, T_IsCA = False, T_DNSNames = [], T_IPAddresses = []\<rparr>"

definition client_template_ou :: "int \<Rightarrow> int \<Rightarrow> string \<Rightarrow> string \<Rightarrow> string \<Rightarrow> int \<Rightarrow> int \<Rightarrow> cert_template" where
  "client_template_ou CertValidity serialNumber commonName organization organizationalUnit now1 now2 =
     \<lparr>T_SerialNumber = serialNumber, T_CommonName = commonName, T_Organization = [organization],
      T_OrganizationalUnit = [organizationalUnit], T_NotBefore = now1, T_NotAfter = validity CertValidity now2,
      T_KeyUsage = [KeyUsageKeyEncipherment, KeyUsageDigitalSignature], T_ExtKeyUsage = [ExtKeyUsageClientAuth],
      T_BasicConstraintsValid = False, T_IsCA = False, T_DNSNames = [], T_IPAddresses = []\<rparr>"

section \<open>Certificates and files\<close>

text \<open>The result is a certificate with its two temporary files, and the files.\<close>

definition makeTestCertAndKey ::
    "('d, 'k) tool_world \<Rightarrow> nat \<Rightarrow> 'k \<Rightarrow> cert_template \<Rightarrow> string \<Rightarrow> 'k \<Rightarrow> ('d, 'k) file_store \<Rightarrow>
     string + 'k test_cert_and_key \<times> ('d, 'k) file_store" where
  "makeTestCertAndKey W i privateKey template parent parentPrivateKey files =
     then_do (tw_CreateCertificate W template parent privateKey parentPrivateKey) (\<lambda>derBytes.
     then_do (tw_ParseCertificate W derBytes) (\<lambda>fullCert.
     then_do (tw_CreateTemp W i ''cert'') (\<lambda>certOut.
     then_do (tw_CreateTemp W i ''key'') (\<lambda>keyOut.
       Inr (\<lparr>TC_CertFile = certOut, TC_KeyFile = keyOut, TC_Cert = fullCert, TC_privateKey = privateKey\<rparr>,
            files(certOut \<mapsto> CertificatePEM derBytes, keyOut \<mapsto> PrivateKeyPEM privateKey))))))"

definition GenerateServerTestKeyAndCertWithDate ::
    "('d, 'k) tool_world \<Rightarrow> int \<Rightarrow> nat \<Rightarrow> string \<Rightarrow> string list \<Rightarrow> string list \<Rightarrow> 'k test_cert_and_key \<Rightarrow> int \<Rightarrow>
     ('d, 'k) file_store \<Rightarrow> string + 'k test_cert_and_key \<times> ('d, 'k) file_store" where
  "GenerateServerTestKeyAndCertWithDate W CertValidity i commonName sanDomains sanIPs parent notBefore files =
     then_do (GeneratePrivateKeyAndSerialNumber W i) (\<lambda>(privateKey, serialNumber).
       makeTestCertAndKey W i privateKey (server_template W CertValidity serialNumber commonName sanDomains sanIPs notBefore)
         (Subject_CommonName (TC_Cert parent)) (TC_privateKey parent) files)"

definition GenerateServerTestKeyAndCert ::
    "('d, 'k) tool_world \<Rightarrow> int \<Rightarrow> nat \<Rightarrow> string \<Rightarrow> string list \<Rightarrow> string list \<Rightarrow> 'k test_cert_and_key \<Rightarrow>
     ('d, 'k) file_store \<Rightarrow> string + 'k test_cert_and_key \<times> ('d, 'k) file_store" where
  "GenerateServerTestKeyAndCert W CertValidity i commonName sanDomains sanIPs parent files =
     GenerateServerTestKeyAndCertWithDate W CertValidity i commonName sanDomains sanIPs parent (tw_Now W i 0) files"

text \<open>The root signs itself: its template is its parent.\<close>

definition GenerateRootSigningCert ::
    "('d, 'k) tool_world \<Rightarrow> int \<Rightarrow> nat \<Rightarrow> string \<Rightarrow> string list \<Rightarrow> ('d, 'k) file_store \<Rightarrow>
     string + 'k test_cert_and_key \<times> ('d, 'k) file_store" where
  "GenerateRootSigningCert W CertValidity i commonName organizationalUnit files =
     then_do (GeneratePrivateKeyAndSerialNumber W i) (\<lambda>(privateKey, serialNumber).
       let template = root_template CertValidity serialNumber commonName organizationalUnit (tw_Now W i 0) (tw_Now W i 1)
       in makeTestCertAndKey W i privateKey template (T_CommonName template) privateKey files)"

definition GenerateClientTestKeyAndCertWithDate ::
    "('d, 'k) tool_world \<Rightarrow> int \<Rightarrow> nat \<Rightarrow> string \<Rightarrow> 'k test_cert_and_key \<Rightarrow> int \<Rightarrow> ('d, 'k) file_store \<Rightarrow>
     string + 'k test_cert_and_key \<times> ('d, 'k) file_store" where
  "GenerateClientTestKeyAndCertWithDate W CertValidity i commonName parent notBefore files =
     then_do (GeneratePrivateKeyAndSerialNumber W i) (\<lambda>(privateKey, serialNumber).
       makeTestCertAndKey W i privateKey (client_template CertValidity serialNumber commonName notBefore)
         (Subject_CommonName (TC_Cert parent)) (TC_privateKey parent) files)"

definition GenerateClientTestKeyAndCert ::
    "('d, 'k) tool_world \<Rightarrow> int \<Rightarrow> nat \<Rightarrow> string \<Rightarrow> 'k test_cert_and_key \<Rightarrow> ('d, 'k) file_store \<Rightarrow>
     string + 'k test_cert_and_key \<times> ('d, 'k) file_store" where
  "GenerateClientTestKeyAndCert W CertValidity i commonName parent files =
     GenerateClientTestKeyAndCertWithDate W CertValidity i commonName parent (tw_Now W i 0) files"

definition GenerateClientTestKeyAndCertWithOU ::
    "('d, 'k) tool_world \<Rightarrow> int \<Rightarrow> nat \<Rightarrow> string \<Rightarrow> string \<Rightarrow> string \<Rightarrow> 'k test_cert_and_key \<Rightarrow> ('d, 'k) file_store \<Rightarrow>
     string + 'k test_cert_and_key \<times> ('d, 'k) file_store" where
  "GenerateClientTestKeyAndCertWithOU W CertValidity i commonName organization organizationalUnit parent files =
     then_do (GeneratePrivateKeyAndSerialNumber W i) (\<lambda>(privateKey, serialNumber).
       makeTestCertAndKey W i privateKey
         (client_template_ou CertValidity serialNumber commonName organization organizationalUnit (tw_Now W i 0) (tw_Now W i 1))
         (Subject_CommonName (TC_Cert parent)) (TC_privateKey parent) files)"

text \<open>Copying fails on a missing source or when the target cannot be created; moving removes the source.\<close>

definition copyFile :: "('d, 'k) tool_world \<Rightarrow> string \<Rightarrow> string \<Rightarrow> ('d, 'k) file_store \<Rightarrow> string + ('d, 'k) file_store" where
  "copyFile W oldFilePath newFilePath files =
     (case files oldFilePath of
        None \<Rightarrow> Inl (''open '' @ oldFilePath @ '': no such file or directory'')
      | Some contents \<Rightarrow>
          (case tw_Create W newFilePath of Some err \<Rightarrow> Inl err | None \<Rightarrow> Inr (files(newFilePath \<mapsto> contents))))"

definition moveFile :: "('d, 'k) tool_world \<Rightarrow> string \<Rightarrow> string \<Rightarrow> ('d, 'k) file_store \<Rightarrow> string + ('d, 'k) file_store" where
  "moveFile W oldFilePath newFilePath files =
     then_do (copyFile W oldFilePath newFilePath files) (\<lambda>files.
       case tw_Remove W oldFilePath of Some err \<Rightarrow> Inl err | None \<Rightarrow> Inr (files(oldFilePath := None)))"

definition SaveCerts ::
    "('d, 'k) tool_world \<Rightarrow> string \<Rightarrow> string \<Rightarrow> 'k test_cert_and_key \<Rightarrow> ('d, 'k) file_store \<Rightarrow> string + ('d, 'k) file_store" where
  "SaveCerts W directory name t files =
     (if directory \<noteq> [] then
        then_do (moveFile W (TC_CertFile t) (directory @ name @ ''.cert'') files) (\<lambda>files.
          moveFile W (TC_KeyFile t) (directory @ name @ ''.key'') files)
      else Inr files)"

section \<open>The bundle\<close>

text \<open>The command line flags with their defaults.\<close>

record tool_flags =
  clientCaName :: string
  serverIDs :: string
  clientIDs :: string
  certs_directory :: string
  sANIPAddress :: string
  sANDomainName :: string
  certValidity :: int

definition loadFlag :: "string \<Rightarrow> tool_flags" where
  "loadFlag path = \<lparr>clientCaName = ''Tesla Motors Products CA'', serverIDs = ''app'', clientIDs = ''device-1'',
     certs_directory = path, sANIPAddress = [], sANDomainName = [], certValidity = 365 * 24\<rparr>"

definition testCertsDirectory :: string where
  "testCertsDirectory = ''/test/integration/test-certs/''"

definition TrimSuffix :: "string \<Rightarrow> string \<Rightarrow> string" where
  "TrimSuffix s t = (if HasSuffix s t then take (length s - length t) s else s)"

text \<open>\<^verbatim>\<open>strings.ToLower\<close> on ASCII, which the client types are.\<close>

definition ToLower :: "string \<Rightarrow> string" where
  "ToLower = map lower"

definition getCertFilename :: "x509_certificate \<Rightarrow> string + string" where
  "getCertFilename cert =
     (let (clientType, clientName) = (case CreateIdentityFromCert cert of Inl _ \<Rightarrow> ([], []) | Inr p \<Rightarrow> p)
      in if clientType = [] then Inl (''invalid certificate type: CN='' @ Issuer_CommonName cert)
         else let clientType = TrimSuffix clientType '' CA'';
                  clientType = ReplaceAll CHR '' '' CHR ''_'' (ToLower clientType)
              in if clientName = [] then Inr clientType
                 else Inr (clientType @ ''.'' @ (if HasSuffix clientName '' CA'' then ''CA'' else clientName)))"

definition saveNamed ::
    "('d, 'k) tool_world \<Rightarrow> string \<Rightarrow> 'k test_cert_and_key \<times> ('d, 'k) file_store \<Rightarrow> string + ('d, 'k) file_store" where
  "saveNamed W directory = (\<lambda>(t, files).
     then_do (getCertFilename (TC_Cert t)) (\<lambda>name. SaveCerts W directory name t files))"

text \<open>The loop over the ids, with the number of the next certificate.\<close>

fun generateAll ::
    "(nat \<Rightarrow> string \<Rightarrow> ('d, 'k) file_store \<Rightarrow> string + 'k test_cert_and_key \<times> ('d, 'k) file_store) \<Rightarrow>
     ('d, 'k) tool_world \<Rightarrow> string \<Rightarrow> nat \<Rightarrow> string list \<Rightarrow> ('d, 'k) file_store \<Rightarrow> string + nat \<times> ('d, 'k) file_store" where
  "generateAll generate W directory i [] files = Inr (i, files)"
| "generateAll generate W directory i (n # ns) files =
     then_do (generate i n files) (\<lambda>made.
     then_do (saveNamed W directory made) (\<lambda>files. generateAll generate W directory (Suc i) ns files))"

definition generateCertificateBundle ::
    "('d, 'k) tool_world \<Rightarrow> tool_flags \<Rightarrow> ('d, 'k) file_store \<Rightarrow> string + ('d, 'k) file_store" where
  "generateCertificateBundle W flags files =
     then_do (GenerateRootSigningCert W (certValidity flags) 0 (clientCaName flags) [] files) (\<lambda>(rootCA, files).
     let addresses = TrimSpace (sANIPAddress flags);
         sanIPs = (if length addresses > 0 then Split CHR '','' addresses else []);
         sanDomains = Split CHR '','' (sANDomainName flags)
     in then_do (generateAll (\<lambda>i n files. GenerateServerTestKeyAndCert W (certValidity flags) i n sanDomains sanIPs rootCA files)
                   W (certs_directory flags) 1 (Split CHR '','' (serverIDs flags)) files) (\<lambda>(i, files).
        then_do (generateAll (\<lambda>i n files. GenerateClientTestKeyAndCert W (certValidity flags) i n rootCA files)
                   W (certs_directory flags) i (Split CHR '','' (clientIDs flags)) files) (\<lambda>(i, files).
        saveNamed W (certs_directory flags) (rootCA, files))))"

text \<open>The directory is created when it is missing; an error of the check other than that it is missing is ignored.\<close>

definition makeCertDir :: "(string \<Rightarrow> bool) \<Rightarrow> (string \<Rightarrow> string option) \<Rightarrow> string \<Rightarrow> string option" where
  "makeCertDir isNotExist mkdirAll dirPath = (if isNotExist dirPath then mkdirAll dirPath else None)"

definition tools_main ::
    "('d, 'k) tool_world \<Rightarrow> string + string \<Rightarrow> (tool_flags \<Rightarrow> tool_flags) \<Rightarrow> (string \<Rightarrow> bool) \<Rightarrow> (string \<Rightarrow> string option) \<Rightarrow>
     ('d, 'k) file_store \<Rightarrow> string + ('d, 'k) file_store" where
  "tools_main W getwd parse isNotExist mkdirAll files =
     then_do getwd (\<lambda>currentDir.
       let flags = parse (loadFlag (currentDir @ testCertsDirectory))
       in case makeCertDir isNotExist mkdirAll (certs_directory flags) of
            Some err \<Rightarrow> Inl err
          | None \<Rightarrow> generateCertificateBundle W flags files)"

section \<open>What a bundle holds\<close>

text \<open>
  The behaviour of the libraries that the results rest on: a created certificate parses back to the
  names of its template and its parent and has no further key usages; temporary files have names of their
  own, which end in digits.
\<close>

definition x509_library :: "('d, 'k) tool_world \<Rightarrow> bool" where
  "x509_library W \<longleftrightarrow> (\<forall>t parent k signer der. tw_CreateCertificate W t parent k signer = Inr der \<longrightarrow>
     tw_ParseCertificate W der = Inr \<lparr>Subject_CommonName = T_CommonName t, Subject_OrganizationalUnit = T_OrganizationalUnit t,
       Issuer_CommonName = parent, UnknownExtKeyUsage = []\<rparr>)"

definition temp_files :: "('d, 'k) tool_world \<Rightarrow> bool" where
  "temp_files W \<longleftrightarrow> (\<forall>i pattern name. tw_CreateTemp W i pattern = Inr name \<longrightarrow> name \<noteq> [] \<and> is_digit (last name)) \<and>
     (\<forall>i j p q name. tw_CreateTemp W i p = Inr name \<longrightarrow> tw_CreateTemp W j q = Inr name \<longrightarrow> i = j \<and> p = q)"

text \<open>A certificate and its key are saved under a name, and the name is that of the certificate.\<close>

definition cert_saved :: "('d, 'k) tool_world \<Rightarrow> string \<Rightarrow> ('d, 'k) file_store \<Rightarrow> string \<Rightarrow> bool" where
  "cert_saved W directory files name \<longleftrightarrow>
     (\<exists>der cert key. files (directory @ name @ ''.cert'') = Some (CertificatePEM der) \<and> tw_ParseCertificate W der = Inr cert \<and>
        getCertFilename cert = Inr name \<and> files (directory @ name @ ''.key'') = Some (PrivateKeyPEM key))"

definition fresh_cert :: "('d, 'k) tool_world \<Rightarrow> 'k test_cert_and_key \<Rightarrow> ('d, 'k) file_store \<Rightarrow> bool" where
  "fresh_cert W t files \<longleftrightarrow>
     (\<exists>der. files (TC_CertFile t) = Some (CertificatePEM der) \<and> tw_ParseCertificate W der = Inr (TC_Cert t)) \<and>
     (\<exists>key. files (TC_KeyFile t) = Some (PrivateKeyPEM key)) \<and> TC_CertFile t \<noteq> TC_KeyFile t \<and>
     is_digit (last (TC_CertFile t)) \<and> is_digit (last (TC_KeyFile t))"

lemma saved_path_last:
  "last (d @ n @ ''.cert'') = CHR ''t''" "last (d @ n @ ''.key'') = CHR ''y''"
  by simp_all

lemma saved_paths_differ:
  "is_digit (last f) \<Longrightarrow> f \<noteq> d @ n @ ''.cert''" "is_digit (last f) \<Longrightarrow> f \<noteq> d @ n @ ''.key''" "d @ n @ ''.cert'' \<noteq> d' @ m @ ''.key''"
proof -
  have d: "\<not> is_digit CHR ''t''" "\<not> is_digit CHR ''y''" by (simp_all add: is_digit_def)
  show "is_digit (last f) \<Longrightarrow> f \<noteq> d @ n @ ''.cert''" using d(1) saved_path_last(1) [of d n] by metis
  show "is_digit (last f) \<Longrightarrow> f \<noteq> d @ n @ ''.key''" using d(2) saved_path_last(2) [of d n] by metis
  show "d @ n @ ''.cert'' \<noteq> d' @ m @ ''.key''"
  proof
    assume "d @ n @ ''.cert'' = d' @ m @ ''.key''"
    then have "CHR ''t'' = CHR ''y''" using saved_path_last(1) [of d n] saved_path_last(2) [of d' m] by metis
    then show False by simp
  qed
qed

lemma moveFile_Inr:
  assumes "moveFile W old new files = Inr files'" and "old \<noteq> new"
  shows "\<exists>contents. files old = Some contents \<and> files' = (files(new \<mapsto> contents))(old := None)"
  using assms by (auto simp: moveFile_def copyFile_def then_do_Inr split: option.splits)

lemma SaveCerts_Inr:
  assumes "SaveCerts W d name t files = Inr files'" and "d \<noteq> []" and "fresh_cert W t files"
  shows "\<exists>der key. tw_ParseCertificate W der = Inr (TC_Cert t) \<and>
     files' = (files(d @ name @ ''.cert'' \<mapsto> CertificatePEM der, d @ name @ ''.key'' \<mapsto> PrivateKeyPEM key))
                (TC_CertFile t := None, TC_KeyFile t := None)"
proof -
  define c k where ck: "c = d @ name @ ''.cert''" "k = d @ name @ ''.key''"
  let ?C = "TC_CertFile t" and ?K = "TC_KeyFile t"
  obtain der key where f: "files ?C = Some (CertificatePEM der)" "tw_ParseCertificate W der = Inr (TC_Cert t)"
      "files ?K = Some (PrivateKeyPEM key)" "?C \<noteq> ?K" "is_digit (last ?C)" "is_digit (last ?K)"
    using assms(3) by (auto simp: fresh_cert_def)
  have ne: "?C \<noteq> c" "?C \<noteq> k" "?K \<noteq> c" "?K \<noteq> k" "c \<noteq> k"
    unfolding ck using saved_paths_differ(1,2) f(5,6) saved_paths_differ(3) by blast+
  obtain files1 where m: "moveFile W ?C c files = Inr files1" "moveFile W ?K k files1 = Inr files'"
    using assms(1,2) by (auto simp: SaveCerts_def then_do_Inr ck)
  have "files1 = (files(c \<mapsto> CertificatePEM der))(?C := None)" using moveFile_Inr [OF m(1) ne(1)] f(1) by auto
  moreover from this have "files' = (files1(k \<mapsto> PrivateKeyPEM key))(?K := None)" using moveFile_Inr [OF m(2) ne(4)] f(3,4) ne by auto
  ultimately have "files' = (files(c \<mapsto> CertificatePEM der, k \<mapsto> PrivateKeyPEM key))(?C := None, ?K := None)"
    using ne f(4) by (auto simp: fun_eq_iff)
  with f(2) show ?thesis unfolding ck by blast
qed

lemma cert_saved_keep:
  assumes "cert_saved W d files n" and "\<And>m. files' (d @ m @ ''.cert'') = files (d @ m @ ''.cert'')" and "\<And>m. files' (d @ m @ ''.key'') = files (d @ m @ ''.key'')"
  shows "cert_saved W d files' n"
  using assms(1) by (simp only: cert_saved_def assms(2,3))

lemma saveNamed_saves:
  assumes "saveNamed W d (t, files) = Inr files'" and "d \<noteq> []" and "fresh_cert W t files"
  shows "\<exists>name. getCertFilename (TC_Cert t) = Inr name \<and> cert_saved W d files' name \<and> (\<forall>n. cert_saved W d files n \<longrightarrow> cert_saved W d files' n)"
proof -
  obtain name where name: "getCertFilename (TC_Cert t) = Inr name" and s: "SaveCerts W d name t files = Inr files'"
    using assms(1) by (auto simp: saveNamed_def then_do_Inr)
  obtain der key where der: "tw_ParseCertificate W der = Inr (TC_Cert t)"
    and f: "files' = (files(d @ name @ ''.cert'' \<mapsto> CertificatePEM der, d @ name @ ''.key'' \<mapsto> PrivateKeyPEM key))
                (TC_CertFile t := None, TC_KeyFile t := None)"
    using SaveCerts_Inr [OF s assms(2,3)] by blast
  have digits: "is_digit (last (TC_CertFile t))" "is_digit (last (TC_KeyFile t))" using assms(3) by (simp_all add: fresh_cert_def)
  have look: "files' (d @ m @ ''.cert'') = (if m = name then Some (CertificatePEM der) else files (d @ m @ ''.cert''))"
    "files' (d @ m @ ''.key'') = (if m = name then Some (PrivateKeyPEM key) else files (d @ m @ ''.key''))" for m
    unfolding f using saved_paths_differ(1,2) [OF digits(1), of d m] saved_paths_differ(1,2) [OF digits(2), of d m]
      saved_paths_differ(3) [of d m d name] saved_paths_differ(3) [of d name d m]
    by (auto simp del: append_Cons append_Nil append_assoc simp: append_assoc [symmetric])
  have "cert_saved W d files' name" unfolding cert_saved_def look using der name by simp
  moreover have "cert_saved W d files' n" if "cert_saved W d files n" for n
    using that \<open>cert_saved W d files' name\<close> by (cases "n = name") (simp_all only: cert_saved_def look if_True if_False refl simp_thms)
  ultimately show ?thesis using name by blast
qed

definition issued :: "cert_template \<Rightarrow> string \<Rightarrow> x509_certificate" where
  "issued t parent = \<lparr>Subject_CommonName = T_CommonName t, Subject_OrganizationalUnit = T_OrganizationalUnit t,
     Issuer_CommonName = parent, UnknownExtKeyUsage = []\<rparr>"

text \<open>The certificate of a number, with its temporary files still there.\<close>

definition made :: "('d, 'k) tool_world \<Rightarrow> nat \<Rightarrow> 'k test_cert_and_key \<Rightarrow> ('d, 'k) file_store \<Rightarrow> bool" where
  "made W i t files \<longleftrightarrow> fresh_cert W t files \<and> tw_CreateTemp W i ''cert'' = Inr (TC_CertFile t) \<and> tw_CreateTemp W i ''key'' = Inr (TC_KeyFile t)"

text \<open>What a step keeps: the saved certificates, and the temporary files of the root.\<close>

definition step_keeps :: "('d, 'k) tool_world \<Rightarrow> string \<Rightarrow> 'k test_cert_and_key \<Rightarrow> ('d, 'k) file_store \<Rightarrow> ('d, 'k) file_store \<Rightarrow> bool" where
  "step_keeps W d root files files' \<longleftrightarrow>
     (\<forall>n. cert_saved W d files n \<longrightarrow> cert_saved W d files' n) \<and> (made W 0 root files \<longrightarrow> made W 0 root files')"

lemma step_keeps_trans: "step_keeps W d root f g \<Longrightarrow> step_keeps W d root g h \<Longrightarrow> step_keeps W d root f h"
  by (simp add: step_keeps_def)

lemma temp_names_differ:
  "temp_files W \<Longrightarrow> tw_CreateTemp W i p = Inr a \<Longrightarrow> tw_CreateTemp W j q = Inr b \<Longrightarrow> (i, p) \<noteq> (j, q) \<Longrightarrow> a \<noteq> b"
  by (auto simp: temp_files_def)

lemma makeTestCertAndKey_made:
  assumes "makeTestCertAndKey W i k t parent signer files = Inr (tc, files')" and x: "x509_library W" and temps: "temp_files W"
  shows "TC_Cert tc = issued t parent" and "made W i tc files'" and "0 < i \<Longrightarrow> step_keeps W d root files files'"
proof -
  obtain der c key where
    der: "tw_CreateCertificate W t parent k signer = Inr der" "tw_ParseCertificate W der = Inr (TC_Cert tc)" and
    c: "tw_CreateTemp W i ''cert'' = Inr c" "TC_CertFile tc = c" and key: "tw_CreateTemp W i ''key'' = Inr key" "TC_KeyFile tc = key" and
    f: "files' = files(c \<mapsto> CertificatePEM der, key \<mapsto> PrivateKeyPEM k)"
    using assms(1) by (auto simp: makeTestCertAndKey_def then_do_Inr)
  have digit: "is_digit (last c)" "is_digit (last key)" using temps c(1) key(1) by (auto simp: temp_files_def)
  have ck: "c \<noteq> key" using temp_names_differ [OF temps c(1) key(1)] by simp
  show "TC_Cert tc = issued t parent" using x der by (auto simp: x509_library_def issued_def)
  show "made W i tc files'" using der c key ck digit by (auto simp: made_def fresh_cert_def f)
  have other: "files' (d @ m @ ''.cert'') = files (d @ m @ ''.cert'')" "files' (d @ m @ ''.key'') = files (d @ m @ ''.key'')" for m
    unfolding f using saved_paths_differ(1,2) [OF digit(1), of d m] saved_paths_differ(1,2) [OF digit(2), of d m]
    by (metis fun_upd_other)+
  show "step_keeps W d root files files'" if i: "0 < i"
  proof -
    have "made W 0 root files'" if m: "made W 0 root files"
    proof -
      from m have r: "tw_CreateTemp W 0 ''cert'' = Inr (TC_CertFile root)" "tw_CreateTemp W 0 ''key'' = Inr (TC_KeyFile root)"
        by (simp_all add: made_def)
      have "TC_CertFile root \<notin> {c, key}" "TC_KeyFile root \<notin> {c, key}"
        using temp_names_differ [OF temps r(1)] temp_names_differ [OF temps r(2)] c(1) key(1) i by auto
      with m show ?thesis by (simp add: made_def fresh_cert_def f)
    qed
    with cert_saved_keep [OF _ other] show ?thesis by (simp add: step_keeps_def)
  qed
qed

lemma saveNamed_made:
  assumes "saveNamed W d (t, files) = Inr files'" and "d \<noteq> []" and "made W i t files" and "temp_files W" and "0 < i"
  shows "\<exists>name. getCertFilename (TC_Cert t) = Inr name \<and> cert_saved W d files' name \<and> step_keeps W d root files files'"
proof -
  have fresh: "fresh_cert W t files" and t: "tw_CreateTemp W i ''cert'' = Inr (TC_CertFile t)" "tw_CreateTemp W i ''key'' = Inr (TC_KeyFile t)"
    using assms(3) by (simp_all add: made_def)
  obtain name where name: "getCertFilename (TC_Cert t) = Inr name" and s: "SaveCerts W d name t files = Inr files'"
    using assms(1) by (auto simp: saveNamed_def then_do_Inr)
  have "made W 0 root files'" if m: "made W 0 root files"
  proof -
    from m have r: "tw_CreateTemp W 0 ''cert'' = Inr (TC_CertFile root)" "tw_CreateTemp W 0 ''key'' = Inr (TC_KeyFile root)"
      by (simp_all add: made_def)
    have digit: "is_digit (last (TC_CertFile root))" "is_digit (last (TC_KeyFile root))" using m by (simp_all add: made_def fresh_cert_def)
    have temps: "TC_CertFile root \<notin> {TC_CertFile t, TC_KeyFile t}" "TC_KeyFile root \<notin> {TC_CertFile t, TC_KeyFile t}"
      using temp_names_differ [OF assms(4) r(1)] temp_names_differ [OF assms(4) r(2)] t assms(5) by auto
    have "files' (TC_CertFile root) = files (TC_CertFile root)" "files' (TC_KeyFile root) = files (TC_KeyFile root)"
      using SaveCerts_Inr [OF s assms(2) fresh] temps saved_paths_differ(1,2) [OF digit(1), of d name]
        saved_paths_differ(1,2) [OF digit(2), of d name]
      by (auto simp del: append_Cons append_Nil append_assoc)
    with m show ?thesis by (simp add: made_def fresh_cert_def)
  qed
  with saveNamed_saves [OF assms(1,2) fresh] show ?thesis by (auto simp: step_keeps_def)
qed

lemma generateAll_saves:
  assumes "generateAll generate W d i ns files = Inr (j, files')" and "d \<noteq> []" and "temp_files W" and "0 < i"
    and gen: "\<And>i n files t files'. generate i n files = Inr (t, files') \<Longrightarrow> 0 < i \<Longrightarrow>
                TC_Cert t = cert_of n \<and> made W i t files' \<and> step_keeps W d root files files'"
  shows "0 < j \<and> step_keeps W d root files files' \<and> (\<forall>n \<in> set ns. \<exists>name. getCertFilename (cert_of n) = Inr name \<and> cert_saved W d files' name)"
  using assms(1,4)
proof (induction ns arbitrary: i files)
  case (Cons n ns)
  obtain t files1 files2 where g: "generate i n files = Inr (t, files1)" and s: "saveNamed W d (t, files1) = Inr files2"
    and rest: "generateAll generate W d (Suc i) ns files2 = Inr (j, files')"
    using Cons.prems(1) by (auto simp: then_do_Inr)
  note t = gen [OF g Cons.prems(2)]
  obtain name where name: "getCertFilename (cert_of n) = Inr name" "cert_saved W d files2 name" "step_keeps W d root files1 files2"
    using saveNamed_made [OF s assms(2) _ assms(3) Cons.prems(2), of root] t by auto
  from Cons.IH [OF rest] have ih: "0 < j" "step_keeps W d root files2 files'"
      "\<forall>n \<in> set ns. \<exists>name. getCertFilename (cert_of n) = Inr name \<and> cert_saved W d files' name" by auto
  have "cert_saved W d files' name" using ih(2) name(2) by (simp add: step_keeps_def)
  with ih name t show ?case by (auto intro: step_keeps_trans)
qed (simp add: step_keeps_def)

text \<open>The name of a file after its client type: the id, a mark for the authority, or nothing.\<close>

definition name_part :: "string \<Rightarrow> string" where
  "name_part n = (if n = [] then [] else ''.'' @ (if suffix '' CA'' n then ''CA'' else ReplaceAll CHR ''.'' CHR ''-'' n))"

lemma suffix_CA_ReplaceAll: "HasSuffix (ReplaceAll CHR ''.'' CHR ''-'' n) '' CA'' \<longleftrightarrow> suffix '' CA'' n"
proof
  assume "HasSuffix (ReplaceAll CHR ''.'' CHR ''-'' n) '' CA''"
  then obtain xs ys where n: "n = xs @ ys" and "ReplaceAll CHR ''.'' CHR ''-'' ys = '' CA''"
    by (auto simp: HasSuffix_def suffix_def ReplaceAll_def map_eq_append_conv)
  then have "ys = '' CA''" by (auto simp: ReplaceAll_def map_eq_Cons_conv split: if_splits)
  with n show "suffix '' CA'' n" by (simp add: suffix_def)
qed (auto simp: HasSuffix_def suffix_def ReplaceAll_def)

lemma client_type_names:
  "ReplaceAll CHR '' '' CHR ''_'' (ToLower (TrimSuffix ''vehicle_device'' '' CA'')) = ''vehicle_device''"
  "ReplaceAll CHR '' '' CHR ''_'' (ToLower (TrimSuffix ''vehicle_board_device'' '' CA'')) = ''vehicle_board_device''"
  by code_simp+

lemma getCertFilename_issued:
  assumes "Issuer_CommonName c = ''Tesla Motors Products CA''" and "Subject_CommonName c = n"
    and "Subject_OrganizationalUnit c = (if board then [''Tesla Motors SN''] else [])"
  shows "getCertFilename c = Inr ((if board then ''vehicle_board_device'' else ''vehicle_device'') @ name_part n)"
proof -
  have "CreateIdentityFromCert c = Inr (if board then ''vehicle_board_device'' else ''vehicle_device'', ReplaceAll CHR ''.'' CHR ''-'' n)"
    using assms by (simp add: CreateIdentityFromCert_def knownOIDIssuers_def knownIssuers_def)
  moreover have "ReplaceAll CHR ''.'' CHR ''-'' n = [] \<longleftrightarrow> n = []" by (simp add: ReplaceAll_def)
  ultimately show ?thesis
    by (cases board) (simp_all add: getCertFilename_def name_part_def suffix_CA_ReplaceAll client_type_names)
qed

text \<open>The three kinds of certificates of a bundle.\<close>

definition server_cert :: "string \<Rightarrow> string \<Rightarrow> x509_certificate" where
  "server_cert ca n = \<lparr>Subject_CommonName = n, Subject_OrganizationalUnit = [], Issuer_CommonName = ca, UnknownExtKeyUsage = []\<rparr>"

definition client_cert :: "string \<Rightarrow> string \<Rightarrow> x509_certificate" where
  "client_cert ca n = \<lparr>Subject_CommonName = n, Subject_OrganizationalUnit = (if prefix ''board'' n then [''Tesla Motors SN''] else []),
     Issuer_CommonName = ca, UnknownExtKeyUsage = []\<rparr>"

lemma root_generated:
  assumes "GenerateRootSigningCert W v 0 ca [] files = Inr (root, files')" and "x509_library W" and "temp_files W"
  shows "TC_Cert root = server_cert ca ca \<and> made W 0 root files'"
  using assms(1) makeTestCertAndKey_made(1,2) [OF _ assms(2,3)]
  by (fastforce simp: GenerateRootSigningCert_def then_do_Inr Let_def root_template_def issued_def server_cert_def)

lemma server_generated:
  assumes "GenerateServerTestKeyAndCert W v i n domains ips root files = Inr (t, files')" and "x509_library W" and "temp_files W" and "0 < i"
  shows "TC_Cert t = server_cert (Subject_CommonName (TC_Cert root)) n \<and> made W i t files' \<and> step_keeps W d root files files'"
  using assms(1,4) makeTestCertAndKey_made [OF _ assms(2,3)]
  by (fastforce simp: GenerateServerTestKeyAndCert_def GenerateServerTestKeyAndCertWithDate_def then_do_Inr server_template_def issued_def server_cert_def)

lemma client_generated:
  assumes "GenerateClientTestKeyAndCert W v i n root files = Inr (t, files')" and "x509_library W" and "temp_files W" and "0 < i"
  shows "TC_Cert t = client_cert (Subject_CommonName (TC_Cert root)) n \<and> made W i t files' \<and> step_keeps W d root files files'"
  using assms(1,4) makeTestCertAndKey_made [OF _ assms(2,3)]
  by (fastforce simp: GenerateClientTestKeyAndCert_def GenerateClientTestKeyAndCertWithDate_def then_do_Inr client_template_def issued_def client_cert_def)

lemma bundle_names:
  "getCertFilename (server_cert ''Tesla Motors Products CA'' n) = Inr (''vehicle_device'' @ name_part n)"
  "getCertFilename (client_cert ''Tesla Motors Products CA'' n) =
     Inr ((if prefix ''board'' n then ''vehicle_board_device'' else ''vehicle_device'') @ name_part n)"
  using getCertFilename_issued [of "server_cert ''Tesla Motors Products CA'' n" n False]
    getCertFilename_issued [of "client_cert ''Tesla Motors Products CA'' n" n "prefix ''board'' n"]
  by (simp_all add: server_cert_def client_cert_def)

lemma generateCertificateBundle_saves:
  assumes "generateCertificateBundle W flags files = Inr files'" and "certs_directory flags \<noteq> []" and "x509_library W" and "temp_files W"
  shows "(\<exists>name. getCertFilename (server_cert (clientCaName flags) (clientCaName flags)) = Inr name \<and> cert_saved W (certs_directory flags) files' name) \<and>
    (\<forall>n \<in> set (Split CHR '','' (serverIDs flags)). \<exists>name. getCertFilename (server_cert (clientCaName flags) n) = Inr name \<and> cert_saved W (certs_directory flags) files' name) \<and>
    (\<forall>n \<in> set (Split CHR '','' (clientIDs flags)). \<exists>name. getCertFilename (client_cert (clientCaName flags) n) = Inr name \<and> cert_saved W (certs_directory flags) files' name)"
proof -
  let ?ca = "clientCaName flags" and ?d = "certs_directory flags" and ?v = "certValidity flags"
  obtain root f0 i f1 j f2 domains ips where r: "GenerateRootSigningCert W ?v 0 ?ca [] files = Inr (root, f0)"
    and s: "generateAll (\<lambda>i n files. GenerateServerTestKeyAndCert W ?v i n domains ips root files) W ?d 1 (Split CHR '','' (serverIDs flags)) f0 = Inr (i, f1)"
    and c: "generateAll (\<lambda>i n files. GenerateClientTestKeyAndCert W ?v i n root files) W ?d i (Split CHR '','' (clientIDs flags)) f1 = Inr (j, f2)"
    and f: "saveNamed W ?d (root, f2) = Inr files'"
    using assms(1) by (auto simp: generateCertificateBundle_def then_do_Inr Let_def split: prod.splits)
  have root: "TC_Cert root = server_cert ?ca ?ca" "made W 0 root f0" using root_generated [OF r assms(3,4)] by auto
  have ca: "Subject_CommonName (TC_Cert root) = ?ca" by (simp add: root(1) server_cert_def)
  have s': "0 < i" "step_keeps W ?d root f0 f1"
      "\<forall>n \<in> set (Split CHR '','' (serverIDs flags)). \<exists>name. getCertFilename (server_cert ?ca n) = Inr name \<and> cert_saved W ?d f1 name"
    using generateAll_saves [where cert_of = "server_cert ?ca" and root = root, OF s assms(2,4) _ server_generated [where root = root, OF _ assms(3,4), unfolded ca]] by auto
  have c': "step_keeps W ?d root f1 f2"
      "\<forall>n \<in> set (Split CHR '','' (clientIDs flags)). \<exists>name. getCertFilename (client_cert ?ca n) = Inr name \<and> cert_saved W ?d f2 name"
    using generateAll_saves [where cert_of = "client_cert ?ca" and root = root, OF c assms(2,4) s'(1) client_generated [where root = root, OF _ assms(3,4), unfolded ca]] by auto
  have "fresh_cert W root f2" using root(2) s'(2) c'(1) by (simp add: step_keeps_def made_def)
  from saveNamed_saves [OF f assms(2) this] root(1) s'(3) c' show ?thesis by (simp add: step_keeps_def) blast
qed


text \<open>A world in which nothing fails, with certificates as their own encoding.\<close>

definition example_tools :: "(x509_certificate, unit) tool_world" where
  "example_tools = \<lparr>tw_GenerateKey = (\<lambda>_. Inr ()), tw_RandInt = (\<lambda>i limit. Inr (int i)), tw_Now = (\<lambda>_ _. 0), tw_ParseIP = (\<lambda>_. None),
     tw_CreateCertificate = (\<lambda>t parent k signer. Inr (issued t parent)), tw_ParseCertificate = Inr,
     tw_CreateTemp = (\<lambda>i pattern. Inr (''/tmp/'' @ pattern @ ''-'' @ itoa_nat i)), tw_Create = (\<lambda>_. None), tw_Remove = (\<lambda>_. None)\<rparr>"

lemma temp_name_inj: "p @ ''-'' @ itoa_nat i = q @ ''-'' @ itoa_nat j \<Longrightarrow> i = j \<and> p = q"
proof -
  have no: "CHR ''-'' \<notin> set (itoa_nat n)" for n using itoa_nat_digits [of n] by (auto simp: list_all_iff is_digit_def)
  have tail: "takeWhile (\<lambda>c. c \<noteq> CHR ''-'') (rev (p @ ''-'' @ itoa_nat i)) = rev (itoa_nat i)" for p i
    using no [of i] by (simp add: takeWhile_append)
  assume eq: "p @ ''-'' @ itoa_nat i = q @ ''-'' @ itoa_nat j"
  then have "rev (itoa_nat i) = rev (itoa_nat j)" using tail [of p i] tail [of q j] by (simp only:)
  then have "itoa_nat i = itoa_nat j" by simp
  then have "i = j" by (metis atoi_itoa_nat)
  with eq show ?thesis by simp
qed

lemma example_tools_laws: "x509_library example_tools" "temp_files example_tools"
proof -
  show "x509_library example_tools" by (simp add: x509_library_def example_tools_def issued_def)
  have "is_digit (last (itoa_nat i))" for i using itoa_nat_digits [of i] by (simp add: list_all_iff)
  then have "name \<noteq> [] \<and> is_digit (last name)" if "tw_CreateTemp example_tools i p = Inr name" for i p name
    using that by (auto simp: example_tools_def)
  moreover have "i = j \<and> p = q" if "tw_CreateTemp example_tools i p = Inr name" "tw_CreateTemp example_tools j q = Inr name" for i j p q name
  proof (rule temp_name_inj)
    have "Inr (''/tmp/'' @ p @ ''-'' @ itoa_nat i) = (Inr (''/tmp/'' @ q @ ''-'' @ itoa_nat j) :: string + string)"
      using that by (simp only: example_tools_def tool_world.simps)
    then show "p @ ''-'' @ itoa_nat i = q @ ''-'' @ itoa_nat j" by simp
  qed
  ultimately show "temp_files example_tools" unfolding temp_files_def by blast
qed

lemma example_bundle: "\<exists>files. generateCertificateBundle example_tools (loadFlag ''certs/'') Map.empty = Inr files"
proof -
  have "\<not> isl (generateCertificateBundle example_tools (loadFlag ''certs/'') Map.empty)" by code_simp
  then show ?thesis by (cases "generateCertificateBundle example_tools (loadFlag ''certs/'') Map.empty") simp_all
qed


end
