(* ===== verification/Wire_Access.thy ===== *)
theory Wire_Access
  imports Wire_Laws
begin

text \<open>
  The rest of the generated code of \<^verbatim>\<open>messages/tesla\<close>: the accessors of single elements of the byte vectors, their
  lengths, the in-place mutators, the starts of vectors, and the constructors of tables. The further operations
  of the FlatBuffers runtime that they call are a second parameter, with \<^verbatim>\<open>fb_access_laws\<close> as its documented
  behaviour: addresses are positions in the buffer, a vector is the run of bytes that \<^verbatim>\<open>ByteVector\<close> returns,
  and a mutation overwrites the bytes of one value.

  A mutation is in place: it returns the table over the changed buffer and the flag of the code.
\<close>

section \<open>The operations of the runtime\<close>

record 'b fb_access =
  Table_Vector :: "fb_table \<Rightarrow> u32 \<Rightarrow> u32 option"
  Table_VectorLen :: "fb_table \<Rightarrow> u32 \<Rightarrow> nat option"
  Table_MutateByte :: "fb_table \<Rightarrow> u32 \<Rightarrow> u8 \<Rightarrow> (bytes \<times> bool) option"
  Table_MutateByteSlot :: "fb_table \<Rightarrow> u16 \<Rightarrow> u8 \<Rightarrow> (bytes \<times> bool) option"
  Table_MutateUint32Slot :: "fb_table \<Rightarrow> u16 \<Rightarrow> u32 \<Rightarrow> (bytes \<times> bool) option"
  Table_MutateUint64Slot :: "fb_table \<Rightarrow> u16 \<Rightarrow> u64 \<Rightarrow> (bytes \<times> bool) option"
  StartVector :: "'b \<Rightarrow> nat \<Rightarrow> int \<Rightarrow> nat \<Rightarrow> 'b \<times> u32"

section \<open>Tables\<close>

definition FlatbuffersEnvelope_Init :: "bytes \<Rightarrow> u32 \<Rightarrow> fb_table" where
  "FlatbuffersEnvelope_Init buf i = \<lparr>Tab_Bytes = buf, Tab_Pos = i\<rparr>"
definition FlatbuffersStream_Init :: "bytes \<Rightarrow> u32 \<Rightarrow> fb_table" where
  "FlatbuffersStream_Init buf i = \<lparr>Tab_Bytes = buf, Tab_Pos = i\<rparr>"
definition FlatbuffersStreamAck_Init :: "bytes \<Rightarrow> u32 \<Rightarrow> fb_table" where
  "FlatbuffersStreamAck_Init buf i = \<lparr>Tab_Bytes = buf, Tab_Pos = i\<rparr>"

text \<open>The body of the constructors from a buffer: the root offset at \<open>offset\<close>, then the initialisation.\<close>

definition root_table :: "'b flatbuffers \<Rightarrow> (bytes \<Rightarrow> u32 \<Rightarrow> fb_table) \<Rightarrow> bytes \<Rightarrow> u32 \<Rightarrow> fb_table option" where
  "root_table fb init buf offset =
     (if unat offset > length buf then None
      else do { n \<leftarrow> GetUOffsetT fb (drop (unat offset) buf); Some (init buf (n + offset)) })"

definition GetRootAsFlatbuffersStream :: "'b flatbuffers \<Rightarrow> bytes \<Rightarrow> u32 \<Rightarrow> fb_table option" where
  "GetRootAsFlatbuffersStream fb = root_table fb FlatbuffersStream_Init"
definition NewFlatbuffersStream :: "'b flatbuffers \<Rightarrow> bytes \<Rightarrow> u32 \<Rightarrow> fb_table option" where
  "NewFlatbuffersStream fb = root_table fb FlatbuffersStream_Init"
definition GetRootAsFlatbuffersStreamAck :: "'b flatbuffers \<Rightarrow> bytes \<Rightarrow> u32 \<Rightarrow> fb_table option" where
  "GetRootAsFlatbuffersStreamAck fb = root_table fb FlatbuffersStreamAck_Init"
definition NewFlatbuffersStreamAck :: "'b flatbuffers \<Rightarrow> bytes \<Rightarrow> u32 \<Rightarrow> fb_table option" where
  "NewFlatbuffersStreamAck fb = root_table fb FlatbuffersStreamAck_Init"

definition FlatbuffersEnvelope_Table :: "fb_table \<Rightarrow> fb_table" where "FlatbuffersEnvelope_Table rcv = rcv"
definition FlatbuffersStream_Table :: "fb_table \<Rightarrow> fb_table" where "FlatbuffersStream_Table rcv = rcv"
definition FlatbuffersStreamAck_Table :: "fb_table \<Rightarrow> fb_table" where "FlatbuffersStreamAck_Table rcv = rcv"

section \<open>Element accessors\<close>

text \<open>The bodies that the generator repeats for each vector. An index is converted to 32 bits as the code does.\<close>

definition elem_at :: "'b flatbuffers \<Rightarrow> 'b fb_access \<Rightarrow> u16 \<Rightarrow> fb_table \<Rightarrow> int \<Rightarrow> u8 option" where
  "elem_at fb ax vt rcv j =
     do { o' \<leftarrow> Table_Offset fb rcv vt;
          if o' \<noteq> 0 then do { a \<leftarrow> Table_Vector ax rcv (ucast o'); Table_GetByte fb rcv (a + of_int (j * 1)) }
          else Some 0 }"

definition vector_length :: "'b flatbuffers \<Rightarrow> 'b fb_access \<Rightarrow> u16 \<Rightarrow> fb_table \<Rightarrow> nat option" where
  "vector_length fb ax vt rcv =
     do { o' \<leftarrow> Table_Offset fb rcv vt;
          if o' \<noteq> 0 then Table_VectorLen ax rcv (ucast o') else Some 0 }"

definition mutated :: "fb_table \<Rightarrow> (bytes \<times> bool) option \<Rightarrow> (fb_table \<times> bool) option" where
  "mutated rcv = map_option (\<lambda>(buf, ok). (rcv\<lparr>Tab_Bytes := buf\<rparr>, ok))"

definition mutate_elem ::
    "'b flatbuffers \<Rightarrow> 'b fb_access \<Rightarrow> u16 \<Rightarrow> fb_table \<Rightarrow> int \<Rightarrow> u8 \<Rightarrow> (fb_table \<times> bool) option" where
  "mutate_elem fb ax vt rcv j n =
     do { o' \<leftarrow> Table_Offset fb rcv vt;
          if o' \<noteq> 0 then do { a \<leftarrow> Table_Vector ax rcv (ucast o');
                             mutated rcv (Table_MutateByte ax rcv (a + of_int (j * 1)) n) }
          else Some (rcv, False) }"

definition Txid :: "'b flatbuffers \<Rightarrow> 'b fb_access \<Rightarrow> fb_table \<Rightarrow> int \<Rightarrow> u8 option" where
  "Txid fb ax = elem_at fb ax 4"
definition TxidLength :: "'b flatbuffers \<Rightarrow> 'b fb_access \<Rightarrow> fb_table \<Rightarrow> nat option" where
  "TxidLength fb ax = vector_length fb ax 4"
definition MutateTxid :: "'b flatbuffers \<Rightarrow> 'b fb_access \<Rightarrow> fb_table \<Rightarrow> int \<Rightarrow> u8 \<Rightarrow> (fb_table \<times> bool) option" where
  "MutateTxid fb ax = mutate_elem fb ax 4"

definition Topic :: "'b flatbuffers \<Rightarrow> 'b fb_access \<Rightarrow> fb_table \<Rightarrow> int \<Rightarrow> u8 option" where
  "Topic fb ax = elem_at fb ax 6"
definition TopicLength :: "'b flatbuffers \<Rightarrow> 'b fb_access \<Rightarrow> fb_table \<Rightarrow> nat option" where
  "TopicLength fb ax = vector_length fb ax 6"
definition MutateTopic :: "'b flatbuffers \<Rightarrow> 'b fb_access \<Rightarrow> fb_table \<Rightarrow> int \<Rightarrow> u8 \<Rightarrow> (fb_table \<times> bool) option" where
  "MutateTopic fb ax = mutate_elem fb ax 6"

definition MessageId :: "'b flatbuffers \<Rightarrow> 'b fb_access \<Rightarrow> fb_table \<Rightarrow> int \<Rightarrow> u8 option" where
  "MessageId fb ax = elem_at fb ax 12"
definition MessageIdLength :: "'b flatbuffers \<Rightarrow> 'b fb_access \<Rightarrow> fb_table \<Rightarrow> nat option" where
  "MessageIdLength fb ax = vector_length fb ax 12"
definition MutateMessageId :: "'b flatbuffers \<Rightarrow> 'b fb_access \<Rightarrow> fb_table \<Rightarrow> int \<Rightarrow> u8 \<Rightarrow> (fb_table \<times> bool) option" where
  "MutateMessageId fb ax = mutate_elem fb ax 12"

definition SenderId :: "'b flatbuffers \<Rightarrow> 'b fb_access \<Rightarrow> fb_table \<Rightarrow> int \<Rightarrow> u8 option" where
  "SenderId fb ax = elem_at fb ax 6"
definition SenderIdLength :: "'b flatbuffers \<Rightarrow> 'b fb_access \<Rightarrow> fb_table \<Rightarrow> nat option" where
  "SenderIdLength fb ax = vector_length fb ax 6"
definition MutateSenderId :: "'b flatbuffers \<Rightarrow> 'b fb_access \<Rightarrow> fb_table \<Rightarrow> int \<Rightarrow> u8 \<Rightarrow> (fb_table \<times> bool) option" where
  "MutateSenderId fb ax = mutate_elem fb ax 6"

definition Payload :: "'b flatbuffers \<Rightarrow> 'b fb_access \<Rightarrow> fb_table \<Rightarrow> int \<Rightarrow> u8 option" where
  "Payload fb ax = elem_at fb ax 8"
definition PayloadLength :: "'b flatbuffers \<Rightarrow> 'b fb_access \<Rightarrow> fb_table \<Rightarrow> nat option" where
  "PayloadLength fb ax = vector_length fb ax 8"
definition MutatePayload :: "'b flatbuffers \<Rightarrow> 'b fb_access \<Rightarrow> fb_table \<Rightarrow> int \<Rightarrow> u8 \<Rightarrow> (fb_table \<times> bool) option" where
  "MutatePayload fb ax = mutate_elem fb ax 8"

definition DeviceType :: "'b flatbuffers \<Rightarrow> 'b fb_access \<Rightarrow> fb_table \<Rightarrow> int \<Rightarrow> u8 option" where
  "DeviceType fb ax = elem_at fb ax 10"
definition DeviceTypeLength :: "'b flatbuffers \<Rightarrow> 'b fb_access \<Rightarrow> fb_table \<Rightarrow> nat option" where
  "DeviceTypeLength fb ax = vector_length fb ax 10"
definition MutateDeviceType :: "'b flatbuffers \<Rightarrow> 'b fb_access \<Rightarrow> fb_table \<Rightarrow> int \<Rightarrow> u8 \<Rightarrow> (fb_table \<times> bool) option" where
  "MutateDeviceType fb ax = mutate_elem fb ax 10"

definition DeviceId :: "'b flatbuffers \<Rightarrow> 'b fb_access \<Rightarrow> fb_table \<Rightarrow> int \<Rightarrow> u8 option" where
  "DeviceId fb ax = elem_at fb ax 12"
definition DeviceIdLength :: "'b flatbuffers \<Rightarrow> 'b fb_access \<Rightarrow> fb_table \<Rightarrow> nat option" where
  "DeviceIdLength fb ax = vector_length fb ax 12"
definition MutateDeviceId :: "'b flatbuffers \<Rightarrow> 'b fb_access \<Rightarrow> fb_table \<Rightarrow> int \<Rightarrow> u8 \<Rightarrow> (fb_table \<times> bool) option" where
  "MutateDeviceId fb ax = mutate_elem fb ax 12"

lemmas elem_defs =
  Txid_def TxidLength_def MutateTxid_def
  Topic_def TopicLength_def MutateTopic_def
  MessageId_def MessageIdLength_def MutateMessageId_def
  SenderId_def SenderIdLength_def MutateSenderId_def
  Payload_def PayloadLength_def MutatePayload_def
  DeviceType_def DeviceTypeLength_def MutateDeviceType_def
  DeviceId_def DeviceIdLength_def MutateDeviceId_def

definition MutateMessageType :: "'b fb_access \<Rightarrow> fb_table \<Rightarrow> u8 \<Rightarrow> (fb_table \<times> bool) option" where
  "MutateMessageType ax rcv n = mutated rcv (Table_MutateByteSlot ax rcv 8 n)"
definition MutateCreatedAt :: "'b fb_access \<Rightarrow> fb_table \<Rightarrow> u32 \<Rightarrow> (fb_table \<times> bool) option" where
  "MutateCreatedAt ax rcv n = mutated rcv (Table_MutateUint32Slot ax rcv 4 n)"
definition MutateDeliveredAtEpochMs :: "'b fb_access \<Rightarrow> fb_table \<Rightarrow> u64 \<Rightarrow> (fb_table \<times> bool) option" where
  "MutateDeliveredAtEpochMs ax rcv n = mutated rcv (Table_MutateUint64Slot ax rcv 14 n)"

section \<open>Vectors under construction, acknowledgement tables\<close>

definition FlatbuffersEnvelopeStartTxidVector :: "'b fb_access \<Rightarrow> 'b \<Rightarrow> int \<Rightarrow> 'b \<times> u32" where
  "FlatbuffersEnvelopeStartTxidVector ax b numElems = StartVector ax b 1 numElems 1"
definition FlatbuffersEnvelopeStartTopicVector :: "'b fb_access \<Rightarrow> 'b \<Rightarrow> int \<Rightarrow> 'b \<times> u32" where
  "FlatbuffersEnvelopeStartTopicVector ax b numElems = StartVector ax b 1 numElems 1"
definition FlatbuffersEnvelopeStartMessageIdVector :: "'b fb_access \<Rightarrow> 'b \<Rightarrow> int \<Rightarrow> 'b \<times> u32" where
  "FlatbuffersEnvelopeStartMessageIdVector ax b numElems = StartVector ax b 1 numElems 1"
definition FlatbuffersStreamStartSenderIdVector :: "'b fb_access \<Rightarrow> 'b \<Rightarrow> int \<Rightarrow> 'b \<times> u32" where
  "FlatbuffersStreamStartSenderIdVector ax b numElems = StartVector ax b 1 numElems 1"
definition FlatbuffersStreamStartPayloadVector :: "'b fb_access \<Rightarrow> 'b \<Rightarrow> int \<Rightarrow> 'b \<times> u32" where
  "FlatbuffersStreamStartPayloadVector ax b numElems = StartVector ax b 1 numElems 1"
definition FlatbuffersStreamStartDeviceTypeVector :: "'b fb_access \<Rightarrow> 'b \<Rightarrow> int \<Rightarrow> 'b \<times> u32" where
  "FlatbuffersStreamStartDeviceTypeVector ax b numElems = StartVector ax b 1 numElems 1"
definition FlatbuffersStreamStartDeviceIdVector :: "'b fb_access \<Rightarrow> 'b \<Rightarrow> int \<Rightarrow> 'b \<times> u32" where
  "FlatbuffersStreamStartDeviceIdVector ax b numElems = StartVector ax b 1 numElems 1"

definition FlatbuffersStreamAckStart :: "'b flatbuffers \<Rightarrow> 'b \<Rightarrow> 'b" where
  "FlatbuffersStreamAckStart fb b = StartObject fb b 0"
definition FlatbuffersStreamAckEnd :: "'b flatbuffers \<Rightarrow> 'b \<Rightarrow> 'b \<times> u32" where
  "FlatbuffersStreamAckEnd fb b = EndObject fb b"

section \<open>The laws of these operations\<close>

definition vector_law :: "'b flatbuffers \<Rightarrow> 'b fb_access \<Rightarrow> bool" where
  "vector_law fb ax \<longleftrightarrow>
     (\<forall>t k bs. Table_ByteVector fb t (k + Tab_Pos t) = Some bs \<longrightarrow>
        (\<exists>a. Table_Vector ax t k = Some a \<and> Table_VectorLen ax t k = Some (length bs) \<and>
           unat a + length bs < 2 ^ 32 \<and> unat a + length bs \<le> length (Tab_Bytes t) \<and>
           bs = take (length bs) (drop (unat a) (Tab_Bytes t))))"

text \<open>A mutation of a slot: refused when the field is absent, otherwise the value changes and no byte outside
  its \<open>w\<close> bytes.\<close>

definition slot_mutation_law ::
    "'b flatbuffers \<Rightarrow> (fb_table \<Rightarrow> u32 \<Rightarrow> 'v option) \<Rightarrow> (fb_table \<Rightarrow> u16 \<Rightarrow> 'v \<Rightarrow> (bytes \<times> bool) option) \<Rightarrow> nat \<Rightarrow> bool"
  where
  "slot_mutation_law fb get mutate w \<longleftrightarrow>
     (\<forall>t vt n. Table_Offset fb t vt = Some 0 \<longrightarrow> mutate t vt n = Some (Tab_Bytes t, False)) \<and>
     (\<forall>t vt n k x. Table_Offset fb t vt = Some k \<longrightarrow> k \<noteq> 0 \<longrightarrow> get t (ucast k + Tab_Pos t) = Some x \<longrightarrow>
        (\<exists>buf. mutate t vt n = Some (buf, True) \<and> length buf = length (Tab_Bytes t) \<and>
           get (t\<lparr>Tab_Bytes := buf\<rparr>) (ucast k + Tab_Pos t) = Some n \<and>
           (\<forall>i < length buf. i < unat (ucast k + Tab_Pos t) \<or> unat (ucast k + Tab_Pos t) + w \<le> i \<longrightarrow>
              buf ! i = Tab_Bytes t ! i)))"

definition fb_access_laws :: "'b flatbuffers \<Rightarrow> 'b fb_access \<Rightarrow> bool" where
  "fb_access_laws fb ax \<longleftrightarrow>
     (\<forall>t a. Table_GetByte fb t a =
        (if unat a < length (Tab_Bytes t) then Some (of_char (Tab_Bytes t ! unat a)) else None)) \<and>
     vector_law fb ax \<and>
     (\<forall>t a n. Table_MutateByte ax t a n =
        (if unat a < length (Tab_Bytes t) then Some ((Tab_Bytes t)[unat a := char_of (unat n)], True) else None)) \<and>
     slot_mutation_law fb (Table_GetByte fb) (Table_MutateByteSlot ax) 1 \<and>
     slot_mutation_law fb (Table_GetUint32 fb) (Table_MutateUint32Slot ax) 4 \<and>
     slot_mutation_law fb (Table_GetUint64 fb) (Table_MutateUint64Slot ax) 8"

section \<open>Element accessors agree with the byte vectors\<close>

text \<open>
  What the accessors of one vector promise, for the bytes \<open>bs\<close> of the field: the length, every element, and a
  mutation that changes exactly the byte of the element.
\<close>

definition vector_ok ::
    "fb_table \<Rightarrow> nat option \<Rightarrow> (int \<Rightarrow> u8 option) \<Rightarrow> (int \<Rightarrow> u8 \<Rightarrow> (fb_table \<times> bool) option) \<Rightarrow> bytes \<Rightarrow> bool" where
  "vector_ok rcv len elem mut bs \<longleftrightarrow>
     len = Some (length bs) \<and>
     (\<exists>p. p + length bs \<le> length (Tab_Bytes rcv) \<and>
        (\<forall>j < length bs. elem (int j) = Some (of_char (bs ! j)) \<and> Tab_Bytes rcv ! (p + j) = bs ! j \<and>
           (\<forall>n. mut (int j) n =
              Some (rcv\<lparr>Tab_Bytes := (Tab_Bytes rcv)[p + j := char_of (unat n)]\<rparr>, True))))"

lemma unat_add_index: "unat a + j < 2 ^ 32 \<Longrightarrow> unat (a + of_int (int j * 1) :: u32) = unat a + j"
  by (simp add: unat_word_ariths unat_of_nat)

lemma vector_accessors:
  assumes L: "fb_access_laws fb ax" and B: "read_slot fb (Table_ByteVector fb) [] vt rcv = Some bs"
  shows "vector_ok rcv (vector_length fb ax vt rcv) (elem_at fb ax vt rcv) (mutate_elem fb ax vt rcv) bs"
proof -
  obtain k where k: "Table_Offset fb rcv vt = Some k"
    using B by (auto simp: read_slot_def bind_eq_Some_conv)
  show ?thesis
  proof (cases "k = 0")
    case True
    then have "bs = []" using B k by (simp add: read_slot_def)
    with True k show ?thesis by (auto simp: vector_ok_def vector_length_def)
  next
    case False
    then have "Table_ByteVector fb rcv (ucast k + Tab_Pos rcv) = Some bs" using B k by (simp add: read_slot_def)
    then obtain a where a: "Table_Vector ax rcv (ucast k) = Some a" "Table_VectorLen ax rcv (ucast k) = Some (length bs)"
        "unat a + length bs < 2 ^ 32" "unat a + length bs \<le> length (Tab_Bytes rcv)"
      and bs: "bs = take (length bs) (drop (unat a) (Tab_Bytes rcv))"
      using L unfolding fb_access_laws_def vector_law_def by blast
    have at: "Tab_Bytes rcv ! (unat a + j) = bs ! j" if "j < length bs" for j
      using a(4) that by (subst bs) simp
    show ?thesis
      unfolding vector_ok_def
    proof (intro conjI exI [of _ "unat a"] allI impI)
      show "vector_length fb ax vt rcv = Some (length bs)" using k False a by (simp add: vector_length_def)
      fix j n
      assume j: "j < length bs"
      then have u: "unat (a + of_int (int j * 1)) = unat a + j" using a(3) by (intro unat_add_index) simp
      show "elem_at fb ax vt rcv (int j) = Some (of_char (bs ! j))"
        using k False a(1,4) j u at L by (simp add: elem_at_def fb_access_laws_def)
      show "mutate_elem fb ax vt rcv (int j) n =
          Some (rcv\<lparr>Tab_Bytes := (Tab_Bytes rcv)[unat a + j := char_of (unat n)]\<rparr>, True)"
        using k False a(1,4) j u L by (simp add: mutate_elem_def mutated_def fb_access_laws_def)
    qed (use a(4) at in auto)
  qed
qed

lemma slot_mutation:
  assumes L: "slot_mutation_law fb get mutate w" and R: "read_slot fb get d vt rcv = Some x"
  shows "Table_Offset fb rcv vt = Some 0 \<and> mutated rcv (mutate rcv vt n) = Some (rcv, False) \<or>
     (\<exists>buf k. mutated rcv (mutate rcv vt n) = Some (rcv\<lparr>Tab_Bytes := buf\<rparr>, True) \<and>
        length buf = length (Tab_Bytes rcv) \<and> get (rcv\<lparr>Tab_Bytes := buf\<rparr>) k = Some n \<and> get rcv k = Some x \<and>
        (\<forall>i < length buf. i < unat k \<or> unat k + w \<le> i \<longrightarrow> buf ! i = Tab_Bytes rcv ! i))"
proof -
  obtain k where k: "Table_Offset fb rcv vt = Some k"
    using R by (auto simp: read_slot_def bind_eq_Some_conv)
  show ?thesis
  proof (cases "k = 0")
    case True
    then show ?thesis using L k by (simp add: slot_mutation_law_def mutated_def)
  next
    case False
    then have "get rcv (ucast k + Tab_Pos rcv) = Some x" using R k by (simp add: read_slot_def)
    moreover from this False k obtain buf where "mutate rcv vt n = Some (buf, True)" "length buf = length (Tab_Bytes rcv)"
        "get (rcv\<lparr>Tab_Bytes := buf\<rparr>) (ucast k + Tab_Pos rcv) = Some n"
        "\<forall>i < length buf. i < unat (ucast k + Tab_Pos rcv) \<or> unat (ucast k + Tab_Pos rcv) + w \<le> i \<longrightarrow>
           buf ! i = Tab_Bytes rcv ! i"
      using L unfolding slot_mutation_law_def by blast
    ultimately show ?thesis
      by (intro disjI2 exI [of _ buf] exI [of _ "ucast k + Tab_Pos rcv"]) (simp add: mutated_def)
  qed
qed

text \<open>A field that was encoded with its default value is not stored, and so cannot be mutated in place.\<close>

lemma default_fields_immutable:
  assumes "fb_laws fb" and "fb_access_laws fb ax"
    and "length senderID + length topic + length txid + length payload + length messageID +
         length deviceType + length deviceID + 14000 \<le> fb_limit"
  shows "\<exists>env fsm.
     FlatbuffersEnvelopeFromBytes fb (FlatbuffersStreamToBytes fb senderID topic txid payload createdAt
        messageID deviceType deviceID ms) = Some (Inr (env, fsm)) \<and>
     (createdAt = 0 \<longrightarrow> MutateCreatedAt ax fsm n = Some (fsm, False)) \<and>
     (ms = 0 \<longrightarrow> MutateDeliveredAtEpochMs ax fsm n' = Some (fsm, False))"
proof -
  obtain env fsm where
    e: "envelope_reads fb (FlatbuffersStreamToBytes fb senderID topic txid payload createdAt messageID deviceType deviceID ms)
          txid topic messageID MessageFlatbuffersStream env fsm"
    and f: "createdAt = 0 \<longrightarrow> Table_Offset fb fsm 4 = Some 0" "ms = 0 \<longrightarrow> Table_Offset fb fsm 14 = Some 0"
    using stream_encoding [OF assms(1,3), of createdAt ms] by (elim exE conjE) (rule that)
  have "MutateCreatedAt ax fsm n = Some (fsm, False)" if "createdAt = 0"
    using f(1) that assms(2)
    by (simp add: MutateCreatedAt_def mutated_def fb_access_laws_def slot_mutation_law_def)
  moreover have "MutateDeliveredAtEpochMs ax fsm n' = Some (fsm, False)" if "ms = 0"
    using f(2) that assms(2)
    by (simp add: MutateDeliveredAtEpochMs_def mutated_def fb_access_laws_def slot_mutation_law_def)
  ultimately show ?thesis using e by (auto simp: envelope_reads_def)
qed

end
