(* ===== verification/Wire_Bytes.thy ===== *)
theory Wire_Bytes
  imports Wire_Access Wire_Instance
begin

text \<open>
  A runtime at the level of bytes that satisfies the laws of both parameters, \<^const>\<open>fb_laws\<close> and
  \<^const>\<open>fb_access_laws\<close>: little-endian numbers, relative offsets, vectors with their length in front, tables with an
  index of their fields. Addresses are positions in the buffer. Objects are laid out one after the other
  behind the root offset; there is no alignment and no sharing of indices.
\<close>

section \<open>Little-endian numbers in a buffer\<close>

fun le :: "nat \<Rightarrow> nat \<Rightarrow> bytes" where
  "le 0 v = []"
| "le (Suc n) v = char_of (v mod 256) # le n (v div 256)"

fun ld :: "bytes \<Rightarrow> nat" where
  "ld [] = 0"
| "ld (c # cs) = of_char c + 256 * ld cs"

definition rd :: "nat \<Rightarrow> bytes \<Rightarrow> nat \<Rightarrow> nat option" where
  "rd n buf a = (if a + n \<le> length buf then Some (ld (take n (drop a buf))) else None)"

definition wr :: "bytes \<Rightarrow> nat \<Rightarrow> bytes \<Rightarrow> bytes" where
  "wr buf a bs = take a buf @ bs @ drop (a + length bs) buf"

lemma length_le [simp]: "length (le n v) = n"
  by (induction n arbitrary: v) auto

lemma take_le: "m \<le> n \<Longrightarrow> take m (le n v) = le m v"
proof (induction m arbitrary: n v)
  case (Suc m)
  then show ?case by (cases n) auto
qed simp

lemma ld_le: "v < 256 ^ n \<Longrightarrow> ld (le n v) = v"
proof (induction n arbitrary: v)
  case (Suc n)
  then have "v div 256 < 256 ^ n" by (simp add: less_mult_imp_div_less mult.commute)
  with Suc.IH show ?case by (simp add: of_char_of)
qed simp

lemma ld_bound: "ld bs < 256 ^ length bs"
proof (induction bs)
  case (Cons c bs)
  have "of_char c < (256 :: nat)" by (rule nat_of_char_less_256)
  moreover have "256 * (ld bs + 1) \<le> 256 * 256 ^ length bs" using Cons by (intro mult_le_mono2) simp
  then have "256 + 256 * ld bs \<le> 256 * 256 ^ length bs" by simp
  ultimately have "of_char c + 256 * ld bs < 256 * 256 ^ length bs" by (rule less_le_trans [OF add_less_mono1])
  then show ?case by simp
qed simp

lemma rd_bound: "rd n buf a = Some v \<Longrightarrow> v < 256 ^ n"
  using ld_bound [of "take n (drop a buf)"] by (auto simp: rd_def split: if_splits)

lemma rd_at:
  assumes "buf = pre @ mid @ post" "length pre = p" "k + n \<le> length mid"
  shows "rd n buf (p + k) = rd n mid k"
  using assms by (auto simp: rd_def)

lemma rd_le: "k + n \<le> length buf \<Longrightarrow> take m (drop k buf) = le m v \<Longrightarrow> n \<le> m \<Longrightarrow> v < 256 ^ n \<Longrightarrow> rd n buf k = Some v"
  using ld_le [of v n] take_le [of n m v] by (auto simp: rd_def min_def dest: arg_cong [of _ _ "take n"])

lemma length_wr [simp]: "a + length bs \<le> length buf \<Longrightarrow> length (wr buf a bs) = length buf"
  by (simp add: wr_def)

lemma wr_outside: "a + length bs \<le> length buf \<Longrightarrow> i < length buf \<Longrightarrow> i < a \<or> a + length bs \<le> i \<Longrightarrow> wr buf a bs ! i = buf ! i"
  by (auto simp: wr_def nth_append)

lemma rd_wr: "a + n \<le> length buf \<Longrightarrow> v < 256 ^ n \<Longrightarrow> rd n (wr buf a (le n v)) a = Some v"
  by (simp add: rd_def wr_def ld_le)

lemma rd_byte: "rd 1 buf a = (if a < length buf then Some (of_char (buf ! a)) else None)"
  by (auto simp: rd_def take_Suc hd_drop_conv_nth)

section \<open>Layout\<close>

fun bval :: "fb_val \<Rightarrow> u32 \<Rightarrow> nat" where
  "bval (FOff t) a = unat (t - a)"
| "bval (FByte x) a = unat x"
| "bval (FU32 x) a = unat x"
| "bval (FU64 x) a = unat x"

definition bfield :: "nat \<Rightarrow> (nat \<times> fb_val) list \<Rightarrow> nat \<Rightarrow> bytes" where
  "bfield p ws i = le 8 (case map_of ws i of None \<Rightarrow> 0 | Some v \<Rightarrow> bval v (of_nat (p + 204 + 8 * i)))"

definition bindex :: "(nat \<times> fb_val) list \<Rightarrow> nat \<Rightarrow> bytes" where
  "bindex ws i = le 2 (if map_of ws i = None then 0 else 204 + 8 * i)"

fun bobj :: "nat \<Rightarrow> tobj \<Rightarrow> bytes" where
  "bobj p (TVec v) = le 4 (length v) @ v"
| "bobj p (TTab ws) = le 4 0 @ concat (map (bindex ws) [0..<100]) @ concat (map (bfield p ws) [0..<100])"

fun bsize :: "tobj \<Rightarrow> nat" where
  "bsize (TVec v) = 4 + length v"
| "bsize (TTab ws) = 1004"

fun brender :: "nat \<Rightarrow> tobj list \<Rightarrow> bytes" where
  "brender a [] = []"
| "brender a (x # xs) = bobj a x @ brender (a + bsize x) xs"

fun bget :: "nat \<Rightarrow> tobj list \<Rightarrow> nat \<Rightarrow> tobj option" where
  "bget a [] p = None"
| "bget a (x # xs) p = (if p = a then Some x else bget (a + bsize x) xs p)"

definition bbuf :: "u32 \<Rightarrow> tobj list \<Rightarrow> bytes" where
  "bbuf r objs = le 4 (unat r) @ brender 4 objs"

definition bend :: "tobj list \<Rightarrow> nat" where
  "bend objs = 4 + sum_list (map bsize objs)"

lemma length_concat_const: "(\<And>i. length (f i) = m) \<Longrightarrow> length (concat (map f xs)) = m * length xs"
  by (induction xs) auto

lemma concat_piece:
  assumes "\<And>i. length (f i) = m" and "i < n"
  shows "take m (drop (m * i) (concat (map f [0..<n]))) = f i"
proof -
  have "[0..<n] = [0..<i] @ i # [Suc i..<n]"
    using assms(2) upt_add_eq_append [of 0 i "n - i"] by (simp add: upt_conv_Cons)
  then show ?thesis using assms(1) by (simp add: length_concat_const)
qed

lemma length_bobj [simp]: "length (bobj p x) = bsize x"
proof (cases x)
  case (TTab ws)
  then show ?thesis
    using length_concat_const [of "bindex ws" 2 "[0..<100]"] length_concat_const [of "bfield p ws" 8 "[0..<100]"]
    by (simp add: bindex_def bfield_def del: upt_rec_numeral)
qed simp

lemma length_brender: "length (brender a objs) = sum_list (map bsize objs)"
  by (induction objs arbitrary: a) auto

lemma length_bbuf: "length (bbuf r objs) = bend objs"
  by (simp add: bbuf_def bend_def length_brender)

lemma bget_split:
  "bget a objs p = Some x \<Longrightarrow> \<exists>pre post. brender a objs = pre @ bobj p x @ post \<and> a + length pre = p"
proof (induction objs arbitrary: a)
  case (Cons y objs)
  show ?case
  proof (cases "p = a")
    case True
    with Cons.prems show ?thesis by (intro exI [of _ "[]"] exI [of _ "brender (a + bsize y) objs"]) auto
  next
    case False
    then obtain pre post where "brender (a + bsize y) objs = pre @ bobj p x @ post" "a + bsize y + length pre = p"
      using Cons by fastforce
    then show ?thesis by (intro exI [of _ "bobj a y @ pre"] exI [of _ post]) auto
  qed
qed simp

lemma bget_ge: "bget a objs p = Some x \<Longrightarrow> a \<le> p"
  using bget_split by fastforce

lemma bsize_pos: "4 \<le> bsize x"
  by (cases x) auto

lemma bget_append: "bget a objs p = Some x \<Longrightarrow> bget a (objs @ ys) p = Some x"
  by (induction objs arbitrary: a) auto

lemma bget_new: "bget a (objs @ [y]) (a + sum_list (map bsize objs)) = Some y"
proof (induction objs arbitrary: a)
  case (Cons x objs)
  then show ?case using Cons [of "a + bsize x"] bsize_pos [of x] by (simp add: add.assoc)
qed simp

lemma rd_obj:
  assumes "bget 4 objs p = Some x" and "k + n \<le> bsize x"
  shows "rd n (bbuf r objs) (p + k) = rd n (bobj p x) k"
proof -
  obtain pre post where "brender 4 objs = pre @ bobj p x @ post" "4 + length pre = p"
    using bget_split [OF assms(1)] by blast
  then have "bbuf r objs = (le 4 (unat r) @ pre) @ bobj p x @ post" "length (le 4 (unat r) @ pre) = p"
    by (simp_all add: bbuf_def)
  then show ?thesis by (rule rd_at) (simp add: assms(2))
qed

lemma bget_end: "bget 4 objs p = Some x \<Longrightarrow> p + bsize x \<le> bend objs"
  using bget_split [of 4 objs p x] length_brender [of 4 objs] by (auto simp: bend_def)

section \<open>The runtime\<close>

definition bfb :: "tbuilder flatbuffers" where
  "bfb = \<lparr>NewBuilder = \<lparr>tb_objs = [], tb_open = None, tb_root = 0\<rparr>,
     CreateByteString = (\<lambda>b v. (b\<lparr>tb_objs := tb_objs b @ [TVec v]\<rparr>, of_nat (bend (tb_objs b)))),
     StartObject = (\<lambda>b n. if tb_open b = None then b\<lparr>tb_open := Some (n, [])\<rparr> else b),
     PrependUOffsetTSlot = tprep FOff, PrependByteSlot = tprep FByte,
     PrependUint32Slot = tprep FU32, PrependUint64Slot = tprep FU64,
     EndObject = (\<lambda>b. case tb_open b of None \<Rightarrow> (b, 0)
        | Some (n, ws) \<Rightarrow> (b\<lparr>tb_objs := tb_objs b @ [TTab ws], tb_open := None\<rparr>, of_nat (bend (tb_objs b)))),
     Finish = (\<lambda>b r. b\<lparr>tb_root := r\<rparr>),
     HeadBytes = (\<lambda>b. bbuf (tb_root b) (tb_objs b)),
     GetUOffsetT = (\<lambda>buf. map_option of_nat (rd 4 buf 0)),
     Table_Offset = (\<lambda>t vt. map_option of_nat (rd 2 (Tab_Bytes t) (unat (Tab_Pos t) + unat vt))),
     Table_ByteVector = (\<lambda>t a. do { p \<leftarrow> rd 4 (Tab_Bytes t) (unat a);
        n \<leftarrow> rd 4 (Tab_Bytes t) (unat (a + of_nat p));
        let s = unat (a + of_nat p + 4) in
        if s + n < 2 ^ 32 \<and> s + n \<le> length (Tab_Bytes t) then Some (take n (drop s (Tab_Bytes t))) else None }),
     Table_GetByte = (\<lambda>t a. map_option of_nat (rd 1 (Tab_Bytes t) (unat a))),
     Table_GetUint32 = (\<lambda>t a. map_option of_nat (rd 4 (Tab_Bytes t) (unat a))),
     Table_GetUint64 = (\<lambda>t a. map_option of_nat (rd 8 (Tab_Bytes t) (unat a))),
     Table_Union = (\<lambda>t k. map_option (\<lambda>p. t\<lparr>Tab_Pos := k + Tab_Pos t + of_nat p\<rparr>)
        (rd 4 (Tab_Bytes t) (unat (k + Tab_Pos t))))\<rparr>"

definition bput :: "nat \<Rightarrow> ('v \<Rightarrow> nat) \<Rightarrow> fb_table \<Rightarrow> u16 \<Rightarrow> 'v \<Rightarrow> (bytes \<times> bool) option" where
  "bput w val t vt x = do { k \<leftarrow> Table_Offset bfb t vt;
     let a = unat (ucast k + Tab_Pos t) in
     if k = 0 then Some (Tab_Bytes t, False)
     else if a + w \<le> length (Tab_Bytes t) then Some (wr (Tab_Bytes t) a (le w (val x)), True) else None }"

definition bax :: "tbuilder fb_access" where
  "bax = \<lparr>Table_Vector = (\<lambda>t k. map_option (\<lambda>p. k + Tab_Pos t + of_nat p + 4) (rd 4 (Tab_Bytes t) (unat (k + Tab_Pos t)))),
     Table_VectorLen = (\<lambda>t k. do { p \<leftarrow> rd 4 (Tab_Bytes t) (unat (k + Tab_Pos t));
        rd 4 (Tab_Bytes t) (unat (k + Tab_Pos t + of_nat p)) }),
     Table_MutateByte = (\<lambda>t a n. if unat a < length (Tab_Bytes t)
        then Some ((Tab_Bytes t)[unat a := char_of (unat n)], True) else None),
     Table_MutateByteSlot = bput 1 unat, Table_MutateUint32Slot = bput 4 unat, Table_MutateUint64Slot = bput 8 unat,
     StartVector = (\<lambda>b _ _ _. (b, of_nat (bend (tb_objs b))))\<rparr>"

lemma bax_sel:
  "Table_MutateByte bax t a n = (if unat a < length (Tab_Bytes t)
     then Some ((Tab_Bytes t)[unat a := char_of (unat n)], True) else None)"
  "Table_MutateByteSlot bax = bput 1 unat" "Table_MutateUint32Slot bax = bput 4 unat" "Table_MutateUint64Slot bax = bput 8 unat"
  by (simp_all add: bax_def)

section \<open>The laws of the accessors\<close>

lemma bput_law:
  fixes val :: "'v \<Rightarrow> nat"
  assumes "\<And>t a. get t a = map_option mk (rd w (Tab_Bytes t) (unat a))"
    and "\<And>x. val x < 256 ^ w" and "\<And>x. mk (val x) = x"
  shows "slot_mutation_law bfb get (bput w val) w"
  unfolding slot_mutation_law_def
proof (intro conjI allI impI)
  fix t vt n k x
  assume k: "Table_Offset bfb t vt = Some k" "k \<noteq> 0" and g: "get t (ucast k + Tab_Pos t) = Some x"
  let ?a = "unat (ucast k + Tab_Pos t)"
  have a: "?a + w \<le> length (Tab_Bytes t)" using g assms(1) by (auto simp: rd_def split: if_splits)
  let ?buf = "wr (Tab_Bytes t) ?a (le w (val n))"
  show "\<exists>buf. bput w val t vt n = Some (buf, True) \<and> length buf = length (Tab_Bytes t) \<and>
     get (t\<lparr>Tab_Bytes := buf\<rparr>) (ucast k + Tab_Pos t) = Some n \<and>
     (\<forall>i<length buf. i < ?a \<or> ?a + w \<le> i \<longrightarrow> buf ! i = Tab_Bytes t ! i)"
  proof (intro exI [of _ ?buf] conjI allI impI)
    show "bput w val t vt n = Some (?buf, True)" using k a by (simp add: bput_def Let_def)
    show "get (t\<lparr>Tab_Bytes := ?buf\<rparr>) (ucast k + Tab_Pos t) = Some n"
      using rd_wr [OF a assms(2)] assms by simp
  qed (use a in \<open>auto intro: wr_outside\<close>)
qed (auto simp: bput_def Let_def)

lemma word_val: "unat (x :: 'a :: len word) < 2 ^ LENGTH('a)"
  by (rule unsigned_less)

lemma vector_law_bfb: "vector_law bfb bax"
  unfolding vector_law_def
proof (intro allI impI)
  fix t k bs
  assume "Table_ByteVector bfb t (k + Tab_Pos t) = Some bs"
  then obtain p n where "rd 4 (Tab_Bytes t) (unat (k + Tab_Pos t)) = Some p"
      "rd 4 (Tab_Bytes t) (unat (k + Tab_Pos t + of_nat p)) = Some n"
      "unat (k + Tab_Pos t + of_nat p + 4) + n < 2 ^ 32" "unat (k + Tab_Pos t + of_nat p + 4) + n \<le> length (Tab_Bytes t)"
      "bs = take n (drop (unat (k + Tab_Pos t + of_nat p + 4)) (Tab_Bytes t))"
    by (auto simp: bfb_def Let_def bind_eq_Some_conv split: if_splits)
  then show "\<exists>a. Table_Vector bax t k = Some a \<and> Table_VectorLen bax t k = Some (length bs) \<and>
      unat a + length bs < 2 ^ 32 \<and> unat a + length bs \<le> length (Tab_Bytes t) \<and>
      bs = take (length bs) (drop (unat a) (Tab_Bytes t))"
    by (intro exI [of _ "k + Tab_Pos t + of_nat p + 4"]) (simp add: bax_def)
qed

lemma access_laws_bfb: "fb_access_laws bfb bax"
proof -
  have "slot_mutation_law bfb (Table_GetByte bfb) (bput 1 unat) 1"
    by (rule bput_law [where mk = of_nat]) (use word_val [where 'a = 8] in \<open>simp_all add: bfb_def\<close>)
  moreover have "slot_mutation_law bfb (Table_GetUint32 bfb) (bput 4 unat) 4"
    by (rule bput_law [where mk = of_nat]) (use word_val [where 'a = 32] in \<open>simp_all add: bfb_def\<close>)
  moreover have "slot_mutation_law bfb (Table_GetUint64 bfb) (bput 8 unat) 8"
    by (rule bput_law [where mk = of_nat]) (use word_val [where 'a = 64] in \<open>simp_all add: bfb_def\<close>)
  moreover have "Table_GetByte bfb t a = (if unat a < length (Tab_Bytes t) then Some (of_char (Tab_Bytes t ! unat a)) else None)"
    for t a
    by (simp add: bfb_def rd_byte of_nat_of_char del: One_nat_def)
  ultimately show ?thesis
    unfolding fb_access_laws_def using vector_law_bfb by (simp add: bax_sel)
qed

section \<open>The laws of the builder\<close>

definition bview :: "tbuilder fb_view" where
  "bview = tg\<lparr>heap := (\<lambda>b p. map_option tview (bget 4 (tb_objs b) (unat p)))\<rparr>"

lemma bview_sel:
  "heap bview b p = map_option tview (bget 4 (tb_objs b) (unat p))"
  "opn bview b = opn tg b" "used bview b = used tg b"
  by (simp_all add: bview_def)

lemma bfb_steps:
  "NewBuilder bfb = NewBuilder tfb" "StartObject bfb = StartObject tfb"
  "PrependUOffsetTSlot bfb = PrependUOffsetTSlot tfb" "PrependByteSlot bfb = PrependByteSlot tfb"
  "PrependUint32Slot bfb = PrependUint32Slot tfb" "PrependUint64Slot bfb = PrependUint64Slot tfb"
  "fst (CreateByteString bfb b v) = fst (CreateByteString tfb b v)" "fst (EndObject bfb b) = fst (EndObject tfb b)"
  by (simp_all add: bfb_def tfb_def split: option.split)

lemma bsize_tsize: "bsize x \<le> tsize x"
  by (cases x) auto

lemma bend_used: "sum_list (map tsize objs) \<le> fb_limit \<Longrightarrow> bend objs < 2 ^ 31"
proof -
  assume "sum_list (map tsize objs) \<le> fb_limit"
  moreover have "sum_list (map bsize objs) \<le> sum_list (map tsize objs)"
    using bsize_tsize by (rule sum_list_mono)
  ultimately show ?thesis by (simp add: bend_def fb_limit_def)
qed

lemma objs_used: "sum_list (map tsize (tb_objs b)) \<le> used tg b"
  by (simp add: tg_sel)

lemma unat_bend: "bend objs < 2 ^ 31 \<Longrightarrow> unat (of_nat (bend objs) :: u32) = bend objs"
  by (simp add: unat_of_nat)

lemma bview_new:
  assumes "used tg b' \<le> fb_limit" "tb_objs b' = tb_objs b @ [x]" "p = of_nat (bend (tb_objs b))"
  shows "p \<noteq> 0" "heap bview b' p = Some (tview x)" "keeps bview b b'"
proof -
  have "bend (tb_objs b) \<le> bend (tb_objs b')" using assms(2) by (simp add: bend_def)
  then have u: "unat p = bend (tb_objs b)"
    using bend_used [of "tb_objs b'"] objs_used [of b'] assms(1,3) unat_bend [of "tb_objs b"] by simp
  then show "p \<noteq> 0" by (auto simp: bend_def)
  show "heap bview b' p = Some (tview x)"
    using u assms(2) bget_new [of 4 "tb_objs b" x] by (simp add: bview_sel bend_def)
  show "keeps bview b b'" using assms(2) by (auto simp: keeps_def bview_sel bget_append)
qed

lemma slot_law_bview:
  "slot_law tg (tprep mk) mk valid \<Longrightarrow> slot_law bview (tprep mk) mk valid'"
  by (auto simp: slot_law_def grows_def bview_sel tg_sel tprep_def fun_eq_iff split: option.splits)

lemma builder_laws_bfb: "fb_builder_laws bfb bview"
proof -
  note T = builder_laws_tfb [unfolded fb_builder_laws_def]
  show ?thesis
    unfolding fb_builder_laws_def
  proof (intro conjI allI impI)
    fix b v b' p
    assume c: "CreateByteString bfb b v = (b', p)"
    then have o: "tb_objs b' = tb_objs b @ [TVec v]" "p = of_nat (bend (tb_objs b))" "tb_open b' = tb_open b"
      by (auto simp: bfb_def)
    show "grows bview b b' (length v + 512)" using o by (auto simp: grows_def bview_sel tg_sel)
    assume "opn bview b = None" and "used bview b' \<le> fb_limit"
    then show "p \<noteq> 0" and "heap bview b' p = Some (FVec v)" and "keeps bview b b'" and "opn bview b' = None"
      using bview_new [OF _ o(1,2)] o(3) by (auto simp: bview_sel tg_sel)
  next
    fix b b' p
    assume e: "EndObject bfb b = (b', p)"
    show "grows bview b b' 512"
      using e by (auto simp: grows_def bview_sel tg_sel bfb_def split: option.splits)
    fix n s
    assume "opn bview b = Some (n, s)" and u: "used bview b' \<le> fb_limit"
    then obtain ws where ws: "tb_open b = Some (n, ws)" "s = map_of ws" by (auto simp: bview_sel tg_sel)
    then have o: "tb_objs b' = tb_objs b @ [TTab ws]" "p = of_nat (bend (tb_objs b))" "tb_open b' = None"
      using e by (auto simp: bfb_def)
    show "p \<noteq> 0" and "heap bview b' p = Some (FTab s)" and "keeps bview b b'" and "opn bview b' = None"
      using bview_new [OF _ o(1,2)] u ws(2) o(3) by (auto simp: bview_sel tg_sel)
  qed (auto simp: bview_sel tg_sel bfb_def grows_def slot_law_bview [OF slot_law_tprep] fun_eq_iff split: option.splits)
qed

section \<open>The laws of the reader\<close>

lemma bindex_at:
  assumes "i < 100"
  shows "rd 2 (bobj p (TTab ws)) (4 + 2 * i) = Some (if map_of ws i = None then 0 else 204 + 8 * i)"
proof -
  have l: "length (bindex ws j) = 2" for j by (simp add: bindex_def)
  have "take 2 (drop (4 + 2 * i) (bobj p (TTab ws))) = bindex ws i"
    using assms concat_piece [of "bindex ws" 2 i 100, OF l] length_concat_const [of "bindex ws" 2 "[0..<100]", OF l]
    by (simp del: upt_rec_numeral)
  then show ?thesis
    using assms length_bobj [of p "TTab ws"] unfolding bindex_def by (intro rd_le [where m = 2]) auto
qed

lemma bfield_at:
  assumes "i < 100" "map_of ws i = Some v" "n \<le> 8" "bval v (of_nat (p + 204 + 8 * i)) < 256 ^ n"
  shows "rd n (bobj p (TTab ws)) (204 + 8 * i) = Some (bval v (of_nat (p + 204 + 8 * i)))"
proof -
  have l: "length (bindex ws j) = 2" "length (bfield p ws j) = 8" for j by (simp_all add: bindex_def bfield_def)
  have "drop 204 (bobj p (TTab ws)) = concat (map (bfield p ws) [0..<100])"
    using length_concat_const [of "bindex ws" 2 "[0..<100]", OF l(1)] by (simp del: upt_rec_numeral)
  then have "drop (204 + 8 * i) (bobj p (TTab ws)) = drop (8 * i) (concat (map (bfield p ws) [0..<100]))"
    by (metis add.commute drop_drop)
  then have "take 8 (drop (204 + 8 * i) (bobj p (TTab ws))) = bfield p ws i"
    using concat_piece [of "bfield p ws" 8 i 100, OF l(2) assms(1)] by simp
  then show ?thesis
    using assms length_bobj [of p "TTab ws"] unfolding bfield_def by (intro rd_le [where m = 8]) auto
qed

lemma vector_at:
  assumes "bget 4 objs p = Some (TVec bs)" "bend objs < 2 ^ 31"
  shows "rd 4 (bbuf r objs) p = Some (length bs)" "take (length bs) (drop (p + 4) (bbuf r objs)) = bs"
    "p + 4 + length bs \<le> bend objs"
proof -
  show e: "p + 4 + length bs \<le> bend objs" using bget_end [OF assms(1)] by simp
  have "rd 4 (bobj p (TVec bs)) 0 = Some (length bs)"
    using e assms(2) by (intro rd_le [where m = 4]) simp_all
  then show "rd 4 (bbuf r objs) p = Some (length bs)" using rd_obj [OF assms(1), of 0 4 r] by simp
  obtain pre post where "brender 4 objs = pre @ bobj p (TVec bs) @ post" "4 + length pre = p"
    using bget_split [OF assms(1)] by blast
  then show "take (length bs) (drop (p + 4) (bbuf r objs)) = bs" by (auto simp: bbuf_def)
qed

text \<open>The addresses of a table: its index entries, its fields.\<close>

lemma table_addresses:
  fixes p :: u32
  assumes "bget 4 objs (unat p) = Some (TTab ws)" "bend objs < 2 ^ 31" "i < 100"
  defines "k \<equiv> of_nat (204 + 8 * i) :: u16"
  shows "unat (of_nat (4 + 2 * i) :: u16) = 4 + 2 * i" "k \<noteq> 0" "unat (ucast k + p) = unat p + (204 + 8 * i)"
    "of_nat (unat p + 204 + 8 * i) = ucast k + p"
proof -
  show "unat (of_nat (4 + 2 * i) :: u16) = 4 + 2 * i" using assms(3) by (subst unat_of_nat) simp
  have k: "unat k = 204 + 8 * i" using assms(3) unfolding k_def by (subst unat_of_nat) simp
  then show "k \<noteq> 0" by auto
  have c: "unat (ucast k :: u32) = 204 + 8 * i"
    using k assms(3) unsigned_ucast_eq [where 'a = nat and 'c = 32 and w = k] by (simp add: take_bit_nat_eq_self)
  have "unat p + 1004 < 2 ^ 31" using bget_end [OF assms(1)] assms(2) by simp
  then show u: "unat (ucast k + p) = unat p + (204 + 8 * i)"
    using c assms(3) by (simp add: unat_word_ariths)
  have "of_nat (unat (ucast k + p)) = ucast k + p" by simp
  then show "of_nat (unat p + 204 + 8 * i) = ucast k + p" unfolding u by (simp add: add.assoc)
qed

lemma tab_reads_bfb:
  assumes T: "bget 4 objs (unat p) = Some (TTab ws)" and B: "bend objs < 2 ^ 31"
  shows "tab_reads bfb (\<lambda>q. map_option tview (bget 4 objs (unat q))) (bbuf r objs) id p (map_of ws)"
  unfolding tab_reads_def Let_def
proof (intro allI impI conjI)
  fix i :: nat
  assume i: "i < fb_max_slots"
  let ?tab = "\<lparr>Tab_Bytes = bbuf r objs, Tab_Pos = id p\<rparr>" and ?vt = "of_nat (4 + 2 * i) :: u16"
  let ?k = "of_nat (204 + 8 * i) :: u16"
  note A = table_addresses [OF T B i]
  have off: "Table_Offset bfb ?tab ?vt = Some (if map_of ws i = None then 0 else ?k)"
    using rd_obj [OF T, of "4 + 2 * i" 2 r] bindex_at [OF i] i A(1) by (simp add: bfb_def)
  show "Table_Offset bfb ?tab ?vt = Some 0" if "map_of ws i = None" using off that by simp
  show "\<exists>k. k \<noteq> 0 \<and> Table_Offset bfb ?tab ?vt = Some k \<and>
      (case v of
         FOff t \<Rightarrow> Table_Union bfb ?tab (ucast k) = Some \<lparr>Tab_Bytes = bbuf r objs, Tab_Pos = id t\<rparr> \<and>
           (\<forall>bs. map_option tview (bget 4 objs (unat t)) = Some (FVec bs) \<longrightarrow>
              Table_ByteVector bfb ?tab (ucast k + id p) = Some bs)
       | FByte x \<Rightarrow> Table_GetByte bfb ?tab (ucast k + id p) = Some x
       | FU32 x \<Rightarrow> Table_GetUint32 bfb ?tab (ucast k + id p) = Some x
       | FU64 x \<Rightarrow> Table_GetUint64 bfb ?tab (ucast k + id p) = Some x)"
    if v: "map_of ws i = Some v" for v
  proof (intro exI [of _ ?k] conjI)
    show "?k \<noteq> 0" by (rule A(2))
    show "Table_Offset bfb ?tab ?vt = Some ?k" using off v by simp
    have f: "rd n (bbuf r objs) (unat (ucast ?k + p)) = Some (bval v (ucast ?k + p))"
      if "n \<le> 8" "bval v (ucast ?k + p) < 256 ^ n" for n
    proof -
      have "204 + 8 * i + n \<le> bsize (TTab ws)" using i that(1) by simp
      then show ?thesis
        unfolding A(3) by (rule trans [OF rd_obj [OF T] bfield_at [OF i v that(1), of "unat p", unfolded A(4), OF that(2)]])
    qed
    have tv: "tview x = FVec bs \<longleftrightarrow> x = TVec bs" for x bs by (cases x) auto
    have bv: "Table_ByteVector bfb ?tab (ucast ?k + id p) = Some bs"
      if v: "v = FOff t" and t: "bget 4 objs (unat t) = Some (TVec bs)" for t bs
    proof -
      note V = vector_at [OF t B]
      have "unat (t + 4) = unat t + 4" using V(3) B by (simp add: unat_word_ariths)
      moreover have "rd 4 (bbuf r objs) (unat (ucast ?k + p)) = Some (unat (t - (ucast ?k + p)))"
        using f [of 4] v word_val [of "t - (ucast ?k + p)"] by simp
      ultimately show ?thesis using V B by (simp add: bfb_def Let_def length_bbuf)
    qed
    show "case v of
         FOff t \<Rightarrow> Table_Union bfb ?tab (ucast ?k) = Some \<lparr>Tab_Bytes = bbuf r objs, Tab_Pos = id t\<rparr> \<and>
           (\<forall>bs. map_option tview (bget 4 objs (unat t)) = Some (FVec bs) \<longrightarrow>
              Table_ByteVector bfb ?tab (ucast ?k + id p) = Some bs)
       | FByte x \<Rightarrow> Table_GetByte bfb ?tab (ucast ?k + id p) = Some x
       | FU32 x \<Rightarrow> Table_GetUint32 bfb ?tab (ucast ?k + id p) = Some x
       | FU64 x \<Rightarrow> Table_GetUint64 bfb ?tab (ucast ?k + id p) = Some x"
    proof (cases v)
      case (FOff t)
      then have "Table_Union bfb ?tab (ucast ?k) = Some \<lparr>Tab_Bytes = bbuf r objs, Tab_Pos = t\<rparr>"
        using f [of 4] word_val [of "t - (ucast ?k + p)"] by (simp add: bfb_def)
      with FOff bv show ?thesis by (auto simp: tv)
    next
      case (FByte x)
      then show ?thesis using f [of 1] word_val [of x] by (simp add: bfb_def)
    next
      case (FU32 x)
      then show ?thesis using f [of 4] word_val [of x] by (simp add: bfb_def)
    next
      case (FU64 x)
      then show ?thesis using f [of 8] word_val [of x] by (simp add: bfb_def)
    qed
  qed
qed

lemma reader_law_bfb: "fb_reader_law bfb bview"
  unfolding fb_reader_law_def Let_def
proof (intro allI impI conjI)
  fix b r s
  assume u: "used bview b + 512 \<le> fb_limit"
  let ?buf = "HeadBytes bfb (Finish bfb b r)"
  have buf: "?buf = bbuf r (tb_objs b)" by (simp add: bfb_def)
  have "length ?buf \<noteq> 0" by (simp add: buf length_bbuf bend_def)
  then show "?buf \<noteq> []" by simp
  have "rd 4 (bbuf r (tb_objs b)) 0 = Some (unat r)"
    using word_val [of r] by (intro rd_le [where m = 4]) (simp_all add: bbuf_def)
  then have "GetUOffsetT bfb ?buf = Some (id r)" unfolding buf by (simp add: bfb_def)
  moreover have "tab_reads bfb (heap bview b) ?buf id p s" if h: "heap bview b p = Some (FTab s)" for p s
  proof -
    obtain x where x: "bget 4 (tb_objs b) (unat p) = Some x" "tview x = FTab s"
      using h by (auto simp: bview_sel)
    then obtain ws where "x = TTab ws" "s = map_of ws" by (cases x) auto
    moreover have "heap bview b = (\<lambda>q. map_option tview (bget 4 (tb_objs b) (unat q)))"
      by (simp add: bview_sel fun_eq_iff)
    moreover have "bend (tb_objs b) < 2 ^ 31" using u objs_used [of b] by (intro bend_used) (simp add: bview_sel)
    ultimately show ?thesis using tab_reads_bfb x(1) by (simp add: buf)
  qed
  ultimately show "\<exists>pos. GetUOffsetT bfb ?buf = Some (pos r) \<and>
      (\<forall>p s. heap bview b p = Some (FTab s) \<longrightarrow> tab_reads bfb (heap bview b) ?buf pos p s)"
    by blast
qed

theorem fb_laws_bfb: "fb_laws bfb"
  using builder_laws_bfb reader_law_bfb by (auto simp: fb_laws_def)

section \<open>The accessors of an encoded message\<close>

text \<open>
  C40: Given the laws of the runtime, after a stream message is encoded and its envelope read back, the generated accessors of all
  seven byte fields agree with the encoded values: the length accessor returns the length of the field, the
  element accessor its bytes, and the mutator of an element returns true and overwrites that byte of the
  buffer and no other.
\<close>

theorem element_accessors_agree:
  assumes "fb_laws fb" and "fb_access_laws fb ax"
    and "length senderID + length topic + length txid + length payload + length messageID +
         length deviceType + length deviceID + 14000 \<le> fb_limit"
  shows "\<exists>env fsm.
     FlatbuffersEnvelopeFromBytes fb (FlatbuffersStreamToBytes fb senderID topic txid payload createdAt
        messageID deviceType deviceID ms) = Some (Inr (env, fsm)) \<and>
     vector_ok env (TxidLength fb ax env) (Txid fb ax env) (MutateTxid fb ax env) txid \<and>
     vector_ok env (TopicLength fb ax env) (Topic fb ax env) (MutateTopic fb ax env) topic \<and>
     vector_ok env (MessageIdLength fb ax env) (MessageId fb ax env) (MutateMessageId fb ax env) messageID \<and>
     vector_ok fsm (SenderIdLength fb ax fsm) (SenderId fb ax fsm) (MutateSenderId fb ax fsm) senderID \<and>
     vector_ok fsm (PayloadLength fb ax fsm) (Payload fb ax fsm) (MutatePayload fb ax fsm) payload \<and>
     vector_ok fsm (DeviceTypeLength fb ax fsm) (DeviceType fb ax fsm) (MutateDeviceType fb ax fsm) deviceType \<and>
     vector_ok fsm (DeviceIdLength fb ax fsm) (DeviceId fb ax fsm) (MutateDeviceId fb ax fsm) deviceID"
proof -
  obtain env fsm where
    e: "envelope_reads fb (FlatbuffersStreamToBytes fb senderID topic txid payload createdAt messageID deviceType deviceID ms)
          txid topic messageID MessageFlatbuffersStream env fsm"
    and f: "stream_reads fb fsm senderID payload createdAt deviceType deviceID ms"
    using stream_to_bytes [OF assms(1,3)] by blast
  note v = vector_accessors [OF assms(2)]
  show ?thesis
    using e f unfolding envelope_reads_def stream_reads_def accessor_defs elem_defs
    by (intro exI [of _ env] exI [of _ fsm] conjI v) auto
qed

theorem element_accessors_agree_witness:
  "\<exists>env fsm.
     FlatbuffersEnvelopeFromBytes bfb (FlatbuffersStreamToBytes bfb ''vehicle_device.42'' ''V'' ''1234'' ''data'' 17
        ''77'' ''vehicle_device'' ''42'' 0) = Some (Inr (env, fsm)) \<and>
     TxidLength bfb bax env = Some 4 \<and> Txid bfb bax env 1 = Some 50 \<and> Payload bfb bax fsm 0 = Some 100"
proof -
  have "length ''vehicle_device.42'' + length ''V'' + length ''1234'' + length ''data'' + length ''77'' +
      length ''vehicle_device'' + length ''42'' + 14000 \<le> fb_limit" by (simp add: fb_limit_def)
  from element_accessors_agree [OF fb_laws_bfb access_laws_bfb this, of 17 0]
  obtain env fsm where e: "FlatbuffersEnvelopeFromBytes bfb (FlatbuffersStreamToBytes bfb ''vehicle_device.42'' ''V'' ''1234'' ''data'' 17
        ''77'' ''vehicle_device'' ''42'' 0) = Some (Inr (env, fsm))"
    and v: "vector_ok env (TxidLength bfb bax env) (Txid bfb bax env) (MutateTxid bfb bax env) ''1234''"
      "vector_ok fsm (PayloadLength bfb bax fsm) (Payload bfb bax fsm) (MutatePayload bfb bax fsm) ''data''"
    by blast
  from v have "\<forall>j < 4. Txid bfb bax env (int j) = Some (of_char (''1234'' ! j))"
      "\<forall>j < 4. Payload bfb bax fsm (int j) = Some (of_char (''data'' ! j))" "TxidLength bfb bax env = Some 4"
    unfolding vector_ok_def by auto
  note this(1) [rule_format, of 1] this(2) [rule_format, of 0] this(3)
  with e show ?thesis by (intro exI [of _ env] exI [of _ fsm]) simp
qed

end
