(* ===== verification/Message_Ops.thy ===== *)
theory Message_Ops
  imports Stream_Messages
begin

text \<open>
  The accessors that both messages of the protocol have (\<^verbatim>\<open>messages/stream_message.go\<close>,
  \<^verbatim>\<open>messages/stream_ack_message.go\<close>), the contract they share, and sequences of setters: what
  a stream message holds on the wire after any of its setters were called, in any order and any
  number of times.
\<close>

section \<open>The accessors\<close>

definition StreamMessage_Topic :: "stream_message \<Rightarrow> string" where
  "StreamMessage_Topic m = msg_MessageTopic m"

definition StreamMessage_Txid :: "stream_message \<Rightarrow> bytes" where
  "StreamMessage_Txid m = msg_TXID m"

definition StreamMessage_IsExpired :: "stream_message \<Rightarrow> bool" where
  "StreamMessage_IsExpired m = False"

definition StreamMessage_MessageID :: "stream_message \<Rightarrow> bytes" where
  "StreamMessage_MessageID m = msg_EnvMessageID m"

definition StreamAckMessage_Topic :: "stream_ack_message \<Rightarrow> string" where
  "StreamAckMessage_Topic m = ack_MessageTopic m"

definition StreamAckMessage_Txid :: "stream_ack_message \<Rightarrow> bytes" where
  "StreamAckMessage_Txid m = ack_TXID m"

definition StreamAckMessage_IsExpired :: "stream_ack_message \<Rightarrow> bool" where
  "StreamAckMessage_IsExpired m = False"

definition StreamAckMessage_SetSenderID :: "string \<Rightarrow> stream_ack_message \<Rightarrow> stream_ack_message" where
  "StreamAckMessage_SetSenderID senderID m = m"

definition StreamAckMessage_MessageID :: "stream_ack_message \<Rightarrow> bytes" where
  "StreamAckMessage_MessageID m = ack_EnvMessageID m"

definition StreamAckMessage_ExtraLogInfo :: "stream_ack_message \<Rightarrow> log_info" where
  "StreamAckMessage_ExtraLogInfo m = [(''message_topic'', GStr (ack_MessageTopic m))]"

lemmas message_accessors =
  StreamMessage_Topic_def StreamMessage_Txid_def StreamMessage_IsExpired_def StreamMessage_MessageID_def
  StreamAckMessage_Topic_def StreamAckMessage_Txid_def StreamAckMessage_IsExpired_def
  StreamAckMessage_MessageID_def

section \<open>The contract of a message\<close>

text \<open>
  What the two messages have in common: the setters set what they name and leave the topic and the
  transaction id alone, both appear in the log, and the type of a message built from its fields does
  not depend on what was set.
\<close>

locale protocol_message =
  fixes topic txid messageID :: "'m \<Rightarrow> bytes"
    and setSenderID setMessageID :: "bytes \<Rightarrow> 'm \<Rightarrow> 'm"
    and logInfo :: "'m \<Rightarrow> log_info"
    and msgType :: "'m \<Rightarrow> u8 option"
  assumes set_message_id: "messageID (setMessageID i m) = i"
    and set_message_id_frame: "topic (setMessageID i m) = topic m" "txid (setMessageID i m) = txid m"
    and set_sender_frame: "topic (setSenderID s m) = topic m" "txid (setSenderID s m) = txid m"
      "messageID (setSenderID s m) = messageID m"
    and type_frame: "msgType (setMessageID i m) = msgType m" "msgType (setSenderID s m) = msgType m"
    and logged_topic: "map_of (logInfo m) ''message_topic'' = Some (GStr (topic m))"
begin

text \<open>A message addressed by a client: the sender and the message id, in the order the client sets them.\<close>

lemma addressed:
  "messageID (setMessageID i (setSenderID s m)) = i" "messageID (setSenderID s (setMessageID i m)) = i"
  "txid (setMessageID i (setSenderID s m)) = txid m" "msgType (setMessageID i (setSenderID s m)) = msgType m"
  "map_of (logInfo (setMessageID i (setSenderID s m))) ''message_topic'' = Some (GStr (topic m))"
  by (simp_all add: set_message_id set_message_id_frame set_sender_frame type_frame logged_topic)

end

interpretation stream_msg: protocol_message StreamMessage_Topic StreamMessage_Txid StreamMessage_MessageID
  SetSenderID SetMessageID StreamMessage_ExtraLogInfo "StreamMessage_MsgType fb" for fb
  by unfold_locales (simp_all add: message_accessors SetMessageID_def SetSenderID_def
      StreamMessage_ExtraLogInfo_def StreamMessage_MsgType_def split: prod.split)

interpretation ack_msg: protocol_message StreamAckMessage_Topic StreamAckMessage_Txid
  StreamAckMessage_MessageID StreamAckMessage_SetSenderID Ack_SetMessageID StreamAckMessage_ExtraLogInfo
  "StreamAckMessage_MsgType fb" for fb
  by unfold_locales (simp_all add: message_accessors Ack_SetMessageID_def StreamAckMessage_SetSenderID_def
      StreamAckMessage_ExtraLogInfo_def StreamAckMessage_MsgType_def)

section \<open>Sequences of setters\<close>

datatype setter =
  Sender string
| Device string string
| MessageID bytes
| DeliveredAt int

fun set_field :: "setter \<Rightarrow> stream_message \<Rightarrow> stream_message" where
  "set_field (Sender senderID) m = SetSenderID senderID m"
| "set_field (Device deviceType deviceID) m = SetIdentity deviceType deviceID m"
| "set_field (MessageID messageID) m = SetMessageID messageID m"
| "set_field (DeliveredAt unixNano) m = SetDeliveredAt unixNano m"

text \<open>What a setter says about the identity, the message id and the delivery time.\<close>

fun identity_set :: "setter \<Rightarrow> (bytes \<times> bytes \<times> bytes) option" where
  "identity_set (Sender senderID) = Some (senderID, ParseSenderID senderID)"
| "identity_set (Device deviceType deviceID) =
     Some (BuildClientID deviceType deviceID, deviceType, deviceID)"
| "identity_set _ = None"

fun message_id_set :: "setter \<Rightarrow> bytes option" where
  "message_id_set (MessageID messageID) = Some messageID"
| "message_id_set _ = None"

fun delivery_set :: "setter \<Rightarrow> u64 option" where
  "delivery_set (DeliveredAt unixNano) = Some (word_of_int (go_div unixNano 1000000))"
| "delivery_set _ = None"

text \<open>The last value that a sequence of setters gives, or the old one.\<close>

definition latest :: "('a \<Rightarrow> 'v option) \<Rightarrow> 'v \<Rightarrow> 'a list \<Rightarrow> 'v" where
  "latest p d us = last (d # List.map_filter p us)"

lemma latest_simps [simp]:
  "latest p d [] = d"
  "latest p d (u # us) = latest p (case p u of None \<Rightarrow> d | Some v \<Rightarrow> v) us"
  by (simp_all add: latest_def List.map_filter_simps split: option.split)

definition msg_identity :: "stream_message \<Rightarrow> bytes \<times> bytes \<times> bytes" where
  "msg_identity m = (msg_SenderID m, msg_DeviceType m, msg_DeviceID m)"

lemma set_field_reads:
  "msg_identity (set_field u m) = (case identity_set u of None \<Rightarrow> msg_identity m | Some v \<Rightarrow> v)"
  "msg_EnvMessageID (set_field u m) = (case message_id_set u of None \<Rightarrow> msg_EnvMessageID m | Some v \<Rightarrow> v)"
  "msg_DeliveredAtEpochMs (set_field u m) =
     (case delivery_set u of None \<Rightarrow> msg_DeliveredAtEpochMs m | Some v \<Rightarrow> v)"
  "msg_fsm (set_field u m) = None"
  "msg_MessageTopic (set_field u m) = msg_MessageTopic m" "msg_TXID (set_field u m) = msg_TXID m"
  "msg_CreatedAt (set_field u m) = msg_CreatedAt m" "msg_Payload (set_field u m) = msg_Payload m"
  by (cases u; simp add: msg_identity_def SetSenderID_def SetIdentity_def SetMessageID_def
      SetDeliveredAt_def split: prod.split)+

lemma setters_read:
  "msg_identity (fold set_field us m) = latest identity_set (msg_identity m) us"
  "msg_EnvMessageID (fold set_field us m) = latest message_id_set (msg_EnvMessageID m) us"
  "msg_DeliveredAtEpochMs (fold set_field us m) = latest delivery_set (msg_DeliveredAtEpochMs m) us"
  "msg_MessageTopic (fold set_field us m) = msg_MessageTopic m"
  "msg_TXID (fold set_field us m) = msg_TXID m" "msg_CreatedAt (fold set_field us m) = msg_CreatedAt m"
  "msg_Payload (fold set_field us m) = msg_Payload m"
  by (induction us arbitrary: m) (simp_all add: set_field_reads)

lemma setters_drop_table:
  assumes "us \<noteq> []"
  shows "msg_fsm (fold set_field us m) = None"
  using assms by (induction us rule: rev_induct) (simp_all add: set_field_reads)

lemma same_fields:
  assumes "msg_fields m' = msg_fields m"
  shows "msg_identity m' = msg_identity m" "msg_EnvMessageID m' = msg_EnvMessageID m"
    "msg_DeliveredAtEpochMs m' = msg_DeliveredAtEpochMs m" "msg_MessageTopic m' = msg_MessageTopic m"
    "msg_TXID m' = msg_TXID m" "msg_CreatedAt m' = msg_CreatedAt m" "msg_Payload m' = msg_Payload m"
  using assms by (cases m; cases m'; simp add: msg_fields_def msg_identity_def)+

text \<open>
  C25: Whatever setters are called on a stream message, decoded or new, and in whatever order, its
  encoding decodes to a message in which the identity (sender id, device type, device id) is the one
  set last, by sender id or by device, the message id and the delivery time are the ones set last, or
  the old ones where nothing was set, and the topic, the transaction id, the creation time and the
  payload are unchanged. No stale field is taken from a buffer that the message was decoded from.
\<close>

theorem setters_roundtrip:
  assumes "fb_laws fb" and "us \<noteq> []" and "message_size (fold set_field us m) + 14000 \<le> fb_limit"
  shows "\<exists>buf m'. StreamMessage_ToBytes fb (fold set_field us m) = Some buf \<and>
           StreamMessageFromBytes fb buf = Some (Inr m') \<and>
           msg_identity m' = latest identity_set (msg_identity m) us \<and>
           msg_EnvMessageID m' = latest message_id_set (msg_EnvMessageID m) us \<and>
           msg_DeliveredAtEpochMs m' = latest delivery_set (msg_DeliveredAtEpochMs m) us \<and>
           msg_MessageTopic m' = msg_MessageTopic m \<and> msg_TXID m' = msg_TXID m \<and>
           msg_CreatedAt m' = msg_CreatedAt m \<and> msg_Payload m' = msg_Payload m"
proof -
  obtain buf m' where encoded: "StreamMessage_ToBytes fb (fold set_field us m) = Some buf"
      "StreamMessageFromBytes fb buf = Some (Inr m')" and
      fields: "msg_fields m' = msg_fields (fold set_field us m)"
    using stream_message_encode [OF assms(1) setters_drop_table [OF assms(2)] assms(3)] .
  show ?thesis
    by (intro exI [of _ buf] exI [of _ m']) (simp add: encoded same_fields [OF fields] setters_read)
qed

theorem setters_roundtrip_witness:
  "\<exists>buf m'. StreamMessage_ToBytes tfb (fold set_field [Device ''vehicle_device'' ''7'', DeliveredAt 1692044886337000000,
       Sender ''vehicle_device.43'', MessageID ''m1''] example_message) = Some buf \<and>
     StreamMessageFromBytes tfb buf = Some (Inr m') \<and>
     msg_identity m' = (''vehicle_device.43'', ''vehicle_device'', ''43'') \<and>
     msg_DeliveredAtEpochMs m' = 1692044886337 \<and> msg_EnvMessageID m' = ''m1'' \<and> msg_Payload m' = ''data''"
proof -
  let ?us = "[Device ''vehicle_device'' ''7'', DeliveredAt 1692044886337000000, Sender ''vehicle_device.43'',
     MessageID ''m1'']"
  have parsed: "ParseSenderID ''vehicle_device.43'' = (''vehicle_device'', ''43'')" by code_simp
  have ms: "(word_of_int (go_div 1692044886337000000 1000000) :: u64) = 1692044886337"
    by (simp add: go_div_def)
  have size: "message_size (fold set_field ?us example_message) + 14000 \<le> fb_limit"
    by (simp add: parsed message_size_def SetSenderID_def SetIdentity_def SetMessageID_def
        SetDeliveredAt_def example_message_def fb_limit_def)
  have "?us \<noteq> []" by simp
  from setters_roundtrip [OF fb_laws_tfb this size] obtain buf m' where
      "StreamMessage_ToBytes tfb (fold set_field ?us example_message) = Some buf"
      "StreamMessageFromBytes tfb buf = Some (Inr m')"
      "msg_identity m' = latest identity_set (msg_identity example_message) ?us"
      "msg_EnvMessageID m' = latest message_id_set (msg_EnvMessageID example_message) ?us"
      "msg_DeliveredAtEpochMs m' = latest delivery_set (msg_DeliveredAtEpochMs example_message) ?us"
      "msg_Payload m' = msg_Payload example_message" by blast
  then show ?thesis by (intro exI [of _ buf] exI [of _ m']) (simp add: parsed ms example_message_def)
qed

end
