(* ===== verification/Spec2Isabelle.thy ===== *)
theory Spec2Isabelle
  imports Fleet Write_Channel Store_Ops Http_Server Control_Plane Cert_Tools Wire_Bytes Message_Ops
begin

text \<open>
  A verification library for the fleet telemetry server. Vehicles connect over mutual TLS, promote
  the connection to a websocket and send telemetry in FlatBuffers envelopes with protobuf payloads. The
  server authenticates them by their certificates, turns every message into a record, dispatches the
  records to datastores, and acknowledges them: at once, or when a datastore has stored them.

  \<^bold>\<open>Conventions.\<close> A struct is a record, a oneof a datatype, an error a value of a sum or option type. A
  function that can panic returns an option, \<^const>\<open>None\<close> is the panic. The effects of a function are a
  list: log lines, metric updates, and actions (what is sent, produced, stored, reported). A Go map is
  an association list in the order of first insertion, or a map where the order cannot matter; a
  \<^verbatim>\<open>range\<close> over a map whose order matters takes the order as an argument. Floats are IEEE bit patterns,
  and their conversions are exact. Machine words are words where their width matters. Third-party
  code is an argument: the FlatBuffers runtime with stated laws, the protobuf runtime, the clients of the
  datastores, the clock, the TLS handshake and the websocket upgrade.

  \<^bold>\<open>The parts and their theories.\<close>

  \<^item> \<^verbatim>\<open>Go_Prelude\<close>, \<^verbatim>\<open>Go_Strings\<close>, \<^verbatim>\<open>Go_Float\<close>, \<^verbatim>\<open>Go_Time\<close>, \<^verbatim>\<open>Go_Chan\<close>, \<^verbatim>\<open>Go_Net\<close>: what the program uses of Go. Values,
    log entries, effects and maps; strings and number formats; \<^verbatim>\<open>ParseFloat\<close>, \<^verbatim>\<open>Sscanf\<close> and \<^verbatim>\<open>%.5f\<close> on bit
    patterns; timestamps; buffered channels behind the interface \<^verbatim>\<open>bounded_queue\<close>; \<^verbatim>\<open>host:port\<close> addresses and HTTP
    responses.

  \<^item> \<^verbatim>\<open>Logging\<close> (\<^verbatim>\<open>logger\<close>), \<^verbatim>\<open>Airbrake\<close> (\<^verbatim>\<open>server/airbrake\<close>, \<^verbatim>\<open>server/middleware\<close>): the logger over logrus, with its suppression
    filter, and error reports. Every log entry is written once unless it is a suppressed TLS error; the
    middleware never reports a response.

  \<^item> \<^verbatim>\<open>Identity\<close> (\<^verbatim>\<open>messages/identity.go\<close>): from a certificate to a client identity. An accepted certificate has a
    known issuer, the identity parses back, and the first known OID decides.

  \<^item> \<^verbatim>\<open>Wire\<close>, \<^verbatim>\<open>Wire_Laws\<close>, \<^verbatim>\<open>Wire_Instance\<close>, \<^verbatim>\<open>Stream_Messages\<close>, \<^verbatim>\<open>Message_Ops\<close> (\<^verbatim>\<open>messages/tesla\<close>,
    \<^verbatim>\<open>messages/stream_message.go\<close>, \<^verbatim>\<open>messages/stream_ack_message.go\<close>): the envelope and the messages in it, over a
    FlatBuffers runtime whose laws are met by a concrete instance. Encoding and decoding are inverse, also
    after any sequence of setters; both messages are instances of the interface \<^verbatim>\<open>protocol_message\<close>.

  \<^item> \<^verbatim>\<open>Wire_Access\<close>, \<^verbatim>\<open>Wire_Bytes\<close> (\<^verbatim>\<open>messages/tesla/Flatbuffers*.go\<close>): the generated accessors and mutators of
    single elements, lengths and tables, with the laws of the runtime they need; a runtime on bytes (little endian
    scalars, offsets, vectors with their lengths) that meets these laws and those of \<^verbatim>\<open>Wire_Laws\<close>. The
    accessors of an encoded message agree with what was encoded.

  \<^item> \<^verbatim>\<open>Proto_Enums\<close>, \<^verbatim>\<open>Proto_Fields\<close>, \<^verbatim>\<open>Protos\<close> (\<^verbatim>\<open>protos/*.pb.go\<close>): the messages and all enumerations, each an
    instance of the interface \<^verbatim>\<open>proto_enum\<close>, whose lemma says that the text of a value determines it.

  \<^item> \<^verbatim>\<open>Transforms\<close>, \<^verbatim>\<open>Telemetry\<close> (\<^verbatim>\<open>telemetry\<close>): records, serializer, transformations of payloads, errors. The vehicle
    number of a record is that of the certificate; which messages are refused and how; what a
    decoded message becomes, in both modes; the transformations are exact and idempotent.

  \<^item> \<^verbatim>\<open>Config\<close>, \<^verbatim>\<open>Config_Producers\<close>, \<^verbatim>\<open>Config_Clients\<close> (\<^verbatim>\<open>config\<close>): loading with defaults and environment, validation, TLS,
    reliable acknowledgement sources, producers and dispatch rules, the options of the Redis client and of the
    Airbrake notifier. Where every setting comes from; that the service demands client certificates; that
    every type is dispatched to the configured producers and has at most one acknowledgement source.

  \<^item> \<^verbatim>\<open>Socket\<close> (\<^verbatim>\<open>server/streaming/socket.go\<close>), \<^verbatim>\<open>Registry\<close> (\<^verbatim>\<open>socket_registry.go\<close>), \<^verbatim>\<open>Server\<close> (\<^verbatim>\<open>server.go\<close>): handling of messages,
    rate limit, registry, connections, connectivity events, the acknowledgement loop. What each message
    leads to and that the responses decode; that the registry holds the connected sockets; the
    life of a connection; that everything produced is authenticated.

  \<^item> \<^verbatim>\<open>Write_Channel\<close>: the goroutines of one connection as steps, in any interleaving, over the bounded write
    channel. They refine the specification of an ordered merge without a bound; the client gets
    responses and acknowledgements in order; every run is bounded, and without failures it delivers
    everything; after a failed write the connection can block.

  \<^item> \<^verbatim>\<open>Datastores\<close> (Kafka, Kinesis, Pub/Sub, ZMQ, Redis), \<^verbatim>\<open>Mqtt\<close>, \<^verbatim>\<open>Logger_Store\<close> (\<^verbatim>\<open>datastore\<close>): the producers. The
    interface \<^verbatim>\<open>reliable_producer\<close> states the contract of acknowledgements, and the six stores that
    acknowledge are instances. Which channels, topics and values are published; that the typed log of a
    value determines it.

  \<^item> \<^verbatim>\<open>Metrics\<close> (\<^verbatim>\<open>metrics\<close>, and the registrations of all packages), \<^verbatim>\<open>Metric_Adapters\<close> (\<^verbatim>\<open>metrics/adapter\<close>): every update is of a
    registered metric with exactly its labels, so that the client library never panics; Prometheus, StatsD
    and the no-op adapter are instances of the interface \<^verbatim>\<open>metric_adapter\<close>.

  \<^item> \<^verbatim>\<open>Registration\<close>, \<^verbatim>\<open>Store_Ops\<close>, \<^verbatim>\<open>Http_Server\<close>: the once-only registration of the metrics of all packages and the loop of the
    usage report; what every producer has beside production (acknowledgement, error report, closing, the event
    monitor of ZMQ), as the interface \<^verbatim>\<open>producer_interface\<close> with its seven instances; the HTTP server with its two
    routes. However often the constructors run, every metric is registered once and nothing panics.

  \<^item> \<^verbatim>\<open>Pipeline\<close>, \<^verbatim>\<open>Fleet\<close>: the components together. Every accepted record has one acknowledger. The fleet is the server
    with any number of connections, producers that deal with their records in any order, and the acknowledgement loop,
    as one transition system over the functions of the other theories; a connection that runs alone does what
    \<^verbatim>\<open>ServeBinaryWs\<close> does. Its invariant ties live sockets, registry and records in flight. An acknowledgement reaches the
    vehicle that sent the record as long as vehicles use different UUIDs, and not without that condition; every
    record in a producer comes from a client whose certificate the handshake verified against the
    authorities of the configuration that the process has loaded, and goes to a producer named there.

  \<^item> \<^verbatim>\<open>Monitoring\<close> (\<^verbatim>\<open>server/monitoring\<close>), \<^verbatim>\<open>Acme\<close> (\<^verbatim>\<open>server/certificates\<close>), \<^verbatim>\<open>Startup\<close> (\<^verbatim>\<open>cmd/main.go\<close>): the endpoints for health,
    metrics and profiling; certificates from an ACME authority; the whole process from loading its configuration
    to its exit. It serves only with client certificates demanded and verified and with a certificate of its
    own, and after serving it closes every producer once.

  \<^item> \<^verbatim>\<open>Control_Plane\<close> (\<^verbatim>\<open>cmd/controlplane\<close>, \<^verbatim>\<open>cmd/healthcheck\<close>): the control plane reports healthy exactly when the telemetry
    endpoint presents a verified certificate; the health check reaches the status server.

  \<^item> \<^verbatim>\<open>Cert_Tools\<close> (\<^verbatim>\<open>tools\<close>): the generator of test certificates. Every certificate of a bundle stands under the identity
    that the server reads from it.

  \<^bold>\<open>Bounds.\<close> There is no fuel: all loops run over the finite input they are given, and the
  goroutines are steps whose number is bounded by a measure (\<^const>\<open>budget\<close>). The capacity of the write
  channel is the 1000 of the code.

  \<^bold>\<open>Not modelled.\<close> The formatting and output of logrus, the handlers of promhttp and pprof, the certmagic and
  x509 libraries and the network, which are arguments or lists of calls; the timeouts of contexts. Of the
  generated protobuf code the descriptors, the reflection and \<^verbatim>\<open>vehicle_metric.pb.go\<close>, which the program does not
  refer to. In the fleet a message is handled in one step, with its writes to the channel, which are refined for one
  connection in \<^verbatim>\<open>Write_Channel\<close>. Data races between goroutines are outside the model: a step of a goroutine is atomic.
\<close>

end
